(* ===== verification/Go_Base.thy ===== *)
theory Go_Base
  imports Main "HOL-Library.Word" "HOL-Library.State_Monad" "HOL-Library.Sublist"
begin

text \<open>
  The prelude of the development: the parts of the Go language and of its standard
  library that the operator uses, as executable HOL functions, and the lemmas the
  components share.

  A Go string is a sequence of bytes, here a \<^typ>\<open>string\<close> whose characters are the
  bytes. Where the library reads runes (\<open>range\<close>, \<open>strings.Fields\<close>, \<open>strconv.Quote\<close>), the
  UTF-8 decoding is written out, with the replacement rune for an invalid byte.
  Fixed-width integers are words read as two's complement. An error is a value of
  \<open>go_error\<close>, and a function that returns a value and an error returns a sum.
  Effects are computations of the library's state monad; \<open>wp\<close> is their weakest
  precondition, with one rewrite rule per construct.
\<close>

named_theorems wp_simps \<open>the weakest precondition of each construct and operation\<close>
named_theorems go_text \<open>definitions of the text functions\<close>

section \<open>Integers\<close>

type_synonym int32 = "32 word"
type_synonym int64 = "64 word"
type_synonym uint32 = "32 word"

text \<open>Go divides integers towards zero.\<close>

definition go_div :: "int \<Rightarrow> int \<Rightarrow> int" where
  "go_div a b = sgn a * sgn b * (\<bar>a\<bar> div \<bar>b\<bar>)"

text \<open>\<open>time.Duration\<close> is an \<open>int64\<close> of nanoseconds; \<open>time.Time.Sub\<close> saturates.\<close>

definition time_Second :: int where
  "time_Second = 1000000000"

definition time_Minute :: int where
  "time_Minute = 60 * time_Second"

definition time_Hour :: int where
  "time_Hour = 60 * time_Minute"

definition sat_Duration :: "int \<Rightarrow> int" where
  "sat_Duration d = max (- (2 ^ 63)) (min (2 ^ 63 - 1) d)"

section \<open>Bytes, runes and UTF-8\<close>

definition byte_of :: "char \<Rightarrow> nat" where
  "byte_of c = of_char c"

definition char_byte :: "nat \<Rightarrow> char" where
  "char_byte n = char_of n"

definition RuneError :: nat where
  "RuneError = 65533"

definition cont_byte :: "nat \<Rightarrow> bool" where
  "cont_byte b \<longleftrightarrow> 128 \<le> b \<and> b \<le> 191"

text \<open>
  \<open>utf8.DecodeRuneInString\<close>: the first rune of a string and its width in bytes; an
  invalid or truncated sequence is \<open>RuneError\<close> with width 1, the empty string
  \<open>RuneError\<close> with width 0.
\<close>

definition decode_rune :: "string \<Rightarrow> nat \<times> nat" where
  "decode_rune s = (case s of [] \<Rightarrow> (RuneError, 0) | c0 # r \<Rightarrow>
     (let b0 = byte_of c0; bad = (RuneError, 1) in
      if b0 < 128 then (b0, 1)
      else if 194 \<le> b0 \<and> b0 \<le> 223 then
        (case r of c1 # _ \<Rightarrow>
           if cont_byte (byte_of c1) then ((b0 mod 32) * 64 + byte_of c1 mod 64, 2) else bad
         | _ \<Rightarrow> bad)
      else if 224 \<le> b0 \<and> b0 \<le> 239 then
        (case r of c1 # c2 # _ \<Rightarrow>
           (let lo = (if b0 = 224 then 160 else 128); hi = (if b0 = 237 then 159 else 191) in
            if lo \<le> byte_of c1 \<and> byte_of c1 \<le> hi \<and> cont_byte (byte_of c2)
            then ((b0 mod 16) * 4096 + (byte_of c1 mod 64) * 64 + byte_of c2 mod 64, 3) else bad)
         | _ \<Rightarrow> bad)
      else if 240 \<le> b0 \<and> b0 \<le> 244 then
        (case r of c1 # c2 # c3 # _ \<Rightarrow>
           (let lo = (if b0 = 240 then 144 else 128); hi = (if b0 = 244 then 143 else 191) in
            if lo \<le> byte_of c1 \<and> byte_of c1 \<le> hi \<and> cont_byte (byte_of c2) \<and> cont_byte (byte_of c3)
            then ((b0 mod 8) * 262144 + (byte_of c1 mod 64) * 4096
                    + (byte_of c2 mod 64) * 64 + byte_of c3 mod 64, 4) else bad)
         | _ \<Rightarrow> bad)
      else bad))"

lemma decode_rune_width:
  "s \<noteq> [] \<Longrightarrow> 0 < snd (decode_rune s) \<and> snd (decode_rune s) \<le> length s"
  by (auto simp: decode_rune_def Let_def split: list.splits)

text \<open>
  The runes of a string with the bytes each was read from, as \<open>for _, r := range s\<close> visits
  them.
\<close>

function runes :: "string \<Rightarrow> (nat \<times> string) list" where
  "runes s = (if s = [] then []
              else (let (r, w) = decode_rune s in (r, take w s) # runes (drop w s)))"
  by pat_completeness auto
termination
proof (relation "measure length")
  fix s :: string and x r w
  assume "s \<noteq> []" "x = decode_rune s" "(r, w) = x"
  then have "0 < w" using decode_rune_width [of s] by (metis snd_conv)
  with \<open>s \<noteq> []\<close> show "(drop w s, s) \<in> measure length" by simp
qed simp

declare runes.simps [simp del]

lemma runes_Nil [simp]: "runes [] = []"
  by (simp add: runes.simps)

lemma concat_runes: "concat (map snd (runes s)) = s"
proof (induction s rule: runes.induct)
  case (1 s)
  then show ?case
    by (cases "s = []") (auto simp: runes.simps [of s] split: prod.splits)
qed

text \<open>An ASCII string has one rune per byte.\<close>

definition ascii :: "string \<Rightarrow> bool" where
  "ascii s \<longleftrightarrow> (\<forall>c \<in> set s. byte_of c < 128)"

lemma runes_Cons_ascii:
  "byte_of c < 128 \<Longrightarrow> runes (c # s) = (byte_of c, [c]) # runes s"
  by (simp add: runes.simps [of "c # s"] decode_rune_def)

lemma runes_ascii: "ascii s \<Longrightarrow> runes s = map (\<lambda>c. (byte_of c, [c])) s"
  by (induction s) (auto simp: ascii_def runes_Cons_ascii)

text \<open>\<open>utf8.AppendRune\<close>, which a conversion \<open>string(b)\<close> of a byte or a rune uses.\<close>

definition encode_rune :: "nat \<Rightarrow> string" where
  "encode_rune r0 =
     (let r = (if (55296 \<le> r0 \<and> r0 \<le> 57343) \<or> 1114111 < r0 then RuneError else r0) in
      if r < 128 then [char_byte r]
      else if r < 2048 then map char_byte [192 + r div 64, 128 + r mod 64]
      else if r < 65536 then
        map char_byte [224 + r div 4096, 128 + (r div 64) mod 64, 128 + r mod 64]
      else map char_byte
        [240 + r div 262144, 128 + (r div 4096) mod 64, 128 + (r div 64) mod 64, 128 + r mod 64])"

lemma encode_rune_ascii: "byte_of c < 128 \<Longrightarrow> encode_rune (byte_of c) = [c]"
  by (simp add: encode_rune_def char_byte_def byte_of_def Let_def)

section \<open>The strings package\<close>

definition strings_HasPrefix :: "string \<Rightarrow> string \<Rightarrow> bool" where
  "strings_HasPrefix s p = (take (length p) s = p)"

lemma strings_HasPrefix_iff: "strings_HasPrefix s p \<longleftrightarrow> prefix p s"
  by (metis append_take_drop_id prefixI prefix_def append_eq_conv_conj strings_HasPrefix_def)

fun strings_Contains :: "string \<Rightarrow> string \<Rightarrow> bool" where
  "strings_Contains [] sub = (sub = [])"
| "strings_Contains (c # s) sub = (strings_HasPrefix (c # s) sub \<or> strings_Contains s sub)"

lemma strings_Contains_iff: "strings_Contains s sub \<longleftrightarrow> sublist sub s"
  by (induction s) (auto simp: strings_HasPrefix_iff sublist_Cons_right)

text \<open>
  \<open>strings.ReplaceAll\<close> for a non-empty pattern: leftmost matches, which do not overlap. (An
  empty pattern matches before every rune; the operator never passes one.)
\<close>

function replace_nonempty :: "string \<Rightarrow> string \<Rightarrow> string \<Rightarrow> string" where
  "replace_nonempty s old new =
     (if s = [] then []
      else if old \<noteq> [] \<and> strings_HasPrefix s old
        then new @ replace_nonempty (drop (length old) s) old new
      else hd s # replace_nonempty (tl s) old new)"
  by pat_completeness auto
termination
  by (relation "measure (\<lambda>(s, old, new). length s)") auto

declare replace_nonempty.simps [simp del]

definition strings_ReplaceAll :: "string \<Rightarrow> string \<Rightarrow> string \<Rightarrow> string" where
  "strings_ReplaceAll s old new =
     (if old = [] then concat (map (\<lambda>(r, bs). new @ bs) (runes s)) @ new
      else replace_nonempty s old new)"

fun strings_Join :: "string list \<Rightarrow> string \<Rightarrow> string" where
  "strings_Join [] sep = []"
| "strings_Join [x] sep = x"
| "strings_Join (x # y # ys) sep = x @ sep @ strings_Join (y # ys) sep"

text \<open>\<open>unicode.IsSpace\<close>: the ASCII spaces, U+0085, U+00A0 and the White\_Space property.\<close>

definition unicode_IsSpace :: "nat \<Rightarrow> bool" where
  "unicode_IsSpace r \<longleftrightarrow>
     (9 \<le> r \<and> r \<le> 13) \<or> r = 32 \<or> r = 133 \<or> r = 160 \<or> r = 5760 \<or> (8192 \<le> r \<and> r \<le> 8202)
     \<or> r = 8232 \<or> r = 8233 \<or> r = 8239 \<or> r = 8287 \<or> r = 12288"

text \<open>\<open>strings.Fields\<close>: the maximal runs of runes that are not spaces.\<close>

fun fields_from :: "(nat \<times> string) list \<Rightarrow> string \<Rightarrow> string list" where
  "fields_from [] cur = (if cur = [] then [] else [cur])"
| "fields_from ((r, bs) # rs) cur =
     (if unicode_IsSpace r
      then (if cur = [] then fields_from rs [] else cur # fields_from rs [])
      else fields_from rs (cur @ bs))"

definition strings_Fields :: "string \<Rightarrow> string list" where
  "strings_Fields s = fields_from (runes s) []"

text \<open>
  \<open>strings.TrimSpace\<close>. The library scans backwards at the end; that finds the same runes, because a
  broken encoding never takes in the first byte of another rune.
\<close>

definition strings_TrimSpace :: "string \<Rightarrow> string" where
  "strings_TrimSpace s =
     (let trim = dropWhile (\<lambda>(r, bs). unicode_IsSpace r) in concat (map snd (rev (trim (rev (trim (runes s)))))))"

lemma TrimSpace_sublist: "sublist (strings_TrimSpace s) s"
proof -
  let ?trim = "dropWhile (\<lambda>(r, bs :: string). unicode_IsSpace r)"
  obtain a b where "runes s = a @ rev (?trim (rev (?trim (runes s)))) @ b"
    by (metis append_assoc rev_append rev_rev_ident takeWhile_dropWhile_id)
  then have "s = concat (map snd a) @ strings_TrimSpace s @ concat (map snd b)"
    unfolding strings_TrimSpace_def Let_def by (metis concat_append concat_runes map_append)
  then show ?thesis by (metis sublist_appendI)
qed

section \<open>Formatting\<close>

definition digit_char :: "nat \<Rightarrow> char" where
  "digit_char d = char_byte (48 + d)"

fun show_nat :: "nat \<Rightarrow> string" where
  "show_nat n = (if n < 10 then [digit_char n] else show_nat (n div 10) @ [digit_char (n mod 10)])"

declare show_nat.simps [simp del]

text \<open>The verb \<open>%d\<close>.\<close>

definition fmt_d :: "int \<Rightarrow> string" where
  "fmt_d i = (if i < 0 then ''-'' @ show_nat (nat (- i)) else show_nat (nat i))"

definition fmt_d32 :: "int32 \<Rightarrow> string" where
  "fmt_d32 w = fmt_d (sint w)"

definition fmt_d64 :: "int64 \<Rightarrow> string" where
  "fmt_d64 w = fmt_d (sint w)"

definition hex_digit :: "bool \<Rightarrow> nat \<Rightarrow> char" where
  "hex_digit upper d = char_byte (if d < 10 then 48 + d else if upper then 55 + d else 87 + d)"

definition hex_byte :: "bool \<Rightarrow> nat \<Rightarrow> string" where
  "hex_byte upper b = [hex_digit upper (b div 16), hex_digit upper (b mod 16)]"

text \<open>\<open>hex.EncodeToString\<close> (lower case) and the verb \<open>%X\<close> on bytes (upper case).\<close>

definition hex_bytes :: "bool \<Rightarrow> string \<Rightarrow> string" where
  "hex_bytes upper bs = concat (map (\<lambda>c. hex_byte upper (byte_of c)) bs)"

definition hex_rune :: "nat \<Rightarrow> nat \<Rightarrow> string" where
  "hex_rune n r = map (\<lambda>i. hex_digit False ((r div 16 ^ i) mod 16)) (rev [0..<n])"

text \<open>
  The verb \<open>%q\<close> on strings (\<open>strconv.Quote\<close>). Which runes beyond Latin-1 are printable is
  a table of the Unicode version Go was built with: the parameter \<open>isPrint\<close>.
\<close>

definition strconv_IsPrint :: "(nat \<Rightarrow> bool) \<Rightarrow> nat \<Rightarrow> bool" where
  "strconv_IsPrint isPrint r =
     (if r \<le> 255 then (32 \<le> r \<and> r < 127) \<or> (161 \<le> r \<and> r \<noteq> 173) else isPrint r)"

definition quote_rune :: "(nat \<Rightarrow> bool) \<Rightarrow> nat \<times> string \<Rightarrow> string" where
  "quote_rune isPrint rb = (case rb of (r, bs) \<Rightarrow>
     if r = RuneError \<and> length bs = 1 then [CHR 0x5C, CHR ''x''] @ hex_byte False (byte_of (hd bs))
     else if r = 34 \<or> r = 92 then CHR 0x5C # bs
     else if strconv_IsPrint isPrint r then bs
     else if r = 7 then [CHR 0x5C, CHR ''a'']
     else if r = 8 then [CHR 0x5C, CHR ''b'']
     else if r = 12 then [CHR 0x5C, CHR ''f'']
     else if r = 10 then [CHR 0x5C, CHR ''n'']
     else if r = 13 then [CHR 0x5C, CHR ''r'']
     else if r = 9 then [CHR 0x5C, CHR ''t'']
     else if r = 11 then [CHR 0x5C, CHR ''v'']
     else if r < 32 \<or> r = 127 then [CHR 0x5C, CHR ''x''] @ hex_byte False r
     else if r < 65536 then [CHR 0x5C, CHR ''u''] @ hex_rune 4 r
     else [CHR 0x5C, CHR ''U''] @ hex_rune 8 r)"

definition fmt_q :: "(nat \<Rightarrow> bool) \<Rightarrow> string \<Rightarrow> string" where
  "fmt_q isPrint s = [CHR 0x22] @ concat (map (quote_rune isPrint) (runes s)) @ [CHR 0x22]"

section \<open>Errors\<close>

text \<open>
  The error values of the operator. \<open>ErrorString\<close> is \<open>errors.New\<close> or \<open>fmt.Errorf\<close> without a
  wrapped error, \<open>WrapError p e\<close> is \<open>fmt.Errorf("p: %w", e)\<close>. \<open>StatusError\<close> is an error of the
  Kubernetes client, with the class that \<open>apierrors.IsNotFound\<close> and \<open>IsAlreadyExists\<close> report
  for it. \<open>ServerNotReadyError\<close> is the operator's own type of internal/kopia/errors.go.
\<close>

datatype api_reason = NotFound | AlreadyExists | OtherReason

datatype go_error =
    ErrorString string
  | WrapError string go_error
  | StatusError api_reason string
  | ServerNotReadyError string "go_error option"

fun Error :: "go_error \<Rightarrow> string" where
  "Error (ErrorString m) = m"
| "Error (WrapError p e) = p @ '': '' @ Error e"
| "Error (StatusError r m) = m"
| "Error (ServerNotReadyError m None) = m"
| "Error (ServerNotReadyError m (Some e)) = m @ '': '' @ Error e"

fun Unwrap :: "go_error \<Rightarrow> go_error option" where
  "Unwrap (WrapError p e) = Some e"
| "Unwrap (ServerNotReadyError m e) = e"
| "Unwrap _ = None"

text \<open>\<open>errors.As(err, &target)\<close> for a target of type \<open>*kopia.ServerNotReadyError\<close>.\<close>

fun errors_As_ServerNotReady :: "go_error \<Rightarrow> bool" where
  "errors_As_ServerNotReady (ServerNotReadyError m e) = True"
| "errors_As_ServerNotReady (WrapError p e) = errors_As_ServerNotReady e"
| "errors_As_ServerNotReady _ = False"

fun api_reason_of :: "go_error \<Rightarrow> api_reason option" where
  "api_reason_of (StatusError r m) = Some r"
| "api_reason_of (WrapError p e) = api_reason_of e"
| "api_reason_of (ServerNotReadyError m (Some e)) = api_reason_of e"
| "api_reason_of _ = None"

definition IsNotFound :: "go_error \<Rightarrow> bool" where
  "IsNotFound e \<longleftrightarrow> api_reason_of e = Some NotFound"

definition IsAlreadyExists :: "go_error \<Rightarrow> bool" where
  "IsAlreadyExists e \<longleftrightarrow> api_reason_of e = Some AlreadyExists"

definition IgnoreNotFound :: "go_error \<Rightarrow> go_error option" where
  "IgnoreNotFound e = (if IsNotFound e then None else Some e)"

lemma errors_As_WrapError [simp]:
  "errors_As_ServerNotReady (WrapError p e) = errors_As_ServerNotReady e"
  by simp

text \<open>A function that returns a value and an error.\<close>

type_synonym 'a result = "go_error + 'a"

fun err_of :: "'a result \<Rightarrow> go_error option" where
  "err_of (Inl e) = Some e"
| "err_of (Inr v) = None"

definition ok :: "'a result \<Rightarrow> bool" where
  "ok r = (case r of Inl _ \<Rightarrow> False | Inr _ \<Rightarrow> True)"

lemma ok_simps [simp]: "ok (Inl e) = False" "ok (Inr v) = True"
  by (simp_all add: ok_def)

section \<open>Maps\<close>

text \<open>
  A Go map that may be nil: reading a key that is absent, or any key of a nil map, gives the
  empty string.
\<close>

type_synonym gomap = "(string \<rightharpoonup> string) option"

definition map_at :: "gomap \<Rightarrow> string \<Rightarrow> string" where
  "map_at m k = (case m of None \<Rightarrow> '''' | Some f \<Rightarrow> (case f k of None \<Rightarrow> '''' | Some v \<Rightarrow> v))"

lemma map_at_simps [simp]:
  "map_at None k = ''''"
  "map_at (Some (f(k \<mapsto> v))) k = v"
  "k \<noteq> k' \<Longrightarrow> map_at (Some (f(k \<mapsto> v))) k' = map_at (Some f) k'"
  "map_at (Some Map.empty) k = ''''"
  by (simp_all add: map_at_def)

section \<open>Computations with effects\<close>

abbreviation ret :: "'a \<Rightarrow> ('s, 'a) state" where
  "ret \<equiv> State_Monad.return"

text \<open>The weakest precondition of a computation for a condition on its value and end state.\<close>

definition wp :: "('s, 'a) state \<Rightarrow> ('a \<Rightarrow> 's \<Rightarrow> bool) \<Rightarrow> 's \<Rightarrow> bool" where
  "wp m Q s = (case run_state m s of (a, s') \<Rightarrow> Q a s')"

lemma wp_return [wp_simps, simp]: "wp (ret a) Q s = Q a s"
  by (simp add: wp_def)

lemma wp_bind [wp_simps, simp]:
  "wp (State_Monad.bind m f) Q s = wp m (\<lambda>a. wp (f a) Q) s"
  by (simp add: wp_def split: prod.splits)

lemma wp_if [wp_simps, simp]:
  "wp (if b then m else n) Q s = (if b then wp m Q s else wp n Q s)"
  by simp

lemma wp_case_sum [wp_simps, simp]:
  "wp (case r of Inl e \<Rightarrow> f e | Inr v \<Rightarrow> g v) Q s
     = (case r of Inl e \<Rightarrow> wp (f e) Q s | Inr v \<Rightarrow> wp (g v) Q s)"
  by (cases r) simp_all

lemma wp_case_option [wp_simps, simp]:
  "wp (case r of None \<Rightarrow> m | Some v \<Rightarrow> g v) Q s
     = (case r of None \<Rightarrow> wp m Q s | Some v \<Rightarrow> wp (g v) Q s)"
  by (cases r) simp_all

lemma wp_case_prod [wp_simps, simp]:
  "wp (case p of (x, y) \<Rightarrow> f x y) Q s = (case p of (x, y) \<Rightarrow> wp (f x y) Q s)"
  by (cases p) simp_all

lemma wp_mono: "wp m P s \<Longrightarrow> (\<And>a s'. P a s' \<Longrightarrow> Q a s') \<Longrightarrow> wp m Q s"
  by (auto simp: wp_def split: prod.splits)

lemma wp_conj: "wp m P s \<Longrightarrow> wp m Q s \<Longrightarrow> wp m (\<lambda>a s'. P a s' \<and> Q a s') s"
  by (auto simp: wp_def split: prod.splits)

lemma wpD: "wp m Q s \<Longrightarrow> run_state m s = (a, s') \<Longrightarrow> Q a s'"
  by (simp add: wp_def)

lemma wpI: "(\<And>a s'. run_state m s = (a, s') \<Longrightarrow> Q a s') \<Longrightarrow> wp m Q s"
  by (simp add: wp_def split: prod.splits)

lemma wp_run: "wp m Q s = Q (fst (run_state m s)) (snd (run_state m s))"
  by (simp add: wp_def split: prod.splits)

end
