(* ===== verification/K8s_Types.thy ===== *)
theory K8s_Types
  imports Go_Base
begin

text \<open>
  The Kubernetes objects the operator reads and writes, as records with the fields its code
  names. A spec the operator compares or updates in place has in addition one opaque field,
  \<open>\<dots>_Rest\<close>, that stands for every field the code does not name: such a field is empty in
  what the operator builds, and an object read from the cluster may carry any value in it. Each
  \<open>zero_\<dots>\<close> is the Go zero value of a struct, so a composite literal of the source is an
  update of it. A pointer is an option; a slice is a list; a map that the code compares with
  nil is an option of a map.
\<close>

section \<open>Metadata\<close>

datatype NamespacedName = NamespacedName (nn_Namespace: string) (nn_Name: string)

record OwnerReference =
  or_Kind :: string
  or_Name :: string
  or_UID :: string
  or_Controller :: bool

record ObjectMeta =
  om_Name :: string
  om_Namespace :: string
  om_UID :: string
  om_ResourceVersion :: string
  om_Generation :: int64
  om_DeletionTimestamp :: "int option"
  om_Finalizers :: "string list"
  om_Labels :: gomap
  om_Annotations :: gomap
  om_OwnerReferences :: "OwnerReference list"

definition zero_ObjectMeta :: ObjectMeta where
  "zero_ObjectMeta = \<lparr>om_Name = '''', om_Namespace = '''', om_UID = '''', om_ResourceVersion = '''',
     om_Generation = 0, om_DeletionTimestamp = None, om_Finalizers = [], om_Labels = None,
     om_Annotations = None, om_OwnerReferences = []\<rparr>"

text \<open>\<open>metav1.Time.IsZero\<close> on a pointer: nil, or the zero instant of Go (year 1).\<close>

definition zero_instant :: int where
  "zero_instant = - 62135596800 * time_Second"

definition time_IsZero :: "int option \<Rightarrow> bool" where
  "time_IsZero t = (case t of None \<Rightarrow> True | Some x \<Rightarrow> x = zero_instant)"

definition key_of :: "ObjectMeta \<Rightarrow> NamespacedName" where
  "key_of m = NamespacedName (om_Namespace m) (om_Name m)"

text \<open>
  A condition of a status, without the transition time, which only the library sets and reads.
\<close>

datatype ConditionStatus = ConditionTrue | ConditionFalse | ConditionUnknown

record Condition =
  co_Type :: string
  co_Status :: ConditionStatus
  co_Reason :: string
  co_Message :: string
  co_ObservedGeneration :: int64

text \<open>\<open>resource.Quantity\<close>, as its methods \<open>Value\<close> and \<open>IsZero\<close> read it.\<close>

record Quantity =
  q_Value :: int64
  q_IsZero :: bool

definition zero_Quantity :: Quantity where
  "zero_Quantity = \<lparr>q_Value = 0, q_IsZero = True\<rparr>"

section \<open>Volumes and environment\<close>

record SecretVolumeSource =
  svs_SecretName :: string
  svs_DefaultMode :: "int32 option"

record NFSVolumeSource =
  nfs_Server :: string
  nfs_Path :: string

record HostPathVolumeSource =
  hp_Path :: string
  hp_Type :: "string option"

record EmptyDirVolumeSource =
  ed_SizeLimit :: "Quantity option"

record VolumeSource =
  vs_PersistentVolumeClaim :: "string option"
  vs_ConfigMap :: "string option"
  vs_Secret :: "SecretVolumeSource option"
  vs_NFS :: "NFSVolumeSource option"
  vs_HostPath :: "HostPathVolumeSource option"
  vs_EmptyDir :: "EmptyDirVolumeSource option"

definition zero_VolumeSource :: VolumeSource where
  "zero_VolumeSource = \<lparr>vs_PersistentVolumeClaim = None, vs_ConfigMap = None, vs_Secret = None,
     vs_NFS = None, vs_HostPath = None, vs_EmptyDir = None\<rparr>"

record Volume =
  v_Name :: string
  v_Source :: VolumeSource

record VolumeMount =
  vm_Name :: string
  vm_MountPath :: string
  vm_SubPath :: string
  vm_ReadOnly :: bool

definition zero_VolumeMount :: VolumeMount where
  "zero_VolumeMount = \<lparr>vm_Name = '''', vm_MountPath = '''', vm_SubPath = '''', vm_ReadOnly = False\<rparr>"

record SecretKeySelector =
  sk_Name :: string
  sk_Key :: string
  sk_Optional :: "bool option"

record EnvVar =
  ev_Name :: string
  ev_Value :: string
  ev_SecretKeyRef :: "SecretKeySelector option"

definition zero_EnvVar :: EnvVar where
  "zero_EnvVar = \<lparr>ev_Name = '''', ev_Value = '''', ev_SecretKeyRef = None\<rparr>"

text \<open>An \<open>EnvFromSource\<close> with a \<open>SecretRef\<close>: the name of the Secret.\<close>

datatype EnvFromSource = SecretRef (ef_SecretName: string)

section \<open>Pods\<close>

record Toleration =
  to_Key :: string
  to_Operator :: string
  to_Value :: string
  to_Effect :: string

definition zero_Toleration :: Toleration where
  "zero_Toleration = \<lparr>to_Key = '''', to_Operator = '''', to_Value = '''', to_Effect = ''''\<rparr>"

record NodeSelectorRequirement =
  nsr_Key :: string
  nsr_Operator :: string
  nsr_Values :: "string list"

text \<open>
  The part of \<open>Affinity\<close> the operator sets: the required node selector terms, each a list of
  match expressions.
\<close>

record Affinity =
  aff_NodeSelectorTerms :: "NodeSelectorRequirement list list"

record SecurityContext =
  sc_AllowPrivilegeEscalation :: "bool option"
  sc_ReadOnlyRootFilesystem :: "bool option"
  sc_CapabilitiesDrop :: "string list"
  sc_CapabilitiesAdd :: "string list"

record Probe =
  pr_TCPSocketPort :: int
  pr_InitialDelaySeconds :: int32
  pr_PeriodSeconds :: int32
  pr_TimeoutSeconds :: int32
  pr_FailureThreshold :: int32

record ContainerPort =
  cp_Name :: string
  cp_ContainerPort :: int32
  cp_Protocol :: string

text \<open>A resource list (requests, limits): each resource with its quantity as written.\<close>

type_synonym ResourceList = "(string \<times> string) list"

record ResourceRequirements =
  rr_Requests :: "ResourceList option"
  rr_Limits :: "ResourceList option"

definition zero_ResourceRequirements :: ResourceRequirements where
  "zero_ResourceRequirements = \<lparr>rr_Requests = None, rr_Limits = None\<rparr>"

record Container =
  c_Name :: string
  c_Image :: string
  c_ImagePullPolicy :: string
  c_Command :: "string list"
  c_Args :: "string list"
  c_Env :: "EnvVar list"
  c_EnvFrom :: "EnvFromSource list"
  c_VolumeMounts :: "VolumeMount list"
  c_Ports :: "ContainerPort list"
  c_Resources :: ResourceRequirements
  c_SecurityContext :: "SecurityContext option"
  c_LivenessProbe :: "Probe option"
  c_ReadinessProbe :: "Probe option"
  c_Rest :: string

definition zero_Container :: Container where
  "zero_Container = \<lparr>c_Name = '''', c_Image = '''', c_ImagePullPolicy = '''', c_Command = [],
     c_Args = [], c_Env = [], c_EnvFrom = [], c_VolumeMounts = [], c_Ports = [],
     c_Resources = zero_ResourceRequirements, c_SecurityContext = None, c_LivenessProbe = None,
     c_ReadinessProbe = None, c_Rest = ''''\<rparr>"

record PodSpec =
  ps_NodeName :: string
  ps_SeccompProfileType :: "string option"
  ps_Affinity :: "Affinity option"
  ps_InitContainers :: "Container list"
  ps_Containers :: "Container list"
  ps_Volumes :: "Volume list"
  ps_RestartPolicy :: string
  ps_Tolerations :: "Toleration list"
  ps_Rest :: string

definition zero_PodSpec :: PodSpec where
  "zero_PodSpec = \<lparr>ps_NodeName = '''', ps_SeccompProfileType = None, ps_Affinity = None,
     ps_InitContainers = [], ps_Containers = [], ps_Volumes = [], ps_RestartPolicy = '''',
     ps_Tolerations = [], ps_Rest = ''''\<rparr>"

record PodTemplateSpec =
  pt_meta :: ObjectMeta
  pt_spec :: PodSpec

record ContainerStatus =
  cs_Name :: string
  cs_Ready :: bool

datatype PodPhase = PodPending | PodRunning | PodSucceeded | PodFailed | PodUnknown

record Pod =
  pod_meta :: ObjectMeta
  pod_spec :: PodSpec
  pod_Phase :: PodPhase
  pod_ContainerStatuses :: "ContainerStatus list"

section \<open>The objects the operator manages\<close>

record PersistentVolumeClaim =
  pvc_meta :: ObjectMeta

record ConfigMap =
  cm_meta :: ObjectMeta
  cm_Data :: gomap

record Secret =
  sec_meta :: ObjectMeta
  sec_Type :: string
  sec_Data :: "string \<rightharpoonup> string"
  sec_StringData :: "string \<rightharpoonup> string"

record JobSpec =
  js_TTLSecondsAfterFinished :: "int32 option"
  js_ActiveDeadlineSeconds :: "int64 option"
  js_BackoffLimit :: "int32 option"
  js_Suspend :: "bool option"
  js_Template :: PodTemplateSpec
  js_Rest :: string

record JobTemplateSpec =
  jt_meta :: ObjectMeta
  jt_spec :: JobSpec

record CronJobSpec =
  cjs_Schedule :: string
  cjs_ConcurrencyPolicy :: string
  cjs_Suspend :: "bool option"
  cjs_JobTemplate :: JobTemplateSpec
  cjs_SuccessfulJobsHistoryLimit :: "int32 option"
  cjs_FailedJobsHistoryLimit :: "int32 option"
  cjs_Rest :: string

record CronJob =
  cj_meta :: ObjectMeta
  cj_spec :: CronJobSpec

record DeploymentSpec =
  ds_Replicas :: "int32 option"
  ds_Selector :: gomap
  ds_Template :: PodTemplateSpec
  ds_Rest :: string

record Deployment =
  dep_meta :: ObjectMeta
  dep_spec :: DeploymentSpec
  dep_StatusReplicas :: int32
  dep_StatusReadyReplicas :: int32

record ServicePort =
  sp_Name :: string
  sp_Port :: int32
  sp_TargetPort :: int
  sp_Protocol :: string

record ServiceSpec =
  ss_Type :: string
  ss_Selector :: gomap
  ss_Ports :: "ServicePort list"
  ss_Rest :: string

record Service =
  svc_meta :: ObjectMeta
  svc_spec :: ServiceSpec

section \<open>Well-formed pods\<close>

text \<open>
  Kubernetes refuses a pod in which a container mounts a volume the pod does not declare, or
  which declares two volumes of one name.
\<close>

definition mounts_declared :: "PodSpec \<Rightarrow> bool" where
  "mounts_declared p \<longleftrightarrow>
     (\<forall>c \<in> set (ps_InitContainers p @ ps_Containers p).
        \<forall>m \<in> set (c_VolumeMounts c). vm_Name m \<in> v_Name ` set (ps_Volumes p))"

definition volumes_distinct :: "PodSpec \<Rightarrow> bool" where
  "volumes_distinct p \<longleftrightarrow> distinct (map v_Name (ps_Volumes p))"

text \<open>
  The value a container sees for an environment variable that is set by value: where a name is
  listed more than once, the last entry counts.
\<close>

definition env_entry :: "EnvVar list \<Rightarrow> string \<Rightarrow> EnvVar option" where
  "env_entry es n =
     (let xs = filter (\<lambda>e. ev_Name e = n) es in if xs = [] then None else Some (last xs))"

lemma env_entry_append:
  "env_entry (xs @ ys) n = (case env_entry ys n of None \<Rightarrow> env_entry xs n | Some e \<Rightarrow> Some e)"
  by (auto simp: env_entry_def Let_def)

end
