(* ===== verification/Kopia_Types.thy ===== *)
theory Kopia_Types
  imports K8s_Types
begin

text \<open>
  The custom resources (api/backup/v1alpha1): KopiaBackup and KopiaRepository with their specs
  and statuses, and the condition types and reasons their controllers write.
\<close>

section \<open>KopiaBackup (kopiabackup\_types.go)\<close>

definition ConditionTypeReady :: string where "ConditionTypeReady = ''Ready''"
definition ConditionTypeCronJobCreated :: string where
  "ConditionTypeCronJobCreated = ''CronJobCreated''"
definition ReasonReconciled :: string where "ReasonReconciled = ''Reconciled''"
definition ReasonPVCNotFound :: string where "ReasonPVCNotFound = ''PVCNotFound''"
definition ReasonRepositoryNotFound :: string where
  "ReasonRepositoryNotFound = ''RepositoryNotFound''"
definition ReasonNoPodFound :: string where "ReasonNoPodFound = ''NoPodFound''"
definition ReasonCronJobFailed :: string where "ReasonCronJobFailed = ''CronJobFailed''"
definition ReasonSuspended :: string where "ReasonSuspended = ''Suspended''"

datatype BackupStatus = BackupStatusUnset | BackupStatusSuccessful | BackupStatusFailed
  | BackupStatusPending | BackupStatusInProgress

record BackupHistoryEntry =
  bh_StartTime :: int
  bh_CompletionTime :: "int option"
  bh_Status :: BackupStatus
  bh_JobName :: string
  bh_Message :: string

record KopiaBackupSpec =
  bs_PVCName :: string
  bs_Schedule :: string
  bs_Repository :: string
  bs_Suspend :: bool
  bs_SuccessfulJobsHistoryLimit :: "int32 option"
  bs_FailedJobsHistoryLimit :: "int32 option"
  bs_TTLSecondsAfterFinished :: "int32 option"
  bs_ActiveDeadlineSeconds :: "int64 option"
  bs_BackoffLimit :: "int32 option"
  bs_UserCredentialsSecret :: string

record KopiaBackupStatus =
  bst_Conditions :: "Condition list"
  bst_AutoCreated :: bool
  bst_CronJobName :: string
  bst_NodeName :: string
  bst_ServerURL :: string
  bst_Username :: string
  bst_Connected :: bool
  bst_LastBackupStatus :: BackupStatus
  bst_LastBackupTime :: "int option"
  bst_LastSuccessfulBackupTime :: "int option"
  bst_BackupHistory :: "BackupHistoryEntry list"

record KopiaBackup =
  kb_meta :: ObjectMeta
  kb_spec :: KopiaBackupSpec
  kb_status :: KopiaBackupStatus

definition zero_KopiaBackupSpec :: KopiaBackupSpec where
  "zero_KopiaBackupSpec = \<lparr>bs_PVCName = '''', bs_Schedule = '''', bs_Repository = '''',
     bs_Suspend = False, bs_SuccessfulJobsHistoryLimit = None, bs_FailedJobsHistoryLimit = None,
     bs_TTLSecondsAfterFinished = None, bs_ActiveDeadlineSeconds = None, bs_BackoffLimit = None,
     bs_UserCredentialsSecret = ''''\<rparr>"

definition zero_KopiaBackupStatus :: KopiaBackupStatus where
  "zero_KopiaBackupStatus = \<lparr>bst_Conditions = [], bst_AutoCreated = False, bst_CronJobName = '''',
     bst_NodeName = '''', bst_ServerURL = '''', bst_Username = '''', bst_Connected = False,
     bst_LastBackupStatus = BackupStatusUnset, bst_LastBackupTime = None,
     bst_LastSuccessfulBackupTime = None, bst_BackupHistory = []\<rparr>"

definition zero_KopiaBackup :: KopiaBackup where
  "zero_KopiaBackup = \<lparr>kb_meta = zero_ObjectMeta, kb_spec = zero_KopiaBackupSpec,
     kb_status = zero_KopiaBackupStatus\<rparr>"

section \<open>KopiaRepository (kopiarepository\_types.go)\<close>

text \<open>The Go type StorageType is a string; only two of its values are supported.\<close>

definition StorageTypeFilesystem :: string where "StorageTypeFilesystem = ''filesystem''"
definition StorageTypeSFTP :: string where "StorageTypeSFTP = ''sftp''"

definition ConditionTypeRepositoryReady :: string where "ConditionTypeRepositoryReady = ''Ready''"
definition ConditionTypeServerReady :: string where "ConditionTypeServerReady = ''ServerReady''"
definition ReasonConfigValid :: string where "ReasonConfigValid = ''ConfigValid''"
definition ReasonMissingPassword :: string where "ReasonMissingPassword = ''MissingPassword''"
definition ReasonServerDeployed :: string where "ReasonServerDeployed = ''ServerDeployed''"
definition ReasonServerFailed :: string where "ReasonServerFailed = ''ServerFailed''"

record KopiaServerTLSSpec =
  tls_SecretName :: string
  tls_CertificateCommonName :: string
  tls_CertificateDNSNames :: "string list"

record KopiaServerExposureSpec =
  ex_Type :: string
  ex_ServiceType :: string
  ex_ServicePort :: int32

record KopiaServerSpec =
  srv_Enabled :: bool
  srv_Image :: string
  srv_Replicas :: int32
  srv_Resources :: ResourceRequirements
  srv_TLS :: KopiaServerTLSSpec
  srv_Exposure :: KopiaServerExposureSpec
  srv_AdminPasswordSecretName :: string
  srv_PersistentVolumeClaim :: string
  srv_ExtraArgs :: "string list"

record KopiaRepositoryStorageFileSystemSpec =
  fs_Path :: string
  fs_FileMode :: uint32
  fs_DirectoryMode :: uint32
  fs_FileUID :: int64
  fs_FileGID :: int64
  fs_NFSPath :: string
  fs_NFSServer :: string

record KopiaRepositoryStorageSFTPSpec =
  sftp_Path :: string
  sftp_Host :: string
  sftp_Port :: int32
  sftp_KnownHostsData :: string
  sftp_ExternalSSH :: bool
  sftp_SSHCommand :: string
  sftp_DirShards :: "int64 list"
  sftp_CredentialsSecret :: string

record KopiaRepositoryCachingSpec =
  ca_CacheDirectory :: string
  ca_ContentCacheSize :: Quantity
  ca_ContentCacheSizeLimit :: Quantity
  ca_MetadataCacheSize :: Quantity
  ca_MetadataCacheSizeLimit :: Quantity
  ca_MaxListCacheDuration :: int64
  ca_MinMetadataSweepAge :: int64
  ca_MinContentSweepAge :: int64
  ca_MinIndexSweepAge :: int64

record KopiaRepositorySpec =
  rs_Hostname :: string
  rs_Username :: string
  rs_StorageType :: string
  rs_ReadOnly :: bool
  rs_PermissiveCacheLoading :: bool
  rs_Description :: string
  rs_EnableActions :: bool
  rs_DefaultSchedule :: string
  rs_PasswordSecretName :: string
  rs_FormatBlobCacheDurationSeconds :: int64
  rs_Caching :: KopiaRepositoryCachingSpec
  rs_FileSystemOptions :: KopiaRepositoryStorageFileSystemSpec
  rs_SFTPOptions :: KopiaRepositoryStorageSFTPSpec
  rs_Server :: KopiaServerSpec

record KopiaRepositoryStatus =
  rst_Conditions :: "Condition list"
  rst_ServerReady :: bool
  rst_ServerURL :: string
  rst_ServerDeployment :: string
  rst_ServerService :: string
  rst_TLSCertFingerprint :: string

record KopiaRepository =
  kr_meta :: ObjectMeta
  kr_spec :: KopiaRepositorySpec
  kr_status :: KopiaRepositoryStatus

definition zero_KopiaServerSpec :: KopiaServerSpec where
  "zero_KopiaServerSpec = \<lparr>srv_Enabled = False, srv_Image = '''', srv_Replicas = 0,
     srv_Resources = zero_ResourceRequirements,
     srv_TLS = \<lparr>tls_SecretName = '''', tls_CertificateCommonName = '''', tls_CertificateDNSNames = []\<rparr>,
     srv_Exposure = \<lparr>ex_Type = '''', ex_ServiceType = '''', ex_ServicePort = 0\<rparr>,
     srv_AdminPasswordSecretName = '''', srv_PersistentVolumeClaim = '''', srv_ExtraArgs = []\<rparr>"

definition zero_KopiaRepositoryCachingSpec :: KopiaRepositoryCachingSpec where
  "zero_KopiaRepositoryCachingSpec = \<lparr>ca_CacheDirectory = '''', ca_ContentCacheSize = zero_Quantity,
     ca_ContentCacheSizeLimit = zero_Quantity, ca_MetadataCacheSize = zero_Quantity,
     ca_MetadataCacheSizeLimit = zero_Quantity, ca_MaxListCacheDuration = 0,
     ca_MinMetadataSweepAge = 0, ca_MinContentSweepAge = 0, ca_MinIndexSweepAge = 0\<rparr>"

definition zero_KopiaRepositorySpec :: KopiaRepositorySpec where
  "zero_KopiaRepositorySpec = \<lparr>rs_Hostname = '''', rs_Username = '''', rs_StorageType = '''',
     rs_ReadOnly = False, rs_PermissiveCacheLoading = False, rs_Description = '''',
     rs_EnableActions = False, rs_DefaultSchedule = '''', rs_PasswordSecretName = '''',
     rs_FormatBlobCacheDurationSeconds = 0, rs_Caching = zero_KopiaRepositoryCachingSpec,
     rs_FileSystemOptions = \<lparr>fs_Path = '''', fs_FileMode = 0, fs_DirectoryMode = 0, fs_FileUID = 0,
       fs_FileGID = 0, fs_NFSPath = '''', fs_NFSServer = ''''\<rparr>,
     rs_SFTPOptions = \<lparr>sftp_Path = '''', sftp_Host = '''', sftp_Port = 0, sftp_KnownHostsData = '''',
       sftp_ExternalSSH = False, sftp_SSHCommand = '''', sftp_DirShards = [],
       sftp_CredentialsSecret = ''''\<rparr>,
     rs_Server = zero_KopiaServerSpec\<rparr>"

definition zero_KopiaRepositoryStatus :: KopiaRepositoryStatus where
  "zero_KopiaRepositoryStatus = \<lparr>rst_Conditions = [], rst_ServerReady = False, rst_ServerURL = '''',
     rst_ServerDeployment = '''', rst_ServerService = '''', rst_TLSCertFingerprint = ''''\<rparr>"

definition zero_KopiaRepository :: KopiaRepository where
  "zero_KopiaRepository = \<lparr>kr_meta = zero_ObjectMeta, kr_spec = zero_KopiaRepositorySpec,
     kr_status = zero_KopiaRepositoryStatus\<rparr>"

abbreviation backup_name :: "KopiaBackup \<Rightarrow> string" where
  "backup_name b \<equiv> om_Name (kb_meta b)"

abbreviation backup_ns :: "KopiaBackup \<Rightarrow> string" where
  "backup_ns b \<equiv> om_Namespace (kb_meta b)"

abbreviation repo_name :: "KopiaRepository \<Rightarrow> string" where
  "repo_name r \<equiv> om_Name (kr_meta r)"

abbreviation repo_ns :: "KopiaRepository \<Rightarrow> string" where
  "repo_ns r \<equiv> om_Namespace (kr_meta r)"

abbreviation server_enabled :: "KopiaRepository \<Rightarrow> bool" where
  "server_enabled r \<equiv> srv_Enabled (rs_Server (kr_spec r))"

lemmas zero_defs = zero_ObjectMeta_def zero_KopiaBackup_def zero_KopiaBackupSpec_def
  zero_KopiaBackupStatus_def zero_KopiaRepository_def zero_KopiaRepositorySpec_def
  zero_KopiaRepositoryStatus_def zero_KopiaServerSpec_def zero_KopiaRepositoryCachingSpec_def
  zero_Quantity_def zero_ResourceRequirements_def

end
