(* ===== verification/Go_Text.thy ===== *)
theory Go_Text
  imports Go_Base
begin

text \<open>
  More of Go's standard library (\<open>path/filepath\<close>, \<open>encoding/base64\<close>) and the facts about text
  functions that the components rest on: what \<open>strings.ReplaceAll\<close> leaves, what \<open>strings.Fields\<close>
  makes of joined words, decimal numbers.
\<close>

section \<open>path/filepath\<close>

fun split_on :: "char \<Rightarrow> string \<Rightarrow> string \<Rightarrow> string list" where
  "split_on c [] cur = [cur]"
| "split_on c (x # xs) cur = (if x = c then cur # split_on c xs [] else split_on c xs (cur @ [x]))"

text \<open>The components that \<open>filepath.Clean\<close> keeps, innermost first.\<close>

fun clean_comps :: "bool \<Rightarrow> string list \<Rightarrow> string list \<Rightarrow> string list" where
  "clean_comps rooted [] acc = acc"
| "clean_comps rooted (x # xs) acc =
     (if x = '''' \<or> x = ''.'' then clean_comps rooted xs acc
      else if x = ''..'' then
        (case acc of
           y # ys \<Rightarrow> if y \<noteq> ''..'' then clean_comps rooted xs ys
                      else clean_comps rooted xs (''..'' # acc)
         | [] \<Rightarrow> if rooted then clean_comps rooted xs [] else clean_comps rooted xs [''..''])
      else clean_comps rooted xs (x # acc))"

definition filepath_Clean :: "string \<Rightarrow> string" where
  "filepath_Clean p =
     (let rooted = strings_HasPrefix p ''/'';
          out = (if rooted then ''/'' else '''')
                  @ strings_Join (rev (clean_comps rooted (split_on (CHR ''/'') p []) [])) ''/''
      in if out = '''' then ''.'' else out)"

definition filepath_Join :: "string list \<Rightarrow> string" where
  "filepath_Join elems =
     (case dropWhile (\<lambda>e. e = '''') elems of [] \<Rightarrow> '''' | es \<Rightarrow> filepath_Clean (strings_Join es ''/''))"

section \<open>encoding/base64, URL encoding with padding\<close>

definition b64_char :: "nat \<Rightarrow> char" where
  "b64_char n = char_byte (if n < 26 then 65 + n else if n < 52 then 71 + n
     else if n < 62 then n - 4 else if n = 62 then 45 else 95)"

fun base64_URLEncode :: "string \<Rightarrow> string" where
  "base64_URLEncode [] = []"
| "base64_URLEncode [a] =
     [b64_char (byte_of a div 4), b64_char ((byte_of a mod 4) * 16), CHR ''='', CHR ''='']"
| "base64_URLEncode [a, b] =
     [b64_char (byte_of a div 4), b64_char ((byte_of a mod 4) * 16 + byte_of b div 16),
      b64_char ((byte_of b mod 16) * 4), CHR ''='']"
| "base64_URLEncode (a # b # c # r) =
     [b64_char (byte_of a div 4), b64_char ((byte_of a mod 4) * 16 + byte_of b div 16),
      b64_char ((byte_of b mod 16) * 4 + byte_of c div 64), b64_char (byte_of c mod 64)]
     @ base64_URLEncode r"

definition b64_alphabet :: "char set" where
  "b64_alphabet = b64_char ` {..<64}"

lemma byte_of_less [simp]: "byte_of c < 256"
  by (simp add: byte_of_def)

lemma b64_char_in [simp]: "n < 64 \<Longrightarrow> b64_char n \<in> b64_alphabet"
  by (simp add: b64_alphabet_def)

lemma base64_length:
  "length (base64_URLEncode bs) = 4 * ((length bs + 2) div 3)"
proof (induction bs rule: base64_URLEncode.induct)
  case (4 a b c r)
  have "(n + 5) div 3 = Suc ((n + 2) div 3)" for n :: nat by presburger
  from this [of "length r"] 4 show ?case by (simp add: add.commute)
qed simp_all

lemma base64_alphabet:
  "length bs mod 3 = 0 \<Longrightarrow> set (base64_URLEncode bs) \<subseteq> b64_alphabet"
proof (induction bs rule: base64_URLEncode.induct)
  case (4 a b c r)
  have h: "x div 4 < 64" "x div 16 \<le> 15" "x div 64 \<le> 3" if "x < 256" for x :: nat
    using that by linarith+
  have m: "x mod 4 \<le> 3" "x mod 16 \<le> 15" for x :: nat by linarith+
  have "byte_of a div 4 < 64" "byte_of c mod 64 < 64" by (simp_all add: h)
  moreover have "(byte_of a mod 4) * 16 + byte_of b div 16 < 64"
    using m(1) [of "byte_of a"] h(2) [OF byte_of_less, of b] by linarith
  moreover have "(byte_of b mod 16) * 4 + byte_of c div 64 < 64"
    using m(2) [of "byte_of b"] h(3) [OF byte_of_less, of c] by linarith
  moreover have "length r mod 3 = 0"
    using 4(2) by (auto simp: mod_Suc split: if_splits)
  ultimately show ?case using 4(1) by simp
qed simp_all

lemma b64_alphabet_unfold:
  "c \<in> b64_alphabet \<Longrightarrow> c \<noteq> CHR ''['' \<and> c \<noteq> CHR '']'' \<and> byte_of c < 128"
proof -
  assume "c \<in> b64_alphabet"
  then obtain n where n: "n < 64" "c = b64_char n" by (auto simp: b64_alphabet_def)
  have "of_char c = (if n < 26 then 65 + n else if n < 52 then 71 + n
     else if n < 62 then n - 4 else if n = 62 then 45 else (95::nat))"
    using n by (auto simp: b64_char_def char_byte_def of_char_of)
  then have c: "of_char c < (128::nat)" "of_char c \<noteq> (91::nat)" "of_char c \<noteq> (93::nat)"
    using n(1) by (auto split: if_splits)
  have "of_char (CHR ''['') = (91::nat)" "of_char (CHR '']'') = (93::nat)" by simp_all
  then have "c \<noteq> CHR ''[''" "c \<noteq> CHR '']''" using c(2,3) by metis+
  then show ?thesis using c(1) by (simp add: byte_of_def)
qed

section \<open>strings.ReplaceAll\<close>

lemma replace_nonempty_Nil [simp]: "replace_nonempty [] old new = []"
  by (simp add: replace_nonempty.simps)

lemma replace_nonempty_match:
  "old \<noteq> [] \<Longrightarrow> strings_HasPrefix s old \<Longrightarrow>
     replace_nonempty s old new = new @ replace_nonempty (drop (length old) s) old new"
  by (subst replace_nonempty.simps) (auto simp: strings_HasPrefix_def)

lemma replace_nonempty_skip:
  "\<not> strings_HasPrefix (c # s) old \<Longrightarrow>
     replace_nonempty (c # s) old new = c # replace_nonempty s old new"
  by (simp add: replace_nonempty.simps [of "c # s"])

text \<open>Replacing one character replaces it wherever it occurs.\<close>

lemma ReplaceAll_char:
  "strings_ReplaceAll s [c] new = concat (map (\<lambda>x. if x = c then new else [x]) s)"
proof -
  have "replace_nonempty s [c] new = concat (map (\<lambda>x. if x = c then new else [x]) s)"
  proof (induction s)
    case (Cons x s)
    then show ?case
      by (cases "x = c") (auto simp: replace_nonempty_match replace_nonempty_skip
          strings_HasPrefix_def)
  qed simp
  then show ?thesis by (simp add: strings_ReplaceAll_def)
qed

text \<open>
  Where the replacement starts with a character that the pattern lacks, a prefix of the result
  without that character is a prefix of the input.
\<close>

lemma replace_prefix_unchanged:
  assumes "m \<notin> set p" "prefix p (replace_nonempty s old (m # new))"
  shows "prefix p s"
  using assms
proof (induction s old "m # new" arbitrary: p rule: replace_nonempty.induct)
  case (1 s old)
  show ?case
  proof (cases "s = [] \<or> p = []")
    case True
    with "1.prems" show ?thesis by auto
  next
    case False
    then obtain c s' where s: "s = c # s'" by (cases s) auto
    from False obtain d p' where p: "p = d # p'" by (cases p) auto
    have no: "\<not> (old \<noteq> [] \<and> strings_HasPrefix s old)"
      using "1.prems" p replace_nonempty_match [of old s "m # new"] by auto
    then have "replace_nonempty s old (m # new) = c # replace_nonempty s' old (m # new)"
      using s by (subst replace_nonempty.simps) auto
    with "1.prems" p have "d = c" "prefix p' (replace_nonempty s' old (m # new))" "m \<notin> set p'"
      by auto
    with "1.hyps"(2) [OF _ no] False s p show ?thesis by auto
  qed
qed

lemma prefix_sep: "c \<notin> set p \<Longrightarrow> prefix p (xs @ c # ys) \<longleftrightarrow> prefix p xs"
proof (induction xs arbitrary: p)
  case Nil
  then show ?case by (cases p) auto
next
  case (Cons x xs)
  then show ?case by (cases p) auto
qed

lemma sublist_sep:
  "c \<notin> set p \<Longrightarrow> sublist p (xs @ c # ys) \<longleftrightarrow> sublist p xs \<or> sublist p ys"
proof (induction xs)
  case Nil
  then show ?case using prefix_sep [of c p "[]" ys] by (auto simp: sublist_Cons_right)
next
  case (Cons x xs)
  then show ?case using prefix_sep [of c p "x # xs" ys] by (simp add: sublist_Cons_right)
qed

text \<open>
  A pattern without brackets that is no part of \<open>REDACTED\<close> does not occur in what replacing it
  by \<open>[REDACTED]\<close> leaves.
\<close>

lemma redact_removes:
  assumes "sec \<noteq> ''''" "CHR ''['' \<notin> set sec" "CHR '']'' \<notin> set sec"
    and "\<not> sublist sec ''REDACTED''"
  shows "\<not> sublist sec (strings_ReplaceAll s sec ''[REDACTED]'')"
proof -
  have "\<not> sublist sec (replace_nonempty s sec ''[REDACTED]'')"
  proof (induction s rule: length_induct)
    case (1 s)
    show ?case
    proof (cases s)
      case Nil
      with assms(1) show ?thesis by simp
    next
      case (Cons c s')
      show ?thesis
      proof (cases "strings_HasPrefix s sec")
        case True
        have len: "length (drop (length sec) s) < length s" using Cons assms(1) by simp
        with 1 have IH: "\<not> sublist sec (replace_nonempty (drop (length sec) s) sec ''[REDACTED]'')"
          by blast
        have eq: "''[REDACTED]'' @ t = ([] @ CHR ''['' # ''REDACTED'') @ CHR '']'' # t" for t by simp
        show ?thesis
          using True IH assms
          by (simp only: replace_nonempty_match [OF assms(1)] eq
              sublist_sep [OF assms(3)] sublist_sep [OF assms(2)]) simp
      next
        case False
        let ?r = "replace_nonempty s' sec ''[REDACTED]''"
        have "\<not> sublist sec ?r" using 1 Cons by simp
        moreover have "\<not> prefix sec (c # ?r)"
        proof
          assume pre: "prefix sec (c # ?r)"
          then obtain p where p: "sec = c # p" "prefix p ?r" using assms(1) by (cases sec) auto
          then have "prefix p s'"
            using assms(2) replace_prefix_unchanged [of "CHR ''[''" p s' sec "''REDACTED]''"] by simp
          with p(1) Cons have "prefix sec s" by simp
          with False show False by (simp add: strings_HasPrefix_iff)
        qed
        ultimately show ?thesis
          using False Cons by (simp add: replace_nonempty_skip sublist_Cons_right)
      qed
    qed
  qed
  with assms(1) show ?thesis by (simp add: strings_ReplaceAll_def)
qed

section \<open>strings.Fields\<close>

definition word_ok :: "string \<Rightarrow> bool" where
  "word_ok w \<longleftrightarrow> w \<noteq> [] \<and> ascii w \<and> (\<forall>c \<in> set w. \<not> unicode_IsSpace (byte_of c))"

lemma fields_from_word:
  "\<forall>c \<in> set w. \<not> unicode_IsSpace (byte_of c) \<Longrightarrow>
     fields_from (map (\<lambda>c. (byte_of c, [c])) w @ rs) cur = fields_from rs (cur @ w)"
  by (induction w arbitrary: cur) auto

lemma ascii_append: "ascii (xs @ ys) \<longleftrightarrow> ascii xs \<and> ascii ys"
  by (auto simp: ascii_def)

lemma ascii_Join: "\<forall>w \<in> set ws. ascii w \<Longrightarrow> ascii sep \<Longrightarrow> ascii (strings_Join ws sep)"
  by (induction ws sep rule: strings_Join.induct) (auto simp: ascii_append, simp add: ascii_def)

lemma unicode_IsSpace_32 [simp]: "unicode_IsSpace 32"
  by (simp add: unicode_IsSpace_def)

lemma fields_from_Join:
  "\<forall>w \<in> set ws. word_ok w \<Longrightarrow>
     fields_from (map (\<lambda>c. (byte_of c, [c])) (strings_Join ws '' '')) [] = ws"
proof (induction ws "'' ''" rule: strings_Join.induct)
  case (2 x)
  then show ?case using fields_from_word [of x "[]" "[]"] by (simp add: word_ok_def)
next
  case (3 x y ys)
  have "byte_of CHR '' '' = 32" by (simp add: byte_of_def)
  then show ?case using 3 fields_from_word [of x _ "[]"] by (simp add: word_ok_def)
qed simp

text \<open>Words joined by single spaces are the fields of the result.\<close>

lemma strings_Fields_Join:
  assumes "\<forall>w \<in> set ws. word_ok w"
  shows "strings_Fields (strings_Join ws '' '') = ws"
proof -
  have "ascii '' ''" by (simp add: ascii_def byte_of_def)
  with assms have "ascii (strings_Join ws '' '')" by (intro ascii_Join) (auto simp: word_ok_def)
  then show ?thesis using assms by (simp add: strings_Fields_def runes_ascii fields_from_Join)
qed

lemma fields_from_nonempty:
  "f \<in> set (fields_from rs cur) \<Longrightarrow> f \<noteq> []"
  by (induction rs cur rule: fields_from.induct) (auto split: if_splits)

section \<open>Decimal numbers\<close>

definition digit_val :: "char \<Rightarrow> nat" where
  "digit_val c = byte_of c - 48"

fun read_nat :: "string \<Rightarrow> nat" where
  "read_nat s = foldl (\<lambda>n c. 10 * n + digit_val c) 0 s"

declare read_nat.simps [simp del]

lemma digit_val_char [simp]: "d < 10 \<Longrightarrow> digit_val (digit_char d) = d"
  by (simp add: digit_val_def digit_char_def char_byte_def byte_of_def of_char_of)

lemma read_nat_snoc: "read_nat (s @ [c]) = 10 * read_nat s + digit_val c"
  by (simp add: read_nat.simps)

lemma read_show_nat: "read_nat (show_nat n) = n"
proof (induction n rule: show_nat.induct)
  case (1 n)
  show ?case
  proof (cases "n < 10")
    case True
    then show ?thesis by (simp add: show_nat.simps [of n] read_nat.simps)
  next
    case False
    then have "read_nat (show_nat (n div 10)) = n div 10" using 1 by simp
    then show ?thesis using False by (simp add: show_nat.simps [of n] read_nat_snoc)
  qed
qed

lemma show_nat_inject: "show_nat m = show_nat n \<longleftrightarrow> m = n"
  by (metis read_show_nat)

lemma show_nat_digits: "c \<in> set (show_nat n) \<Longrightarrow> \<exists>d < 10. c = digit_char d"
proof (induction n rule: show_nat.induct)
  case (1 n)
  show ?case
  proof (cases "n < 10")
    case True
    with "1.prems" show ?thesis by (auto simp: show_nat.simps [of n])
  next
    case False
    then have "c \<in> set (show_nat (n div 10)) \<or> c = digit_char (n mod 10)"
      using "1.prems" by (auto simp: show_nat.simps [of n])
    moreover have "n mod 10 < 10" by simp
    ultimately show ?thesis using "1.IH" [OF False] by blast
  qed
qed

lemma show_nat_nonempty [simp]: "show_nat n \<noteq> []"
  by (subst show_nat.simps) simp

end
