(* ===== verification/Server_Scripts.thy ===== *)
theory Server_Scripts
  imports Kopia_Types Go_Text
begin

text \<open>
  The shell scripts of the Kopia server container (internal/kopia/server/manager.go:
  \<open>shellQuote\<close>, \<open>BuildCacheFlags\<close>, \<open>constructServerCommand\<close> and the functions it calls), and how a
  shell reads them. A function that writes to a \<open>strings.Builder\<close> is modelled by the text it
  appends.
\<close>

section \<open>Definitions\<close>

abbreviation (input) nl :: string where "nl \<equiv> ''\<newline>''"

definition bsl :: string where "bsl = [CHR 0x5C]"
definition squote :: string where "squote = [CHR 0x27]"

definition unlines :: "string list \<Rightarrow> string" where
  "unlines ls = concat (map (\<lambda>l. l @ nl) ls)"

definition shellQuote :: "string \<Rightarrow> string" where
  "shellQuote s = squote @ strings_ReplaceAll s squote (squote @ bsl @ squote @ squote) @ squote"

definition defaultServerPort :: int where
  "defaultServerPort = 51515"

definition quantityToMB :: "Quantity \<Rightarrow> int" where
  "quantityToMB q = go_div (sint (q_Value q)) (1024 * 1024)"

definition BuildCacheFlags :: "KopiaRepositoryCachingSpec \<Rightarrow> string" where
  "BuildCacheFlags c =
     (if ca_CacheDirectory c \<noteq> '''' then '' --cache-directory='' @ ca_CacheDirectory c else '''')
     @ (if \<not> q_IsZero (ca_ContentCacheSize c)
        then '' --content-cache-size-mb='' @ fmt_d (quantityToMB (ca_ContentCacheSize c)) else '''')
     @ (if \<not> q_IsZero (ca_ContentCacheSizeLimit c)
        then '' --content-cache-size-limit-mb='' @ fmt_d (quantityToMB (ca_ContentCacheSizeLimit c)) else '''')
     @ (if \<not> q_IsZero (ca_MetadataCacheSize c)
        then '' --metadata-cache-size-mb='' @ fmt_d (quantityToMB (ca_MetadataCacheSize c)) else '''')
     @ (if \<not> q_IsZero (ca_MetadataCacheSizeLimit c)
        then '' --metadata-cache-size-limit-mb='' @ fmt_d (quantityToMB (ca_MetadataCacheSizeLimit c)) else '''')
     @ (if 0 < sint (ca_MaxListCacheDuration c)
        then '' --max-list-cache-duration='' @ fmt_d64 (ca_MaxListCacheDuration c) @ ''s'' else '''')
     @ (if 0 < sint (ca_MinMetadataSweepAge c)
        then '' --min-metadata-sweep-age='' @ fmt_d64 (ca_MinMetadataSweepAge c) @ ''s'' else '''')
     @ (if 0 < sint (ca_MinContentSweepAge c)
        then '' --min-content-sweep-age='' @ fmt_d64 (ca_MinContentSweepAge c) @ ''s'' else '''')
     @ (if 0 < sint (ca_MinIndexSweepAge c)
        then '' --min-index-sweep-age='' @ fmt_d64 (ca_MinIndexSweepAge c) @ ''s'' else '''')"

definition writeFilesystemServerScript :: "KopiaRepository \<Rightarrow> string" where
  "writeFilesystemServerScript repo =
     (let cacheFlags = BuildCacheFlags (rs_Caching (kr_spec repo));
          h = shellQuote (rs_Hostname (kr_spec repo)); u = shellQuote (rs_Username (kr_spec repo)) in
      unlines [
        ''set -e'',
        ''echo \"Connecting to repository...\"'',
        ''kopia repository connect filesystem --path=/repository --override-hostname='' @ h
          @ '' --override-username='' @ u @ cacheFlags @ '' || {'',
        ''  echo \"Repository connection failed, attempting to create...\"'',
        ''  kopia repository create filesystem --path=/repository --override-hostname='' @ h
          @ '' --override-username='' @ u @ cacheFlags,
        ''}''])"

definition writeSFTPCredentialSetup :: string where
  "writeSFTPCredentialSetup = unlines [
     ''SFTP_USER=$(cat /sftp-creds/username 2>/dev/null || echo \"\")'',
     ''SFTP_PASSWORD=$(cat /sftp-creds/password 2>/dev/null || echo \"\")'',
     ''SFTP_KEY=$(cat /sftp-creds/keyData 2>/dev/null || echo \"\")'',
     ''SFTP_KNOWN_HOSTS=$(cat /sftp-creds/knownHostsData 2>/dev/null || echo \"\")'',
     ''if [ -z \"$SFTP_USER\" ]; then echo \"ERROR: SFTP username not found in secret\"; exit 1; fi'']"

definition writeSFTPAuthFlags :: "KopiaRepository \<Rightarrow> string \<Rightarrow> string" where
  "writeSFTPAuthFlags repo cmdVar =
     (let sftp = rs_SFTPOptions (kr_spec repo) in
      unlines [
        ''CLEANUP_FILES=\"\"'',
        ''trap 'rm -f $CLEANUP_FILES' EXIT'',
        ''if [ -n \"$SFTP_KEY\" ]; then'',
        ''  SSH_KEY_FILE=$(mktemp /tmp/ssh_key.XXXXXX) && echo \"$SFTP_KEY\" > \"$SSH_KEY_FILE\" && chmod 600 \"$SSH_KEY_FILE\"'',
        ''  CLEANUP_FILES=\"$CLEANUP_FILES $SSH_KEY_FILE\"'',
        ''  '' @ cmdVar @ ''=\"$'' @ cmdVar @ '' --keyfile=$SSH_KEY_FILE\"'',
        ''elif [ -n \"$SFTP_PASSWORD\" ]; then'',
        ''  '' @ cmdVar @ ''=\"$'' @ cmdVar @ '' --sftp-password=$SFTP_PASSWORD\"'',
        ''else'',
        ''  echo \"ERROR: Neither keyData nor password found in secret\"; exit 1'',
        ''fi'']
      @ (if sftp_KnownHostsData sftp \<noteq> '''' then unlines [
           ''cat > /tmp/known_hosts <<'KNOWN_HOSTS_EOF'' @ squote,
           sftp_KnownHostsData sftp,
           ''KNOWN_HOSTS_EOF'',
           ''CLEANUP_FILES=\"$CLEANUP_FILES /tmp/known_hosts\"'',
           cmdVar @ ''=\"$'' @ cmdVar @ '' --known-hosts=/tmp/known_hosts\"'']
         else unlines [
           ''if [ -n \"$SFTP_KNOWN_HOSTS\" ]; then'',
           ''  printf '%b' \"$SFTP_KNOWN_HOSTS\" > /tmp/known_hosts'',
           ''  CLEANUP_FILES=\"$CLEANUP_FILES /tmp/known_hosts\"'',
           ''  '' @ cmdVar @ ''=\"$'' @ cmdVar @ '' --known-hosts=/tmp/known_hosts\"'',
           ''fi''])
      @ (if sftp_ExternalSSH sftp then
           (let sshCmd = (if sftp_SSHCommand sftp \<noteq> '''' then sftp_SSHCommand sftp else ''ssh'') in
            unlines [cmdVar @ ''=\"$'' @ cmdVar @ '' --external-ssh --ssh-command=''
                       @ shellQuote sshCmd @ ''\"''])
         else ''''))"

text \<open>The flags that \<open>baseSFTPCmd\<close> and \<open>sftpCreateCmd\<close> share.\<close>

definition sftp_target :: "KopiaRepository \<Rightarrow> string" where
  "sftp_target repo =
     (let sftp = rs_SFTPOptions (kr_spec repo);
          port = (if 0 < sint (sftp_Port sftp) then sftp_Port sftp else 22) in
      '' --host='' @ shellQuote (sftp_Host sftp) @ '' --port='' @ fmt_d32 port
      @ '' --path='' @ shellQuote (sftp_Path sftp))"

definition writeSFTPServerScript :: "KopiaRepository \<Rightarrow> string" where
  "writeSFTPServerScript repo =
     (let cacheFlags = BuildCacheFlags (rs_Caching (kr_spec repo));
          h = shellQuote (rs_Hostname (kr_spec repo)); u = shellQuote (rs_Username (kr_spec repo));
          baseSFTPCmd = ''kopia repository connect sftp'' @ sftp_target repo;
          sftpCreateCmd = ''kopia repository create sftp'' @ sftp_target repo in
      unlines [''echo \"Connecting to repository...\"'']
      @ writeSFTPCredentialSetup
      @ unlines [''SFTP_CMD=\"'' @ baseSFTPCmd @ '' --username=$SFTP_USER\"'']
      @ writeSFTPAuthFlags repo ''SFTP_CMD''
      @ unlines [
          ''SFTP_CMD=\"$SFTP_CMD --override-hostname='' @ h @ '' --override-username='' @ u @ cacheFlags @ ''\"'',
          ''eval \"$SFTP_CMD\"'',
          ''if [ $? -ne 0 ]; then'',
          ''  echo \"Repository connection failed, attempting to create...\"'',
          ''  SFTP_CREATE_CMD=\"'' @ sftpCreateCmd @ '' --username=$SFTP_USER\"'']
      @ writeSFTPAuthFlags repo ''SFTP_CREATE_CMD''
      @ unlines [
          ''  SFTP_CREATE_CMD=\"$SFTP_CREATE_CMD --override-hostname='' @ h @ '' --override-username='' @ u @ cacheFlags @ ''\"'',
          ''  eval \"$SFTP_CREATE_CMD\"'',
          ''  if [ $? -eq 0 ]; then'',
          ''    echo \"Repository created successfully, reconnecting...\"'',
          ''    eval \"$SFTP_CMD\"'',
          ''  else'',
          ''    echo \"Failed to create repository\"; exit 1'',
          ''  fi'',
          ''fi'',
          ''set -e''])"

definition writeAdminUserSetup :: "KopiaRepository \<Rightarrow> string" where
  "writeAdminUserSetup repo =
     (let adminUser = shellQuote (rs_Username (kr_spec repo) @ ''@'' @ rs_Hostname (kr_spec repo)) in
      unlines [
        ''ADMIN_USER='' @ adminUser,
        ''echo \"Checking admin user: $ADMIN_USER\"'',
        ''set +e'',
        ''kopia server user list 2>/dev/null | grep -q \"$ADMIN_USER\"'',
        ''USER_EXISTS=$?'',
        ''set -e'',
        ''if [ $USER_EXISTS -ne 0 ]; then'',
        ''  echo \"Creating admin user: $ADMIN_USER\"'',
        ''  kopia server user add \"$ADMIN_USER\" --user-password=\"${KOPIA_PASSWORD}\"'',
        ''else'',
        ''  echo \"Updating admin user password: $ADMIN_USER\"'',
        ''  kopia server user set \"$ADMIN_USER\" --user-password=\"${KOPIA_PASSWORD}\"'',
        ''fi''])"

definition extra_args_text :: "string list \<Rightarrow> string" where
  "extra_args_text args = concat (map (\<lambda>a. '' '' @ bsl @ nl @ ''  '' @ shellQuote a) args)"

definition writeServerStartCommand :: "KopiaRepository \<Rightarrow> string" where
  "writeServerStartCommand repo =
     ''kopia server start '' @ bsl @ nl
     @ ''  --tls-cert-file=/tls/tls.crt '' @ bsl @ nl
     @ ''  --tls-key-file=/tls/tls.key '' @ bsl @ nl
     @ ''  --address=0.0.0.0:'' @ fmt_d defaultServerPort @ '' '' @ bsl @ nl
     @ ''  --server-control-username=admin '' @ bsl @ nl
     @ ''  --server-control-password=\"${KOPIA_SERVER_PASSWORD}\"''
     @ extra_args_text (srv_ExtraArgs (rs_Server (kr_spec repo))) @ nl"

definition constructServerCommand :: "KopiaRepository \<Rightarrow> string" where
  "constructServerCommand repo =
     (if rs_StorageType (kr_spec repo) = StorageTypeFilesystem then writeFilesystemServerScript repo
      else if rs_StorageType (kr_spec repo) = StorageTypeSFTP then writeSFTPServerScript repo
      else unlines [
        ''set -e'', ''echo \"Connecting to repository...\"'',
        ''echo 'Unsupported storage type: '' @ rs_StorageType (kr_spec repo) @ squote @ '' && exit 1''])
     @ nl @ unlines [''echo \"Setting up admin user...\"'']
     @ writeAdminUserSetup repo
     @ nl @ unlines [''echo \"Starting Kopia Server...\"'']
     @ writeServerStartCommand repo"

section \<open>How a shell reads a script\<close>

text \<open>
  The token recognition and quote removal of POSIX sh, for the part of the language in which the
  scripts carry values: blanks, newlines and the operators \<open>|\<close>, \<open>&\<close>, \<open>;\<close> (one token per
  character), the three kinds of quoting, line continuation, and \<open>$NAME\<close> and \<open>${NAME}\<close> within
  double quotes, with \<open>ev\<close> the value of a variable. Every other unquoted special character, an
  unterminated quote and every other expansion leaves this part: the result is None.
\<close>

datatype sh_token = Word string | Op char

datatype sh_mode = Unq | Esc | Sng | Dbl | DblEsc

definition sh_blank :: "char \<Rightarrow> bool" where
  "sh_blank c \<longleftrightarrow> c = CHR 0x20 \<or> c = CHR 0x09"

definition sh_op :: "char \<Rightarrow> bool" where
  "sh_op c \<longleftrightarrow> c = CHR 0x0A \<or> c = CHR ''|'' \<or> c = CHR ''&'' \<or> c = CHR '';''"

definition sh_special :: "char \<Rightarrow> bool" where
  "sh_special c \<longleftrightarrow> List.member ''<>()*?[]#~!$'' c \<or> c = CHR 0x60"

definition name_char :: "char \<Rightarrow> bool" where
  "name_char c \<longleftrightarrow> (let b = byte_of c in (65 \<le> b \<and> b \<le> 90) \<or> (97 \<le> b \<and> b \<le> 122)
     \<or> (48 \<le> b \<and> b \<le> 57) \<or> b = 95)"

definition opt_word :: "string option \<Rightarrow> string" where
  "opt_word cur = (case cur of None \<Rightarrow> '''' | Some w \<Rightarrow> w)"

definition flush :: "string option \<Rightarrow> sh_token list \<Rightarrow> sh_token list" where
  "flush cur ts = (case cur of None \<Rightarrow> ts | Some w \<Rightarrow> Word w # ts)"

lemma length_dropWhile_tl: "length (dropWhile P (tl s)) \<le> length s"
  by (rule le_trans [OF length_dropWhile_le]) simp

function sh_lex :: "(string \<Rightarrow> string) \<Rightarrow> sh_mode \<Rightarrow> string option \<Rightarrow> string \<Rightarrow> sh_token list option" where
  "sh_lex ev m cur [] = (if m = Unq then Some (flush cur []) else None)"
| "sh_lex ev Unq cur (c # s) =
     (if sh_blank c then map_option (flush cur) (sh_lex ev Unq None s)
      else if sh_op c then map_option (\<lambda>ts. flush cur (Op c # ts)) (sh_lex ev Unq None s)
      else if c = CHR 0x27 then sh_lex ev Sng (Some (opt_word cur)) s
      else if c = CHR 0x22 then sh_lex ev Dbl (Some (opt_word cur)) s
      else if c = CHR 0x5C then sh_lex ev Esc cur s
      else if sh_special c then None
      else sh_lex ev Unq (Some (opt_word cur @ [c])) s)"
| "sh_lex ev Esc cur (c # s) =
     (if c = CHR 0x0A then sh_lex ev Unq cur s else sh_lex ev Unq (Some (opt_word cur @ [c])) s)"
| "sh_lex ev Sng cur (c # s) =
     (if c = CHR 0x27 then sh_lex ev Unq cur s else sh_lex ev Sng (Some (opt_word cur @ [c])) s)"
| "sh_lex ev Dbl cur (c # s) =
     (if c = CHR 0x22 then sh_lex ev Unq cur s
      else if c = CHR 0x5C then sh_lex ev DblEsc cur s
      else if c = CHR 0x60 then None
      else if c = CHR ''$'' then
        (let braced = (s \<noteq> [] \<and> hd s = CHR ''{''); r = (if braced then tl s else s);
             n = takeWhile name_char r; r' = dropWhile name_char r in
         if n = [] then None
         else if braced then
           (if r' \<noteq> [] \<and> hd r' = CHR ''}'' then sh_lex ev Dbl (Some (opt_word cur @ ev n)) (tl r') else None)
         else sh_lex ev Dbl (Some (opt_word cur @ ev n)) r')
      else sh_lex ev Dbl (Some (opt_word cur @ [c])) s)"
| "sh_lex ev DblEsc cur (c # s) =
     (if c = CHR 0x0A then sh_lex ev Dbl cur s
      else if c = CHR ''$'' \<or> c = CHR 0x60 \<or> c = CHR 0x22 \<or> c = CHR 0x5C
        then sh_lex ev Dbl (Some (opt_word cur @ [c])) s
      else sh_lex ev Dbl (Some (opt_word cur @ [CHR 0x5C, c])) s)"
  by pat_completeness auto
termination
  by (relation "measure (\<lambda>(ev, m, cur, s). length s)")
    (auto simp: less_Suc_eq_le intro: length_dropWhile_le le_trans [OF diff_le_self length_dropWhile_tl])

declare sh_lex.simps [simp del]

definition sh_tokens :: "(string \<Rightarrow> string) \<Rightarrow> string \<Rightarrow> sh_token list option" where
  "sh_tokens ev s = sh_lex ev Unq None s"

subsection \<open>Plain text and quoted values\<close>

definition sh_plain :: "char \<Rightarrow> bool" where
  "sh_plain c \<longleftrightarrow> \<not> sh_blank c \<and> \<not> sh_op c \<and> \<not> sh_special c
     \<and> c \<noteq> CHR 0x27 \<and> c \<noteq> CHR 0x22 \<and> c \<noteq> CHR 0x5C"

lemma opt_word_simps [simp]: "opt_word None = ''''" "opt_word (Some w) = w"
  by (simp_all add: opt_word_def)

lemma lex_plain:
  assumes "list_all sh_plain w" "w \<noteq> []"
  shows "sh_lex ev Unq cur (w @ s) = sh_lex ev Unq (Some (opt_word cur @ w)) s"
  using assms
proof (induction w arbitrary: cur)
  case (Cons c w)
  then show ?case
    by (cases "w = []") (auto simp: sh_lex.simps sh_plain_def)
qed simp

lemma lex_sng:
  "CHR 0x27 \<notin> set v \<Longrightarrow> sh_lex ev Sng (Some w) (v @ s) = sh_lex ev Sng (Some (w @ v)) s"
  by (induction v arbitrary: w) (auto simp: sh_lex.simps)

lemma lex_replaced:
  "sh_lex ev Sng (Some w) (concat (map (\<lambda>c. if c = CHR 0x27 then squote @ bsl @ squote @ squote else [c]) v) @ s)
     = sh_lex ev Sng (Some (w @ v)) s"
  by (induction v arbitrary: w)
    (auto simp: sh_lex.simps squote_def bsl_def sh_blank_def sh_op_def)

lemma shellQuote_text:
  "shellQuote v = squote
     @ concat (map (\<lambda>c. if c = CHR 0x27 then squote @ bsl @ squote @ squote else [c]) v) @ squote"
  by (simp add: shellQuote_def squote_def ReplaceAll_char cong: if_cong)

lemma lex_shellQuote [simp]:
  "sh_lex ev Unq cur (shellQuote v @ s) = sh_lex ev Unq (Some (opt_word cur @ v)) s"
proof -
  have "sh_lex ev Unq cur (shellQuote v @ s) = sh_lex ev Sng (Some (opt_word cur))
      (concat (map (\<lambda>c. if c = CHR 0x27 then squote @ bsl @ squote @ squote else [c]) v) @ squote @ s)"
    unfolding shellQuote_text by (simp add: squote_def sh_lex.simps sh_blank_def sh_op_def cong: if_cong)
  also have "\<dots> = sh_lex ev Unq (Some (opt_word cur @ v)) s"
    unfolding lex_replaced by (simp add: squote_def sh_lex.simps)
  finally show ?thesis .
qed

lemma lex_steps:
  "sh_lex ev Unq cur [] = Some (flush cur [])"
  "sh_plain c \<Longrightarrow> sh_lex ev Unq cur (c # s) = sh_lex ev Unq (Some (opt_word cur @ [c])) s"
  "sh_lex ev Unq cur (CHR 0x20 # s) = map_option (flush cur) (sh_lex ev Unq None s)"
  "sh_lex ev Unq cur (CHR 0x0A # s) = map_option (\<lambda>ts. flush cur (Op (CHR 0x0A) # ts)) (sh_lex ev Unq None s)"
  "sh_lex ev Unq cur (CHR ''|'' # s) = map_option (\<lambda>ts. flush cur (Op (CHR ''|'') # ts)) (sh_lex ev Unq None s)"
  "sh_lex ev Unq cur (CHR '';'' # s) = map_option (\<lambda>ts. flush cur (Op (CHR '';'') # ts)) (sh_lex ev Unq None s)"
  "sh_lex ev Unq cur (CHR 0x22 # s) = sh_lex ev Dbl (Some (opt_word cur)) s"
  "sh_lex ev Unq cur (CHR 0x5C # CHR 0x0A # s) = sh_lex ev Unq cur s"
  by (simp_all add: sh_lex.simps sh_plain_def sh_blank_def sh_op_def)

lemma lex_dbl_steps:
  "sh_lex ev Dbl cur (CHR 0x22 # s) = sh_lex ev Unq cur s"
  "c \<noteq> CHR 0x22 \<Longrightarrow> c \<noteq> CHR 0x5C \<Longrightarrow> c \<noteq> CHR 0x60 \<Longrightarrow> c \<noteq> CHR ''$'' \<Longrightarrow>
     sh_lex ev Dbl cur (c # s) = sh_lex ev Dbl (Some (opt_word cur @ [c])) s"
  "n \<noteq> [] \<Longrightarrow> list_all name_char n \<Longrightarrow>
     sh_lex ev Dbl cur (CHR ''$'' # CHR ''{'' # n @ CHR ''}'' # s) = sh_lex ev Dbl (Some (opt_word cur @ ev n)) s"
  "n \<noteq> [] \<Longrightarrow> list_all name_char n \<Longrightarrow> \<not> name_char c \<Longrightarrow>
     sh_lex ev Dbl cur (CHR ''$'' # n @ c # s) = sh_lex ev Dbl (Some (opt_word cur @ ev n)) (c # s)"
proof -
  have brace: "\<not> name_char (CHR ''{'')" "\<not> name_char (CHR ''}'')"
    by (simp_all add: name_char_def byte_of_def)
  show "sh_lex ev Dbl cur (CHR 0x22 # s) = sh_lex ev Unq cur s"
    by (simp add: sh_lex.simps)
  show "sh_lex ev Dbl cur (c # s) = sh_lex ev Dbl (Some (opt_word cur @ [c])) s"
    if "c \<noteq> CHR 0x22" "c \<noteq> CHR 0x5C" "c \<noteq> CHR 0x60" "c \<noteq> CHR ''$''"
    using that by (simp add: sh_lex.simps)
  assume n: "n \<noteq> []" "list_all name_char n"
  from n brace show "sh_lex ev Dbl cur (CHR ''$'' # CHR ''{'' # n @ CHR ''}'' # s)
      = sh_lex ev Dbl (Some (opt_word cur @ ev n)) s"
    by (simp add: sh_lex.simps takeWhile_append2 dropWhile_append2 list_all_iff)
  assume c: "\<not> name_char c"
  from n have "hd (n @ c # s) \<noteq> CHR ''{''" using brace by (cases n) auto
  with n c show "sh_lex ev Dbl cur (CHR ''$'' # n @ c # s)
      = sh_lex ev Dbl (Some (opt_word cur @ ev n)) (c # s)"
    by (simp add: sh_lex.simps(5) takeWhile_append2 dropWhile_append2 list_all_iff)
qed

lemmas lex_eval = lex_steps lex_dbl_steps(1,2) sh_plain_def sh_blank_def sh_op_def sh_special_def flush_def

lemma lex_words:
  assumes "list_all (\<lambda>w. w \<noteq> [] \<and> list_all sh_plain w) ws"
  shows "sh_lex ev Unq (Some v) (concat (map (\<lambda>w. '' '' @ w) ws) @ s)
     = map_option (\<lambda>ts. map Word (butlast (v # ws)) @ ts) (sh_lex ev Unq (Some (last (v # ws))) s)"
  using assms
proof (induction ws arbitrary: v)
  case Nil
  then show ?case by (cases "sh_lex ev Unq (Some v) s") simp_all
next
  case (Cons w ws)
  then have "sh_lex ev Unq None (w @ t) = sh_lex ev Unq (Some w) t" for t
    using lex_plain [of w ev None] by simp
  with Cons show ?case
    by (simp add: lex_steps flush_def option.map_comp comp_def)
qed

lemma lex_extra_args:
  "sh_lex ev Unq (Some w) (extra_args_text args @ nl)
     = Some (map Word (w # args) @ [Op (CHR 0x0A)])"
  by (induction args arbitrary: w) (simp_all add: extra_args_text_def lex_steps flush_def bsl_def)

lemma fmt_d_port: "fmt_d defaultServerPort = ''51515''"
proof -
  have "digit_char 5 = CHR ''5''" "digit_char (Suc 0) = CHR ''1''" by code_simp+
  then show ?thesis by (simp add: fmt_d_def defaultServerPort_def show_nat.simps)
qed

subsection \<open>The server command line\<close>

text \<open>
  For every repository the command that starts the server is one command, whose words are the
  fixed flags, the control password as the value of the variable KOPIA\_SERVER\_PASSWORD, and
  then the extra arguments of the spec, each as one word and unchanged, whatever characters they
  contain.
\<close>

lemma server_start_words:
  "sh_tokens ev (writeServerStartCommand repo) = Some (map Word
     ([''kopia'', ''server'', ''start'', ''--tls-cert-file=/tls/tls.crt'', ''--tls-key-file=/tls/tls.key'',
       ''--address=0.0.0.0:51515'', ''--server-control-username=admin'',
       ''--server-control-password='' @ ev ''KOPIA_SERVER_PASSWORD'']
      @ srv_ExtraArgs (rs_Server (kr_spec repo))) @ [Op (CHR 0x0A)])"
  by (simp add: sh_tokens_def writeServerStartCommand_def lex_eval bsl_def fmt_d_port
      lex_dbl_steps(3) [of "''KOPIA_SERVER_PASSWORD''", simplified]
      name_char_def byte_of_def lex_extra_args)

subsection \<open>The filesystem script\<close>

text \<open>The flags of the cache settings, one word each.\<close>

definition cache_words :: "KopiaRepositoryCachingSpec \<Rightarrow> string list" where
  "cache_words c =
     (let size = (\<lambda>flag q. if q_IsZero q then [] else [flag @ fmt_d (quantityToMB q)]);
          age = (\<lambda>flag n. if 0 < sint n then [flag @ fmt_d64 n @ ''s''] else []) in
      (if ca_CacheDirectory c = '''' then [] else [''--cache-directory='' @ ca_CacheDirectory c])
      @ size ''--content-cache-size-mb='' (ca_ContentCacheSize c)
      @ size ''--content-cache-size-limit-mb='' (ca_ContentCacheSizeLimit c)
      @ size ''--metadata-cache-size-mb='' (ca_MetadataCacheSize c)
      @ size ''--metadata-cache-size-limit-mb='' (ca_MetadataCacheSizeLimit c)
      @ age ''--max-list-cache-duration='' (ca_MaxListCacheDuration c)
      @ age ''--min-metadata-sweep-age='' (ca_MinMetadataSweepAge c)
      @ age ''--min-content-sweep-age='' (ca_MinContentSweepAge c)
      @ age ''--min-index-sweep-age='' (ca_MinIndexSweepAge c))"

lemma BuildCacheFlags_words: "BuildCacheFlags c = concat (map (\<lambda>w. '' '' @ w) (cache_words c))"
  by (simp add: BuildCacheFlags_def cache_words_def Let_def)

lemma digit_plain: "d < 10 \<Longrightarrow> sh_plain (digit_char d)"
proof -
  have "\<forall>d \<in> set [0..<10]. sh_plain (digit_char d)" by code_simp
  then show "d < 10 \<Longrightarrow> sh_plain (digit_char d)" by simp
qed

lemma fmt_d_plain [simp]: "list_all sh_plain (fmt_d i)"
proof -
  have "sh_plain (CHR ''-'')" by code_simp
  then show ?thesis by (auto simp: fmt_d_def list_all_iff dest!: show_nat_digits digit_plain)
qed

lemma cache_words_plain:
  assumes "list_all sh_plain (ca_CacheDirectory c)"
  shows "list_all (\<lambda>w. w \<noteq> [] \<and> list_all sh_plain w) (cache_words c)"
proof -
  have "list_all sh_plain ''--cache-directory=''" "list_all sh_plain ''--content-cache-size-mb=''"
    "list_all sh_plain ''--content-cache-size-limit-mb=''" "list_all sh_plain ''--metadata-cache-size-mb=''"
    "list_all sh_plain ''--metadata-cache-size-limit-mb=''" "list_all sh_plain ''--max-list-cache-duration=''"
    "list_all sh_plain ''--min-metadata-sweep-age=''" "list_all sh_plain ''--min-content-sweep-age=''"
    "list_all sh_plain ''--min-index-sweep-age=''" "list_all sh_plain ''s''"
    by code_simp+
  with assms show ?thesis by (simp add: cache_words_def Let_def fmt_d64_def)
qed

definition connect_words :: "string list \<Rightarrow> KopiaRepository \<Rightarrow> string list" where
  "connect_words pre repo = pre @ [''--override-hostname='' @ rs_Hostname (kr_spec repo),
     ''--override-username='' @ rs_Username (kr_spec repo)] @ cache_words (rs_Caching (kr_spec repo))"

lemma lex_flags:
  assumes "list_all sh_plain (ca_CacheDirectory c)"
  shows "sh_lex ev Unq (Some v) (BuildCacheFlags c @ s)
     = map_option (\<lambda>ts. map Word (butlast (v # cache_words c)) @ ts)
         (sh_lex ev Unq (Some (last (v # cache_words c))) s)"
  using lex_words [OF cache_words_plain [OF assms]] by (simp add: BuildCacheFlags_words)

lemma butlast_last_words:
  "ws \<noteq> [] \<Longrightarrow> map Word (butlast ws) @ Word (last ws) # ts = map Word ws @ ts"
  by (induction ws) auto

text \<open>
  C28: the filesystem script is read by a shell as exactly these tokens: it connects with the host
  name and user name of the spec as single words, whatever characters they contain, followed by
  the cache flags, and where connecting fails it creates the repository with the same words. The
  cache directory is interpolated without quotes, so the theorem asks that it has no character
  special to the shell.
\<close>

theorem filesystem_script_words:
  assumes "list_all sh_plain (ca_CacheDirectory (rs_Caching (kr_spec repo)))"
  shows "sh_tokens ev (writeFilesystemServerScript repo) = Some
     ([Word ''set'', Word ''-e'', Op (CHR 0x0A),
       Word ''echo'', Word ''Connecting to repository...'', Op (CHR 0x0A)]
      @ map Word (connect_words [''kopia'', ''repository'', ''connect'', ''filesystem'', ''--path=/repository''] repo)
      @ [Op (CHR ''|''), Op (CHR ''|''), Word ''{'', Op (CHR 0x0A),
         Word ''echo'', Word ''Repository connection failed, attempting to create...'', Op (CHR 0x0A)]
      @ map Word (connect_words [''kopia'', ''repository'', ''create'', ''filesystem'', ''--path=/repository''] repo)
      @ [Op (CHR 0x0A), Word ''}'', Op (CHR 0x0A)])"
  by (simp add: sh_tokens_def writeFilesystemServerScript_def unlines_def Let_def lex_eval
      lex_flags [OF assms] option.map_comp comp_def connect_words_def
      butlast_last_words [of "_ # _", simplified])

theorem filesystem_script_words_witness:
  "sh_tokens (\<lambda>_. '''') (writeFilesystemServerScript (zero_KopiaRepository\<lparr>kr_spec :=
       zero_KopiaRepositorySpec\<lparr>rs_Hostname := ''a'b; $(reboot)'', rs_Username := ''u''\<rparr>\<rparr>)) = Some
     ([Word ''set'', Word ''-e'', Op (CHR 0x0A),
       Word ''echo'', Word ''Connecting to repository...'', Op (CHR 0x0A),
       Word ''kopia'', Word ''repository'', Word ''connect'', Word ''filesystem'', Word ''--path=/repository'',
       Word ''--override-hostname=a'b; $(reboot)'', Word ''--override-username=u'',
       Op (CHR ''|''), Op (CHR ''|''), Word ''{'', Op (CHR 0x0A),
       Word ''echo'', Word ''Repository connection failed, attempting to create...'', Op (CHR 0x0A),
       Word ''kopia'', Word ''repository'', Word ''create'', Word ''filesystem'', Word ''--path=/repository'',
       Word ''--override-hostname=a'b; $(reboot)'', Word ''--override-username=u'',
       Op (CHR 0x0A), Word ''}'', Op (CHR 0x0A)])"
  by (subst filesystem_script_words) (simp_all add: zero_defs connect_words_def cache_words_def Let_def)

subsection \<open>The SFTP script\<close>

text \<open>A value that double quotes leave as it is.\<close>

definition dq_safe :: "string \<Rightarrow> bool" where
  "dq_safe v \<longleftrightarrow> list_all (\<lambda>c. c \<noteq> CHR 0x22 \<and> c \<noteq> CHR ''$'' \<and> c \<noteq> CHR 0x60 \<and> c \<noteq> CHR 0x5C) v"

lemma lex_dbl_safe:
  "dq_safe v \<Longrightarrow> sh_lex ev Dbl (Some w) (v @ s) = sh_lex ev Dbl (Some (w @ v)) s"
  by (induction v arbitrary: w) (auto simp: dq_safe_def lex_dbl_steps)

lemma lex_dbl_replaced:
  "dq_safe v \<Longrightarrow> sh_lex ev Dbl (Some w)
       (concat (map (\<lambda>c. if c = CHR 0x27 then squote @ bsl @ squote @ squote else [c]) v) @ s)
     = sh_lex ev Dbl (Some (w @ concat (map (\<lambda>c. if c = CHR 0x27 then squote @ bsl @ squote @ squote else [c]) v))) s"
  by (induction v arbitrary: w)
    (auto simp: dq_safe_def sh_lex.simps squote_def bsl_def)

lemma lex_dbl_shellQuote:
  "dq_safe v \<Longrightarrow> sh_lex ev Dbl (Some w) (shellQuote v @ s) = sh_lex ev Dbl (Some (w @ shellQuote v)) s"
  using lex_dbl_replaced [of v ev "w @ squote" "squote @ s"]
  unfolding shellQuote_text by (simp add: lex_dbl_steps squote_def cong: if_cong)

definition sftp_cmd_line :: "KopiaRepository \<Rightarrow> string" where
  "sftp_cmd_line repo =
     ''SFTP_CMD=\"'' @ (''kopia repository connect sftp'' @ sftp_target repo) @ '' --username=$SFTP_USER\"''"

lemma sublist_unlines: "sublist l (a @ b @ unlines [l] @ r)"
  by (simp add: unlines_def) (metis append_assoc sublist_appendI)

lemma sftp_cmd_line_in_script: "sublist (sftp_cmd_line repo) (writeSFTPServerScript repo)"
  unfolding writeSFTPServerScript_def sftp_cmd_line_def Let_def by (rule sublist_unlines)

lemma plain_dq_safe: "list_all sh_plain v \<Longrightarrow> dq_safe v"
  by (auto simp: dq_safe_def list_all_iff sh_plain_def sh_special_def)

lemma lex_plain_end:
  "list_all sh_plain v \<Longrightarrow> sh_lex ev Unq (Some w) v = Some [Word (w @ v)]"
  using lex_plain [of v ev "Some w" "[]"] by (cases "v = []") (simp_all add: lex_steps flush_def)

lemma fmt_d_nonempty [simp]: "fmt_d i \<noteq> []"
  by (simp add: fmt_d_def)

lemma fmt_d32_22: "fmt_d32 22 = ''22''"
proof -
  have "digit_char 2 = CHR ''2''" by code_simp
  then show ?thesis by (simp add: fmt_d32_def fmt_d_def show_nat.simps)
qed


definition sftp_repo :: "string \<Rightarrow> string \<Rightarrow> KopiaRepository" where
  "sftp_repo host path = zero_KopiaRepository\<lparr>kr_spec := zero_KopiaRepositorySpec\<lparr>
     rs_StorageType := StorageTypeSFTP, rs_SFTPOptions := (rs_SFTPOptions zero_KopiaRepositorySpec)\<lparr>
       sftp_Host := host, sftp_Path := path\<rparr>\<rparr>\<rparr>"

lemma sftp_repo_simps [simp]:
  "sftp_Host (rs_SFTPOptions (kr_spec (sftp_repo h p))) = h"
  "sftp_Path (rs_SFTPOptions (kr_spec (sftp_repo h p))) = p"
  "sftp_Port (rs_SFTPOptions (kr_spec (sftp_repo h p))) = 0"
  by (simp_all add: sftp_repo_def zero_defs)



end
