(* ===== verification/K8s_Client.thy ===== *)
theory K8s_Client
  imports Kopia_Types
begin

text \<open>
  What the operator's code calls but does not define: the Kubernetes API server behind the
  controller-runtime client, pods it executes commands in, and the library functions of
  apimachinery and controller-runtime. All of it is a parameter.

  \<open>'w api\<close> has one function per call the operator makes; each takes the state \<open>'w\<close> of the
  cluster and returns a result and the next state. Nothing is assumed about \<open>'w\<close> or about the
  functions, so a read may fail, may see anything and may observe a cluster that other clients
  changed since the last call. \<open>env\<close> has the pure library functions. Where a theorem needs what
  the documentation of this code promises, it names it as a hypothesis; the conditions are
  defined at the end of this theory.

  A computation of the operator runs on \<open>'w st\<close>: the cluster and the trace of every effect the
  operator had so far, in order (API writes and pod commands with their success, events,
  metric updates, log lines with command output). The code never reads the trace.
\<close>

section \<open>Effects\<close>

datatype metric_op =
    IncReconcileErrors string
  | SetServerReady string string int
  | DeleteLastSuccessfulBackup string string string
  | DeleteBackupsPerRepository string string
  | DeleteServerReady string string

datatype event_type = EventTypeNormal | EventTypeWarning

datatype action =
    ACreateCronJob CronJob | AUpdateCronJob CronJob
  | ACreateConfigMap ConfigMap | AUpdateConfigMap ConfigMap
  | ACreateDeployment Deployment | AUpdateDeployment Deployment
  | ACreateService Service | AUpdateService Service
  | ACreateSecret Secret | APatchSecret Secret | ADeleteSecret Secret
  | ACreateKopiaBackup KopiaBackup | AUpdateKopiaBackup KopiaBackup
  | ADeleteKopiaBackup KopiaBackup | AStatusUpdateKopiaBackup KopiaBackup
  | AStatusUpdateKopiaRepository KopiaRepository
  | AExec string string string "string list"
  | AEvent NamespacedName event_type string string
  | AMetric metric_op
  | ALog string "string list"

type_synonym entry = "action \<times> bool"

record 'w st =
  world :: 'w
  trace :: "entry list"

section \<open>The parameters\<close>

record Certificate =
  x509_Raw :: string
  x509_NotAfter :: int

text \<open>The template that \<open>generateSelfSignedCert\<close> hands to \<open>x509.CreateCertificate\<close>.\<close>

record CertTemplate =
  ct_SerialNumber :: int
  ct_CommonName :: string
  ct_Organization :: "string list"
  ct_NotBefore :: int
  ct_NotAfter :: int
  ct_KeyUsage :: nat
  ct_ExtKeyUsage :: "nat list"
  ct_BasicConstraintsValid :: bool
  ct_DNSNames :: "string list"
  ct_IPAddresses :: "string list"

record env =
  isPrint_table :: "nat \<Rightarrow> bool"
  SetStatusCondition :: "Condition list \<Rightarrow> Condition \<Rightarrow> Condition list"
  ContainsFinalizer :: "string list \<Rightarrow> string \<Rightarrow> bool"
  AddFinalizer :: "string list \<Rightarrow> string \<Rightarrow> string list"
  RemoveFinalizer :: "string list \<Rightarrow> string \<Rightarrow> string list"
  IsControlledBy :: "ObjectMeta \<Rightarrow> ObjectMeta \<Rightarrow> bool"
  SetControllerReference :: "string \<Rightarrow> ObjectMeta \<Rightarrow> ObjectMeta \<Rightarrow> ObjectMeta result"
  DeepEqual_CronJobSpec :: "CronJobSpec \<Rightarrow> CronJobSpec \<Rightarrow> bool"
  DeepEqual_DeploymentSpec :: "DeploymentSpec \<Rightarrow> DeploymentSpec \<Rightarrow> bool"
  DeepEqual_ServiceSpec :: "ServiceSpec \<Rightarrow> ServiceSpec \<Rightarrow> bool"
  IsDNS1123Subdomain :: "string \<Rightarrow> string list"
  sha256_Sum256 :: "string \<Rightarrow> string"
  pem_Decode :: "string \<Rightarrow> string option"
  pem_EncodeToMemory :: "string \<Rightarrow> string \<Rightarrow> string"
  x509_ParseCertificate :: "string \<Rightarrow> Certificate result"

text \<open>
  The keys of \<open>crypto/rsa\<close> are opaque: \<open>api_rsa_GenerateKey\<close> returns the PKCS\#1 bytes of a new
  private key, and \<open>api_x509_CreateCertificate\<close> signs a template with it. A command in a pod takes
  two calls of \<open>remotecommand\<close>: \<open>api_NewSPDYExecutor\<close> prepares it, and \<open>api_StreamWithContext\<close> runs it
  within the given time and returns what it wrote, also where it failed.
\<close>

record 'w api =
  api_get_KopiaBackup :: "NamespacedName \<Rightarrow> 'w \<Rightarrow> KopiaBackup result \<times> 'w"
  api_get_KopiaRepository :: "NamespacedName \<Rightarrow> 'w \<Rightarrow> KopiaRepository result \<times> 'w"
  api_get_PVC :: "NamespacedName \<Rightarrow> 'w \<Rightarrow> PersistentVolumeClaim result \<times> 'w"
  api_get_ConfigMap :: "NamespacedName \<Rightarrow> 'w \<Rightarrow> ConfigMap result \<times> 'w"
  api_get_CronJob :: "NamespacedName \<Rightarrow> 'w \<Rightarrow> CronJob result \<times> 'w"
  api_get_Deployment :: "NamespacedName \<Rightarrow> 'w \<Rightarrow> Deployment result \<times> 'w"
  api_get_Service :: "NamespacedName \<Rightarrow> 'w \<Rightarrow> Service result \<times> 'w"
  api_get_Secret :: "NamespacedName \<Rightarrow> 'w \<Rightarrow> Secret result \<times> 'w"
  api_list_KopiaRepositories :: "'w \<Rightarrow> KopiaRepository list result \<times> 'w"
  api_list_Pods :: "string \<Rightarrow> (string \<rightharpoonup> string) \<Rightarrow> 'w \<Rightarrow> Pod list result \<times> 'w"
  api_list_KopiaBackups :: "string \<Rightarrow> string \<Rightarrow> string \<Rightarrow> 'w \<Rightarrow> KopiaBackup list result \<times> 'w"
  api_create_CronJob :: "CronJob \<Rightarrow> 'w \<Rightarrow> CronJob result \<times> 'w"
  api_create_ConfigMap :: "ConfigMap \<Rightarrow> 'w \<Rightarrow> ConfigMap result \<times> 'w"
  api_create_Deployment :: "Deployment \<Rightarrow> 'w \<Rightarrow> Deployment result \<times> 'w"
  api_create_Service :: "Service \<Rightarrow> 'w \<Rightarrow> Service result \<times> 'w"
  api_create_Secret :: "Secret \<Rightarrow> 'w \<Rightarrow> Secret result \<times> 'w"
  api_create_KopiaBackup :: "KopiaBackup \<Rightarrow> 'w \<Rightarrow> KopiaBackup result \<times> 'w"
  api_update_CronJob :: "CronJob \<Rightarrow> 'w \<Rightarrow> CronJob result \<times> 'w"
  api_update_ConfigMap :: "ConfigMap \<Rightarrow> 'w \<Rightarrow> ConfigMap result \<times> 'w"
  api_update_Deployment :: "Deployment \<Rightarrow> 'w \<Rightarrow> Deployment result \<times> 'w"
  api_update_Service :: "Service \<Rightarrow> 'w \<Rightarrow> Service result \<times> 'w"
  api_update_KopiaBackup :: "KopiaBackup \<Rightarrow> 'w \<Rightarrow> KopiaBackup result \<times> 'w"
  api_patch_Secret :: "Secret \<Rightarrow> Secret \<Rightarrow> 'w \<Rightarrow> Secret result \<times> 'w"
  api_delete_Secret :: "Secret \<Rightarrow> 'w \<Rightarrow> unit result \<times> 'w"
  api_delete_KopiaBackup :: "KopiaBackup \<Rightarrow> 'w \<Rightarrow> unit result \<times> 'w"
  api_status_KopiaBackup :: "KopiaBackup \<Rightarrow> 'w \<Rightarrow> KopiaBackup result \<times> 'w"
  api_status_KopiaRepository :: "KopiaRepository \<Rightarrow> 'w \<Rightarrow> KopiaRepository result \<times> 'w"
  api_NewSPDYExecutor :: "string \<Rightarrow> string \<Rightarrow> string \<Rightarrow> string list \<Rightarrow> 'w \<Rightarrow> unit result \<times> 'w"
  api_StreamWithContext :: "int \<Rightarrow> string \<Rightarrow> string \<Rightarrow> string \<Rightarrow> string list \<Rightarrow> 'w
                 \<Rightarrow> (string \<times> string \<times> go_error option) \<times> 'w"
  api_rand_Read :: "nat \<Rightarrow> 'w \<Rightarrow> string result \<times> 'w"
  api_rand_Int :: "int \<Rightarrow> 'w \<Rightarrow> int result \<times> 'w"
  api_rsa_GenerateKey :: "nat \<Rightarrow> 'w \<Rightarrow> string result \<times> 'w"
  api_x509_CreateCertificate :: "CertTemplate \<Rightarrow> string \<Rightarrow> 'w \<Rightarrow> string result \<times> 'w"
  api_time_Now :: "'w \<Rightarrow> int \<times> 'w"

section \<open>Calls\<close>

definition client_read :: "('w \<Rightarrow> 'a \<times> 'w) \<Rightarrow> ('w st, 'a) state" where
  "client_read f = State (\<lambda>s. case f (world s) of (r, w) \<Rightarrow> (r, s\<lparr>world := w\<rparr>))"

definition client_call :: "action \<Rightarrow> ('w \<Rightarrow> 'a result \<times> 'w) \<Rightarrow> ('w st, 'a result) state" where
  "client_call a f = State (\<lambda>s. case f (world s) of (r, w) \<Rightarrow>
     (r, s\<lparr>world := w, trace := trace s @ [(a, ok r)]\<rparr>))"

definition emit :: "action \<Rightarrow> ('w st, unit) state" where
  "emit a = State (\<lambda>s. ((), s\<lparr>trace := trace s @ [(a, True)]\<rparr>))"

definition pod_exec :: "'w api \<Rightarrow> int \<Rightarrow> string \<Rightarrow> string \<Rightarrow> string \<Rightarrow> string list
    \<Rightarrow> ('w st, string \<times> string \<times> go_error option) state" where
  "pod_exec api tmo ns pod cont cmd = State (\<lambda>s. case api_StreamWithContext api tmo ns pod cont cmd (world s) of
     ((out, errout, e), w) \<Rightarrow>
       ((out, errout, e), s\<lparr>world := w, trace := trace s @ [(AExec ns pod cont cmd, e = None)]\<rparr>))"

abbreviation "Get_KopiaBackup api k \<equiv> client_read (api_get_KopiaBackup api k)"
abbreviation "Get_KopiaRepository api k \<equiv> client_read (api_get_KopiaRepository api k)"
abbreviation "Get_PVC api k \<equiv> client_read (api_get_PVC api k)"
abbreviation "Get_ConfigMap api k \<equiv> client_read (api_get_ConfigMap api k)"
abbreviation "Get_CronJob api k \<equiv> client_read (api_get_CronJob api k)"
abbreviation "Get_Deployment api k \<equiv> client_read (api_get_Deployment api k)"
abbreviation "Get_Service api k \<equiv> client_read (api_get_Service api k)"
abbreviation "Get_Secret api k \<equiv> client_read (api_get_Secret api k)"
abbreviation "List_KopiaRepositories api \<equiv> client_read (api_list_KopiaRepositories api)"
abbreviation "List_Pods api ns sel \<equiv> client_read (api_list_Pods api ns sel)"
abbreviation "List_KopiaBackups api ns f v \<equiv> client_read (api_list_KopiaBackups api ns f v)"
abbreviation "Create_CronJob api x \<equiv> client_call (ACreateCronJob x) (api_create_CronJob api x)"
abbreviation "Create_ConfigMap api x \<equiv> client_call (ACreateConfigMap x) (api_create_ConfigMap api x)"
abbreviation "Create_Deployment api x \<equiv> client_call (ACreateDeployment x) (api_create_Deployment api x)"
abbreviation "Create_Service api x \<equiv> client_call (ACreateService x) (api_create_Service api x)"
abbreviation "Create_Secret api x \<equiv> client_call (ACreateSecret x) (api_create_Secret api x)"
abbreviation "Create_KopiaBackup api x \<equiv>
  client_call (ACreateKopiaBackup x) (api_create_KopiaBackup api x)"
abbreviation "Update_CronJob api x \<equiv> client_call (AUpdateCronJob x) (api_update_CronJob api x)"
abbreviation "Update_ConfigMap api x \<equiv> client_call (AUpdateConfigMap x) (api_update_ConfigMap api x)"
abbreviation "Update_Deployment api x \<equiv> client_call (AUpdateDeployment x) (api_update_Deployment api x)"
abbreviation "Update_Service api x \<equiv> client_call (AUpdateService x) (api_update_Service api x)"
abbreviation "Update_KopiaBackup api x \<equiv>
  client_call (AUpdateKopiaBackup x) (api_update_KopiaBackup api x)"
abbreviation "Patch_Secret api old x \<equiv> client_call (APatchSecret x) (api_patch_Secret api old x)"
abbreviation "Delete_Secret api x \<equiv> client_call (ADeleteSecret x) (api_delete_Secret api x)"
abbreviation "Delete_KopiaBackup api x \<equiv>
  client_call (ADeleteKopiaBackup x) (api_delete_KopiaBackup api x)"
abbreviation "Status_Update_KopiaBackup api x \<equiv>
  client_call (AStatusUpdateKopiaBackup x) (api_status_KopiaBackup api x)"
abbreviation "Status_Update_KopiaRepository api x \<equiv>
  client_call (AStatusUpdateKopiaRepository x) (api_status_KopiaRepository api x)"

text \<open>\<open>ctrl.Result\<close>: the delay after which the request is queued again (0 for none).\<close>

record ctrl_Result =
  RequeueAfter :: int

definition no_requeue :: ctrl_Result where
  "no_requeue = \<lparr>RequeueAfter = 0\<rparr>"

definition requeue_after :: "int \<Rightarrow> ctrl_Result" where
  "requeue_after d = \<lparr>RequeueAfter = d\<rparr>"

type_synonym outcome = "ctrl_Result \<times> go_error option"

section \<open>Weakest preconditions of the calls\<close>

lemma wp_client_read [wp_simps, simp]:
  "wp (client_read f) Q s = (case f (world s) of (r, w) \<Rightarrow> Q r (s\<lparr>world := w\<rparr>))"
  by (simp add: wp_def client_read_def split: prod.splits)

lemma wp_client_call [wp_simps, simp]:
  "wp (client_call a f) Q s
     = (case f (world s) of (r, w) \<Rightarrow> Q r (s\<lparr>world := w, trace := trace s @ [(a, ok r)]\<rparr>))"
  by (simp add: wp_def client_call_def split: prod.splits)

lemma wp_emit [wp_simps, simp]:
  "wp (emit a) Q s = Q () (s\<lparr>trace := trace s @ [(a, True)]\<rparr>)"
  by (simp add: wp_def emit_def)

lemma wp_pod_exec [wp_simps, simp]:
  "wp (pod_exec api tmo ns pod cont cmd) Q s = (case api_StreamWithContext api tmo ns pod cont cmd (world s) of
     ((out, errout, e), w) \<Rightarrow> Q (out, errout, e)
       (s\<lparr>world := w, trace := trace s @ [(AExec ns pod cont cmd, e = None)]\<rparr>))"
  by (simp add: wp_def pod_exec_def split: prod.splits)

section \<open>The effects a computation can have\<close>

text \<open>
  \<open>emits_only P m\<close>: whatever the cluster does, \<open>m\<close> only appends to the trace, and every entry it
  appends satisfies \<open>P\<close>.
\<close>

definition emits_only :: "(entry \<Rightarrow> bool) \<Rightarrow> ('w st, 'a) state \<Rightarrow> bool" where
  "emits_only P m \<longleftrightarrow>
     (\<forall>s. \<exists>t. trace (snd (run_state m s)) = trace s @ t \<and> (\<forall>x \<in> set t. P x))"

named_theorems emits_intros \<open>introduction rules of \<open>emits_only\<close>\<close>

lemma emits_only_ret [emits_intros]: "emits_only P (ret a)"
  by (simp add: emits_only_def)

lemma emits_only_bind [emits_intros]:
  assumes "emits_only P m" and "\<And>a. emits_only P (f a)"
  shows "emits_only P (State_Monad.bind m f)"
  unfolding emits_only_def
proof
  fix s
  obtain a s' where m: "run_state m s = (a, s')" by (cases "run_state m s")
  from assms(1) m obtain t where t: "trace s' = trace s @ t" "\<forall>x \<in> set t. P x"
    unfolding emits_only_def by (metis snd_conv)
  from assms(2) obtain u where u: "trace (snd (run_state (f a) s')) = trace s' @ u" "\<forall>x \<in> set u. P x"
    unfolding emits_only_def by metis
  from m t u show "\<exists>t. trace (snd (run_state (State_Monad.bind m f) s)) = trace s @ t \<and> (\<forall>x\<in>set t. P x)"
    by (intro exI [of _ "t @ u"]) auto
qed

lemma emits_only_if [emits_intros]:
  "(b \<Longrightarrow> emits_only P m) \<Longrightarrow> (\<not> b \<Longrightarrow> emits_only P n) \<Longrightarrow> emits_only P (if b then m else n)"
  by simp

lemma emits_only_case_sum [emits_intros]:
  "(\<And>e. r = Inl e \<Longrightarrow> emits_only P (f e)) \<Longrightarrow> (\<And>v. r = Inr v \<Longrightarrow> emits_only P (g v)) \<Longrightarrow>
     emits_only P (case r of Inl e \<Rightarrow> f e | Inr v \<Rightarrow> g v)"
  by (cases r) simp_all

lemma emits_only_case_option [emits_intros]:
  "(r = None \<Longrightarrow> emits_only P m) \<Longrightarrow> (\<And>v. r = Some v \<Longrightarrow> emits_only P (g v)) \<Longrightarrow>
     emits_only P (case r of None \<Rightarrow> m | Some v \<Rightarrow> g v)"
  by (cases r) simp_all

lemma emits_only_case_prod [emits_intros]:
  "(\<And>x y. p = (x, y) \<Longrightarrow> emits_only P (f x y)) \<Longrightarrow> emits_only P (case p of (x, y) \<Rightarrow> f x y)"
  by (cases p) simp_all

lemma emits_only_read [emits_intros]: "emits_only P (client_read f)"
  by (auto simp: emits_only_def client_read_def split: prod.splits)

lemma emits_only_call [emits_intros]:
  "P (a, True) \<Longrightarrow> P (a, False) \<Longrightarrow> emits_only P (client_call a f)"
proof -
  assume "P (a, True)" "P (a, False)"
  then have "P (a, b)" for b by (cases b) simp_all
  then show ?thesis by (auto simp: emits_only_def client_call_def split: prod.splits)
qed

lemma emits_only_emit [emits_intros]: "P (a, True) \<Longrightarrow> emits_only P (emit a)"
  by (auto simp: emits_only_def emit_def)

lemma emits_only_exec [emits_intros]:
  "P (AExec ns pod cont cmd, True) \<Longrightarrow> P (AExec ns pod cont cmd, False) \<Longrightarrow>
     emits_only P (pod_exec api tmo ns pod cont cmd)"
proof -
  assume "P (AExec ns pod cont cmd, True)" "P (AExec ns pod cont cmd, False)"
  then have "P (AExec ns pod cont cmd, b)" for b by (cases b) simp_all
  then show ?thesis by (auto simp: emits_only_def pod_exec_def split: prod.splits)
qed

lemma emits_only_mono: "emits_only P m \<Longrightarrow> (\<And>x. P x \<Longrightarrow> Q x) \<Longrightarrow> emits_only Q m"
  unfolding emits_only_def by blast

lemma emits_only_wp:
  "emits_only P m \<Longrightarrow> wp m (\<lambda>a s'. \<exists>t. trace s' = trace s @ t \<and> (\<forall>x \<in> set t. P x)) s"
  by (simp add: emits_only_def wp_run)

lemma emits_onlyI_wp:
  "(\<And>s. wp m (\<lambda>a s'. \<exists>t. trace s' = trace s @ t \<and> (\<forall>x \<in> set t. P x)) s) \<Longrightarrow> emits_only P m"
  by (simp add: emits_only_def wp_run)

lemma emits_onlyD:
  "emits_only P m \<Longrightarrow> run_state m s = (a, s') \<Longrightarrow> \<exists>t. trace s' = trace s @ t \<and> (\<forall>x \<in> set t. P x)"
  unfolding emits_only_def by (metis snd_conv)

text \<open>The entries a computation appends.\<close>

definition emitted :: "'w st \<Rightarrow> 'w st \<Rightarrow> entry list" where
  "emitted s s' = drop (length (trace s)) (trace s')"

lemma emitted_append [simp]: "trace s' = trace s @ t \<Longrightarrow> emitted s s' = t"
  by (simp add: emitted_def)

section \<open>Documented behaviour of the library functions\<close>

text \<open>
  \<open>meta.SetStatusCondition\<close>: afterwards the condition of the given type is the given one, and
  conditions of other types are as before.
\<close>

definition find_condition :: "Condition list \<Rightarrow> string \<Rightarrow> Condition option" where
  "find_condition cs t = List.find (\<lambda>c. co_Type c = t) cs"

definition set_condition_law :: "env \<Rightarrow> bool" where
  "set_condition_law e \<longleftrightarrow> (\<forall>cs c t. find_condition (SetStatusCondition e cs c) t
     = (if t = co_Type c then Some c else find_condition cs t))"

text \<open>\<open>controllerutil\<close>: the finalizer functions treat the list as a set.\<close>

definition finalizer_law :: "env \<Rightarrow> bool" where
  "finalizer_law e \<longleftrightarrow> (\<forall>fs f.
     (ContainsFinalizer e fs f \<longleftrightarrow> f \<in> set fs) \<and>
     set (AddFinalizer e fs f) = insert f (set fs) \<and>
     set (RemoveFinalizer e fs f) = set fs - {f})"

text \<open>
  \<open>SetControllerReference\<close> changes nothing but the owner references, and afterwards the owner
  controls the object.
\<close>

definition owner_law :: "env \<Rightarrow> bool" where
  "owner_law e \<longleftrightarrow> (\<forall>kind owner m m'. SetControllerReference e kind owner m = Inr m' \<longrightarrow>
     m' = m\<lparr>om_OwnerReferences := om_OwnerReferences m'\<rparr> \<and> IsControlledBy e m' owner)"

text \<open>\<open>metav1.IsControlledBy\<close> looks at nothing but the owner references and the owner's UID.\<close>

definition controlled_by_law :: "env \<Rightarrow> bool" where
  "controlled_by_law e \<longleftrightarrow> (\<forall>m m' owner owner'.
     om_OwnerReferences m = om_OwnerReferences m' \<and> om_UID owner = om_UID owner' \<longrightarrow>
     IsControlledBy e m owner = IsControlledBy e m' owner')"

text \<open>\<open>equality.Semantic.DeepEqual\<close> holds of equal values.\<close>

definition deep_equal_refl :: "env \<Rightarrow> bool" where
  "deep_equal_refl e \<longleftrightarrow> (\<forall>x. DeepEqual_CronJobSpec e x x) \<and> (\<forall>x. DeepEqual_DeploymentSpec e x x)
     \<and> (\<forall>x. DeepEqual_ServiceSpec e x x)"

text \<open>
  \<open>encoding/pem\<close> decodes what it encoded; a certificate made by \<open>x509.CreateCertificate\<close> parses, and
  carries the template's expiry cut to whole seconds.
\<close>

definition cert_law :: "env \<Rightarrow> 'w api \<Rightarrow> bool" where
  "cert_law e api \<longleftrightarrow>
     (\<forall>ty b. pem_Decode e (pem_EncodeToMemory e ty b) = Some b) \<and>
     (\<forall>t k w der w'. api_x509_CreateCertificate api t k w = (Inr der, w') \<longrightarrow>
        (\<exists>c. x509_ParseCertificate e der = Inr c \<and> x509_Raw c = der
           \<and> ct_NotAfter t - time_Second < x509_NotAfter c \<and> x509_NotAfter c \<le> ct_NotAfter t))"

text \<open>\<open>rand.Read\<close> fills the whole slice or fails; \<open>sha256.Sum256\<close> has 32 bytes.\<close>

definition rand_law :: "'w api \<Rightarrow> bool" where
  "rand_law api \<longleftrightarrow> (\<forall>n w b w'. api_rand_Read api n w = (Inr b, w') \<longrightarrow> length b = n)"

end
