(* ===== verification/Kopia_Naming.thy ===== *)
theory Kopia_Naming
  imports Kopia_Types
begin

text \<open>
  The names of the resources the operator manages (internal/naming/names.go), and which inputs
  give distinct names.
\<close>

section \<open>Definitions\<close>

definition CronJobPrefix :: string where
  "CronJobPrefix = ''snapshot-''"

text \<open>The conversion \<open>string(b)\<close> of a byte is the UTF-8 encoding of the rune with that number.\<close>

definition CronJobName :: "string \<Rightarrow> string" where
  "CronJobName pvcName =
     (if pvcName = '''' then CronJobPrefix @ ''unknown''
      else if 42 < length pvcName
        then CronJobPrefix @ take 42 pvcName @ ''-'' @ encode_rune (byte_of (last pvcName))
      else CronJobPrefix @ pvcName)"

definition ServerDeploymentName :: "string \<Rightarrow> string" where
  "ServerDeploymentName repoName = ''kopia-server-'' @ repoName"

definition ServerServiceName :: "string \<Rightarrow> string" where
  "ServerServiceName repoName = ''kopia-server-'' @ repoName"

definition TLSSecretName :: "string \<Rightarrow> string" where
  "TLSSecretName repoName = ''kopia-server-tls-'' @ repoName"

definition UserSecretName :: "string \<Rightarrow> string \<Rightarrow> string" where
  "UserSecretName namespace pvcName = ''kopia-backup-user-'' @ namespace @ ''-'' @ pvcName"

definition ConfigMapName :: "string \<Rightarrow> string" where
  "ConfigMapName repoName = ''kopia-config-'' @ repoName"

definition Username :: "string \<Rightarrow> string \<Rightarrow> string \<Rightarrow> string" where
  "Username namespace pvcName hostname = namespace @ ''-'' @ pvcName @ ''@'' @ hostname"

definition ServerLabels :: "string \<Rightarrow> (string \<rightharpoonup> string)" where
  "ServerLabels repoName =
     [''app'' \<mapsto> ''kopia-server'',
      ''kopia-repository'' \<mapsto> repoName,
      ''app.kubernetes.io/name'' \<mapsto> ''kopia-server'',
      ''app.kubernetes.io/instance'' \<mapsto> repoName,
      ''app.kubernetes.io/managed-by'' \<mapsto> ''kopia-operator'']"

section \<open>Separators\<close>

text \<open>Two strings joined by a character that does not occur in the first determine both.\<close>

lemma append_sep_inject:
  assumes "c \<notin> set xs" "c \<notin> set ys"
  shows "xs @ c # us = ys @ c # vs \<longleftrightarrow> xs = ys \<and> us = vs"
proof
  assume eq: "xs @ c # us = ys @ c # vs"
  have "takeWhile (\<lambda>x. x \<noteq> c) (xs @ c # us) = xs" "takeWhile (\<lambda>x. x \<noteq> c) (ys @ c # vs) = ys"
    using assms by (auto simp: takeWhile_append)
  with eq show "xs = ys \<and> us = vs" by (metis append_eq_append_conv list.inject same_append_eq)
qed simp

lemma append_sep_inject_right:
  assumes "c \<notin> set us" "c \<notin> set vs"
  shows "xs @ c # us = ys @ c # vs \<longleftrightarrow> xs = ys \<and> us = vs"
proof
  assume "xs @ c # us = ys @ c # vs"
  then have "rev us @ c # rev xs = rev vs @ c # rev ys"
    by (metis append.assoc append_Cons append_Nil rev.simps(2) rev_append)
  with assms show "xs = ys \<and> us = vs" by (simp add: append_sep_inject)
qed simp

section \<open>CronJob names\<close>

lemma CronJobName_short: "pvc \<noteq> '''' \<Longrightarrow> length pvc \<le> 42 \<Longrightarrow> CronJobName pvc = CronJobPrefix @ pvc"
  by (simp add: CronJobName_def)

lemma ascii_last: "ascii s \<Longrightarrow> s \<noteq> [] \<Longrightarrow> byte_of (last s) < 128"
  by (simp add: ascii_def)

lemma CronJobName_long:
  "ascii pvc \<Longrightarrow> 42 < length pvc \<Longrightarrow>
     CronJobName pvc = CronJobPrefix @ take 42 pvc @ ''-'' @ [last pvc]"
  using ascii_last [of pvc] by (auto simp: CronJobName_def encode_rune_ascii)

lemma CronJobName_HasPrefix: "strings_HasPrefix (CronJobName pvc) CronJobPrefix"
  by (simp add: strings_HasPrefix_def CronJobName_def)

lemma length_encode_byte: "length (encode_rune (byte_of c)) \<le> 2"
proof -
  have "byte_of c < 256" by (simp add: byte_of_def)
  then show ?thesis by (auto simp: encode_rune_def Let_def)
qed

text \<open>
  C37: every CronJob name has the prefix by which the operator recognises its own job pods, and
  is between 10 and 54 bytes long; an ASCII PVC name of more than 42 bytes gives exactly 53
  bytes.
\<close>

theorem CronJobName_bounds:
  "strings_HasPrefix (CronJobName pvc) CronJobPrefix
   \<and> 10 \<le> length (CronJobName pvc) \<and> length (CronJobName pvc) \<le> 54
   \<and> (42 < length pvc \<and> ascii pvc \<longrightarrow> length (CronJobName pvc) = 53)"
proof (intro conjI impI)
  show "strings_HasPrefix (CronJobName pvc) CronJobPrefix" by (rule CronJobName_HasPrefix)
  show "10 \<le> length (CronJobName pvc)"
    by (cases pvc) (auto simp: CronJobName_def CronJobPrefix_def)
  show "length (CronJobName pvc) \<le> 54"
    using length_encode_byte [of "last pvc"] by (auto simp: CronJobName_def CronJobPrefix_def)
  show "42 < length pvc \<and> ascii pvc \<Longrightarrow> length (CronJobName pvc) = 53"
    by (auto simp: CronJobName_long CronJobPrefix_def)
qed

theorem CronJobName_bounds_witness:
  "strings_HasPrefix (CronJobName (replicate 50 CHR ''a'')) CronJobPrefix
   \<and> length (CronJobName (replicate 50 CHR ''a'')) = 53"
proof -
  have "ascii (replicate 50 CHR ''a'')" by (simp add: ascii_def byte_of_def)
  then show ?thesis using CronJobName_bounds [of "replicate 50 CHR ''a''"] by simp
qed

text \<open>
  C36: two ASCII PVC names collide on one CronJob name exactly when both are longer than 42 bytes
  and agree in the first 42 and in the last byte.
\<close>

theorem CronJobName_collisions:
  assumes "ascii p" "ascii q" "p \<noteq> ''''" "q \<noteq> ''''"
  shows "CronJobName p = CronJobName q \<longleftrightarrow>
     p = q \<or> (42 < length p \<and> 42 < length q \<and> take 42 p = take 42 q \<and> last p = last q)"
proof -
  have len: "length (CronJobName x) = (if 42 < length x then 53 else 9 + length x)"
    if "ascii x" "x \<noteq> ''''" for x
    using that by (auto simp: CronJobName_long CronJobName_short CronJobPrefix_def)
  consider "42 < length p" "42 < length q" | "42 < length p" "\<not> 42 < length q"
    | "\<not> 42 < length p" "42 < length q" | "\<not> 42 < length p" "\<not> 42 < length q"
    by blast
  then show ?thesis
  proof cases
    case 1
    then show ?thesis using assms by (auto simp: CronJobName_long)
  next
    case 2
    then have "length (CronJobName p) \<noteq> length (CronJobName q)" using assms len by auto
    with 2 show ?thesis by auto
  next
    case 3
    then have "length (CronJobName p) \<noteq> length (CronJobName q)" using assms len by auto
    with 3 show ?thesis by auto
  next
    case 4
    then show ?thesis using assms by (auto simp: CronJobName_short)
  qed
qed

theorem CronJobName_collisions_witness:
  "CronJobName ''db'' \<noteq> CronJobName ''web''
   \<and> CronJobName (replicate 42 CHR ''a'' @ ''x1'') = CronJobName (replicate 42 CHR ''a'' @ ''y1'')"
proof
  show "CronJobName ''db'' \<noteq> CronJobName ''web''"
    using CronJobName_collisions [of "''db''" "''web''"] by (simp add: ascii_def byte_of_def)
  have "ascii (replicate 42 CHR ''a'' @ ''x1'')" "ascii (replicate 42 CHR ''a'' @ ''y1'')"
    by (auto simp: ascii_def byte_of_def)
  then show "CronJobName (replicate 42 CHR ''a'' @ ''x1'') = CronJobName (replicate 42 CHR ''a'' @ ''y1'')"
    using CronJobName_collisions [of "replicate 42 CHR ''a'' @ ''x1''" "replicate 42 CHR ''a'' @ ''y1''"]
    by simp
qed

section \<open>User names\<close>

text \<open>
  Where no namespace contains a dash and neither host name contains an at sign, the name of
  a server user determines the namespace, the PVC and the host.
\<close>

lemma Username_inject:
  assumes "CHR ''-'' \<notin> set ns" "CHR ''-'' \<notin> set ns'"
    and "CHR ''@'' \<notin> set host" "CHR ''@'' \<notin> set host'"
  shows "Username ns pvc host = Username ns' pvc' host' \<longleftrightarrow> ns = ns' \<and> pvc = pvc' \<and> host = host'"
proof -
  have "Username ns pvc host = Username ns' pvc' host' \<longleftrightarrow>
      ns = ns' \<and> pvc @ CHR ''@'' # host = pvc' @ CHR ''@'' # host'"
    using append_sep_inject [OF assms(1,2)] by (simp add: Username_def)
  also have "\<dots> \<longleftrightarrow> ns = ns' \<and> pvc = pvc' \<and> host = host'"
    using append_sep_inject_right [OF assms(3,4)] by simp
  finally show ?thesis .
qed

text \<open>
  C38: a dash in a namespace moves freely between the namespace and the PVC name, so two backups
  in different namespaces get one user on the Kopia server and, in their own namespaces,
  credential Secrets of one name.
\<close>

theorem Username_collision:
  "Username (a @ ''-'' @ b) c host = Username a (b @ ''-'' @ c) host
   \<and> UserSecretName (a @ ''-'' @ b) c = UserSecretName a (b @ ''-'' @ c)"
  by (simp add: Username_def UserSecretName_def)

section \<open>Managed Secrets\<close>

lemma TLSSecretName_neq_UserSecretName: "TLSSecretName r \<noteq> UserSecretName ns pvc"
  by (simp add: TLSSecretName_def UserSecretName_def)

end
