(* ===== verification/Kopia_Metrics.thy ===== *)
theory Kopia_Metrics
  imports K8s_Client
begin

text \<open>
  The operator's Prometheus metrics (internal/metrics/metrics.go). A metric update is an entry of
  the trace; the value a gauge or counter shows is read off the trace.
\<close>

section \<open>Definitions\<close>

text \<open>The metrics themselves, \<open>prometheus.NewGaugeVec\<close> and \<open>NewCounterVec\<close> with their options and labels.\<close>

datatype metric_kind = GaugeVec | CounterVec

record metric_vec =
  mv_Kind :: metric_kind
  mv_Namespace :: string
  mv_Name :: string
  mv_Labels :: "string list"

definition BackupsPerRepository_vec :: metric_vec where
  "BackupsPerRepository_vec = \<lparr>mv_Kind = GaugeVec, mv_Namespace = ''kopia_operator'', mv_Name = ''backups_per_repository'',
     mv_Labels = [''repository'', ''namespace'']\<rparr>"

definition LastSuccessfulBackup_vec :: metric_vec where
  "LastSuccessfulBackup_vec = \<lparr>mv_Kind = GaugeVec, mv_Namespace = ''kopia_operator'', mv_Name = ''last_successful_backup_timestamp'',
     mv_Labels = [''backup'', ''namespace'', ''pvc'']\<rparr>"

definition ReconcileErrors_vec :: metric_vec where
  "ReconcileErrors_vec = \<lparr>mv_Kind = CounterVec, mv_Namespace = ''kopia_operator'', mv_Name = ''reconcile_errors_total'',
     mv_Labels = [''controller'']\<rparr>"

definition ServerReady_vec :: metric_vec where
  "ServerReady_vec = \<lparr>mv_Kind = GaugeVec, mv_Namespace = ''kopia_operator'', mv_Name = ''server_ready'',
     mv_Labels = [''repository'', ''namespace'']\<rparr>"

definition CleanupBackupMetrics :: "string \<Rightarrow> string \<Rightarrow> string \<Rightarrow> ('w st, unit) state" where
  "CleanupBackupMetrics backup namespace pvc =
     emit (AMetric (DeleteLastSuccessfulBackup backup namespace pvc))"

definition CleanupRepositoryMetrics :: "string \<Rightarrow> string \<Rightarrow> ('w st, unit) state" where
  "CleanupRepositoryMetrics repository namespace = do {
     emit (AMetric (DeleteBackupsPerRepository repository namespace));
     emit (AMetric (DeleteServerReady repository namespace))
   }"

text \<open>\<open>reconcile_errors_total\<close> for a controller, after a trace.\<close>

definition ReconcileErrors :: "string \<Rightarrow> entry list \<Rightarrow> nat" where
  "ReconcileErrors controller t = length (filter (\<lambda>x. fst x = AMetric (IncReconcileErrors controller)) t)"

text \<open>\<open>server_ready\<close> for a repository, after a trace: the last value set, unless deleted since.\<close>

fun server_ready_step :: "string \<Rightarrow> string \<Rightarrow> int option \<Rightarrow> entry \<Rightarrow> int option" where
  "server_ready_step r n g (AMetric (SetServerReady r' n' v), b) = (if r' = r \<and> n' = n then Some v else g)"
| "server_ready_step r n g (AMetric (DeleteServerReady r' n'), b) = (if r' = r \<and> n' = n then None else g)"
| "server_ready_step r n g _ = g"

definition ServerReady_gauge :: "string \<Rightarrow> string \<Rightarrow> entry list \<Rightarrow> int option" where
  "ServerReady_gauge r n t = foldl (server_ready_step r n) None t"

section \<open>Reading the trace\<close>

lemma ReconcileErrors_append [simp]:
  "ReconcileErrors c (t @ u) = ReconcileErrors c t + ReconcileErrors c u"
  by (simp add: ReconcileErrors_def)

lemma ReconcileErrors_Nil [simp]: "ReconcileErrors c [] = 0"
  by (simp add: ReconcileErrors_def)

lemma ReconcileErrors_Cons:
  "ReconcileErrors c (x # t) =
     (if fst x = AMetric (IncReconcileErrors c) then 1 else 0) + ReconcileErrors c t"
  by (simp add: ReconcileErrors_def)

lemma ReconcileErrors_none:
  "(\<forall>x \<in> set t. fst x \<noteq> AMetric (IncReconcileErrors c)) \<Longrightarrow> ReconcileErrors c t = 0"
  by (simp add: ReconcileErrors_def)

lemma ServerReady_gauge_snoc:
  "ServerReady_gauge r n (t @ [x]) = server_ready_step r n (ServerReady_gauge r n t) x"
  by (simp add: ServerReady_gauge_def)

lemma CleanupRepositoryMetrics_gauge:
  "wp (CleanupRepositoryMetrics r n) (\<lambda>_ s'. ServerReady_gauge r n (trace s') = None) s"
  by (simp add: CleanupRepositoryMetrics_def ServerReady_gauge_def)

section \<open>Counting the errors of a controller\<close>

text \<open>
  The exported \<open>Reconcile\<close> of the KopiaBackup and KopiaRepository controllers: run the
  controller's own \<open>reconcile\<close> and count an error.
\<close>

definition counting_errors :: "string \<Rightarrow> ('w st, outcome) state \<Rightarrow> ('w st, outcome) state" where
  "counting_errors controller m = do {
     (result, err) \<leftarrow> m;
     if err \<noteq> None then do {
       emit (AMetric (IncReconcileErrors controller));
       ret (result, err)
     } else ret (result, err)
   }"

lemma counting_errors_value:
  "wp (counting_errors c m) (\<lambda>out _. out = fst (run_state m s)) s"
  by (auto simp: counting_errors_def wp_run split: prod.splits)

lemma counting_errors_counter:
  assumes "emits_only (\<lambda>x. fst x \<noteq> AMetric (IncReconcileErrors c)) m"
  shows "wp (counting_errors c m) (\<lambda>(res, err) s'. ReconcileErrors c (trace s')
     = ReconcileErrors c (trace s) + (if err = None then 0 else 1)) s"
proof -
  obtain res err s' where m: "run_state m s = ((res, err), s')" by (metis prod.exhaust)
  from emits_onlyD [OF assms m] obtain t where t: "trace s' = trace s @ t"
    "\<forall>x \<in> set t. fst x \<noteq> AMetric (IncReconcileErrors c)" by blast
  then have "ReconcileErrors c (trace s') = ReconcileErrors c (trace s)"
    by (simp add: ReconcileErrors_none)
  with m show ?thesis
    by (simp add: counting_errors_def wp_def emit_def ReconcileErrors_Cons)
qed

lemma emits_only_counting_errors [emits_intros]:
  "emits_only P m \<Longrightarrow> P (AMetric (IncReconcileErrors c), True) \<Longrightarrow> emits_only P (counting_errors c m)"
  unfolding counting_errors_def by (intro emits_intros) auto

end
