(* ===== verification/Kopia_Interfaces.thy ===== *)
theory Kopia_Interfaces
  imports K8s_Client Kopia_Naming Kopia_Metrics
begin

text \<open>
  The two interfaces of internal/kopia/interfaces.go as records of operations, the contracts
  their users rely on as locales, and the deferred status update both controllers of the custom
  resources use.
\<close>

section \<open>ServerManager and UserManager\<close>

record 'w ServerManager =
  sm_EnsureServerDeployment :: "KopiaRepository \<Rightarrow> ('w st, unit result) state"
  sm_EnsureServerService :: "KopiaRepository \<Rightarrow> ('w st, unit result) state"
  sm_EnsureTLSSecret :: "KopiaRepository \<Rightarrow> ('w st, string result) state"
  sm_IsServerReady :: "KopiaRepository \<Rightarrow> ('w st, bool \<times> go_error option) state"
  sm_GetServerURL :: "KopiaRepository \<Rightarrow> string"

record 'w UserManager =
  um_EnsureUser :: "KopiaBackup \<Rightarrow> KopiaRepository \<Rightarrow> ('w st, string result) state"
  um_DeleteUser :: "KopiaBackup \<Rightarrow> KopiaRepository \<Rightarrow> ('w st, unit result) state"

section \<open>Status updates at the end of a reconcile\<close>

text \<open>
  The deferred function of both \<open>reconcile\<close> methods: write the status of the object as it is in
  memory, and return the write's error where there is no other.
\<close>

definition deferred_status :: "('o \<Rightarrow> ('w st, 'o result) state) \<Rightarrow> 'o \<Rightarrow> outcome \<Rightarrow> ('w st, outcome) state" where
  "deferred_status upd obj out = do {
     u \<leftarrow> upd obj;
     ret (fst out, (case snd out of None \<Rightarrow> err_of u | Some e \<Rightarrow> Some e))
   }"

lemma emits_only_deferred_status [emits_intros]:
  "emits_only P (upd obj) \<Longrightarrow> emits_only P (deferred_status upd obj out)"
  unfolding deferred_status_def by (intro emits_intros) auto

section \<open>Create or update\<close>

text \<open>The error of a call whose object is not used.\<close>

definition discard :: "'a result \<Rightarrow> unit result" where
  "discard r = (case r of Inl e \<Rightarrow> Inl e | Inr _ \<Rightarrow> Inr ())"

lemma discard_simps [simp]: "discard (Inl e) = Inl e" "discard (Inr v) = Inr ()" "ok (discard r) = ok r"
  by (simp_all add: discard_def split: sum.splits)

text \<open>
  The contract of the operations that bring one object of the cluster to its desired form (a
  Deployment, a Service, a ConfigMap, a CronJob): for an input \<open>a\<close> they make at most one call that
  writes, the call is one that \<open>writes a\<close> allows, it is the last thing they do, and they succeed
  exactly if it did.
\<close>

definition ensured_post :: "(action \<Rightarrow> bool) \<Rightarrow> 'w st \<Rightarrow> 'a result \<Rightarrow> 'w st \<Rightarrow> bool" where
  "ensured_post W s r s' \<longleftrightarrow>
     trace s' = trace s \<or> (\<exists>x. W x \<and> trace s' = trace s @ [(x, ok r)])"

lemma ensured_postI:
  "trace s' = trace s \<Longrightarrow> ensured_post W s r s'"
  "trace s' = trace s @ [(x, ok r)] \<Longrightarrow> W x \<Longrightarrow> ensured_post W s r s'"
  by (auto simp: ensured_post_def)

locale ensured =
  fixes ens :: "'a \<Rightarrow> ('w st, unit result) state"
    and writes :: "'a \<Rightarrow> action \<Rightarrow> bool"
  assumes ensures: "wp (ens a) (ensured_post (writes a) s) s"
begin

lemma run_cases:
  assumes "run_state (ens a) s = (r, s')"
  obtains "trace s' = trace s" | x where "writes a x" "trace s' = trace s @ [(x, ok r)]"
  using wpD [OF ensures assms] by (auto simp: ensured_post_def)

lemma one_write: "run_state (ens a) s = (r, s') \<Longrightarrow> length (emitted s s') \<le> 1"
  by (erule run_cases) auto

lemma write_result: "run_state (ens a) s = (r, s') \<Longrightarrow> x \<in> set (emitted s s') \<Longrightarrow> snd x = ok r"
  by (erule run_cases) auto

lemma effects: "emits_only (\<lambda>x. writes a (fst x)) (ens a)"
  unfolding emits_only_def
proof
  fix s
  from ensures [of a s] show "\<exists>t. trace (snd (run_state (ens a) s)) = trace s @ t \<and> (\<forall>x \<in> set t. writes a (fst x))"
    by (auto simp: wp_run ensured_post_def)
qed

end

section \<open>Conditions\<close>

text \<open>The contract of \<open>meta.SetStatusCondition\<close>, for the controllers that only call it.\<close>

locale condition_setter =
  fixes setc :: "Condition list \<Rightarrow> Condition \<Rightarrow> Condition list"
  assumes find_set: "find_condition (setc cs c) t = (if t = co_Type c then Some c else find_condition cs t)"
begin

lemma find_set_same [simp]: "find_condition (setc cs c) (co_Type c) = Some c"
  by (simp add: find_set)

lemma find_set_other [simp]: "t \<noteq> co_Type c \<Longrightarrow> find_condition (setc cs c) t = find_condition cs t"
  by (simp add: find_set)

lemma set_twice: "co_Type c = co_Type d \<Longrightarrow> find_condition (setc (setc cs c) d) t = find_condition (setc cs d) t"
  by (simp add: find_set)

lemma set_commute:
  "co_Type c \<noteq> co_Type d \<Longrightarrow>
     find_condition (setc (setc cs c) d) t = find_condition (setc (setc cs d) c) t"
  by (simp add: find_set)

end

lemma set_condition_law_locale:
  "set_condition_law env \<longleftrightarrow> condition_setter (SetStatusCondition env)"
  by (simp add: set_condition_law_def condition_setter_def)

section \<open>Contracts\<close>

text \<open>The effects a ServerManager may have: on Deployments, Services and Secrets.\<close>

definition server_effect :: "action \<Rightarrow> bool" where
  "server_effect a = (case a of
     ACreateDeployment _ \<Rightarrow> True | AUpdateDeployment _ \<Rightarrow> True
   | ACreateService _ \<Rightarrow> True | AUpdateService _ \<Rightarrow> True
   | ACreateSecret _ \<Rightarrow> True | ADeleteSecret _ \<Rightarrow> True | _ \<Rightarrow> False)"

text \<open>The effects a UserManager may have: on Secrets, and commands in pods with their log lines.\<close>

definition user_effect :: "action \<Rightarrow> bool" where
  "user_effect a = (case a of
     ACreateSecret _ \<Rightarrow> True | APatchSecret _ \<Rightarrow> True | ADeleteSecret _ \<Rightarrow> True
   | AExec _ _ _ _ \<Rightarrow> True | ALog _ _ \<Rightarrow> True | _ \<Rightarrow> False)"

locale server_manager =
  fixes sm :: "'w ServerManager"
  assumes deployment_effects:
      "emits_only (\<lambda>x. server_effect (fst x)) (sm_EnsureServerDeployment sm repo)"
    and service_effects:
      "emits_only (\<lambda>x. server_effect (fst x)) (sm_EnsureServerService sm repo)"
    and tls_effects:
      "emits_only (\<lambda>x. server_effect (fst x)) (sm_EnsureTLSSecret sm repo)"
    and ready_effects:
      "emits_only (\<lambda>x. False) (sm_IsServerReady sm repo)"

text \<open>
  What the KopiaBackup controller relies on: the name \<open>EnsureUser\<close> returns is the name the
  CronJob will refer to, and the effects are confined.
\<close>

locale user_manager =
  fixes um :: "'w UserManager"
  assumes ensure_name: "run_state (um_EnsureUser um backup repo) s = (Inr n, s') \<Longrightarrow>
      n = UserSecretName (backup_ns backup) (bs_PVCName (kb_spec backup))"
    and ensure_effects: "emits_only (\<lambda>x. user_effect (fst x)) (um_EnsureUser um backup repo)"
    and delete_effects: "emits_only (\<lambda>x. user_effect (fst x)) (um_DeleteUser um backup repo)"

lemma server_effect_simps [simp]:
  "server_effect (ACreateDeployment d)" "server_effect (AUpdateDeployment d)"
  "server_effect (ACreateService v)" "server_effect (AUpdateService v)"
  "server_effect (ACreateSecret x)" "server_effect (ADeleteSecret x)"
  by (simp_all add: server_effect_def)

lemma user_effect_simps [simp]:
  "user_effect (ACreateSecret x)" "user_effect (APatchSecret x)" "user_effect (ADeleteSecret x)"
  "user_effect (AExec a b c d)" "user_effect (ALog m xs)"
  by (simp_all add: user_effect_def)

lemma server_effect_not [simp]:
  "\<not> server_effect (AMetric m)" "\<not> server_effect (AStatusUpdateKopiaRepository r)"
  "\<not> server_effect (AStatusUpdateKopiaBackup b)" "\<not> server_effect (ADeleteKopiaBackup b)"
  "\<not> server_effect (AUpdateKopiaBackup b)" "\<not> server_effect (ACreateKopiaBackup b)"
  "\<not> server_effect (ACreateCronJob j)" "\<not> server_effect (AUpdateCronJob j)"
  "\<not> server_effect (ACreateConfigMap m')" "\<not> server_effect (AUpdateConfigMap m')"
  by (simp_all add: server_effect_def)

lemma user_effect_not [simp]:
  "\<not> user_effect (AMetric m)" "\<not> user_effect (AStatusUpdateKopiaRepository r)"
  "\<not> user_effect (AStatusUpdateKopiaBackup b)" "\<not> user_effect (ADeleteKopiaBackup b)"
  "\<not> user_effect (AUpdateKopiaBackup b)" "\<not> user_effect (ACreateKopiaBackup b)"
  "\<not> user_effect (ACreateCronJob j)" "\<not> user_effect (AUpdateCronJob j)"
  "\<not> user_effect (ACreateConfigMap m')" "\<not> user_effect (AUpdateConfigMap m')"
  by (simp_all add: user_effect_def)

text \<open>A call of an interface method may do anything: its value and end state are arbitrary.\<close>

lemmas manager_wpI =
  wpI [of "sm_EnsureTLSSecret sm r" for sm r] wpI [of "sm_EnsureServerDeployment sm r" for sm r]
  wpI [of "sm_EnsureServerService sm r" for sm r] wpI [of "sm_IsServerReady sm r" for sm r]
  wpI [of "um_EnsureUser um b r" for um b r] wpI [of "um_DeleteUser um b r" for um b r]

end
