(* ===== verification/Ref_Cluster.thy ===== *)
theory Ref_Cluster
  imports Kopia_Interfaces Go_Text
begin

text \<open>
  One concrete instance of the parameters, to evaluate the operator on: an in-memory object store
  with the documented behaviour of the Kubernetes API (typed errors for missing and existing
  objects, a status subresource that spec updates leave alone and that leaves spec and metadata
  alone), and library functions that satisfy the laws of \<open>K8s_Client\<close>. The theorems about the
  operator do not mention it; their witnesses do.
\<close>

section \<open>Library functions\<close>

fun ref_SetStatusCondition :: "Condition list \<Rightarrow> Condition \<Rightarrow> Condition list" where
  "ref_SetStatusCondition [] c = [c]"
| "ref_SetStatusCondition (d # ds) c =
     (if co_Type d = co_Type c then c # ds else d # ref_SetStatusCondition ds c)"

definition ref_AddFinalizer :: "string list \<Rightarrow> string \<Rightarrow> string list" where
  "ref_AddFinalizer fs f = (if List.member fs f then fs else fs @ [f])"

definition ref_IsControlledBy :: "ObjectMeta \<Rightarrow> ObjectMeta \<Rightarrow> bool" where
  "ref_IsControlledBy obj owner =
     list_ex (\<lambda>r. or_Controller r \<and> or_UID r = om_UID owner) (om_OwnerReferences obj)"

definition ref_SetControllerReference :: "string \<Rightarrow> ObjectMeta \<Rightarrow> ObjectMeta \<Rightarrow> ObjectMeta result" where
  "ref_SetControllerReference kind owner m =
     (if list_ex (\<lambda>r. or_Controller r \<and> or_UID r \<noteq> om_UID owner) (om_OwnerReferences m)
      then Inl (ErrorString ''Object is already owned by another controller'')
      else Inr (m\<lparr>om_OwnerReferences := om_OwnerReferences m @
        [\<lparr>or_Kind = kind, or_Name = om_Name owner, or_UID = om_UID owner, or_Controller = True\<rparr>]\<rparr>))"

definition dns_alnum :: "char \<Rightarrow> bool" where
  "dns_alnum c \<longleftrightarrow> (97 \<le> byte_of c \<and> byte_of c \<le> 122) \<or> (48 \<le> byte_of c \<and> byte_of c \<le> 57)"

definition ref_IsDNS1123Subdomain :: "string \<Rightarrow> string list" where
  "ref_IsDNS1123Subdomain s =
     (if s \<noteq> [] \<and> length s \<le> 253 \<and> list_all (\<lambda>c. dns_alnum c \<or> c = CHR ''-'' \<or> c = CHR ''.'') s
         \<and> dns_alnum (hd s) \<and> dns_alnum (last s)
      then [] else [''a lowercase RFC 1123 subdomain is required''])"

text \<open>A certificate is its expiry in decimal.\<close>

definition read_int :: "string \<Rightarrow> int" where
  "read_int s = (if s \<noteq> [] \<and> hd s = CHR ''-'' then - int (read_nat (tl s)) else int (read_nat s))"

lemma read_int_fmt_d: "read_int (fmt_d i) = i"
proof -
  have "hd (show_nat n) \<noteq> CHR ''-''" for n
  proof
    assume "hd (show_nat n) = CHR ''-''"
    then obtain d where "d < 10" "digit_char d = CHR ''-''"
      using show_nat_digits [of "hd (show_nat n)" n] hd_in_set [OF show_nat_nonempty [of n]] by metis
    moreover have "\<forall>d \<in> set [0..<10]. digit_char d \<noteq> CHR ''-''" by code_simp
    ultimately show False by simp
  qed
  then show ?thesis by (auto simp: read_int_def fmt_d_def read_show_nat)
qed

definition ref_env :: env where
  "ref_env = \<lparr>isPrint_table = (\<lambda>_. True),
     SetStatusCondition = ref_SetStatusCondition,
     ContainsFinalizer = List.member,
     AddFinalizer = ref_AddFinalizer,
     RemoveFinalizer = (\<lambda>fs f. removeAll f fs),
     IsControlledBy = ref_IsControlledBy,
     SetControllerReference = ref_SetControllerReference,
     DeepEqual_CronJobSpec = (=), DeepEqual_DeploymentSpec = (=), DeepEqual_ServiceSpec = (=),
     IsDNS1123Subdomain = ref_IsDNS1123Subdomain,
     sha256_Sum256 = (\<lambda>s. take 32 (s @ replicate 32 (CHR 0x00))),
     pem_Decode = (\<lambda>s. if strings_HasPrefix s ''PEM:'' then Some (drop 4 s) else None),
     pem_EncodeToMemory = (\<lambda>ty b. ''PEM:'' @ b),
     x509_ParseCertificate = (\<lambda>b. Inr \<lparr>x509_Raw = b, x509_NotAfter = read_int b\<rparr>)\<rparr>"

lemma ref_env_simps [simp]:
  "SetStatusCondition ref_env = ref_SetStatusCondition"
  "ContainsFinalizer ref_env = List.member"
  "AddFinalizer ref_env = ref_AddFinalizer"
  "RemoveFinalizer ref_env = (\<lambda>fs f. removeAll f fs)"
  "IsControlledBy ref_env = ref_IsControlledBy"
  "SetControllerReference ref_env = ref_SetControllerReference"
  "DeepEqual_CronJobSpec ref_env = (=)"
  "DeepEqual_DeploymentSpec ref_env = (=)"
  "DeepEqual_ServiceSpec ref_env = (=)"
  "IsDNS1123Subdomain ref_env = ref_IsDNS1123Subdomain"
  "pem_Decode ref_env = (\<lambda>s. if strings_HasPrefix s ''PEM:'' then Some (drop 4 s) else None)"
  "pem_EncodeToMemory ref_env = (\<lambda>ty b. ''PEM:'' @ b)"
  "x509_ParseCertificate ref_env = (\<lambda>b. Inr \<lparr>x509_Raw = b, x509_NotAfter = read_int b\<rparr>)"
  "sha256_Sum256 ref_env = (\<lambda>s. take 32 (s @ replicate 32 (CHR 0x00)))"
  "isPrint_table ref_env = (\<lambda>_. True)"
  by (simp_all add: ref_env_def)

lemma find_condition_ref_set:
  "find_condition (ref_SetStatusCondition cs c) t = (if t = co_Type c then Some c else find_condition cs t)"
  by (induction cs) (auto simp: find_condition_def)

interpretation ref_conditions: condition_setter ref_SetStatusCondition
  by unfold_locales (rule find_condition_ref_set)

lemma ref_set_condition_law: "set_condition_law ref_env"
  by (simp add: set_condition_law_def find_condition_ref_set)

lemma ref_finalizer_law: "finalizer_law ref_env"
  by (auto simp: finalizer_law_def ref_AddFinalizer_def)

lemma ref_owner_law: "owner_law ref_env"
  by (auto simp: owner_law_def ref_SetControllerReference_def ref_IsControlledBy_def)

lemma ref_controlled_by_law: "controlled_by_law ref_env"
  by (simp add: controlled_by_law_def ref_IsControlledBy_def)

lemma ref_deep_equal_refl: "deep_equal_refl ref_env"
  by (simp add: deep_equal_refl_def)

section \<open>The object store\<close>

definition not_found :: "'a result" where
  "not_found = Inl (StatusError NotFound ''not found'')"

definition already_exists :: "'a result" where
  "already_exists = Inl (StatusError AlreadyExists ''already exists'')"

fun store_get :: "('o \<Rightarrow> ObjectMeta) \<Rightarrow> NamespacedName \<Rightarrow> 'o list \<Rightarrow> 'o option" where
  "store_get meta k [] = None"
| "store_get meta k (x # xs) = (if key_of (meta x) = k then Some x else store_get meta k xs)"

fun store_put :: "('o \<Rightarrow> ObjectMeta) \<Rightarrow> 'o \<Rightarrow> 'o list \<Rightarrow> 'o list" where
  "store_put meta y [] = [y]"
| "store_put meta y (x # xs) =
     (if key_of (meta x) = key_of (meta y) then y # xs else x # store_put meta y xs)"

definition store_del :: "('o \<Rightarrow> ObjectMeta) \<Rightarrow> NamespacedName \<Rightarrow> 'o list \<Rightarrow> 'o list" where
  "store_del meta k xs = filter (\<lambda>x. key_of (meta x) \<noteq> k) xs"

lemma store_get_put:
  "store_get meta k (store_put meta y xs) = (if key_of (meta y) = k then Some y else store_get meta k xs)"
  by (induction xs) auto

lemma store_get_del:
  "store_get meta k (store_del meta k' xs) = (if k = k' then None else store_get meta k xs)"
  by (induction xs) (auto simp: store_del_def)

record cluster =
  cl_backups :: "KopiaBackup list"
  cl_repositories :: "KopiaRepository list"
  cl_pvcs :: "PersistentVolumeClaim list"
  cl_configmaps :: "ConfigMap list"
  cl_cronjobs :: "CronJob list"
  cl_deployments :: "Deployment list"
  cl_services :: "Service list"
  cl_secrets :: "Secret list"
  cl_pods :: "Pod list"
  cl_seed :: nat
  cl_now :: int

definition empty_cluster :: cluster where
  "empty_cluster = \<lparr>cl_backups = [], cl_repositories = [], cl_pvcs = [], cl_configmaps = [],
     cl_cronjobs = [], cl_deployments = [], cl_services = [], cl_secrets = [], cl_pods = [],
     cl_seed = 0, cl_now = 0\<rparr>"

definition mem_get :: "('o \<Rightarrow> ObjectMeta) \<Rightarrow> (cluster \<Rightarrow> 'o list) \<Rightarrow> NamespacedName \<Rightarrow> cluster
    \<Rightarrow> 'o result \<times> cluster" where
  "mem_get meta fld k w =
     (case store_get meta k (fld w) of None \<Rightarrow> (not_found, w) | Some x \<Rightarrow> (Inr x, w))"

definition mem_create :: "('o \<Rightarrow> ObjectMeta) \<Rightarrow> (cluster \<Rightarrow> 'o list) \<Rightarrow> (('o list \<Rightarrow> 'o list) \<Rightarrow> cluster \<Rightarrow> cluster)
    \<Rightarrow> 'o \<Rightarrow> cluster \<Rightarrow> 'o result \<times> cluster" where
  "mem_create meta fld upd x w =
     (case store_get meta (key_of (meta x)) (fld w) of
        Some _ \<Rightarrow> (already_exists, w)
      | None \<Rightarrow> (Inr x, upd (store_put meta x) w))"

definition mem_update :: "('o \<Rightarrow> ObjectMeta) \<Rightarrow> (cluster \<Rightarrow> 'o list) \<Rightarrow> (('o list \<Rightarrow> 'o list) \<Rightarrow> cluster \<Rightarrow> cluster)
    \<Rightarrow> ('o \<Rightarrow> 'o \<Rightarrow> 'o) \<Rightarrow> 'o \<Rightarrow> cluster \<Rightarrow> 'o result \<times> cluster" where
  "mem_update meta fld upd merge x w =
     (case store_get meta (key_of (meta x)) (fld w) of
        None \<Rightarrow> (not_found, w)
      | Some old \<Rightarrow> (Inr (merge old x), upd (store_put meta (merge old x)) w))"

definition mem_delete :: "('o \<Rightarrow> ObjectMeta) \<Rightarrow> (cluster \<Rightarrow> 'o list) \<Rightarrow> (('o list \<Rightarrow> 'o list) \<Rightarrow> cluster \<Rightarrow> cluster)
    \<Rightarrow> 'o \<Rightarrow> cluster \<Rightarrow> unit result \<times> cluster" where
  "mem_delete meta fld upd x w =
     (case store_get meta (key_of (meta x)) (fld w) of
        None \<Rightarrow> (not_found, w)
      | Some _ \<Rightarrow> (Inr (), upd (store_del meta (key_of (meta x))) w))"

definition labels_match :: "(string \<rightharpoonup> string) \<Rightarrow> gomap \<Rightarrow> bool" where
  "labels_match sel ls \<longleftrightarrow> (case ls of None \<Rightarrow> sel = Map.empty | Some m \<Rightarrow> sel \<subseteq>\<^sub>m m)"

text \<open>A Secret's \<open>stringData\<close> is merged into its \<open>data\<close> when it is written.\<close>

definition store_secret :: "Secret \<Rightarrow> Secret" where
  "store_secret x = x\<lparr>sec_Data := sec_Data x ++ sec_StringData x, sec_StringData := Map.empty\<rparr>"

text \<open>A merge patch from \<open>old\<close> to \<open>x\<close> changes the entries of the current object in which the two differ.\<close>

definition patch_secret :: "Secret \<Rightarrow> Secret \<Rightarrow> Secret \<Rightarrow> Secret" where
  "patch_secret old cur x = cur\<lparr>sec_meta := sec_meta x,
     sec_Data := (\<lambda>k. if sec_StringData x k \<noteq> sec_StringData old k then sec_StringData x k
       else if sec_Data x k \<noteq> sec_Data old k then sec_Data x k else sec_Data cur k)\<rparr>"

definition mem_api :: "cluster api" where
  "mem_api = \<lparr>
     api_get_KopiaBackup = mem_get kb_meta cl_backups,
     api_get_KopiaRepository = mem_get kr_meta cl_repositories,
     api_get_PVC = mem_get pvc_meta cl_pvcs,
     api_get_ConfigMap = mem_get cm_meta cl_configmaps,
     api_get_CronJob = mem_get cj_meta cl_cronjobs,
     api_get_Deployment = mem_get dep_meta cl_deployments,
     api_get_Service = mem_get svc_meta cl_services,
     api_get_Secret = mem_get sec_meta cl_secrets,
     api_list_KopiaRepositories = (\<lambda>w. (Inr (cl_repositories w), w)),
     api_list_Pods = (\<lambda>ns sel w. (Inr (filter (\<lambda>p. om_Namespace (pod_meta p) = ns
        \<and> labels_match sel (om_Labels (pod_meta p))) (cl_pods w)), w)),
     api_list_KopiaBackups = (\<lambda>ns f v w. (Inr (filter (\<lambda>b. backup_ns b = ns
        \<and> (if f = ''.spec.pvcName'' then bs_PVCName (kb_spec b) = v
           else if f = ''.spec.repository'' then bs_Repository (kb_spec b) = v else False))
        (cl_backups w)), w)),
     api_create_CronJob = mem_create cj_meta cl_cronjobs cl_cronjobs_update,
     api_create_ConfigMap = mem_create cm_meta cl_configmaps cl_configmaps_update,
     api_create_Deployment = mem_create dep_meta cl_deployments cl_deployments_update,
     api_create_Service = mem_create svc_meta cl_services cl_services_update,
     api_create_Secret = (\<lambda>x. mem_create sec_meta cl_secrets cl_secrets_update (store_secret x)),
     api_create_KopiaBackup =
       (\<lambda>x. mem_create kb_meta cl_backups cl_backups_update (x\<lparr>kb_status := zero_KopiaBackupStatus\<rparr>)),
     api_update_CronJob = mem_update cj_meta cl_cronjobs cl_cronjobs_update (\<lambda>old x. x),
     api_update_ConfigMap = mem_update cm_meta cl_configmaps cl_configmaps_update (\<lambda>old x. x),
     api_update_Deployment = mem_update dep_meta cl_deployments cl_deployments_update
       (\<lambda>old x. old\<lparr>dep_meta := dep_meta x, dep_spec := dep_spec x\<rparr>),
     api_update_Service = mem_update svc_meta cl_services cl_services_update (\<lambda>old x. x),
     api_update_KopiaBackup = mem_update kb_meta cl_backups cl_backups_update
       (\<lambda>old x. x\<lparr>kb_status := kb_status old\<rparr>),
     api_patch_Secret = (\<lambda>old. mem_update sec_meta cl_secrets cl_secrets_update (patch_secret old)),
     api_delete_Secret = mem_delete sec_meta cl_secrets cl_secrets_update,
     api_delete_KopiaBackup = mem_delete kb_meta cl_backups cl_backups_update,
     api_status_KopiaBackup = mem_update kb_meta cl_backups cl_backups_update
       (\<lambda>old x. old\<lparr>kb_status := kb_status x\<rparr>),
     api_status_KopiaRepository = mem_update kr_meta cl_repositories cl_repositories_update
       (\<lambda>old x. old\<lparr>kr_status := kr_status x\<rparr>),
     api_NewSPDYExecutor = (\<lambda>ns pod cont cmd w. (Inr (), w)),
     api_StreamWithContext = (\<lambda>tmo ns pod cont cmd w. ((''ok'', '''', None), w)),
     api_rand_Read = (\<lambda>n w. (Inr (replicate n (char_byte (cl_seed w mod 256))), w\<lparr>cl_seed := Suc (cl_seed w)\<rparr>)),
     api_rand_Int = (\<lambda>m w. (Inr (int (cl_seed w) mod m), w\<lparr>cl_seed := Suc (cl_seed w)\<rparr>)),
     api_rsa_GenerateKey = (\<lambda>n w. (Inr ''key'', w)),
     api_x509_CreateCertificate = (\<lambda>t k w. (Inr (fmt_d (ct_NotAfter t)), w)),
     api_time_Now = (\<lambda>w. (cl_now w, w))\<rparr>"

lemma ref_cert_law: "cert_law ref_env mem_api"
  by (simp add: cert_law_def ref_env_def mem_api_def strings_HasPrefix_def read_int_fmt_d time_Second_def)

lemma ref_rand_law: "rand_law mem_api"
  by (simp add: rand_law_def mem_api_def)

definition start :: "cluster \<Rightarrow> cluster st" where
  "start w = \<lparr>world = w, trace = []\<rparr>"

lemmas mem_defs = mem_get_def mem_create_def mem_update_def mem_delete_def not_found_def
  already_exists_def store_del_def key_of_def

lemma mem_api_simps [simp]:
  "api_get_KopiaBackup mem_api = mem_get kb_meta cl_backups"
  "api_get_KopiaRepository mem_api = mem_get kr_meta cl_repositories"
  "api_get_PVC mem_api = mem_get pvc_meta cl_pvcs"
  "api_get_ConfigMap mem_api = mem_get cm_meta cl_configmaps"
  "api_get_CronJob mem_api = mem_get cj_meta cl_cronjobs"
  "api_get_Deployment mem_api = mem_get dep_meta cl_deployments"
  "api_get_Service mem_api = mem_get svc_meta cl_services"
  "api_get_Secret mem_api = mem_get sec_meta cl_secrets"
  "api_list_KopiaRepositories mem_api = (\<lambda>w. (Inr (cl_repositories w), w))"
  "api_create_CronJob mem_api = mem_create cj_meta cl_cronjobs cl_cronjobs_update"
  "api_create_ConfigMap mem_api = mem_create cm_meta cl_configmaps cl_configmaps_update"
  "api_create_Deployment mem_api = mem_create dep_meta cl_deployments cl_deployments_update"
  "api_create_Service mem_api = mem_create svc_meta cl_services cl_services_update"
  "api_update_CronJob mem_api = mem_update cj_meta cl_cronjobs cl_cronjobs_update (\<lambda>old x. x)"
  "api_update_ConfigMap mem_api = mem_update cm_meta cl_configmaps cl_configmaps_update (\<lambda>old x. x)"
  "api_update_Service mem_api = mem_update svc_meta cl_services cl_services_update (\<lambda>old x. x)"
  "api_update_Deployment mem_api = mem_update dep_meta cl_deployments cl_deployments_update
       (\<lambda>old x. old\<lparr>dep_meta := dep_meta x, dep_spec := dep_spec x\<rparr>)"
  "api_update_KopiaBackup mem_api = mem_update kb_meta cl_backups cl_backups_update
       (\<lambda>old x. x\<lparr>kb_status := kb_status old\<rparr>)"
  "api_delete_Secret mem_api = mem_delete sec_meta cl_secrets cl_secrets_update"
  "api_delete_KopiaBackup mem_api = mem_delete kb_meta cl_backups cl_backups_update"
  "api_status_KopiaBackup mem_api = mem_update kb_meta cl_backups cl_backups_update
       (\<lambda>old x. old\<lparr>kb_status := kb_status x\<rparr>)"
  "api_status_KopiaRepository mem_api = mem_update kr_meta cl_repositories cl_repositories_update
       (\<lambda>old x. old\<lparr>kr_status := kr_status x\<rparr>)"
  "api_NewSPDYExecutor mem_api = (\<lambda>ns pod cont cmd w. (Inr (), w))"
  "api_StreamWithContext mem_api = (\<lambda>tmo ns pod cont cmd w. ((''ok'', '''', None), w))"
  "api_time_Now mem_api = (\<lambda>w. (cl_now w, w))"
  "api_create_Secret mem_api = (\<lambda>x. mem_create sec_meta cl_secrets cl_secrets_update (store_secret x))"
  "api_patch_Secret mem_api =
     (\<lambda>old. mem_update sec_meta cl_secrets cl_secrets_update (patch_secret old))"
  "api_create_KopiaBackup mem_api =
     (\<lambda>x. mem_create kb_meta cl_backups cl_backups_update (x\<lparr>kb_status := zero_KopiaBackupStatus\<rparr>))"
  "api_list_Pods mem_api = (\<lambda>ns sel w. (Inr (filter (\<lambda>p. om_Namespace (pod_meta p) = ns
        \<and> labels_match sel (om_Labels (pod_meta p))) (cl_pods w)), w))"
  "api_rand_Read mem_api =
     (\<lambda>n w. (Inr (replicate n (char_byte (cl_seed w mod 256))), w\<lparr>cl_seed := Suc (cl_seed w)\<rparr>))"
  "api_rand_Int mem_api = (\<lambda>m w. (Inr (int (cl_seed w) mod m), w\<lparr>cl_seed := Suc (cl_seed w)\<rparr>))"
  "api_rsa_GenerateKey mem_api = (\<lambda>n w. (Inr ''key'', w))"
  "api_x509_CreateCertificate mem_api = (\<lambda>t k w. (Inr (fmt_d (ct_NotAfter t)), w))"
  by (simp_all add: mem_api_def)

section \<open>Example objects\<close>

definition example_repo :: KopiaRepository where
  "example_repo = zero_KopiaRepository\<lparr>
     kr_meta := zero_ObjectMeta\<lparr>om_Name := ''repo'', om_Namespace := ''ns'', om_UID := ''u1''\<rparr>,
     kr_spec := zero_KopiaRepositorySpec\<lparr>rs_Hostname := ''host'', rs_Username := ''kopia'',
       rs_StorageType := ''filesystem'', rs_PasswordSecretName := ''pw'', rs_DefaultSchedule := ''0 3 * * *'',
       rs_FileSystemOptions := (rs_FileSystemOptions zero_KopiaRepositorySpec)\<lparr>fs_Path := ''/backups''\<rparr>,
       rs_Server := zero_KopiaServerSpec\<lparr>srv_Enabled := True\<rparr>\<rparr>\<rparr>"

definition example_backup :: KopiaBackup where
  "example_backup = zero_KopiaBackup\<lparr>
     kb_meta := zero_ObjectMeta\<lparr>om_Name := ''data'', om_Namespace := ''ns'', om_UID := ''b1''\<rparr>,
     kb_spec := zero_KopiaBackupSpec\<lparr>bs_PVCName := ''data'', bs_Schedule := ''0 3 * * *'',
       bs_Repository := ''repo''\<rparr>\<rparr>"

definition example_pvc :: "gomap \<Rightarrow> PersistentVolumeClaim" where
  "example_pvc labels = \<lparr>pvc_meta = zero_ObjectMeta\<lparr>om_Name := ''data'', om_Namespace := ''ns'',
     om_UID := ''p1'', om_Labels := labels\<rparr>\<rparr>"

end
