(* ===== verification/Server_Manager.thy ===== *)
theory Server_Manager
  imports Server_Scripts Ref_Cluster
begin

text \<open>
  The KopiaServerManager (internal/kopia/server/manager.go): the Deployment, the Service and the
  TLS Secret of a Kopia server. Log messages that carry no command output are left out. The reason
  that \<open>certNeedsRotation\<close> returns for the log is a value of \<open>rotation_reason\<close> instead of its text.
\<close>

section \<open>Deployment and Service\<close>

definition GetServerURL :: "KopiaRepository \<Rightarrow> string" where
  "GetServerURL repo =
     (let port = (if ex_ServicePort (srv_Exposure (rs_Server (kr_spec repo))) \<noteq> 0
                  then ex_ServicePort (srv_Exposure (rs_Server (kr_spec repo)))
                  else word_of_int defaultServerPort) in
      ''https://'' @ ServerServiceName (repo_name repo) @ ''.'' @ repo_ns repo
        @ ''.svc.cluster.local:'' @ fmt_d32 port)"

definition getRepositoryPasswordSecretKeyRef :: "KopiaRepository \<Rightarrow> SecretKeySelector" where
  "getRepositoryPasswordSecretKeyRef repo =
     \<lparr>sk_Name = rs_PasswordSecretName (kr_spec repo), sk_Key = ''KOPIA_PASSWORD'', sk_Optional = None\<rparr>"

definition getServerAdminPasswordSecretKeyRef :: "KopiaRepository \<Rightarrow> SecretKeySelector" where
  "getServerAdminPasswordSecretKeyRef repo =
     (if srv_AdminPasswordSecretName (rs_Server (kr_spec repo)) \<noteq> ''''
      then \<lparr>sk_Name = srv_AdminPasswordSecretName (rs_Server (kr_spec repo)), sk_Key = ''password'',
            sk_Optional = None\<rparr>
      else getRepositoryPasswordSecretKeyRef repo)"

definition getTLSSecretName :: "KopiaRepository \<Rightarrow> string" where
  "getTLSSecretName repo =
     (if tls_SecretName (srv_TLS (rs_Server (kr_spec repo))) \<noteq> ''''
      then tls_SecretName (srv_TLS (rs_Server (kr_spec repo)))
      else TLSSecretName (repo_name repo))"

definition constructStorageVolume :: "KopiaRepository \<Rightarrow> Volume" where
  "constructStorageVolume repo =
     (let fs = rs_FileSystemOptions (kr_spec repo) in
      \<lparr>v_Name = ''repository'', v_Source =
         (if fs_NFSServer fs \<noteq> '''' then
            zero_VolumeSource\<lparr>vs_NFS := Some \<lparr>nfs_Server = fs_NFSServer fs, nfs_Path = fs_NFSPath fs\<rparr>\<rparr>
          else zero_VolumeSource\<lparr>vs_HostPath :=
            Some \<lparr>hp_Path = fs_Path fs, hp_Type = Some ''DirectoryOrCreate''\<rparr>\<rparr>)\<rparr>)"

definition emptyDir_volume :: "string \<Rightarrow> Volume" where
  "emptyDir_volume n =
     \<lparr>v_Name = n, v_Source = zero_VolumeSource\<lparr>vs_EmptyDir := Some \<lparr>ed_SizeLimit = None\<rparr>\<rparr>\<rparr>"

text \<open>Go's octal file modes.\<close>

definition mode_0400 :: int32 where "mode_0400 = 4 * 64"
definition mode_0600 :: int32 where "mode_0600 = 6 * 64"

definition secret_volume :: "string \<Rightarrow> string \<Rightarrow> int32 \<Rightarrow> Volume" where
  "secret_volume n secret mode =
     \<lparr>v_Name = n, v_Source = zero_VolumeSource\<lparr>vs_Secret :=
        Some \<lparr>svs_SecretName = secret, svs_DefaultMode = Some mode\<rparr>\<rparr>\<rparr>"

definition server_probe :: "int32 \<Rightarrow> int32 \<Rightarrow> Probe" where
  "server_probe delay period = \<lparr>pr_TCPSocketPort = defaultServerPort, pr_InitialDelaySeconds = delay,
     pr_PeriodSeconds = period, pr_TimeoutSeconds = 5, pr_FailureThreshold = 3\<rparr>"

text \<open>The container's resources: those of the spec, with defaults for absent requests or limits.\<close>

definition server_resources :: "ResourceRequirements \<Rightarrow> ResourceRequirements" where
  "server_resources rr = \<lparr>
     rr_Requests = (case rr_Requests rr of
        None \<Rightarrow> Some [(''memory'', ''256Mi''), (''cpu'', ''100m'')] | Some q \<Rightarrow> Some q),
     rr_Limits = (case rr_Limits rr of
        None \<Rightarrow> Some [(''memory'', ''1Gi''), (''cpu'', ''1000m'')] | Some q \<Rightarrow> Some q)\<rparr>"

definition server_env :: "KopiaRepository \<Rightarrow> EnvVar list" where
  "server_env repo = [
     zero_EnvVar\<lparr>ev_Name := ''KOPIA_PASSWORD'',
       ev_SecretKeyRef := Some (getRepositoryPasswordSecretKeyRef repo)\<rparr>,
     zero_EnvVar\<lparr>ev_Name := ''KOPIA_SERVER_USERNAME'',
       ev_Value := rs_Username (kr_spec repo) @ ''@'' @ rs_Hostname (kr_spec repo)\<rparr>,
     zero_EnvVar\<lparr>ev_Name := ''KOPIA_SERVER_PASSWORD'',
       ev_SecretKeyRef := Some (getServerAdminPasswordSecretKeyRef repo)\<rparr>,
     zero_EnvVar\<lparr>ev_Name := ''KOPIA_TLS_FINGERPRINT'',
       ev_SecretKeyRef := Some \<lparr>sk_Name = getTLSSecretName repo, sk_Key = ''fingerprint'',
         sk_Optional = Some True\<rparr>\<rparr>]"

definition server_mounts :: "KopiaRepository \<Rightarrow> VolumeMount list" where
  "server_mounts repo = [
     zero_VolumeMount\<lparr>vm_Name := ''cache'', vm_MountPath := ''/cache''\<rparr>,
     zero_VolumeMount\<lparr>vm_Name := ''config'', vm_MountPath := ''/config''\<rparr>,
     zero_VolumeMount\<lparr>vm_Name := ''tmp'', vm_MountPath := ''/tmp''\<rparr>,
     zero_VolumeMount\<lparr>vm_Name := ''tls'', vm_MountPath := ''/tls'', vm_ReadOnly := True\<rparr>]
   @ (if rs_StorageType (kr_spec repo) = StorageTypeFilesystem
      then [zero_VolumeMount\<lparr>vm_Name := ''repository'', vm_MountPath := ''/repository''\<rparr>]
      else if rs_StorageType (kr_spec repo) = StorageTypeSFTP
      then [zero_VolumeMount\<lparr>vm_Name := ''sftp-credentials'', vm_MountPath := ''/sftp-creds'', vm_ReadOnly := True\<rparr>]
      else [])"

definition server_volumes :: "KopiaRepository \<Rightarrow> Volume list" where
  "server_volumes repo = [
     emptyDir_volume ''cache'', emptyDir_volume ''config'', emptyDir_volume ''tmp'',
     secret_volume ''tls'' (getTLSSecretName repo) mode_0400]
   @ (if rs_StorageType (kr_spec repo) = StorageTypeFilesystem then [constructStorageVolume repo]
      else if rs_StorageType (kr_spec repo) = StorageTypeSFTP
      then [secret_volume ''sftp-credentials'' (sftp_CredentialsSecret (rs_SFTPOptions (kr_spec repo))) mode_0600]
      else [])"

definition server_container :: "KopiaRepository \<Rightarrow> Container" where
  "server_container repo = zero_Container\<lparr>
     c_Name := ''kopia-server'',
     c_Image := (if srv_Image (rs_Server (kr_spec repo)) \<noteq> '''' then srv_Image (rs_Server (kr_spec repo))
                 else ''ghcr.io/fastlorenzo/kopia:latest''),
     c_ImagePullPolicy := ''Always'',
     c_Command := [''/bin/sh'', ''-c''],
     c_Args := [constructServerCommand repo],
     c_Env := server_env repo,
     c_VolumeMounts := server_mounts repo,
     c_Ports := [\<lparr>cp_Name = ''api'', cp_ContainerPort = word_of_int defaultServerPort, cp_Protocol = ''TCP''\<rparr>],
     c_Resources := server_resources (srv_Resources (rs_Server (kr_spec repo))),
     c_SecurityContext := Some \<lparr>sc_AllowPrivilegeEscalation = Some False,
       sc_ReadOnlyRootFilesystem = Some True, sc_CapabilitiesDrop = [''ALL''], sc_CapabilitiesAdd = []\<rparr>,
     c_LivenessProbe := Some (server_probe 30 10),
     c_ReadinessProbe := Some (server_probe 10 10)\<rparr>"

definition constructServerDeployment :: "KopiaRepository \<Rightarrow> string \<Rightarrow> Deployment" where
  "constructServerDeployment repo deploymentName =
     (let replicas = (if 0 < sint (srv_Replicas (rs_Server (kr_spec repo)))
                      then srv_Replicas (rs_Server (kr_spec repo)) else 1);
          labels = ServerLabels (repo_name repo) in
      \<lparr>dep_meta = zero_ObjectMeta\<lparr>om_Name := deploymentName, om_Namespace := repo_ns repo,
         om_Labels := Some labels\<rparr>,
       dep_spec = \<lparr>ds_Replicas = Some replicas, ds_Selector = Some labels,
         ds_Template = \<lparr>pt_meta = zero_ObjectMeta\<lparr>om_Labels := Some labels\<rparr>,
           pt_spec = zero_PodSpec\<lparr>ps_SeccompProfileType := Some ''RuntimeDefault'',
             ps_Containers := [server_container repo], ps_Volumes := server_volumes repo\<rparr>\<rparr>,
         ds_Rest = ''''\<rparr>,
       dep_StatusReplicas = 0, dep_StatusReadyReplicas = 0\<rparr>)"

definition constructServerService :: "KopiaRepository \<Rightarrow> string \<Rightarrow> Service" where
  "constructServerService repo serviceName =
     (let labels = ServerLabels (repo_name repo);
          ex = srv_Exposure (rs_Server (kr_spec repo));
          serviceType = (if ex_ServiceType ex \<noteq> '''' then ex_ServiceType ex else ''ClusterIP'');
          servicePort = (if ex_ServicePort ex \<noteq> 0 then ex_ServicePort ex else word_of_int defaultServerPort) in
      \<lparr>svc_meta = zero_ObjectMeta\<lparr>om_Name := serviceName, om_Namespace := repo_ns repo,
         om_Labels := Some labels\<rparr>,
       svc_spec = \<lparr>ss_Type = serviceType, ss_Selector = Some labels,
         ss_Ports = [\<lparr>sp_Name = ''api'', sp_Port = servicePort, sp_TargetPort = defaultServerPort,
           sp_Protocol = ''TCP''\<rparr>], ss_Rest = ''''\<rparr>\<rparr>)"

definition EnsureServerDeployment :: "env \<Rightarrow> 'w api \<Rightarrow> KopiaRepository \<Rightarrow> ('w st, unit result) state" where
  "EnsureServerDeployment env api repo =
     (let deploymentName = ServerDeploymentName (repo_name repo);
          desired = constructServerDeployment repo deploymentName in
      case SetControllerReference env ''KopiaRepository'' (kr_meta repo) (dep_meta desired) of
        Inl err \<Rightarrow> ret (Inl (WrapError ''failed to set controller reference on Deployment'' err))
      | Inr m \<Rightarrow> do {
          let desired = desired\<lparr>dep_meta := m\<rparr>;
          got \<leftarrow> Get_Deployment api (NamespacedName (repo_ns repo) deploymentName);
          case got of
            Inl err \<Rightarrow>
              if \<not> IsNotFound err
              then ret (Inl (WrapError (''failed to get Deployment '' @ deploymentName) err))
              else do { r \<leftarrow> Create_Deployment api desired; ret (discard r) }
          | Inr existing \<Rightarrow>
              if DeepEqual_DeploymentSpec env (dep_spec existing) (dep_spec desired) then ret (Inr ())
              else do { r \<leftarrow> Update_Deployment api (existing\<lparr>dep_spec := dep_spec desired\<rparr>); ret (discard r) }
        })"

definition EnsureServerService :: "env \<Rightarrow> 'w api \<Rightarrow> KopiaRepository \<Rightarrow> ('w st, unit result) state" where
  "EnsureServerService env api repo =
     (let serviceName = ServerServiceName (repo_name repo);
          desired = constructServerService repo serviceName in
      case SetControllerReference env ''KopiaRepository'' (kr_meta repo) (svc_meta desired) of
        Inl err \<Rightarrow> ret (Inl (WrapError ''failed to set controller reference on Service'' err))
      | Inr m \<Rightarrow> do {
          let desired = desired\<lparr>svc_meta := m\<rparr>;
          got \<leftarrow> Get_Service api (NamespacedName (repo_ns repo) serviceName);
          case got of
            Inl err \<Rightarrow>
              if \<not> IsNotFound err
              then ret (Inl (WrapError (''failed to get Service '' @ serviceName) err))
              else do { r \<leftarrow> Create_Service api desired; ret (discard r) }
          | Inr existing \<Rightarrow> do {
              let existing = existing\<lparr>svc_spec := (svc_spec existing)\<lparr>
                ss_Ports := ss_Ports (svc_spec desired), ss_Type := ss_Type (svc_spec desired),
                ss_Selector := ss_Selector (svc_spec desired)\<rparr>\<rparr>;
              if DeepEqual_ServiceSpec env (svc_spec existing) (svc_spec desired) then ret (Inr ())
              else do { r \<leftarrow> Update_Service api existing; ret (discard r) }
            }
        })"

definition IsServerReady :: "'w api \<Rightarrow> KopiaRepository \<Rightarrow> ('w st, bool \<times> go_error option) state" where
  "IsServerReady api repo = do {
     let deploymentName = ServerDeploymentName (repo_name repo);
     got \<leftarrow> Get_Deployment api (NamespacedName (repo_ns repo) deploymentName);
     case got of
       Inl err \<Rightarrow> ret (False, Some (WrapError (''failed to get Deployment '' @ deploymentName) err))
     | Inr d \<Rightarrow> ret (dep_StatusReadyReplicas d = dep_StatusReplicas d \<and> 0 < sint (dep_StatusReplicas d), None)
   }"

section \<open>The TLS Secret\<close>

definition calculateCertFingerprint :: "env \<Rightarrow> string \<Rightarrow> string result" where
  "calculateCertFingerprint env certPEM = (case pem_Decode env certPEM of
     None \<Rightarrow> Inl (ErrorString ''failed to decode PEM block'')
   | Some bytes \<Rightarrow> (case x509_ParseCertificate env bytes of
        Inl err \<Rightarrow> Inl (WrapError ''failed to parse certificate'' err)
      | Inr cert \<Rightarrow> Inr (hex_bytes True (sha256_Sum256 env (x509_Raw cert)))))"

datatype rotation_reason =
    InvalidPEM
  | ParseFailed go_error
  | Expired
  | ExpiresIn int int

definition certNeedsRotation :: "env \<Rightarrow> 'w api \<Rightarrow> string \<Rightarrow> int
    \<Rightarrow> ('w st, rotation_reason option) state" where
  "certNeedsRotation env api certPEM renewBefore = (case pem_Decode env certPEM of
     None \<Rightarrow> ret (Some InvalidPEM)
   | Some bytes \<Rightarrow> (case x509_ParseCertificate env bytes of
        Inl err \<Rightarrow> ret (Some (ParseFailed err))
      | Inr cert \<Rightarrow> do {
          now \<leftarrow> client_read (api_time_Now api);
          let remaining = sat_Duration (x509_NotAfter cert - now);
          if remaining \<le> 0 then ret (Some Expired)
          else if remaining < renewBefore then ret (Some (ExpiresIn remaining renewBefore))
          else ret None
        }))"

definition generateSelfSignedCert :: "env \<Rightarrow> 'w api \<Rightarrow> string \<Rightarrow> string list
    \<Rightarrow> ('w st, (string \<times> string) result) state" where
  "generateSelfSignedCert env api commonName dnsNames = do {
     k \<leftarrow> client_read (api_rsa_GenerateKey api 2048);
     case k of
       Inl err \<Rightarrow> ret (Inl (WrapError ''failed to generate private key'' err))
     | Inr privateKey \<Rightarrow> do {
         n \<leftarrow> client_read (api_rand_Int api (2 ^ 128));
         case n of
           Inl err \<Rightarrow> ret (Inl (WrapError ''failed to generate serial number'' err))
         | Inr serialNumber \<Rightarrow> do {
             notBefore \<leftarrow> client_read (api_time_Now api);
             c \<leftarrow> client_read (api_x509_CreateCertificate api
               \<lparr>ct_SerialNumber = serialNumber, ct_CommonName = commonName,
                ct_Organization = [''kopia-operator''], ct_NotBefore = notBefore,
                ct_NotAfter = notBefore + 365 * 24 * time_Hour, ct_KeyUsage = 5, ct_ExtKeyUsage = [1],
                ct_BasicConstraintsValid = True, ct_DNSNames = ''localhost'' # dnsNames,
                ct_IPAddresses = [''127.0.0.1'']\<rparr> privateKey);
             case c of
               Inl err \<Rightarrow> ret (Inl (WrapError ''failed to create certificate'' err))
             | Inr certDER \<Rightarrow> ret (Inr (pem_EncodeToMemory env ''CERTIFICATE'' certDER,
                                      pem_EncodeToMemory env ''RSA PRIVATE KEY'' privateKey))
           }
       }
   }"

text \<open>The second half of \<open>EnsureTLSSecret\<close>: a new certificate and its Secret.\<close>

definition server_dnsNames :: "KopiaRepository \<Rightarrow> string list" where
  "server_dnsNames repo =
     (let serviceName = ServerServiceName (repo_name repo) in
      [serviceName,
       serviceName @ ''.'' @ repo_ns repo,
       serviceName @ ''.'' @ repo_ns repo @ ''.svc'',
       serviceName @ ''.'' @ repo_ns repo @ ''.svc.cluster.local'']
      @ tls_CertificateDNSNames (srv_TLS (rs_Server (kr_spec repo))))"

definition tls_Secret :: "KopiaRepository \<Rightarrow> string \<Rightarrow> string \<Rightarrow> string \<Rightarrow> Secret" where
  "tls_Secret repo certPEM keyPEM fingerprint =
     \<lparr>sec_meta = zero_ObjectMeta\<lparr>om_Name := getTLSSecretName repo, om_Namespace := repo_ns repo,
        om_Labels := Some [''app.kubernetes.io/name'' \<mapsto> ''kopia-server'',
          ''app.kubernetes.io/instance'' \<mapsto> repo_name repo,
          ''app.kubernetes.io/managed-by'' \<mapsto> ''kopia-operator'']\<rparr>,
      sec_Type = ''kubernetes.io/tls'',
      sec_Data = [''tls.crt'' \<mapsto> certPEM, ''tls.key'' \<mapsto> keyPEM, ''fingerprint'' \<mapsto> fingerprint],
      sec_StringData = Map.empty\<rparr>"

definition regenerate_TLS :: "env \<Rightarrow> 'w api \<Rightarrow> KopiaRepository \<Rightarrow> ('w st, string result) state" where
  "regenerate_TLS env api repo = do {
     let commonName = (if tls_CertificateCommonName (srv_TLS (rs_Server (kr_spec repo))) = ''''
       then ServerServiceName (repo_name repo) @ ''.'' @ repo_ns repo @ ''.svc.cluster.local''
       else tls_CertificateCommonName (srv_TLS (rs_Server (kr_spec repo))));
     g \<leftarrow> generateSelfSignedCert env api commonName (server_dnsNames repo);
     case g of
       Inl err \<Rightarrow> ret (Inl (WrapError ''failed to generate TLS certificate'' err))
     | Inr (certPEM, keyPEM) \<Rightarrow>
         (case calculateCertFingerprint env certPEM of
            Inl err \<Rightarrow> ret (Inl (WrapError ''failed to calculate fingerprint'' err))
          | Inr fingerprint \<Rightarrow>
              (case SetControllerReference env ''KopiaRepository'' (kr_meta repo)
                      (sec_meta (tls_Secret repo certPEM keyPEM fingerprint)) of
                 Inl err \<Rightarrow> ret (Inl (WrapError ''failed to set controller reference on TLS secret'' err))
               | Inr m \<Rightarrow> do {
                   r \<leftarrow> Create_Secret api ((tls_Secret repo certPEM keyPEM fingerprint)\<lparr>sec_meta := m\<rparr>);
                   case r of
                     Inl err \<Rightarrow> ret (Inl (WrapError (''failed to create TLS secret '' @ getTLSSecretName repo) err))
                   | Inr _ \<Rightarrow> ret (Inr fingerprint)
                 }))
   }"

definition user_provided_TLS :: "env \<Rightarrow> KopiaRepository \<Rightarrow> Secret \<Rightarrow> string result" where
  "user_provided_TLS env repo secret = (case sec_Data secret ''tls.crt'' of
     None \<Rightarrow> Inl (ErrorString (''tls secret '' @ getTLSSecretName repo @ '' missing 'tls.crt' key''))
   | Some certPEM \<Rightarrow> (case sec_Data secret ''tls.key'' of
        None \<Rightarrow> Inl (ErrorString (''tls secret '' @ getTLSSecretName repo @ '' missing 'tls.key' key''))
      | Some _ \<Rightarrow> (case calculateCertFingerprint env certPEM of
           Inl err \<Rightarrow> Inl (WrapError ''failed to calculate fingerprint from user-provided cert'' err)
         | Inr fingerprint \<Rightarrow> Inr fingerprint)))"

definition renewBefore :: int where
  "renewBefore = 30 * 24 * time_Hour"

text \<open>The branch of \<open>EnsureTLSSecret\<close> for a Secret the operator generated earlier.\<close>

definition managed_TLS :: "env \<Rightarrow> 'w api \<Rightarrow> KopiaRepository \<Rightarrow> Secret \<Rightarrow> ('w st, string result) state" where
  "managed_TLS env api repo secret = (case sec_Data secret ''tls.crt'' of
     None \<Rightarrow> regenerate_TLS env api repo
   | Some certPEM \<Rightarrow> do {
       rot \<leftarrow> certNeedsRotation env api certPEM renewBefore;
       case rot of
         Some reason \<Rightarrow> do {
           d \<leftarrow> Delete_Secret api secret;
           case d of
             Inl err \<Rightarrow> ret (Inl (WrapError ''failed to delete expiring TLS secret'' err))
           | Inr _ \<Rightarrow> regenerate_TLS env api repo
         }
       | None \<Rightarrow> ret (case sec_Data secret ''fingerprint'' of
           Some fingerprint \<Rightarrow> Inr fingerprint
         | None \<Rightarrow> (case calculateCertFingerprint env certPEM of
             Inl err \<Rightarrow> Inl (WrapError ''failed to calculate fingerprint'' err)
           | Inr fingerprint \<Rightarrow> Inr fingerprint))
     })"

definition EnsureTLSSecret :: "env \<Rightarrow> 'w api \<Rightarrow> KopiaRepository \<Rightarrow> ('w st, string result) state" where
  "EnsureTLSSecret env api repo = do {
     let tlsSecretName = getTLSSecretName repo;
     let userProvided = (tls_SecretName (srv_TLS (rs_Server (kr_spec repo))) \<noteq> '''');
     got \<leftarrow> Get_Secret api (NamespacedName (repo_ns repo) tlsSecretName);
     case got of
       Inr secret \<Rightarrow>
         if userProvided then ret (user_provided_TLS env repo secret)
         else managed_TLS env api repo secret
     | Inl err \<Rightarrow>
         if \<not> IsNotFound err then ret (Inl (WrapError (''failed to get TLS secret '' @ tlsSecretName) err))
         else if userProvided then ret (Inl (ErrorString (''tls secret '' @ tlsSecretName
                @ '' not found: create it with 'tls.crt' and 'tls.key' keys'')))
         else regenerate_TLS env api repo
   }"

definition KopiaServerManager :: "env \<Rightarrow> 'w api \<Rightarrow> 'w ServerManager" where
  "KopiaServerManager env api = \<lparr>
     sm_EnsureServerDeployment = EnsureServerDeployment env api,
     sm_EnsureServerService = EnsureServerService env api,
     sm_EnsureTLSSecret = EnsureTLSSecret env api,
     sm_IsServerReady = IsServerReady api,
     sm_GetServerURL = GetServerURL\<rparr>"

section \<open>Deployment and Service: contract\<close>

definition deployment_writes :: "KopiaRepository \<Rightarrow> action \<Rightarrow> bool" where
  "deployment_writes repo x \<longleftrightarrow>
     (\<exists>d. (x = ACreateDeployment d \<or> x = AUpdateDeployment d)
        \<and> dep_spec d = dep_spec (constructServerDeployment repo (ServerDeploymentName (repo_name repo))))"

definition service_writes :: "KopiaRepository \<Rightarrow> action \<Rightarrow> bool" where
  "service_writes repo x \<longleftrightarrow>
     (let want = svc_spec (constructServerService repo (ServerServiceName (repo_name repo))) in
      \<exists>v. (x = ACreateService v \<or> x = AUpdateService v) \<and> ss_Ports (svc_spec v) = ss_Ports want
        \<and> ss_Type (svc_spec v) = ss_Type want \<and> ss_Selector (svc_spec v) = ss_Selector want)"

interpretation kdeployment: ensured "EnsureServerDeployment env api" deployment_writes for env api
proof
  fix a and s :: "'a st"
  show "wp (EnsureServerDeployment env api a) (ensured_post (deployment_writes a) s) s"
    by (auto simp: EnsureServerDeployment_def Let_def deployment_writes_def split: sum.splits
        intro: ensured_postI)
qed

interpretation kservice: ensured "EnsureServerService env api" service_writes for env api
proof
  fix a and s :: "'a st"
  show "wp (EnsureServerService env api a) (ensured_post (service_writes a) s) s"
    by (auto simp: EnsureServerService_def Let_def service_writes_def split: sum.splits
        intro: ensured_postI)
qed

lemma server_mounts_declared:
  "vm_Name ` set (server_mounts repo) = v_Name ` set (server_volumes repo)"
proof -
  have "map vm_Name (server_mounts repo) = map v_Name (server_volumes repo)"
    by (simp add: server_mounts_def server_volumes_def emptyDir_volume_def secret_volume_def
        constructStorageVolume_def Let_def)
  then show ?thesis by (metis list.set_map)
qed

lemma server_volumes_distinct: "distinct (map v_Name (server_volumes repo))"
  by (simp add: server_volumes_def emptyDir_volume_def secret_volume_def constructStorageVolume_def Let_def)

text \<open>What every server Deployment the manager writes satisfies.\<close>

definition server_spec_ok :: "KopiaRepository \<Rightarrow> DeploymentSpec \<Rightarrow> bool" where
  "server_spec_ok repo d \<longleftrightarrow>
     (\<exists>n. ds_Replicas d = Some n \<and> 1 \<le> sint n) \<and>
     ds_Selector d = om_Labels (pt_meta (ds_Template d)) \<and>
     mounts_declared (pt_spec (ds_Template d)) \<and> volumes_distinct (pt_spec (ds_Template d)) \<and>
     (\<exists>c. ps_Containers (pt_spec (ds_Template d)) = [c] \<and> c_Name c = ''kopia-server'' \<and>
        c_Args c = [constructServerCommand repo] \<and>
        rr_Requests (c_Resources c) \<noteq> None \<and> rr_Limits (c_Resources c) \<noteq> None \<and>
        env_entry (c_Env c) ''KOPIA_SERVER_PASSWORD''
          = Some (zero_EnvVar\<lparr>ev_Name := ''KOPIA_SERVER_PASSWORD'',
                   ev_SecretKeyRef := Some (getServerAdminPasswordSecretKeyRef repo)\<rparr>))"

lemma server_container_fields [simp]:
  "c_Name (server_container repo) = ''kopia-server''"
  "c_Args (server_container repo) = [constructServerCommand repo]"
  "c_Env (server_container repo) = server_env repo"
  "c_VolumeMounts (server_container repo) = server_mounts repo"
  "c_Resources (server_container repo) = server_resources (srv_Resources (rs_Server (kr_spec repo)))"
  by (simp_all add: server_container_def)

lemma server_env_password:
  "env_entry (server_env repo) ''KOPIA_SERVER_PASSWORD''
     = Some (zero_EnvVar\<lparr>ev_Name := ''KOPIA_SERVER_PASSWORD'',
              ev_SecretKeyRef := Some (getServerAdminPasswordSecretKeyRef repo)\<rparr>)"
  by (simp add: env_entry_def server_env_def)

lemma server_resources_given:
  "\<exists>q. rr_Requests (server_resources rr) = Some q" "\<exists>q. rr_Limits (server_resources rr) = Some q"
  by (simp_all add: server_resources_def split: option.splits)

lemma server_pod_spec:
  "mounts_declared p \<and> volumes_distinct p"
  if "p = zero_PodSpec\<lparr>ps_SeccompProfileType := sp, ps_Containers := [server_container repo],
        ps_Volumes := server_volumes repo\<rparr>"
  using server_mounts_declared [of repo] server_volumes_distinct [of repo]
  unfolding that by (auto simp: mounts_declared_def volumes_distinct_def zero_PodSpec_def)

lemma constructServerDeployment_ok: "server_spec_ok repo (dep_spec (constructServerDeployment repo n))"
  using server_pod_spec [OF refl, of repo "Some ''RuntimeDefault''"]
  unfolding server_spec_ok_def constructServerDeployment_def Let_def
  by (simp add: server_env_password server_resources_given)

text \<open>
  C26: whatever the cluster holds, \<open>EnsureServerDeployment\<close> writes at most once, succeeds exactly if
  that write did, and every Deployment it creates or updates is well formed: at least one replica, a
  selector that matches the pod labels, every mounted volume declared once, one container that
  runs the server script with requests, limits and the control password from its Secret.
\<close>

theorem server_deployment_written:
  assumes "run_state (EnsureServerDeployment env api repo) s = (r, s')"
  shows "trace s' = trace s \<or> (\<exists>d act. (act = ACreateDeployment d \<or> act = AUpdateDeployment d)
     \<and> trace s' = trace s @ [(act, ok r)] \<and> server_spec_ok repo (dep_spec d))"
proof (cases rule: kdeployment.run_cases [OF assms])
  case (2 x)
  then obtain d where "x = ACreateDeployment d \<or> x = AUpdateDeployment d"
    "dep_spec d = dep_spec (constructServerDeployment repo (ServerDeploymentName (repo_name repo)))"
    by (auto simp: deployment_writes_def)
  with 2 show ?thesis using constructServerDeployment_ok by auto
qed simp

lemma constructServerDeployment_meta:
  "dep_meta (constructServerDeployment repo n) = zero_ObjectMeta\<lparr>om_Name := n,
     om_Namespace := repo_ns repo, om_Labels := Some (ServerLabels (repo_name repo))\<rparr>"
  by (simp add: constructServerDeployment_def Let_def)

theorem server_deployment_written_witness:
  "\<exists>r s' d. run_state (EnsureServerDeployment ref_env mem_api example_repo) (start empty_cluster) = (r, s')
     \<and> trace s' = [(ACreateDeployment d, True)] \<and> server_spec_ok example_repo (dep_spec d)"
proof -
  obtain r s' where run:
    "run_state (EnsureServerDeployment ref_env mem_api example_repo) (start empty_cluster) = (r, s')"
    by (metis prod.exhaust)
  obtain m where "ref_SetControllerReference ''KopiaRepository'' (kr_meta example_repo) (dep_meta
      (constructServerDeployment example_repo (ServerDeploymentName (repo_name example_repo)))) = Inr m"
    by (simp add: ref_SetControllerReference_def constructServerDeployment_meta zero_ObjectMeta_def)
  with run have "ok r" "\<exists>d. trace s' = [(ACreateDeployment d, True)]"
    by (auto simp: EnsureServerDeployment_def Let_def client_read_def client_call_def start_def
        empty_cluster_def mem_defs IsNotFound_def)
  with server_deployment_written [OF run] run show ?thesis by (auto simp: start_def)
qed

text \<open>
  The specs that \<open>DeepEqual\<close> identifies agree on the fields that the operator does not set (\<open>ss_Rest\<close>, empty
  in what it sends).
\<close>

definition service_rest_law :: "env \<Rightarrow> bool" where
  "service_rest_law env \<longleftrightarrow> (\<forall>x y. DeepEqual_ServiceSpec env x y \<longrightarrow> ss_Rest x = ss_Rest y)"

text \<open>
  C34: the update of the server's Service does not depend on the ports, the type and the selector that the cluster
  has: the code overwrites them in the copy it read before it compares the copy with the desired spec.
  What decides is whether a field is set that the operator leaves empty. A Service with such a field, as
  one that was given a cluster address, is sent on every call, also if nothing is to be changed; a
  Service without is never updated, whatever port, type or selector it has.
\<close>

theorem service_update_unrelated:
  assumes "deep_equal_refl env" "service_rest_law env"
    and "run_state (EnsureServerService env api repo) s = (r, s')"
    and "fst (api_get_Service api (NamespacedName (repo_ns repo) (ServerServiceName (repo_name repo))) (world s)) = Inr existing"
    and "SetControllerReference env ''KopiaRepository'' (kr_meta repo)
      (svc_meta (constructServerService repo (ServerServiceName (repo_name repo)))) = Inr m"
  shows "let want = svc_spec (constructServerService repo (ServerServiceName (repo_name repo))) in
    if ss_Rest (svc_spec existing) = '''' then r = Inr () \<and> trace s' = trace s
    else trace s' = trace s @ [(AUpdateService (existing\<lparr>svc_spec := (svc_spec existing)\<lparr>
      ss_Ports := ss_Ports want, ss_Type := ss_Type want, ss_Selector := ss_Selector want\<rparr>\<rparr>), ok r)]"
proof -
  let ?want = "svc_spec (constructServerService repo (ServerServiceName (repo_name repo)))"
  let ?sent = "(svc_spec existing)\<lparr>ss_Ports := ss_Ports ?want, ss_Type := ss_Type ?want, ss_Selector := ss_Selector ?want\<rparr>"
  have want: "ss_Rest ?want = ''''" by (simp add: constructServerService_def Let_def)
  have "DeepEqual_ServiceSpec env ?sent ?want \<longleftrightarrow> ss_Rest (svc_spec existing) = ''''"
  proof
    assume "DeepEqual_ServiceSpec env ?sent ?want"
    with assms(2) have "ss_Rest ?sent = ss_Rest ?want" unfolding service_rest_law_def by blast
    then show "ss_Rest (svc_spec existing) = ''''" using want by simp
  next
    assume "ss_Rest (svc_spec existing) = ''''"
    then have "?sent = ?want" using want by (simp add: ServiceSpec.equality)
    then show "DeepEqual_ServiceSpec env ?sent ?want" using assms(1) by (simp add: deep_equal_refl_def)
  qed
  with assms(3-5) show ?thesis
    by (auto simp: EnsureServerService_def Let_def client_read_def client_call_def split: prod.splits)
qed

definition stale_service :: "string \<Rightarrow> Service" where
  "stale_service rest = \<lparr>svc_meta = zero_ObjectMeta\<lparr>om_Name := ''kopia-server-repo'', om_Namespace := ''ns''\<rparr>,
     svc_spec = \<lparr>ss_Type = ''ClusterIP'', ss_Selector = None,
       ss_Ports = [\<lparr>sp_Name = ''api'', sp_Port = 9999, sp_TargetPort = 1, sp_Protocol = ''TCP''\<rparr>], ss_Rest = rest\<rparr>\<rparr>"

lemma ref_service_rest_law: "service_rest_law ref_env"
  by (simp add: service_rest_law_def)

theorem service_update_unrelated_witness:
  "trace (snd (run_state (EnsureServerService ref_env mem_api example_repo)
      (start (empty_cluster\<lparr>cl_services := [stale_service '''']\<rparr>)))) = []
   \<and> (\<exists>v g. trace (snd (run_state (EnsureServerService ref_env mem_api example_repo)
      (start (empty_cluster\<lparr>cl_services := [stale_service ''clusterIP: 10.0.0.1'']\<rparr>)))) = [(AUpdateService v, g)])"
proof -
  let ?run = "\<lambda>rest. run_state (EnsureServerService ref_env mem_api example_repo) (start (empty_cluster\<lparr>cl_services := [stale_service rest]\<rparr>))"
  have "fst (api_get_Service mem_api (NamespacedName (repo_ns example_repo) (ServerServiceName (repo_name example_repo)))
      (world (start (empty_cluster\<lparr>cl_services := [stale_service rest]\<rparr>)))) = Inr (stale_service rest)" for rest
    by (simp add: start_def mem_defs stale_service_def example_repo_def zero_defs ServerServiceName_def)
  moreover obtain m where "SetControllerReference ref_env ''KopiaRepository'' (kr_meta example_repo)
      (svc_meta (constructServerService example_repo (ServerServiceName (repo_name example_repo)))) = Inr m"
    by (simp add: ref_SetControllerReference_def constructServerService_def Let_def zero_ObjectMeta_def)
  ultimately have run: "let want = svc_spec (constructServerService example_repo (ServerServiceName (repo_name example_repo))) in
    if ss_Rest (svc_spec (stale_service rest)) = '''' then fst (?run rest) = Inr () \<and> trace (snd (?run rest)) = trace (start (empty_cluster\<lparr>cl_services := [stale_service rest]\<rparr>))
    else trace (snd (?run rest)) = trace (start (empty_cluster\<lparr>cl_services := [stale_service rest]\<rparr>)) @ [(AUpdateService ((stale_service rest)\<lparr>svc_spec := (svc_spec (stale_service rest))\<lparr>
      ss_Ports := ss_Ports want, ss_Type := ss_Type want, ss_Selector := ss_Selector want\<rparr>\<rparr>), ok (fst (?run rest)))]" for rest
    by (intro service_update_unrelated [OF ref_deep_equal_refl ref_service_rest_law prod.collapse [symmetric]])
  have "ss_Rest (svc_spec (stale_service rest)) = rest" for rest by (simp add: stale_service_def)
  then show ?thesis using run [of "''''"] run [of "''clusterIP: 10.0.0.1''"] by (simp add: start_def Let_def)
qed

section \<open>The TLS Secret: behaviour\<close>

text \<open>A certificate must be replaced at time \<open>now\<close>: unreadable, or within 30 days of its end.\<close>

definition rotation_due :: "env \<Rightarrow> string \<Rightarrow> int \<Rightarrow> bool" where
  "rotation_due env certPEM now = (case pem_Decode env certPEM of None \<Rightarrow> True
     | Some bytes \<Rightarrow> (case x509_ParseCertificate env bytes of Inl _ \<Rightarrow> True
        | Inr cert \<Rightarrow> x509_NotAfter cert - now < 30 * 24 * time_Hour))"

definition clock :: "'w api \<Rightarrow> 'w st \<Rightarrow> int" where
  "clock api s = fst (api_time_Now api (world s))"

lemma sat_Duration_less:
  "d \<le> 2 ^ 63 - 1 \<Longrightarrow> - (2 ^ 63) < d \<Longrightarrow> sat_Duration x < d \<longleftrightarrow> x < d"
  by (auto simp: sat_Duration_def)

lemma sat_Duration_nonpos: "sat_Duration x \<le> 0 \<longleftrightarrow> x \<le> 0"
  by (auto simp: sat_Duration_def)

lemmas time_defs = renewBefore_def time_Hour_def time_Minute_def time_Second_def

lemma certNeedsRotation_due:
  "wp (certNeedsRotation env api certPEM renewBefore)
     (\<lambda>rot s'. trace s' = trace s \<and> (rot \<noteq> None \<longleftrightarrow> rotation_due env certPEM (clock api s))) s"
proof -
  have "sat_Duration x < renewBefore \<longleftrightarrow> x < 30 * 24 * time_Hour" for x
    by (simp add: time_defs sat_Duration_less)
  moreover have "(0::int) < 30 * 24 * time_Hour" by (simp add: time_defs)
  ultimately show ?thesis
    by (auto simp: certNeedsRotation_def rotation_due_def clock_def Let_def sat_Duration_nonpos
        split: option.splits sum.splits prod.splits)
qed

definition tls_create :: "env \<Rightarrow> KopiaRepository \<Rightarrow> string result \<Rightarrow> entry list \<Rightarrow> bool" where
  "tls_create env repo r t \<longleftrightarrow> (\<exists>x cert key fp. t = [(ACreateSecret x, ok r)]
     \<and> sec_Data x = [''tls.crt'' \<mapsto> cert, ''tls.key'' \<mapsto> key, ''fingerprint'' \<mapsto> fp]
     \<and> calculateCertFingerprint env cert = Inr fp \<and> (ok r \<longrightarrow> r = Inr fp))"

lemma regenerate_TLS_trace:
  "wp (regenerate_TLS env api repo) (\<lambda>r s'. \<exists>t. trace s' = trace s @ t
     \<and> (t = [] \<and> \<not> ok r \<or> tls_create env repo r t)) s"
  by (auto simp: regenerate_TLS_def generateSelfSignedCert_def Let_def tls_create_def tls_Secret_def
      split: sum.splits prod.splits)

definition tls_effects :: "env \<Rightarrow> KopiaRepository \<Rightarrow> string result \<Rightarrow> entry list \<Rightarrow> bool" where
  "tls_effects env repo r t \<longleftrightarrow> t = [] \<or> tls_create env repo r t
     \<or> (\<exists>x b cert now t'. t = (ADeleteSecret x, b) # t'
          \<and> sec_Data x ''tls.crt'' = Some cert \<and> rotation_due env cert now
          \<and> (t' = [] \<and> \<not> ok r \<or> b \<and> tls_create env repo r t'))"

lemma tls_effects_Nil [simp]: "tls_effects env repo r []"
  by (simp add: tls_effects_def)

lemma regenerate_TLS_effects:
  assumes "pre = [] \<or> (\<exists>x cert now. pre = [(ADeleteSecret x, True)] \<and> sec_Data x ''tls.crt'' = Some cert
      \<and> rotation_due env cert now)"
    and "trace u = t0 @ pre"
  shows "wp (regenerate_TLS env api repo) (\<lambda>r s'. \<exists>t. trace s' = t0 @ t \<and> tls_effects env repo r t) u"
  using assms by (elim disjE exE conjE)
    (rule wp_mono [OF regenerate_TLS_trace], fastforce simp: tls_effects_def)+

lemma tls_effects_deleted:
  "sec_Data x ''tls.crt'' = Some cert \<Longrightarrow> rotation_due env cert now \<Longrightarrow> \<not> ok r \<Longrightarrow>
     tls_effects env repo r [(ADeleteSecret x, b)]"
  by (auto simp: tls_effects_def)

lemma regenerate_TLS_fresh:
  "trace u = t0 \<Longrightarrow> wp (regenerate_TLS env api repo) (\<lambda>r s'. \<exists>t. trace s' = t0 @ t \<and> tls_effects env repo r t) u"
  by (rule regenerate_TLS_effects [of "[]"]) simp_all

lemma managed_TLS_effects:
  "wp (managed_TLS env api repo secret) (\<lambda>r s'. \<exists>t. trace s' = trace s @ t \<and> tls_effects env repo r t) s"
proof (cases "sec_Data secret ''tls.crt''")
  case None
  then show ?thesis
    by (simp add: managed_TLS_def regenerate_TLS_fresh)
next
  case (Some cert)
  have rotate: "wp (Delete_Secret api secret \<bind> (\<lambda>d. case d of
        Inl err \<Rightarrow> ret (Inl (WrapError ''failed to delete expiring TLS secret'' err))
      | Inr _ \<Rightarrow> regenerate_TLS env api repo))
      (\<lambda>r s'. \<exists>t. trace s' = trace s @ t \<and> tls_effects env repo r t) u"
    if "trace u = trace s" "rotation_due env cert now" for u now
    using that Some
    by (auto split: sum.splits intro: tls_effects_deleted
        intro!: regenerate_TLS_effects [of "[(ADeleteSecret secret, True)]"])
  show ?thesis
    unfolding managed_TLS_def Some option.case wp_bind
    by (rule wp_mono [OF certNeedsRotation_due]) (auto split: option.splits simp del: wp_bind intro: rotate)
qed

lemma EnsureTLSSecret_effects:
  assumes "tls_SecretName (srv_TLS (rs_Server (kr_spec repo))) = ''''"
  shows "wp (EnsureTLSSecret env api repo) (\<lambda>r s'. \<exists>t. trace s' = trace s @ t \<and> tls_effects env repo r t) s"
  using assms managed_TLS_effects [of env api repo _ "s\<lparr>world := _\<rparr>"]
  by (auto simp: EnsureTLSSecret_def Let_def regenerate_TLS_fresh split: sum.splits prod.splits)


text \<open>
  A TLS Secret that the repository names in its spec is only read: \<open>EnsureTLSSecret\<close> makes no
  write at all, and a fingerprint it returns is that of the certificate in this Secret.
\<close>

lemma tls_user_provided_read_only:
  assumes "tls_SecretName (srv_TLS (rs_Server (kr_spec repo))) = n" "n \<noteq> ''''"
    and "run_state (EnsureTLSSecret env api repo) s = (r, s')"
  shows "trace s' = trace s \<and> (\<forall>fp. r = Inr fp \<longrightarrow> (\<exists>secret cert.
     fst (api_get_Secret api (NamespacedName (repo_ns repo) n) (world s)) = Inr secret
     \<and> sec_Data secret ''tls.crt'' = Some cert \<and> ''tls.key'' \<in> dom (sec_Data secret)
     \<and> calculateCertFingerprint env cert = Inr fp))"
proof -
  have "wp (EnsureTLSSecret env api repo) (\<lambda>r s'. trace s' = trace s \<and> (\<forall>fp. r = Inr fp \<longrightarrow> (\<exists>secret cert.
     fst (api_get_Secret api (NamespacedName (repo_ns repo) n) (world s)) = Inr secret
     \<and> sec_Data secret ''tls.crt'' = Some cert \<and> ''tls.key'' \<in> dom (sec_Data secret)
     \<and> calculateCertFingerprint env cert = Inr fp))) s"
    using assms(1,2) by (auto simp: EnsureTLSSecret_def Let_def getTLSSecretName_def user_provided_TLS_def
        split: sum.splits prod.splits option.splits)
  from wpD [OF this assms(3)] show ?thesis .
qed

section \<open>The manager as a ServerManager\<close>

lemma tls_effects_server:
  "tls_effects env repo r t \<Longrightarrow> x \<in> set t \<Longrightarrow> server_effect (fst x)"
  by (auto simp: tls_effects_def tls_create_def)

lemma EnsureTLSSecret_trace:
  "wp (EnsureTLSSecret env api repo) (\<lambda>r s'. \<exists>t. trace s' = trace s @ t \<and> tls_effects env repo r t) s"
proof (cases "tls_SecretName (srv_TLS (rs_Server (kr_spec repo))) = ''''")
  case False
  then show ?thesis by (auto simp: EnsureTLSSecret_def Let_def split: sum.splits prod.splits)
qed (rule EnsureTLSSecret_effects)

lemma EnsureTLSSecret_emits: "emits_only (\<lambda>x. server_effect (fst x)) (EnsureTLSSecret env api repo)"
  by (rule emits_onlyI_wp, rule wp_mono [OF EnsureTLSSecret_trace]) (blast dest: tls_effects_server)

interpretation ksm: server_manager "KopiaServerManager env api" for env :: env and api :: "'w api"
proof
  fix repo
  show "emits_only (\<lambda>x. server_effect (fst x)) (sm_EnsureServerDeployment (KopiaServerManager env api) repo)"
    by (simp add: KopiaServerManager_def, rule emits_only_mono [OF kdeployment.effects])
      (auto simp: deployment_writes_def)
  show "emits_only (\<lambda>x. server_effect (fst x)) (sm_EnsureServerService (KopiaServerManager env api) repo)"
    by (simp add: KopiaServerManager_def, rule emits_only_mono [OF kservice.effects])
      (auto simp: service_writes_def Let_def)
  show "emits_only (\<lambda>x. server_effect (fst x)) (sm_EnsureTLSSecret (KopiaServerManager env api) repo)"
    by (simp add: KopiaServerManager_def EnsureTLSSecret_emits)
  show "emits_only (\<lambda>x. False) (sm_IsServerReady (KopiaServerManager env api) repo)"
    unfolding KopiaServerManager_def IsServerReady_def Let_def
    by (simp, intro emits_intros)
qed

section \<open>Lifetime of a generated certificate\<close>

lemma generateSelfSignedCert_expiry:
  assumes law: "cert_law env api"
  shows "wp (generateSelfSignedCert env api cn dns) (\<lambda>r s'. \<forall>cert key. r = Inr (cert, key) \<longrightarrow>
     (\<exists>w c b. pem_Decode env cert = Some b \<and> x509_ParseCertificate env b = Inr c
        \<and> fst (api_time_Now api w) + 365 * 24 * time_Hour - time_Second < x509_NotAfter c
        \<and> x509_NotAfter c \<le> fst (api_time_Now api w) + 365 * 24 * time_Hour)) s"
proof -
  have pem: "pem_Decode env (pem_EncodeToMemory env ty b) = Some b" for ty b
    using law by (simp add: cert_law_def)
  have parse: "\<exists>c. x509_ParseCertificate env der = Inr c
      \<and> ct_NotAfter t - time_Second < x509_NotAfter c \<and> x509_NotAfter c \<le> ct_NotAfter t"
    if "api_x509_CreateCertificate api t k w = (Inr der, w')" for t k w der w'
    using law that unfolding cert_law_def by blast
  show ?thesis
    by (auto simp: generateSelfSignedCert_def pem split: sum.splits prod.splits dest!: parse)
      (metis fst_conv)
qed



lemma server_url_host:
  "\<exists>host. GetServerURL repo = ''https://'' @ host @ '':''
       @ fmt_d32 (sp_Port (hd (ss_Ports (svc_spec (constructServerService repo n)))))
     \<and> host \<in> set (server_dnsNames repo)"
  by (rule exI [of _ "ServerServiceName (repo_name repo) @ ''.'' @ repo_ns repo @ ''.svc.cluster.local''"])
    (simp add: GetServerURL_def constructServerService_def server_dnsNames_def Let_def)

section \<open>TLS examples\<close>

definition example_tls :: "string \<Rightarrow> string \<Rightarrow> Secret" where
  "example_tls n cert = \<lparr>sec_meta = zero_ObjectMeta\<lparr>om_Name := n, om_Namespace := ''ns''\<rparr>,
     sec_Type = ''kubernetes.io/tls'', sec_Data = [''tls.crt'' \<mapsto> cert, ''tls.key'' \<mapsto> ''k''],
     sec_StringData = Map.empty\<rparr>"

lemma ref_calculateCertFingerprint:
  "\<exists>fp. calculateCertFingerprint ref_env (''PEM:'' @ b) = Inr fp"
  by (simp add: calculateCertFingerprint_def strings_HasPrefix_def)

lemma ref_regenerate_TLS:
  assumes "store_get sec_meta (NamespacedName (repo_ns repo) (getTLSSecretName repo)) (cl_secrets (world s)) = None"
  shows "\<exists>fp s'. run_state (regenerate_TLS ref_env mem_api repo) s = (Inr fp, s')"
proof -
  obtain fp where "calculateCertFingerprint ref_env (''PEM:'' @ fmt_d (cl_now (world s) + 365 * 24 * time_Hour)) = Inr fp"
    using ref_calculateCertFingerprint by blast
  with assms show ?thesis
    by (simp add: regenerate_TLS_def Let_def generateSelfSignedCert_def client_read_def client_call_def
      mem_defs store_secret_def tls_Secret_def ref_SetControllerReference_def zero_ObjectMeta_def)
qed

abbreviation expiring_cluster :: cluster where
  "expiring_cluster \<equiv> empty_cluster\<lparr>cl_secrets := [example_tls ''kopia-server-tls-repo'' ''PEM:0'']\<rparr>"

lemma expiring_deleted:
  "\<exists>fp s' x t'. run_state (EnsureTLSSecret ref_env mem_api example_repo) (start expiring_cluster) = (Inr fp, s')
     \<and> trace s' = (ADeleteSecret x, True) # t'"
proof -
  let ?x = "example_tls ''kopia-server-tls-repo'' ''PEM:0''"
  let ?u = "\<lparr>world = empty_cluster, trace = [(ADeleteSecret ?x, True)]\<rparr>"
  have "store_get sec_meta (NamespacedName (repo_ns example_repo) (getTLSSecretName example_repo)) (cl_secrets (world ?u)) = None"
    by (simp add: empty_cluster_def)
  from ref_regenerate_TLS [OF this] obtain fp s' where gen:
    "run_state (regenerate_TLS ref_env mem_api example_repo) ?u = (Inr fp, s')" by blast
  moreover have "read_int ''0'' = 0" by code_simp
  moreover have "empty_cluster\<lparr>cl_secrets := []\<rparr> = empty_cluster" by (simp add: empty_cluster_def)
  ultimately have "run_state (EnsureTLSSecret ref_env mem_api example_repo) (start expiring_cluster) = (Inr fp, s')"
    by (simp add: EnsureTLSSecret_def managed_TLS_def Let_def client_read_def client_call_def mem_defs start_def
        certNeedsRotation_def example_tls_def example_repo_def zero_defs getTLSSecretName_def TLSSecretName_def
        strings_HasPrefix_def sat_Duration_def empty_cluster_def)
  moreover from wpD [OF regenerate_TLS_trace gen] obtain t where "trace s' = (ADeleteSecret ?x, True) # t" by auto
  ultimately show ?thesis by blast
qed


abbreviation own_tls_repo :: KopiaRepository where
  "own_tls_repo \<equiv> example_repo\<lparr>kr_spec := (kr_spec example_repo)\<lparr>rs_Server := zero_KopiaServerSpec\<lparr>
     srv_Enabled := True, srv_TLS := \<lparr>tls_SecretName = ''mytls'', tls_CertificateCommonName = '''',
       tls_CertificateDNSNames = []\<rparr>\<rparr>\<rparr>\<rparr>"

end
