(* ===== verification/Go_Json.thy ===== *)
theory Go_Json
  imports Go_Text
begin

text \<open>
  \<open>encoding/json\<close> as the operator uses it: \<open>json.MarshalIndent\<close> with an empty prefix and an indent of
  two spaces, and the reading of a string literal, which the encoding of strings inverts.
\<close>

section \<open>Encoding\<close>

datatype json = JNull | JBool bool | JInt int | JString string | JArray "json list"
  | JObject "(string \<times> json) list"

text \<open>
  String literals: two-character escapes, \<open>\\u00XX\<close> for other control characters and (HTML-safe
  output is the default) for \<open><\<close>, \<open>>\<close> and \<open>&\<close>, the replacement rune for an invalid byte, and the
  two line separators that are not valid in JavaScript.
\<close>

definition json_u :: "nat \<Rightarrow> string" where
  "json_u r = [CHR 0x5C, CHR ''u''] @ hex_rune 4 r"

definition json_rune :: "nat \<times> string \<Rightarrow> string" where
  "json_rune rb = (case rb of (r, bs) \<Rightarrow>
     if r = RuneError \<and> length bs = 1 then json_u RuneError
     else if r = 34 then [CHR 0x5C, CHR 0x22]
     else if r = 92 then [CHR 0x5C, CHR 0x5C]
     else if r = 8 then [CHR 0x5C, CHR ''b'']
     else if r = 12 then [CHR 0x5C, CHR ''f'']
     else if r = 10 then [CHR 0x5C, CHR ''n'']
     else if r = 13 then [CHR 0x5C, CHR ''r'']
     else if r = 9 then [CHR 0x5C, CHR ''t'']
     else if r < 32 \<or> r = 60 \<or> r = 62 \<or> r = 38 \<or> r = 8232 \<or> r = 8233 then json_u r
     else bs)"

definition json_string :: "string \<Rightarrow> string" where
  "json_string s = [CHR 0x22] @ concat (map json_rune (runes s)) @ [CHR 0x22]"

definition json_nl :: "nat \<Rightarrow> string" where
  "json_nl depth = CHR 0x0A # replicate (2 * depth) (CHR 0x20)"

fun json_indent :: "nat \<Rightarrow> json \<Rightarrow> string" where
  "json_indent d JNull = ''null''"
| "json_indent d (JBool b) = (if b then ''true'' else ''false'')"
| "json_indent d (JInt i) = fmt_d i"
| "json_indent d (JString s) = json_string s"
| "json_indent d (JArray xs) = (if xs = [] then ''[]'' else
     ''['' @ strings_Join (map (\<lambda>x. json_nl (Suc d) @ json_indent (Suc d) x) xs) '','' @ json_nl d @ '']'')"
| "json_indent d (JObject fs) = (if fs = [] then ''{}'' else
     ''{'' @ strings_Join (map (\<lambda>f. json_nl (Suc d) @ json_string (fst f) @ '': ''
        @ json_indent (Suc d) (snd f)) fs) '','' @ json_nl d @ ''}'')"

definition json_MarshalIndent :: "json \<Rightarrow> string" where
  "json_MarshalIndent j = json_indent 0 j"

section \<open>Reading a string literal\<close>

definition hex_val :: "char \<Rightarrow> nat" where
  "hex_val c = (let b = byte_of c in if 97 \<le> b then b - 87 else if 65 \<le> b then b - 55 else b - 48)"

definition unescape :: "char \<Rightarrow> char" where
  "unescape c = (if c = CHR ''b'' then CHR 0x08 else if c = CHR ''f'' then CHR 0x0C
     else if c = CHR ''n'' then CHR 0x0A else if c = CHR ''r'' then CHR 0x0D
     else if c = CHR ''t'' then CHR 0x09 else c)"

text \<open>The characters of a literal after its opening quote, and the rest after its closing one.\<close>

fun json_scan :: "string \<Rightarrow> (string \<times> string) option" where
  "json_scan [] = None"
| "json_scan (c # s) =
     (if c = CHR 0x22 then Some ([], s)
      else if c = CHR 0x5C then
        (case s of
           e # r \<Rightarrow>
             if e = CHR ''u'' then
               (case r of h1 # h2 # h3 # h4 # t \<Rightarrow>
                  map_option (\<lambda>(v, k). (encode_rune (hex_val h1 * 4096 + hex_val h2 * 256 + hex_val h3 * 16 + hex_val h4) @ v, k))
                    (json_scan t)
                | _ \<Rightarrow> None)
             else map_option (\<lambda>(v, k). (unescape e # v, k)) (json_scan r)
         | _ \<Rightarrow> None)
      else map_option (\<lambda>(v, k). (c # v, k)) (json_scan s))"

lemma hex_val_digit: "d < 16 \<Longrightarrow> hex_val (hex_digit False d) = d"
  by (auto simp: hex_val_def hex_digit_def char_byte_def byte_of_def of_char_of Let_def)

lemma hex_rune_4:
  "hex_rune 4 r = [hex_digit False (r div 4096 mod 16), hex_digit False (r div 256 mod 16),
     hex_digit False (r div 16 mod 16), hex_digit False (r mod 16)]"
proof -
  have "rev [0..<4] = [3, 2, 1, 0 :: nat]" by code_simp
  then show ?thesis by (simp add: hex_rune_def)
qed

lemma hex_rune_value:
  "r < 65536 \<Longrightarrow> (r div 4096 mod 16) * 4096 + (r div 256 mod 16) * 256 + (r div 16 mod 16) * 16 + r mod 16 = (r :: nat)"
proof -
  assume r: "r < 65536"
  define a where "a = r div 16"
  define b where "b = a div 16"
  define c where "c = b div 16"
  have d: "r div 256 = b" "r div 4096 = c" by (simp_all add: a_def b_def c_def div_mult2_eq [symmetric])
  have m: "c mod 16 = c" using r d(2) by simp
  have "r = 16 * a + r mod 16" "a = 16 * b + a mod 16" "b = 16 * c + b mod 16"
    by (simp_all add: a_def b_def c_def)
  then show ?thesis unfolding a_def [symmetric] d m by linarith
qed

lemma json_scan_u:
  assumes "r < 128"
  shows "json_scan (json_u r @ s) = map_option (\<lambda>(v, k). (char_byte r # v, k)) (json_scan s)"
proof -
  have "encode_rune r = [char_byte r]" using assms by (simp add: encode_rune_def Let_def)
  with assms hex_rune_value [of r] show ?thesis
    by (simp add: json_u_def hex_rune_4 hex_val_digit)
qed

lemma json_scan_rune:
  assumes "byte_of c < 128"
  shows "json_scan (json_rune (byte_of c, [c]) @ s) = map_option (\<lambda>(v, k). (c # v, k)) (json_scan s)"
proof -
  have c: "char_byte (byte_of c) = c" by (simp add: char_byte_def byte_of_def)
  have chars: "char_byte 34 = CHR 0x22" "char_byte 92 = CHR 0x5C" "char_byte 8 = CHR 0x08"
    "char_byte 12 = CHR 0x0C" "char_byte 10 = CHR 0x0A" "char_byte 13 = CHR 0x0D" "char_byte 9 = CHR 0x09"
    by code_simp+
  have eqs: "byte_of c = n \<Longrightarrow> c = char_byte n" for n using c by auto
  have special: "c = CHR 0x22 \<longleftrightarrow> byte_of c = 34" "c = CHR 0x5C \<longleftrightarrow> byte_of c = 92"
    using c chars by (auto simp: byte_of_def)
  consider "byte_of c = 34" | "byte_of c = 92" | "byte_of c = 8" | "byte_of c = 12" | "byte_of c = 10"
    | "byte_of c = 13" | "byte_of c = 9"
    | "byte_of c \<notin> {34, 92, 8, 12, 10, 13, 9}" by blast
  then show ?thesis
  proof cases
    case 8
    moreover have "byte_of c \<noteq> 65533" using assms by simp
    ultimately show ?thesis using special json_scan_u [OF assms, of s] c
      by (simp add: json_rune_def RuneError_def)
  qed (auto simp: json_rune_def RuneError_def unescape_def chars dest: eqs)
qed

text \<open>Reading inverts encoding, for ASCII strings.\<close>

lemma json_scan_string:
  "ascii s \<Longrightarrow> json_scan (tl (json_string s) @ k) = Some (s, k)"
proof (induction s)
  case (Cons c s)
  then have "byte_of c < 128" "ascii s" by (auto simp: ascii_def)
  with Cons show ?case
    by (simp add: json_string_def runes_Cons_ascii json_scan_rune)
qed (simp add: json_string_def)

lemma json_string_inject:
  "ascii s \<Longrightarrow> ascii t \<Longrightarrow> json_string s @ k = json_string t @ l \<Longrightarrow> s = t \<and> k = l"
  using json_scan_string [of s k] json_scan_string [of t l]
  by (simp add: json_string_def)

end
