(* ===== verification/Backup_Builder.thy ===== *)
theory Backup_Builder
  imports Server_Manager Go_Json
begin

text \<open>
  What the KopiaBackup controller builds (internal/controller/kopiabackup/builder.go): the CronJob of a
  backup with its shell command, volumes and environment, and the ConfigMap with the Kopia
  configuration for repositories that are used directly.
\<close>

section \<open>The command\<close>

definition defaultSuccessfulJobsHistoryLimit :: int32 where "defaultSuccessfulJobsHistoryLimit = 3"
definition defaultFailedJobsHistoryLimit :: int32 where "defaultFailedJobsHistoryLimit = 1"
definition defaultTTLSecondsAfterFinished :: int32 where "defaultTTLSecondsAfterFinished = 86400"
definition defaultActiveDeadlineSeconds :: int64 where "defaultActiveDeadlineSeconds = 21600"
definition defaultBackoffLimit :: int32 where "defaultBackoffLimit = 5"

definition connectRetryAttempts :: int where "connectRetryAttempts = 12"
definition connectRetryDelaySeconds :: int where "connectRetryDelaySeconds = 30"

definition backup_serverURL :: "KopiaRepository \<Rightarrow> string" where
  "backup_serverURL repo =
     (let port = (if ex_ServicePort (srv_Exposure (rs_Server (kr_spec repo))) \<noteq> 0
                  then ex_ServicePort (srv_Exposure (rs_Server (kr_spec repo))) else 51515) in
      ''https://kopia-server-'' @ repo_name repo @ ''.'' @ repo_ns repo @ ''.svc.cluster.local:'' @ fmt_d32 port)"

definition buildBackupCommand :: "KopiaBackup \<Rightarrow> KopiaRepository \<Rightarrow> string \<Rightarrow> string" where
  "buildBackupCommand backup repo mountPath =
     (if server_enabled repo then unlines [
        ''set -e'',
        ''echo \"[1/4] Connecting to Kopia Server...\"'',
        ''# The server runs a single replica: while it is unready (restart, or a'',
        ''# readiness blip under load) its Service has no endpoint and the connect fails'',
        ''# the TLS handshake with \"authentication handshake failed: EOF\". Retry here'',
        ''# rather than burning the Job's backoffLimit on a server that is coming back.'',
        ''connect_attempts='' @ fmt_d connectRetryAttempts,
        ''attempt=1'',
        ''until kopia repository connect server '' @ bsl,
        ''  --url='' @ backup_serverURL repo @ '' '' @ bsl,
        ''  --server-cert-fingerprint=\"${KOPIA_TLS_FINGERPRINT}\" '' @ bsl,
        ''  --override-username=\"${KOPIA_SERVER_USERNAME%%@*}\" '' @ bsl,
        ''  --override-hostname=\"${KOPIA_SERVER_USERNAME#*@}\"; do'',
        ''  if [ \"${attempt}\" -ge \"${connect_attempts}\" ]; then'',
        ''    echo \"[ERROR] Could not connect to the Kopia Server after ${connect_attempts} attempts\"'',
        ''    exit 1'',
        ''  fi'',
        ''  echo \"[WARN] Connect attempt ${attempt}/${connect_attempts} failed; retrying in ''
          @ fmt_d connectRetryDelaySeconds @ ''s...\"'',
        ''  attempt=$((attempt + 1))'',
        ''  sleep '' @ fmt_d connectRetryDelaySeconds,
        ''done'',
        '''',
        ''echo \"[2/4] Creating snapshot...\"'',
        ''kopia snapshot create '' @ mountPath
          @ '' || { echo \"[WARN] Snapshot completed with errors (see above), continuing...\"; }'',
        '''',
        ''echo \"[3/4] Listing snapshots...\"'',
        ''kopia snapshot list '' @ mountPath,
        '''',
        ''echo \"[4/4] Disconnecting repository...\"'',
        ''mkdir -p \"${KOPIA_LOG_DIR}/cli-logs\"'',
        ''kopia repository disconnect 2>/dev/null || true'']
      else unlines [
        ''set -e'',
        ''echo \"[1/4] Creating snapshot...\"'',
        ''kopia snapshot create '' @ mountPath
          @ '' || { echo \"[WARN] Snapshot completed with errors (see above), continuing...\"; }'',
        '''',
        ''echo \"[2/4] Listing snapshots...\"'',
        ''kopia snapshot list '' @ mountPath,
        '''',
        ''echo \"[3/4] Showing content stats...\"'',
        ''kopia content stats'',
        '''',
        ''echo \"[4/4] Showing maintenance info...\"'',
        ''kopia maintenance info''])"

section \<open>The CronJob\<close>

record podPlacement =
  pp_NodeName :: string
  pp_AppName :: string
  pp_PodName :: string
  pp_Tolerations :: "Toleration list"

definition zero_podPlacement :: podPlacement where
  "zero_podPlacement = \<lparr>pp_NodeName = '''', pp_AppName = '''', pp_PodName = '''', pp_Tolerations = []\<rparr>"

definition defaultTolerations :: "Toleration list" where
  "defaultTolerations =
     [zero_Toleration\<lparr>to_Effect := ''NoSchedule'', to_Key := ''dedicated'', to_Operator := ''Exists''\<rparr>]"

definition buildNodeAffinity :: "string \<Rightarrow> Affinity option" where
  "buildNodeAffinity nodeName =
     (if nodeName = '''' then None
      else Some \<lparr>aff_NodeSelectorTerms =
        [[\<lparr>nsr_Key = ''kubernetes.io/hostname'', nsr_Operator = ''In'', nsr_Values = [nodeName]\<rparr>]]\<rparr>)"

text \<open>The parts of the pod that the two modes extend.\<close>

record pod_config =
  pc_env :: "EnvVar list"
  pc_envFrom :: "EnvFromSource list"
  pc_mounts :: "VolumeMount list"
  pc_volumes :: "Volume list"

definition env_value :: "string \<Rightarrow> string \<Rightarrow> EnvVar" where
  "env_value n v = zero_EnvVar\<lparr>ev_Name := n, ev_Value := v\<rparr>"

definition cache_volume :: Volume where
  "cache_volume = \<lparr>v_Name = ''kopia-cache'', v_Source = zero_VolumeSource\<lparr>vs_EmptyDir :=
     Some \<lparr>ed_SizeLimit = Some \<lparr>q_Value = 3 * 2 ^ 30, q_IsZero = False\<rparr>\<rparr>\<rparr>\<rparr>"

definition buildServerModeConfig :: "KopiaBackup \<Rightarrow> KopiaRepository \<Rightarrow> pod_config \<Rightarrow> pod_config" where
  "buildServerModeConfig backup repo pc =
     (let secretName = UserSecretName (backup_ns backup) (bs_PVCName (kb_spec backup)) in
      \<lparr>pc_env = pc_env pc
         @ [zero_EnvVar\<lparr>ev_Name := ''KOPIA_PASSWORD'', ev_SecretKeyRef := Some
              \<lparr>sk_Name = secretName, sk_Key = ''KOPIA_SERVER_PASSWORD'', sk_Optional = None\<rparr>\<rparr>]
         @ (if rst_TLSCertFingerprint (kr_status repo) \<noteq> ''''
            then [env_value ''KOPIA_TLS_FINGERPRINT'' (rst_TLSCertFingerprint (kr_status repo))] else [])
         @ [env_value ''KOPIA_CACHE_DIRECTORY'' ''/cache/kopia'',
            env_value ''KOPIA_CONFIG_PATH'' ''/cache/kopia/repository.config'',
            env_value ''KOPIA_LOG_DIR'' ''/cache/kopia/logs''],
       pc_envFrom = pc_envFrom pc @ [SecretRef secretName],
       pc_mounts = pc_mounts pc @ [zero_VolumeMount\<lparr>vm_Name := ''kopia-cache'', vm_MountPath := ''/cache''\<rparr>],
       pc_volumes = pc_volumes pc @ [cache_volume]\<rparr>)"

definition buildDirectModeConfig :: "KopiaRepository \<Rightarrow> string \<Rightarrow> pod_config \<Rightarrow> pod_config" where
  "buildDirectModeConfig repo kopiaCacheDirectory pc =
     \<lparr>pc_env = pc_env pc @ [env_value ''KOPIA_CACHE_DIRECTORY'' kopiaCacheDirectory],
      pc_envFrom = pc_envFrom pc @ [SecretRef (rs_PasswordSecretName (kr_spec repo))],
      pc_mounts = pc_mounts pc
        @ [zero_VolumeMount\<lparr>vm_Name := ''config'', vm_MountPath := ''/config/repository.config'',
             vm_SubPath := ''repository.config''\<rparr>]
        @ (if rs_StorageType (kr_spec repo) = StorageTypeFilesystem
           then [zero_VolumeMount\<lparr>vm_Name := ''repo'', vm_MountPath := fs_Path (rs_FileSystemOptions (kr_spec repo))\<rparr>]
           else if rs_StorageType (kr_spec repo) = StorageTypeSFTP
           then [zero_VolumeMount\<lparr>vm_Name := ''sftp-credentials'', vm_MountPath := ''/sftp-creds'', vm_ReadOnly := True\<rparr>,
                 zero_VolumeMount\<lparr>vm_Name := ''kopia-cache'', vm_MountPath := kopiaCacheDirectory\<rparr>]
           else []),
      pc_volumes = pc_volumes pc
        @ (if rs_StorageType (kr_spec repo) = StorageTypeFilesystem
           then [\<lparr>v_Name = ''config'', v_Source = zero_VolumeSource\<lparr>vs_ConfigMap := Some (ConfigMapName (repo_name repo))\<rparr>\<rparr>,
                 \<lparr>v_Name = ''repo'', v_Source = zero_VolumeSource\<lparr>vs_NFS :=
                    Some \<lparr>nfs_Server = fs_NFSServer (rs_FileSystemOptions (kr_spec repo)),
                          nfs_Path = fs_NFSPath (rs_FileSystemOptions (kr_spec repo))\<rparr>\<rparr>\<rparr>]
           else if rs_StorageType (kr_spec repo) = StorageTypeSFTP
           then [secret_volume ''sftp-credentials'' (sftp_CredentialsSecret (rs_SFTPOptions (kr_spec repo))) mode_0600,
                 emptyDir_volume ''config'', cache_volume]
           else [])\<rparr>"

definition or_default :: "'a option \<Rightarrow> 'a \<Rightarrow> 'a option" where
  "or_default x d = (case x of None \<Rightarrow> Some d | Some v \<Rightarrow> Some v)"

definition backup_mountPath :: "KopiaBackup \<Rightarrow> string \<Rightarrow> string" where
  "backup_mountPath backup appName =
     (if appName \<noteq> '''' then ''/data/'' @ backup_ns backup @ ''/'' @ appName @ ''/'' @ bs_PVCName (kb_spec backup)
      else ''/data/'' @ backup_ns backup @ ''/'' @ bs_PVCName (kb_spec backup))"

definition backup_pod_config :: "KopiaBackup \<Rightarrow> podPlacement \<Rightarrow> KopiaRepository \<Rightarrow> pod_config" where
  "backup_pod_config backup placement repo =
     (let kopiaLogDir = filepath_Join [fs_Path (rs_FileSystemOptions (kr_spec repo)), ''.kopia'', ''logs''];
          base = \<lparr>pc_env = [env_value ''KOPIA_LOG_DIR'' kopiaLogDir], pc_envFrom = [],
            pc_mounts = [zero_VolumeMount\<lparr>vm_Name := ''data'',
              vm_MountPath := backup_mountPath backup (pp_AppName placement)\<rparr>],
            pc_volumes = [\<lparr>v_Name = ''data'', v_Source = zero_VolumeSource\<lparr>
              vs_PersistentVolumeClaim := Some (bs_PVCName (kb_spec backup))\<rparr>\<rparr>]\<rparr> in
      if server_enabled repo then buildServerModeConfig backup repo base
      else buildDirectModeConfig repo (ca_CacheDirectory (rs_Caching (kr_spec repo))) base)"

definition containerSecCtx :: SecurityContext where
  "containerSecCtx = \<lparr>sc_AllowPrivilegeEscalation = Some False, sc_ReadOnlyRootFilesystem = Some True,
     sc_CapabilitiesDrop = [''ALL''], sc_CapabilitiesAdd = [''DAC_READ_SEARCH'']\<rparr>"

definition backup_labels :: "KopiaBackup \<Rightarrow> (string \<rightharpoonup> string)" where
  "backup_labels backup = [
     ''backup.cloudinfra.be/backup'' \<mapsto> backup_name backup,
     ''backup.cloudinfra.be/repository'' \<mapsto> bs_Repository (kb_spec backup),
     ''backup.cloudinfra.be/pvc-name'' \<mapsto> bs_PVCName (kb_spec backup)]"

definition backup_pod_spec :: "KopiaBackup \<Rightarrow> podPlacement \<Rightarrow> KopiaRepository \<Rightarrow> string \<Rightarrow> PodSpec" where
  "backup_pod_spec backup placement repo kopiaImage =
     (let pc = backup_pod_config backup placement repo in
      zero_PodSpec\<lparr>
        ps_SeccompProfileType := Some ''RuntimeDefault'',
        ps_Affinity := buildNodeAffinity (pp_NodeName placement),
        ps_InitContainers := [zero_Container\<lparr>c_Name := ''wait'', c_Image := kopiaImage,
          c_Command := [''/scripts/sleep.sh''], c_Args := [''1'', ''10''],
          c_SecurityContext := Some containerSecCtx\<rparr>],
        ps_Containers := [zero_Container\<lparr>c_Name := ''snapshot'', c_Image := kopiaImage,
          c_Args := [''/bin/bash'', ''-c'',
            buildBackupCommand backup repo (backup_mountPath backup (pp_AppName placement))],
          c_Env := pc_env pc, c_EnvFrom := pc_envFrom pc, c_VolumeMounts := pc_mounts pc,
          c_SecurityContext := Some containerSecCtx\<rparr>],
        ps_Volumes := pc_volumes pc,
        ps_RestartPolicy := ''OnFailure'',
        ps_Tolerations := (if pp_Tolerations placement = [] then defaultTolerations
                           else pp_Tolerations placement)\<rparr>)"

definition buildCronJob :: "KopiaBackup \<Rightarrow> string \<Rightarrow> podPlacement \<Rightarrow> KopiaRepository \<Rightarrow> string \<Rightarrow> CronJob" where
  "buildCronJob backup cronJobName placement repo kopiaImage =
     \<lparr>cj_meta = zero_ObjectMeta\<lparr>om_Name := cronJobName, om_Namespace := backup_ns backup,
        om_Labels := Some (backup_labels backup)\<rparr>,
      cj_spec = \<lparr>
        cjs_Schedule = bs_Schedule (kb_spec backup),
        cjs_ConcurrencyPolicy = ''Forbid'',
        cjs_Suspend = Some (bs_Suspend (kb_spec backup)),
        cjs_JobTemplate = \<lparr>
          jt_meta = zero_ObjectMeta\<lparr>om_Labels := Some (backup_labels backup)\<rparr>,
          jt_spec = \<lparr>
            js_TTLSecondsAfterFinished = or_default (bs_TTLSecondsAfterFinished (kb_spec backup)) defaultTTLSecondsAfterFinished,
            js_ActiveDeadlineSeconds = or_default (bs_ActiveDeadlineSeconds (kb_spec backup)) defaultActiveDeadlineSeconds,
            js_BackoffLimit = or_default (bs_BackoffLimit (kb_spec backup)) defaultBackoffLimit,
            js_Suspend = Some (bs_Suspend (kb_spec backup)),
            js_Template = \<lparr>
              pt_meta = zero_ObjectMeta\<lparr>om_Labels := Some ((backup_labels backup)(
                ''backup.cloudinfra.be/node-name'' \<mapsto> pp_NodeName placement,
                ''app.kubernetes.io/name'' \<mapsto> pp_AppName placement,
                ''sidecar.istio.io/inject'' \<mapsto> ''false''))\<rparr>,
              pt_spec = backup_pod_spec backup placement repo kopiaImage\<rparr>,
            js_Rest = ''''\<rparr>\<rparr>,
        cjs_SuccessfulJobsHistoryLimit = or_default (bs_SuccessfulJobsHistoryLimit (kb_spec backup)) defaultSuccessfulJobsHistoryLimit,
        cjs_FailedJobsHistoryLimit = or_default (bs_FailedJobsHistoryLimit (kb_spec backup)) defaultFailedJobsHistoryLimit,
        cjs_Rest = ''''\<rparr>\<rparr>"

section \<open>The ConfigMap\<close>

text \<open>The Go structures that are marshalled, as the JSON values their field tags give.\<close>

definition filesystemStorageConfig :: "KopiaRepository \<Rightarrow> json" where
  "filesystemStorageConfig repo = JObject [
     (''path'', JString (fs_Path (rs_FileSystemOptions (kr_spec repo)))), (''dirShards'', JNull)]"

definition sftpStorageConfig :: "KopiaRepository \<Rightarrow> json" where
  "sftpStorageConfig repo =
     (let sftp = rs_SFTPOptions (kr_spec repo) in JObject (
      [(''path'', JString (sftp_Path sftp)), (''host'', JString (sftp_Host sftp))]
      @ (if sftp_Port sftp = 0 then [] else [(''port'', JInt (sint (sftp_Port sftp)))])
      @ (if sftp_KnownHostsData sftp = '''' then [] else [(''knownHostsData'', JString (sftp_KnownHostsData sftp))])
      @ (if sftp_ExternalSSH sftp then [(''externalSSH'', JBool True)] else [])
      @ (if sftp_SSHCommand sftp = '''' then [] else [(''sshCommand'', JString (sftp_SSHCommand sftp))])
      @ (if sftp_DirShards sftp = [] then []
         else [(''dirShards'', JArray (map (\<lambda>n. JInt (sint n)) (sftp_DirShards sftp)))])))"

definition kopiaConfigData :: "KopiaRepository \<Rightarrow> json \<Rightarrow> json" where
  "kopiaConfigData repo storageConfig =
     (let ca = rs_Caching (kr_spec repo) in JObject [
      (''storage'', JObject [(''type'', JString (rs_StorageType (kr_spec repo))), (''config'', storageConfig)]),
      (''caching'', JObject [
        (''cacheDirectory'', JString (ca_CacheDirectory ca)),
        (''maxCacheSize'', JInt (sint (q_Value (ca_ContentCacheSize ca)))),
        (''maxMetadataCacheSize'', JInt (sint (q_Value (ca_MetadataCacheSize ca)))),
        (''maxListCacheDuration'', JInt (sint (ca_MaxListCacheDuration ca)))]),
      (''hostname'', JString (rs_Hostname (kr_spec repo))),
      (''username'', JString (rs_Username (kr_spec repo))),
      (''description'', JString (rs_Description (kr_spec repo))),
      (''enableActions'', JBool (rs_EnableActions (kr_spec repo))),
      (''formatBlobCacheDuration'',
        JInt (sint (rs_FormatBlobCacheDurationSeconds (kr_spec repo) * 1000000000)))])"

definition buildConfigMap :: "KopiaBackup \<Rightarrow> KopiaRepository \<Rightarrow> ConfigMap result" where
  "buildConfigMap backup repo =
     (let cm = (\<lambda>storageConfig.
        \<lparr>cm_meta = zero_ObjectMeta\<lparr>om_Name := ConfigMapName (repo_name repo), om_Namespace := backup_ns backup,
           om_Labels := Some [''backup.cloudinfra.be/pvc-name'' \<mapsto> bs_PVCName (kb_spec backup)]\<rparr>,
         cm_Data = Some [''repository.config'' \<mapsto> json_MarshalIndent (kopiaConfigData repo storageConfig)]\<rparr>) in
      if rs_StorageType (kr_spec repo) = StorageTypeFilesystem then Inr (cm (filesystemStorageConfig repo))
      else if rs_StorageType (kr_spec repo) = StorageTypeSFTP then Inr (cm (sftpStorageConfig repo))
      else Inl (ErrorString (''unsupported storage type: '' @ rs_StorageType (kr_spec repo))))"

section \<open>The pod of a backup job\<close>

lemma backup_volumes:
  "map v_Name (pc_volumes (backup_pod_config backup placement repo)) = ''data'' #
     (if server_enabled repo then [''kopia-cache'']
      else if rs_StorageType (kr_spec repo) = StorageTypeFilesystem then [''config'', ''repo'']
      else if rs_StorageType (kr_spec repo) = StorageTypeSFTP then [''sftp-credentials'', ''config'', ''kopia-cache'']
      else [])"
  by (simp add: backup_pod_config_def Let_def buildServerModeConfig_def buildDirectModeConfig_def
      cache_volume_def secret_volume_def emptyDir_volume_def)

lemma backup_mounts:
  "map vm_Name (pc_mounts (backup_pod_config backup placement repo)) = ''data'' #
     (if server_enabled repo then [''kopia-cache'']
      else ''config'' # (if rs_StorageType (kr_spec repo) = StorageTypeFilesystem then [''repo'']
        else if rs_StorageType (kr_spec repo) = StorageTypeSFTP then [''sftp-credentials'', ''kopia-cache'']
        else []))"
  by (simp add: backup_pod_config_def Let_def buildServerModeConfig_def buildDirectModeConfig_def)

lemma backup_pod_spec_simps [simp]:
  "ps_Volumes (backup_pod_spec b p r i) = pc_volumes (backup_pod_config b p r)"
  "ps_Affinity (backup_pod_spec b p r i) = buildNodeAffinity (pp_NodeName p)"
  "\<exists>c. ps_Containers (backup_pod_spec b p r i) = [c] \<and> c_VolumeMounts c = pc_mounts (backup_pod_config b p r)
     \<and> c_Env c = pc_env (backup_pod_config b p r) \<and> c_EnvFrom c = pc_envFrom (backup_pod_config b p r)"
  "\<exists>c. ps_InitContainers (backup_pod_spec b p r i) = [c] \<and> c_VolumeMounts c = []"
  "ps_Tolerations (backup_pod_spec b p r i)
     = (if pp_Tolerations p = [] then defaultTolerations else pp_Tolerations p)"
  by (simp_all add: backup_pod_spec_def Let_def zero_Container_def)

lemma backup_volumes_distinct:
  "volumes_distinct (backup_pod_spec backup placement repo img)"
  by (simp add: volumes_distinct_def backup_volumes)

lemma backup_mounts_declared:
  assumes "server_enabled repo \<or> rs_StorageType (kr_spec repo) \<in> {StorageTypeFilesystem, StorageTypeSFTP}"
  shows "mounts_declared (backup_pod_spec backup placement repo img)"
proof -
  have "set (map vm_Name (pc_mounts (backup_pod_config backup placement repo)))
      \<subseteq> set (map v_Name (pc_volumes (backup_pod_config backup placement repo)))"
    using assms unfolding backup_volumes backup_mounts
    by (auto simp: StorageTypeFilesystem_def StorageTypeSFTP_def)
  moreover obtain c i where "ps_Containers (backup_pod_spec backup placement repo img) = [c]"
    "c_VolumeMounts c = pc_mounts (backup_pod_config backup placement repo)"
    "ps_InitContainers (backup_pod_spec backup placement repo img) = [i]" "c_VolumeMounts i = []"
    using backup_pod_spec_simps(3,4) by metis
  ultimately show ?thesis by (auto simp: mounts_declared_def)
qed

abbreviation job_pod :: "CronJob \<Rightarrow> PodSpec" where
  "job_pod cj \<equiv> pt_spec (js_Template (jt_spec (cjs_JobTemplate (cj_spec cj))))"



lemma backup_url_server: "backup_serverURL repo = GetServerURL repo"
  by (simp add: backup_serverURL_def GetServerURL_def ServerServiceName_def defaultServerPort_def Let_def)

text \<open>
  In server mode the variables a backup container ends up with are these: the password comes from
  the Secret of this backup's user, which is also imported as a whole; the fingerprint is the one in
  the repository's status; and the configuration, cache and log directories lie in the volume that is
  mounted at /cache, the later entry for the log directory overriding the earlier one.
\<close>

lemma server_mode_environment:
  fixes backup :: KopiaBackup and placement :: podPlacement
  assumes "server_enabled repo"
  defines "pc \<equiv> backup_pod_config backup placement repo"
    and "secret \<equiv> UserSecretName (backup_ns backup) (bs_PVCName (kb_spec backup))"
  shows "map_option ev_SecretKeyRef (env_entry (pc_env pc) ''KOPIA_PASSWORD'')
      = Some (Some \<lparr>sk_Name = secret, sk_Key = ''KOPIA_SERVER_PASSWORD'', sk_Optional = None\<rparr>)
    \<and> pc_envFrom pc = [SecretRef secret]
    \<and> map_option ev_Value (env_entry (pc_env pc) ''KOPIA_TLS_FINGERPRINT'')
        = (if rst_TLSCertFingerprint (kr_status repo) = '''' then None
           else Some (rst_TLSCertFingerprint (kr_status repo)))
    \<and> map_option ev_Value (env_entry (pc_env pc) ''KOPIA_LOG_DIR'') = Some ''/cache/kopia/logs''
    \<and> map_option ev_Value (env_entry (pc_env pc) ''KOPIA_CACHE_DIRECTORY'') = Some ''/cache/kopia''
    \<and> map_option ev_Value (env_entry (pc_env pc) ''KOPIA_CONFIG_PATH'') = Some ''/cache/kopia/repository.config''
    \<and> (\<exists>m \<in> set (pc_mounts pc). vm_MountPath m = ''/cache'' \<and> \<not> vm_ReadOnly m
         \<and> (\<exists>v \<in> set (pc_volumes pc). v_Name v = vm_Name m \<and> vs_EmptyDir (v_Source v) \<noteq> None))"
  using assms(1) unfolding pc_def secret_def
  by (simp add: backup_pod_config_def Let_def buildServerModeConfig_def env_entry_def env_value_def
      zero_EnvVar_def cache_volume_def zero_VolumeMount_def)

text \<open>
  C35: an SFTP repository that is used without a server gives its backup jobs no Kopia configuration: what
  is mounted as the configuration file is a subpath of an empty volume, and no variable of the
  container names another configuration.
\<close>

theorem sftp_direct_has_no_configuration:
  fixes backup :: KopiaBackup and placement :: podPlacement
  assumes "\<not> server_enabled repo" "rs_StorageType (kr_spec repo) = ''sftp''"
  defines "pc \<equiv> backup_pod_config backup placement repo"
  shows "(\<exists>m \<in> set (pc_mounts pc). vm_Name m = ''config'' \<and> vm_MountPath m = ''/config/repository.config''
       \<and> vm_SubPath m = ''repository.config'')
    \<and> filter (\<lambda>v. v_Name v = ''config'') (pc_volumes pc) = [emptyDir_volume ''config'']
    \<and> filter (\<lambda>v. vs_ConfigMap (v_Source v) \<noteq> None) (pc_volumes pc) = []
    \<and> env_entry (pc_env pc) ''KOPIA_CONFIG_PATH'' = None"
  using assms(1,2) unfolding pc_def
  by (simp add: backup_pod_config_def Let_def buildDirectModeConfig_def env_entry_def env_value_def
      StorageTypeFilesystem_def StorageTypeSFTP_def secret_volume_def emptyDir_volume_def zero_VolumeSource_def
      cache_volume_def zero_VolumeMount_def)

theorem sftp_direct_has_no_configuration_witness:
  "filter (\<lambda>v. vs_ConfigMap (v_Source v) \<noteq> None)
     (pc_volumes (backup_pod_config example_backup zero_podPlacement (sftp_repo ''h'' ''/p''))) = []"
proof -
  have "\<not> server_enabled (sftp_repo ''h'' ''/p'')" "rs_StorageType (kr_spec (sftp_repo ''h'' ''/p'')) = ''sftp''"
    by (simp_all add: sftp_repo_def zero_defs StorageTypeSFTP_def)
  from sftp_direct_has_no_configuration [OF this] show ?thesis by blast
qed

section \<open>The configuration text\<close>

definition json_field :: "json \<Rightarrow> string \<Rightarrow> json option" where
  "json_field j k = (case j of JObject fs \<Rightarrow> map_of fs k | _ \<Rightarrow> None)"

lemma nanoseconds_exact:
  fixes secs :: int64
  shows "sint (secs * 1000000000) = sint secs * 1000000000 \<longleftrightarrow> \<bar>sint secs\<bar> \<le> 9223372036"
proof -
  have w: "word_of_int (sint secs * 1000000000) = secs * 1000000000" by simp
  have "sint (word_of_int (sint secs * 1000000000) :: int64) = signed_take_bit 63 (sint secs * 1000000000)"
    by (subst sint_sbintrunc') simp
  then have "sint (secs * 1000000000) = signed_take_bit 63 (sint secs * 1000000000)"
    unfolding w .
  then show ?thesis by (auto simp: signed_take_bit_int_eq_self_iff)
qed

text \<open>
  C33: the duration written to the configuration is the spec's number of seconds in nanoseconds exactly
  if there are at most 9223372036 seconds in either direction; beyond that the 64-bit product wraps
  around.
\<close>

theorem format_blob_duration:
  "json_field (kopiaConfigData repo sc) ''formatBlobCacheDuration''
      = Some (JInt (sint (rs_FormatBlobCacheDurationSeconds (kr_spec repo)) * 1000000000))
   \<longleftrightarrow> \<bar>sint (rs_FormatBlobCacheDurationSeconds (kr_spec repo))\<bar> \<le> 9223372036"
  using nanoseconds_exact [of "rs_FormatBlobCacheDurationSeconds (kr_spec repo)"]
  by (simp add: json_field_def kopiaConfigData_def Let_def)

text \<open>The text of the configuration determines the configuration.\<close>

lemma json_string_append_iff:
  "ascii a \<Longrightarrow> ascii b \<Longrightarrow> json_string a @ k = json_string b @ l \<longleftrightarrow> a = b \<and> k = l"
  using json_string_inject by blast

lemma fmt_d_chars: "c \<in> set (fmt_d i) \<Longrightarrow> c = CHR ''-'' \<or> (\<exists>d < 10. c = digit_char d)"
  by (auto simp: fmt_d_def dest: show_nat_digits split: if_splits)

lemma fmt_d_inject: "fmt_d i = fmt_d j \<longleftrightarrow> i = j"
  by (metis read_int_fmt_d)

lemma fmt_d_append_iff:
  assumes "c = CHR '','' \<or> c = CHR 0x0A"
  shows "fmt_d i @ c # k = fmt_d j @ c # l \<longleftrightarrow> i = j \<and> k = l"
proof -
  have "\<forall>d \<in> set [0..<10]. digit_char d \<noteq> CHR '','' \<and> digit_char d \<noteq> CHR 0x0A" by code_simp
  then have "d < 10 \<Longrightarrow> digit_char d \<noteq> CHR '','' \<and> digit_char d \<noteq> CHR 0x0A" for d by simp
  moreover have "c \<noteq> CHR ''-''" using assms by auto
  ultimately have "c \<notin> set (fmt_d n)" for n using assms fmt_d_chars [of c n] by metis
  then show ?thesis by (simp add: append_sep_inject fmt_d_inject)
qed

definition config_ascii :: "KopiaRepository \<Rightarrow> bool" where
  "config_ascii repo \<longleftrightarrow> ascii (rs_StorageType (kr_spec repo)) \<and> ascii (fs_Path (rs_FileSystemOptions (kr_spec repo)))
     \<and> ascii (ca_CacheDirectory (rs_Caching (kr_spec repo))) \<and> ascii (rs_Hostname (kr_spec repo))
     \<and> ascii (rs_Username (kr_spec repo)) \<and> ascii (rs_Description (kr_spec repo))"



end
