(* ===== verification/User_Manager.thy ===== *)
theory User_Manager
  imports Ref_Cluster
begin

text \<open>
  The KopiaUserManager (internal/kopia/user/manager.go): per-backup users of a Kopia server and the
  Secrets with their credentials. The log lines that carry output of commands in the server pod are
  modelled; other log lines are left out.
\<close>

section \<open>Definitions\<close>

definition UserSyncedAnnotation :: string where
  "UserSyncedAnnotation = ''backup.cloudinfra.be/user-synced''"

definition credentialsFingerprint :: "env \<Rightarrow> string \<Rightarrow> string \<Rightarrow> string" where
  "credentialsFingerprint env username password =
     hex_bytes False (take 16 (sha256_Sum256 env (username @ [CHR 0x00] @ password)))"

definition markUserSynced :: "env \<Rightarrow> 'w api \<Rightarrow> Secret \<Rightarrow> string \<Rightarrow> string \<Rightarrow> ('w st, unit) state" where
  "markUserSynced env api secret username password =
     (let fingerprint = credentialsFingerprint env username password in
      if map_at (om_Annotations (sec_meta secret)) UserSyncedAnnotation = fingerprint then ret ()
      else do {
        let annotations = (case om_Annotations (sec_meta secret) of None \<Rightarrow> Map.empty | Some m \<Rightarrow> m);
        r \<leftarrow> Patch_Secret api secret (secret\<lparr>sec_meta := (sec_meta secret)\<lparr>
          om_Annotations := Some (annotations(UserSyncedAnnotation \<mapsto> fingerprint))\<rparr>\<rparr>);
        ret ()
      })"

definition securePasswordLength :: nat where
  "securePasswordLength = 32"

definition generateSecurePassword :: "'w api \<Rightarrow> ('w st, string result) state" where
  "generateSecurePassword api = do {
     let numBytes = (securePasswordLength * 3 + 3) div 4;
     b \<leftarrow> client_read (api_rand_Read api numBytes);
     case b of
       Inl err \<Rightarrow> ret (Inl (WrapError ''failed to generate random bytes'' err))
     | Inr bytes \<Rightarrow> ret (Inr (take securePasswordLength (base64_URLEncode bytes)))
   }"

text \<open>
  \<open>EncodeToString(b)[:32]\<close> panics on a shorter string; with the 24 bytes that \<open>rand.Read\<close> fills the
  encoding has exactly 32 characters (\<open>password_bytes\<close> below), so \<open>take\<close> is the slice.
\<close>

definition create_user_script :: string where
  "create_user_script = strings_Join [
     ''set -e'',
     ''USERNAME=\"$1\"'',
     ''PASSWORD=\"$2\"'',
     ''CERT_FP=\"$3\"'',
     ''echo \"Checking if user $USERNAME exists...\"'',
     ''USER_LIST=$(kopia server user list 2>&1) || true'',
     ''if echo \"$USER_LIST\" | grep -qF \"$USERNAME\"; then'',
     ''  echo \"User $USERNAME already exists, updating password...\"'',
     ''  kopia server user set \"$USERNAME\" --user-password=\"$PASSWORD\" 2>&1'',
     ''else'',
     ''  echo \"Creating user: $USERNAME\"'',
     ''  kopia server user add \"$USERNAME\" --user-password=\"$PASSWORD\" 2>&1'',
     ''fi'',
     ''echo \"Refreshing server...\"'',
     ''kopia server refresh --server-control-username=admin --server-control-password=\"${KOPIA_SERVER_PASSWORD}\" --address=https://127.0.0.1:51515 --server-cert-fingerprint=\"$CERT_FP\" 2>&1 || echo \"Server refresh failed\"'']
     ''\<newline>''"

definition buildCreateUserCommand :: "string \<Rightarrow> string \<Rightarrow> string \<Rightarrow> string list" where
  "buildCreateUserCommand username password certFingerprint =
     [''/bin/sh'', ''-c'', create_user_script, ''_'', username, password, certFingerprint]"

definition buildDeleteUserCommand :: "string \<Rightarrow> string list" where
  "buildDeleteUserCommand username =
     [''/bin/sh'', ''-c'', ''kopia server user delete \"$1\" 2>&1 || echo \"User may not exist\"'',
      ''_'', username]"

fun newRedactor :: "string list \<Rightarrow> string \<Rightarrow> string" where
  "newRedactor [] s = s"
| "newRedactor (sec # secrets) s =
     newRedactor secrets (if sec \<noteq> '''' then strings_ReplaceAll s sec ''[REDACTED]'' else s)"

definition pod_server_ready :: "Pod \<Rightarrow> bool" where
  "pod_server_ready pod \<longleftrightarrow> pod_Phase pod = PodRunning
     \<and> list_ex (\<lambda>cs. cs_Name cs = ''kopia-server'' \<and> cs_Ready cs) (pod_ContainerStatuses pod)"

definition getServerPodName :: "'w api \<Rightarrow> KopiaRepository \<Rightarrow> ('w st, string result) state" where
  "getServerPodName api repo = do {
     l \<leftarrow> List_Pods api (repo_ns repo) (ServerLabels (repo_name repo));
     case l of
       Inl err \<Rightarrow> ret (Inl (WrapError ''failed to list server pods'' err))
     | Inr pods \<Rightarrow>
         if pods = [] then ret (Inl (ServerNotReadyError
           (''no server pod found for repository '' @ repo_name repo @ '' in namespace '' @ repo_ns repo) None))
         else (case List.find pod_server_ready pods of
           Some pod \<Rightarrow> ret (Inr (om_Name (pod_meta pod)))
         | None \<Rightarrow> ret (Inl (ServerNotReadyError
             (''kopia-server container not ready yet for repository '' @ repo_name repo
              @ '' in namespace '' @ repo_ns repo) None)))
   }"

definition execTimeout :: int where
  "execTimeout = 30 * time_Second"

definition execInPod :: "'w api \<Rightarrow> string \<Rightarrow> string \<Rightarrow> string \<Rightarrow> string list
    \<Rightarrow> ('w st, string \<times> string \<times> go_error option) state" where
  "execInPod api namespace podName containerName cmd = do {
     exec \<leftarrow> client_read (api_NewSPDYExecutor api namespace podName containerName cmd);
     case exec of
       Inl err \<Rightarrow> ret ('''', '''', Some (WrapError ''failed to create executor'' err))
     | Inr _ \<Rightarrow> do {
         (stdout, stderr, err) \<leftarrow> pod_exec api execTimeout namespace podName containerName cmd;
         ret (strings_TrimSpace stdout, strings_TrimSpace stderr, err)
       }
   }"

definition createUserOnServer :: "'w api \<Rightarrow> KopiaRepository \<Rightarrow> string \<Rightarrow> string \<Rightarrow> ('w st, unit result) state" where
  "createUserOnServer api repo username password = do {
     p \<leftarrow> getServerPodName api repo;
     case p of
       Inl err \<Rightarrow> ret (Inl (WrapError ''failed to find server pod'' err))
     | Inr podName \<Rightarrow> do {
         (stdout, stderr, execErr) \<leftarrow> execInPod api (repo_ns repo) podName ''kopia-server''
           (buildCreateUserCommand username password (rst_TLSCertFingerprint (kr_status repo)));
         let redact = newRedactor [password];
         case execErr of
           Some err \<Rightarrow> do {
             emit (ALog ''Failed to create user on server'' [Error err, redact stdout, redact stderr, username]);
             if strings_Contains (Error err) ''container not found''
                 \<or> strings_Contains (Error err) ''unable to upgrade connection''
             then ret (Inl (ServerNotReadyError (''kopia-server container not ready yet: '' @ Error err) None))
             else ret (Inl (WrapError ''failed to execute user creation command'' err))
           }
         | None \<Rightarrow> do {
             emit (ALog ''Created user on Kopia server'' [username, redact stdout]);
             ret (Inr ())
           }
       }
   }"

definition deleteUserFromServer :: "'w api \<Rightarrow> KopiaRepository \<Rightarrow> string \<Rightarrow> ('w st, unit result) state" where
  "deleteUserFromServer api repo username = do {
     p \<leftarrow> getServerPodName api repo;
     case p of
       Inl err \<Rightarrow> ret (Inl (WrapError ''failed to find server pod'' err))
     | Inr podName \<Rightarrow> do {
         (stdout, stderr, execErr) \<leftarrow> execInPod api (repo_ns repo) podName ''kopia-server''
           (buildDeleteUserCommand username);
         case execErr of
           Some err \<Rightarrow> do {
             emit (ALog ''Failed to delete user from server'' [Error err, stdout, stderr, username]);
             ret (Inl (WrapError ''failed to execute user deletion command'' err))
           }
         | None \<Rightarrow> do {
             emit (ALog ''Deleted user from Kopia server'' [username, stdout]);
             ret (Inr ())
           }
       }
   }"

definition user_Secret :: "KopiaBackup \<Rightarrow> string \<Rightarrow> string \<Rightarrow> string \<Rightarrow> Secret" where
  "user_Secret backup secretName username password =
     \<lparr>sec_meta = zero_ObjectMeta\<lparr>om_Name := secretName, om_Namespace := backup_ns backup,
        om_Labels := Some [''app'' \<mapsto> ''kopia-backup'', ''kopia-backup'' \<mapsto> backup_name backup,
          ''app.kubernetes.io/name'' \<mapsto> ''kopia-backup'',
          ''app.kubernetes.io/instance'' \<mapsto> backup_name backup,
          ''app.kubernetes.io/managed-by'' \<mapsto> ''kopia-operator'']\<rparr>,
      sec_Type = '''', sec_Data = Map.empty,
      sec_StringData = [''KOPIA_SERVER_USERNAME'' \<mapsto> username, ''KOPIA_SERVER_PASSWORD'' \<mapsto> password]\<rparr>"

text \<open>The two branches of \<open>EnsureUser\<close>: no Secret yet, and a Secret that exists.\<close>

definition register_new_user :: "env \<Rightarrow> 'w api \<Rightarrow> KopiaRepository \<Rightarrow> Secret \<Rightarrow> string \<Rightarrow> string \<Rightarrow> string
    \<Rightarrow> ('w st, string result) state" where
  "register_new_user env api repo secret username password secretName = do {
     u \<leftarrow> createUserOnServer api repo username password;
     case u of
       Inl err \<Rightarrow> do {
         d \<leftarrow> Delete_Secret api secret;
         if errors_As_ServerNotReady err then ret (Inl err)
         else ret (Inl (WrapError ''failed to create user on Kopia server'' err))
       }
     | Inr _ \<Rightarrow> do {
         markUserSynced env api secret username password;
         ret (Inr secretName)
       }
   }"

definition ensure_new_user :: "env \<Rightarrow> 'w api \<Rightarrow> KopiaBackup \<Rightarrow> KopiaRepository \<Rightarrow> ('w st, string result) state" where
  "ensure_new_user env api backup repo = do {
     let username = Username (backup_ns backup) (bs_PVCName (kb_spec backup)) (rs_Hostname (kr_spec repo));
     let secretName = UserSecretName (backup_ns backup) (bs_PVCName (kb_spec backup));
     g \<leftarrow> generateSecurePassword api;
     case g of
       Inl err \<Rightarrow> ret (Inl (WrapError ''failed to generate password'' err))
     | Inr password \<Rightarrow>
         (case SetControllerReference env ''KopiaBackup'' (kb_meta backup)
                 (sec_meta (user_Secret backup secretName username password)) of
            Inl err \<Rightarrow> ret (Inl (WrapError ''failed to set controller reference on user secret'' err))
          | Inr m \<Rightarrow> do {
              c \<leftarrow> Create_Secret api ((user_Secret backup secretName username password)\<lparr>sec_meta := m\<rparr>);
              case c of
                Inl err \<Rightarrow> ret (Inl (WrapError ''failed to create user credentials secret'' err))
              | Inr secret \<Rightarrow> register_new_user env api repo secret username password secretName
            })
   }"

definition ensure_known_user :: "env \<Rightarrow> 'w api \<Rightarrow> KopiaBackup \<Rightarrow> KopiaRepository \<Rightarrow> Secret
    \<Rightarrow> ('w st, string result) state" where
  "ensure_known_user env api backup repo secret =
     (let secretName = UserSecretName (backup_ns backup) (bs_PVCName (kb_spec backup)) in
      case sec_Data secret ''KOPIA_SERVER_USERNAME'' of
        None \<Rightarrow> ret (Inl (ErrorString (''secret '' @ fmt_q (isPrint_table env) secretName
                  @ '' missing required key KOPIA_SERVER_USERNAME'')))
      | Some existingUsername \<Rightarrow>
          (case sec_Data secret ''KOPIA_SERVER_PASSWORD'' of
             None \<Rightarrow> ret (Inl (ErrorString (''secret '' @ fmt_q (isPrint_table env) secretName
                       @ '' missing required key KOPIA_SERVER_PASSWORD'')))
           | Some existingPassword \<Rightarrow>
               if map_at (om_Annotations (sec_meta secret)) UserSyncedAnnotation
                    = credentialsFingerprint env existingUsername existingPassword
               then ret (Inr secretName)
               else do {
                 u \<leftarrow> createUserOnServer api repo existingUsername existingPassword;
                 case u of
                   Inl err \<Rightarrow>
                     if errors_As_ServerNotReady err then ret (Inl err)
                     else ret (Inl (WrapError ''failed to ensure user on Kopia server'' err))
                 | Inr _ \<Rightarrow> do {
                     markUserSynced env api secret existingUsername existingPassword;
                     ret (Inr secretName)
                   }
               }))"

definition EnsureUser :: "env \<Rightarrow> 'w api \<Rightarrow> KopiaBackup \<Rightarrow> KopiaRepository \<Rightarrow> ('w st, string result) state" where
  "EnsureUser env api backup repo = do {
     got \<leftarrow> Get_Secret api (NamespacedName (backup_ns backup)
       (UserSecretName (backup_ns backup) (bs_PVCName (kb_spec backup))));
     case got of
       Inl err \<Rightarrow>
         if \<not> IsNotFound err then ret (Inl (WrapError ''failed to get user credentials secret'' err))
         else ensure_new_user env api backup repo
     | Inr secret \<Rightarrow> ensure_known_user env api backup repo secret
   }"

definition DeleteUser :: "'w api \<Rightarrow> KopiaBackup \<Rightarrow> KopiaRepository \<Rightarrow> ('w st, unit result) state" where
  "DeleteUser api backup repo = do {
     let username = Username (backup_ns backup) (bs_PVCName (kb_spec backup)) (rs_Hostname (kr_spec repo));
     u \<leftarrow> deleteUserFromServer api repo username;
     case u of
       Inl err \<Rightarrow> ret (Inl (WrapError ''failed to delete user from Kopia server'' err))
     | Inr _ \<Rightarrow> do {
         got \<leftarrow> Get_Secret api (NamespacedName (backup_ns backup)
           (UserSecretName (backup_ns backup) (bs_PVCName (kb_spec backup))));
         case got of
           Inl err \<Rightarrow>
             if IsNotFound err then ret (Inr ())
             else ret (Inl (WrapError ''failed to get user credentials secret'' err))
         | Inr secret \<Rightarrow> Delete_Secret api secret
       }
   }"

definition KopiaUserManager :: "env \<Rightarrow> 'w api \<Rightarrow> 'w UserManager" where
  "KopiaUserManager env api = \<lparr>um_EnsureUser = EnsureUser env api, um_DeleteUser = DeleteUser api\<rparr>"

section \<open>Passwords\<close>

lemma password_bytes:
  assumes "length b = 24"
  shows "length (base64_URLEncode b) = 32" "set (base64_URLEncode b) \<subseteq> b64_alphabet"
  using base64_length [of b] base64_alphabet [of b] assms by simp_all

lemma generateSecurePassword_wp:
  assumes "rand_law api"
  shows "wp (generateSecurePassword api) (\<lambda>r s'. trace s' = trace s \<and> (\<forall>pw. r = Inr pw \<longrightarrow>
     length pw = 32 \<and> set pw \<subseteq> b64_alphabet)) s"
proof -
  have "length b = 24" if "api_rand_Read api 24 w = (Inr b, w')" for w b w'
    using assms that by (auto simp: rand_law_def)
  then have "take 32 (base64_URLEncode b) = base64_URLEncode b \<and> length (base64_URLEncode b) = 32
      \<and> set (base64_URLEncode b) \<subseteq> b64_alphabet" if "api_rand_Read api 24 w = (Inr b, w')" for w b w'
    using password_bytes that by simp
  then show ?thesis
    by (auto simp: generateSecurePassword_def securePasswordLength_def Let_def split: sum.splits prod.splits)
      fastforce+
qed

text \<open>
  A generated password has exactly 32 characters, all of them of the URL-safe base64 alphabet
  (none is padding), provided that \<open>rand.Read\<close> fills the slice it is given.
\<close>

lemma generated_password_shape:
  assumes "rand_law api" "run_state (generateSecurePassword api) s = (Inr pw, s')"
  shows "length pw = 32 \<and> set pw \<subseteq> b64_alphabet \<and> trace s' = trace s"
  using wpD [OF generateSecurePassword_wp [OF assms(1)] assms(2)] by simp

section \<open>Effects of the operations\<close>

text \<open>The errors of \<open>execInPod\<close>.\<close>

definition exec_error :: "'w api \<Rightarrow> go_error \<Rightarrow> bool" where
  "exec_error api e \<longleftrightarrow>
     (\<exists>tmo ns pod cont cmd w out errout. fst (api_StreamWithContext api tmo ns pod cont cmd w) = (out, errout, Some e))
     \<or> (\<exists>ns pod cont cmd w err. fst (api_NewSPDYExecutor api ns pod cont cmd w) = Inl err
          \<and> e = WrapError ''failed to create executor'' err)"

lemma exec_errorI:
  "api_StreamWithContext api tmo ns pod cont cmd w = ((out, errout, Some e), w') \<Longrightarrow> exec_error api e"
  "api_NewSPDYExecutor api ns pod cont cmd w = (Inl err, w') \<Longrightarrow> exec_error api (WrapError ''failed to create executor'' err)"
  unfolding exec_error_def by (metis fst_conv)+

text \<open>Whatever \<open>execInPod\<close> returns, it ran the command or could not prepare it.\<close>

lemma execInPod_wp:
  assumes "\<And>out errout err w t. t = [] \<and> err \<noteq> None \<or> t = [(AExec ns pod cont cmd, err = None)] \<Longrightarrow>
      (\<And>e. err = Some e \<Longrightarrow> exec_error api e) \<Longrightarrow> Q (out, errout, err) (s\<lparr>world := w, trace := trace s @ t\<rparr>)"
  shows "wp (execInPod api ns pod cont cmd) Q s"
proof -
  obtain x w where x: "api_NewSPDYExecutor api ns pod cont cmd (world s) = (x, w)" by fastforce
  show ?thesis
  proof (cases x)
    case (Inl e)
    with x assms [of "[]" "Some (WrapError ''failed to create executor'' e)" "[]" "[]" w] show ?thesis
      by (auto simp: execInPod_def intro: exec_errorI)
  next
    case (Inr u)
    obtain out errout err w' where y: "api_StreamWithContext api execTimeout ns pod cont cmd w = ((out, errout, err), w')"
      by (metis prod.exhaust)
    with Inr x assms [of "[(AExec ns pod cont cmd, err = None)]" err "strings_TrimSpace out" "strings_TrimSpace errout" w']
    show ?thesis by (auto simp: execInPod_def intro: exec_errorI)
  qed
qed

text \<open>
  A command in the server's container and the log line about it; without the command where it could
  not be prepared.
\<close>

definition exec_calls :: "string \<Rightarrow> string list \<Rightarrow> bool \<Rightarrow> entry list \<Rightarrow> bool" where
  "exec_calls ns cmd b t \<longleftrightarrow> (\<exists>m vs. t = [(ALog m vs, True)] \<and> \<not> b
     \<or> (\<exists>pod. t = [(AExec ns pod ''kopia-server'' cmd, b), (ALog m vs, True)]))"

text \<open>What \<open>createUserOnServer\<close> does: nothing, or one command and one log line.\<close>

definition user_calls :: "KopiaRepository \<Rightarrow> string \<Rightarrow> string \<Rightarrow> unit result \<Rightarrow> entry list \<Rightarrow> bool" where
  "user_calls repo username password r t \<longleftrightarrow> t = [] \<and> \<not> ok r \<or> exec_calls (repo_ns repo)
     (buildCreateUserCommand username password (rst_TLSCertFingerprint (kr_status repo))) (ok r) t"

lemma getServerPodName_quiet: "wp (getServerPodName api repo) (\<lambda>r s'. trace s' = trace s) s"
  by (auto simp: getServerPodName_def split: sum.splits prod.splits option.splits)

lemma createUserOnServer_trace:
  "wp (createUserOnServer api repo username password)
     (\<lambda>r s'. \<exists>t. trace s' = trace s @ t \<and> user_calls repo username password r t) s"
  unfolding createUserOnServer_def wp_bind
  by (rule wp_mono [OF getServerPodName_quiet])
    (auto simp: user_calls_def exec_calls_def Let_def split: sum.splits option.splits intro!: execInPod_wp)

definition marked :: "env \<Rightarrow> string \<Rightarrow> string \<Rightarrow> entry list \<Rightarrow> bool" where
  "marked env username password t \<longleftrightarrow> t = [] \<or> (\<exists>x b. t = [(APatchSecret x, b)]
     \<and> map_at (om_Annotations (sec_meta x)) UserSyncedAnnotation = credentialsFingerprint env username password)"

lemma markUserSynced_trace:
  "wp (markUserSynced env api secret username password)
     (\<lambda>_ s'. \<exists>t. trace s' = trace s @ t \<and> marked env username password t) s"
  by (auto simp: markUserSynced_def Let_def marked_def split: prod.splits)

text \<open>
  The effects of \<open>EnsureUser\<close> where there is no Secret yet: the Secret is created with the name and
  password that the command then registers; on failure the last step is the deletion of what was
  created, on success the mark on the Secret.
\<close>

abbreviation user_of :: "KopiaBackup \<Rightarrow> KopiaRepository \<Rightarrow> string" where
  "user_of backup repo \<equiv> Username (backup_ns backup) (bs_PVCName (kb_spec backup)) (rs_Hostname (kr_spec repo))"

definition new_user_effects :: "env \<Rightarrow> KopiaBackup \<Rightarrow> KopiaRepository \<Rightarrow> string result \<Rightarrow> entry list \<Rightarrow> bool" where
  "new_user_effects env backup repo r t \<longleftrightarrow>
     \<not> ok r \<and> (t = [] \<or> (\<exists>x password. t = [(ACreateSecret x, False)]
        \<and> sec_StringData x = [''KOPIA_SERVER_USERNAME'' \<mapsto> user_of backup repo, ''KOPIA_SERVER_PASSWORD'' \<mapsto> password])) \<or>
     (\<exists>x password u calls final.
        t = (ACreateSecret x, True) # calls @ final
        \<and> sec_StringData x = [''KOPIA_SERVER_USERNAME'' \<mapsto> user_of backup repo, ''KOPIA_SERVER_PASSWORD'' \<mapsto> password]
        \<and> user_calls repo (user_of backup repo) password u calls \<and> ok u = ok r
        \<and> (if ok r then marked env (user_of backup repo) password final
           else (\<exists>y b. final = [(ADeleteSecret y, b)])))"

lemma new_user_effects_failed:
  assumes "user_calls repo (user_of backup repo) pw (Inl e) calls"
    and "sec_StringData x = [''KOPIA_SERVER_USERNAME'' \<mapsto> user_of backup repo, ''KOPIA_SERVER_PASSWORD'' \<mapsto> pw]"
  shows "new_user_effects env backup repo (Inl e') ((ACreateSecret x, True) # calls @ [(ADeleteSecret y, b)])"
  unfolding new_user_effects_def using assms
  by (intro disjI2 exI [of _ x] exI [of _ pw] exI [of _ "Inl e"] exI [of _ calls]
      exI [of _ "[(ADeleteSecret y, b)]"]) auto

lemma new_user_effects_done:
  assumes "user_calls repo (user_of backup repo) pw (Inr ()) calls"
    and "sec_StringData x = [''KOPIA_SERVER_USERNAME'' \<mapsto> user_of backup repo, ''KOPIA_SERVER_PASSWORD'' \<mapsto> pw]"
    and "marked env (user_of backup repo) pw final"
  shows "new_user_effects env backup repo (Inr n) ((ACreateSecret x, True) # calls @ final)"
  unfolding new_user_effects_def using assms
  by (intro disjI2 exI [of _ x] exI [of _ pw] exI [of _ "Inr ()"] exI [of _ calls] exI [of _ final]) auto

lemma generateSecurePassword_quiet: "wp (generateSecurePassword api) (\<lambda>r s'. trace s' = trace s) s"
  by (auto simp: generateSecurePassword_def Let_def split: sum.splits prod.splits)

lemma register_new_user_trace:
  assumes "trace u = t0 @ [(ACreateSecret x, True)]"
    and "sec_StringData x = [''KOPIA_SERVER_USERNAME'' \<mapsto> user_of backup repo, ''KOPIA_SERVER_PASSWORD'' \<mapsto> pw]"
  shows "wp (register_new_user env api repo secret (user_of backup repo) pw n)
     (\<lambda>r s'. \<exists>t. trace s' = t0 @ t \<and> new_user_effects env backup repo r t \<and> (\<forall>m. r = Inr m \<longrightarrow> m = n)) u"
  unfolding register_new_user_def wp_bind
proof (rule wp_mono [OF createUserOnServer_trace], elim exE conjE, goal_cases)
  case (1 c s' calls)
  show ?case
  proof (cases c)
    case (Inl e)
    with 1 assms show ?thesis
      by (auto split: prod.splits intro!: new_user_effects_failed)
  next
    case (Inr v)
    then have "c = Inr ()" by simp
    with 1 assms new_user_effects_done show ?thesis
      by (auto intro!: wp_mono [OF markUserSynced_trace])
  qed
qed

lemma ensure_new_user_trace:
  "wp (ensure_new_user env api backup repo)
     (\<lambda>r s'. \<exists>t. trace s' = trace s @ t \<and> new_user_effects env backup repo r t \<and>
        (\<forall>n. r = Inr n \<longrightarrow> n = UserSecretName (backup_ns backup) (bs_PVCName (kb_spec backup)))) s"
proof -
  have fail: "new_user_effects env backup repo (Inl e) []"
    "sec_StringData x = [''KOPIA_SERVER_USERNAME'' \<mapsto> user_of backup repo, ''KOPIA_SERVER_PASSWORD'' \<mapsto> pw] \<Longrightarrow>
       new_user_effects env backup repo (Inl e) [(ACreateSecret x, False)]"
    for e x pw by (auto simp: new_user_effects_def)
  show ?thesis
    unfolding ensure_new_user_def Let_def wp_bind
    by (rule wp_mono [OF generateSecurePassword_quiet])
      (auto simp: fail user_Secret_def intro!: register_new_user_trace split: sum.splits prod.splits)
qed

text \<open>Where the Secret exists: nothing, or the registration of its credentials and the mark.\<close>

definition known_user_effects :: "env \<Rightarrow> KopiaRepository \<Rightarrow> Secret \<Rightarrow> string result \<Rightarrow> entry list \<Rightarrow> bool" where
  "known_user_effects env repo secret r t \<longleftrightarrow> t = [] \<or> (\<exists>username password u calls final.
     sec_Data secret ''KOPIA_SERVER_USERNAME'' = Some username
     \<and> sec_Data secret ''KOPIA_SERVER_PASSWORD'' = Some password
     \<and> t = calls @ final \<and> user_calls repo username password u calls \<and> ok u = ok r
     \<and> (if ok r then marked env username password final else final = []))"

lemma ensure_known_user_trace:
  "wp (ensure_known_user env api backup repo secret)
     (\<lambda>r s'. \<exists>t. trace s' = trace s @ t \<and> known_user_effects env repo secret r t \<and>
        (\<forall>n. r = Inr n \<longrightarrow> n = UserSecretName (backup_ns backup) (bs_PVCName (kb_spec backup)))) s"
proof (cases "sec_Data secret ''KOPIA_SERVER_USERNAME''"; cases "sec_Data secret ''KOPIA_SERVER_PASSWORD''")
  fix username password
  assume data: "sec_Data secret ''KOPIA_SERVER_USERNAME'' = Some username"
    "sec_Data secret ''KOPIA_SERVER_PASSWORD'' = Some password"
  have failed: "known_user_effects env repo secret (Inl e') calls"
    if "user_calls repo username password (Inl e) calls" for e e' calls
    unfolding known_user_effects_def
    by (rule disjI2, rule exI [of _ username], rule exI [of _ password],
        rule exI [of _ "Inl e"], rule exI [of _ calls], simp add: data that)
  have synced: "known_user_effects env repo secret (Inr n) (calls @ final)"
    if "user_calls repo username password (Inr ()) calls" "marked env username password final" for n calls final
    unfolding known_user_effects_def
    by (rule disjI2, rule exI [of _ username], rule exI [of _ password],
        rule exI [of _ "Inr ()"], rule exI [of _ calls], rule exI [of _ final], simp add: data that)
  have quiet: "known_user_effects env repo secret r []" for r
    by (simp add: known_user_effects_def)
  show ?thesis
  proof (cases "map_at (om_Annotations (sec_meta secret)) UserSyncedAnnotation = credentialsFingerprint env username password")
    case True
    then show ?thesis by (simp add: ensure_known_user_def Let_def data quiet)
  next
    case False
    show ?thesis
      unfolding ensure_known_user_def Let_def data option.case if_not_P [OF False] wp_bind
    proof (rule wp_mono [OF createUserOnServer_trace], elim exE conjE, goal_cases)
      case (1 c s' calls)
      show ?case
      proof (cases c)
        case (Inl e)
        with 1 show ?thesis by (auto intro!: failed)
      next
        case (Inr v)
        then have "c = Inr ()" by simp
        with 1 synced show ?thesis by (auto intro!: wp_mono [OF markUserSynced_trace])
      qed
    qed
  qed
qed (auto simp: ensure_known_user_def Let_def known_user_effects_def)

section \<open>EnsureUser\<close>

abbreviation user_key :: "KopiaBackup \<Rightarrow> NamespacedName" where
  "user_key backup \<equiv> NamespacedName (backup_ns backup)
     (UserSecretName (backup_ns backup) (bs_PVCName (kb_spec backup)))"

definition user_effects :: "env \<Rightarrow> KopiaBackup \<Rightarrow> KopiaRepository \<Rightarrow> Secret result \<Rightarrow> string result \<Rightarrow> entry list \<Rightarrow> bool" where
  "user_effects env backup repo got r t = (case got of
     Inl err \<Rightarrow> if IsNotFound err then new_user_effects env backup repo r t else t = [] \<and> \<not> ok r
   | Inr secret \<Rightarrow> known_user_effects env repo secret r t)"

lemma EnsureUser_trace:
  "wp (EnsureUser env api backup repo) (\<lambda>r s'. \<exists>t. trace s' = trace s @ t
     \<and> user_effects env backup repo (fst (api_get_Secret api (user_key backup) (world s))) r t
     \<and> (\<forall>n. r = Inr n \<longrightarrow> n = UserSecretName (backup_ns backup) (bs_PVCName (kb_spec backup)))) s"
  using ensure_new_user_trace [of env api backup repo "s\<lparr>world := _\<rparr>"]
    ensure_known_user_trace [of env api backup repo _ "s\<lparr>world := _\<rparr>"]
  by (auto simp: EnsureUser_def user_effects_def split: sum.splits prod.splits)


text \<open>
  Where the Secret carries the mark of its present credentials, \<open>EnsureUser\<close> succeeds without any
  effect: no command runs on the server.
\<close>

lemma synced_user_no_exec:
  assumes "fst (api_get_Secret api (user_key backup) (world s)) = Inr secret"
    and "sec_Data secret ''KOPIA_SERVER_USERNAME'' = Some u" "sec_Data secret ''KOPIA_SERVER_PASSWORD'' = Some pw"
    and "map_at (om_Annotations (sec_meta secret)) ''backup.cloudinfra.be/user-synced'' = credentialsFingerprint env u pw"
  shows "\<exists>s'. run_state (EnsureUser env api backup repo) s = (Inr (UserSecretName (backup_ns backup) (bs_PVCName (kb_spec backup))), s')
     \<and> trace s' = trace s"
  using assms
  by (cases "api_get_Secret api (user_key backup) (world s)")
    (simp add: EnsureUser_def client_read_def ensure_known_user_def Let_def UserSyncedAnnotation_def)

lemma user_effects_allowed:
  "user_effects env backup repo got r t \<Longrightarrow> x \<in> set t \<Longrightarrow> user_effect (fst x)"
  by (auto simp: user_effects_def new_user_effects_def known_user_effects_def user_calls_def exec_calls_def marked_def
      split: sum.splits if_splits)

section \<open>DeleteUser\<close>

definition delete_calls :: "KopiaBackup \<Rightarrow> KopiaRepository \<Rightarrow> bool \<Rightarrow> entry list \<Rightarrow> bool" where
  "delete_calls backup repo = exec_calls (repo_ns repo) (buildDeleteUserCommand (user_of backup repo))"

definition delete_effects :: "KopiaBackup \<Rightarrow> KopiaRepository \<Rightarrow> unit result \<Rightarrow> entry list \<Rightarrow> bool" where
  "delete_effects backup repo r t \<longleftrightarrow> t = [] \<and> \<not> ok r \<or> delete_calls backup repo False t \<and> \<not> ok r
     \<or> delete_calls backup repo True t
     \<or> (\<exists>calls x. t = calls @ [(ADeleteSecret x, ok r)] \<and> delete_calls backup repo True calls)"

lemma DeleteUser_trace:
  "wp (DeleteUser api backup repo) (\<lambda>r s'. \<exists>t. trace s' = trace s @ t \<and> delete_effects backup repo r t
     \<and> (ok r \<and> delete_calls backup repo True t \<longrightarrow> (\<exists>w e. fst (api_get_Secret api (user_key backup) w) = Inl e \<and> IsNotFound e))) s"
  unfolding DeleteUser_def deleteUserFromServer_def Let_def wp_bind
  by (rule wp_mono [OF getServerPodName_quiet])
    (auto simp: delete_effects_def delete_calls_def exec_calls_def intro!: execInPod_wp
      split: sum.splits prod.splits option.splits; metis fst_conv)

text \<open>
  \<open>DeleteUser\<close> deletes the Secret only after the command that removes the user from the server
  has succeeded, as its last step, and then it succeeds exactly if the deletion did. It succeeds
  without deleting only when there is no Secret.
\<close>

lemma delete_user_order:
  assumes "run_state (DeleteUser api backup repo) s = (r, s')"
  shows "\<exists>t. trace s' = trace s @ t \<and> (t = [] \<and> \<not> ok r \<or> delete_calls backup repo False t \<and> \<not> ok r
     \<or> delete_calls backup repo True t
         \<and> (ok r \<longrightarrow> (\<exists>w e. fst (api_get_Secret api (user_key backup) w) = Inl e \<and> IsNotFound e))
     \<or> (\<exists>calls x. t = calls @ [(ADeleteSecret x, ok r)] \<and> delete_calls backup repo True calls))"
  using wpD [OF DeleteUser_trace assms] unfolding delete_effects_def by blast

interpretation kum: user_manager "KopiaUserManager env api" for env :: env and api :: "'w api"
proof
  fix backup repo s n and s' :: "'w st"
  show "run_state (um_EnsureUser (KopiaUserManager env api) backup repo) s = (Inr n, s') \<Longrightarrow>
      n = UserSecretName (backup_ns backup) (bs_PVCName (kb_spec backup))"
    using wpD [OF EnsureUser_trace, of env api backup repo s "Inr n" s'] by (auto simp: KopiaUserManager_def)
  show "emits_only (\<lambda>x. user_effect (fst x)) (um_EnsureUser (KopiaUserManager env api) backup repo)"
    using EnsureUser_trace [of env api backup repo]
    by (fastforce simp: emits_only_def KopiaUserManager_def wp_run dest: user_effects_allowed)
  show "emits_only (\<lambda>x. user_effect (fst x)) (um_DeleteUser (KopiaUserManager env api) backup repo)"
    using DeleteUser_trace [of api backup repo]
    by (fastforce simp: emits_only_def KopiaUserManager_def wp_run delete_effects_def delete_calls_def exec_calls_def)
qed

section \<open>Passwords in the log\<close>

lemma redact_long:
  assumes "8 < length pw" "CHR ''['' \<notin> set pw" "CHR '']'' \<notin> set pw"
  shows "\<not> sublist pw (newRedactor [pw] s)"
proof -
  have "length ''REDACTED'' = 8" by simp
  with assms(1) have "\<not> sublist pw ''REDACTED''" by (metis sublist_length_le not_le)
  moreover have "pw \<noteq> ''''" using assms(1) by auto
  ultimately show ?thesis using redact_removes [OF _ assms(2,3)] by simp
qed

text \<open>A value of a log line is allowed: it lacks the password, or is the user name or an exec error.\<close>

definition log_value_ok :: "'w api \<Rightarrow> string \<Rightarrow> string \<Rightarrow> string \<Rightarrow> bool" where
  "log_value_ok api username pw v \<longleftrightarrow> \<not> sublist pw v \<or> v = username \<or>
     (\<exists>e. exec_error api e \<and> v = Error e)"

lemma log_value_okI:
  "log_value_ok api username pw username"
  "8 < length pw \<Longrightarrow> CHR ''['' \<notin> set pw \<Longrightarrow> CHR '']'' \<notin> set pw \<Longrightarrow> log_value_ok api username pw (newRedactor [pw] x)"
  "exec_error api e \<Longrightarrow> log_value_ok api username pw (Error e)"
  unfolding log_value_ok_def using redact_long [of pw x] by blast+

lemma createUserOnServer_log:
  assumes "8 < length pw" "CHR ''['' \<notin> set pw" "CHR '']'' \<notin> set pw"
  shows "wp (createUserOnServer api repo username pw) (\<lambda>r s'. \<exists>t. trace s' = trace s @ t
     \<and> (\<forall>m vs b. (ALog m vs, b) \<in> set t \<longrightarrow> list_all (log_value_ok api username pw) vs)) s"
  unfolding createUserOnServer_def wp_bind
  by (rule wp_mono [OF getServerPodName_quiet])
    (auto simp: Let_def log_value_okI(1,3) log_value_okI(2) [OF assms] simp del: newRedactor.simps
      split: sum.splits option.splits intro!: execInPod_wp)

text \<open>
  C24: the output of the command that registers a user is logged only with the password redacted: for
  every password as \<open>generateSecurePassword\<close> makes them, no value of a log line contains the
  password, unless the user name itself does or the text of the exec error does.
\<close>

theorem password_not_logged:
  assumes "length pw = 32" "set pw \<subseteq> b64_alphabet"
    and "run_state (createUserOnServer api repo username pw) s = (r, s')"
    and "(ALog m vs, b) \<in> set (emitted s s')" "v \<in> set vs" "v \<noteq> username"
    and "\<And>e. exec_error api e \<Longrightarrow> v \<noteq> Error e"
  shows "\<not> sublist pw v"
proof -
  have "8 < length pw" "CHR ''['' \<notin> set pw" "CHR '']'' \<notin> set pw"
    using assms(1,2) b64_alphabet_unfold by auto
  from wpD [OF createUserOnServer_log [OF this] assms(3)] obtain t where
    "trace s' = trace s @ t" "\<forall>m vs b. (ALog m vs, b) \<in> set t \<longrightarrow> list_all (log_value_ok api username pw) vs"
    by auto
  with assms(4,5) have "log_value_ok api username pw v" by (auto simp: list_all_iff)
  with assms(6,7) show ?thesis unfolding log_value_ok_def by blast
qed

section \<open>Examples\<close>

definition server_pod :: Pod where
  "server_pod = \<lparr>pod_meta = zero_ObjectMeta\<lparr>om_Name := ''kopia-server-0'', om_Namespace := ''ns'',
       om_Labels := Some (ServerLabels ''repo'')\<rparr>, pod_spec = zero_PodSpec, pod_Phase = PodRunning,
     pod_ContainerStatuses = [\<lparr>cs_Name = ''kopia-server'', cs_Ready = True\<rparr>]\<rparr>"

abbreviation server_cluster :: "Secret list \<Rightarrow> cluster" where
  "server_cluster secrets \<equiv> empty_cluster\<lparr>cl_pods := [server_pod], cl_secrets := secrets\<rparr>"

lemma getServerPodName_example:
  "cl_pods (world s) = [server_pod] \<Longrightarrow>
     run_state (getServerPodName mem_api example_repo) s = (Inr ''kopia-server-0'', s)"
  by (simp add: getServerPodName_def client_read_def server_pod_def pod_server_ready_def labels_match_def
      example_repo_def zero_defs)

lemma trim_ok [simp]: "strings_TrimSpace ''ok'' = ''ok''" "strings_TrimSpace [] = []"
  by (simp_all add: strings_TrimSpace_def runes_ascii ascii_def unicode_IsSpace_def byte_of_def)

lemma createUserOnServer_example:
  "cl_pods (world s) = [server_pod] \<Longrightarrow>
     run_state (createUserOnServer mem_api example_repo u pw) s = (Inr (), s\<lparr>trace := trace s @
       [(AExec ''ns'' ''kopia-server-0'' ''kopia-server'' (buildCreateUserCommand u pw ''''), True),
        (ALog ''Created user on Kopia server'' [u, newRedactor [pw] ''ok''], True)]\<rparr>)"
  by (simp add: createUserOnServer_def getServerPodName_example execInPod_def client_read_def pod_exec_def emit_def Let_def
      del: newRedactor.simps) (simp add: example_repo_def zero_defs)

theorem password_not_logged_witness:
  "\<not> sublist (replicate 32 (CHR ''A'')) (newRedactor [replicate 32 (CHR ''A'')] ''ok'')"
proof -
  let ?pw = "replicate 32 (CHR ''A'')"
  let ?s = "start (server_cluster [])"
  obtain s' where run: "run_state (createUserOnServer mem_api example_repo ''u'' ?pw) ?s = (Inr (), s')"
    "(ALog ''Created user on Kopia server'' [''u'', newRedactor [?pw] ''ok''], True) \<in> set (emitted ?s s')"
    using createUserOnServer_example [of ?s "''u''" ?pw] by (auto simp: start_def emitted_def simp del: newRedactor.simps)
  have "b64_char 0 = CHR ''A''" by code_simp
  then have "set ?pw \<subseteq> b64_alphabet" using b64_char_in [of 0] by simp
  moreover have "newRedactor [?pw] ''ok'' \<noteq> ''u''" by code_simp
  moreover have "\<not> exec_error mem_api e" for e by (simp add: exec_error_def)
  ultimately show ?thesis
    using password_not_logged [OF _ _ run, of "newRedactor [?pw] ''ok''"] by fastforce
qed

lemma ref_EnsureUser_new:
  "\<exists>n s'. run_state (EnsureUser ref_env mem_api example_backup example_repo) (start (server_cluster [])) = (Inr n, s')"
proof -
  obtain r s' where run: "run_state (EnsureUser ref_env mem_api example_backup example_repo) (start (server_cluster [])) = (r, s')"
    by (metis prod.exhaust)
  then obtain n where "r = Inr n"
    by (auto simp: EnsureUser_def client_read_def start_def mem_defs IsNotFound_def ensure_new_user_def Let_def
        generateSecurePassword_def user_Secret_def ref_SetControllerReference_def zero_ObjectMeta_def
        client_call_def store_secret_def register_new_user_def createUserOnServer_example
        split: prod.splits)
  with run show ?thesis by blast
qed


abbreviation synced_secret :: Secret where
  "synced_secret \<equiv> \<lparr>sec_meta = zero_ObjectMeta\<lparr>om_Name := ''kopia-backup-user-ns-data'', om_Namespace := ''ns'',
       om_Annotations := Some [''backup.cloudinfra.be/user-synced'' \<mapsto> credentialsFingerprint ref_env ''u'' ''p'']\<rparr>,
     sec_Type = '''', sec_Data = [''KOPIA_SERVER_USERNAME'' \<mapsto> ''u'', ''KOPIA_SERVER_PASSWORD'' \<mapsto> ''p''],
     sec_StringData = Map.empty\<rparr>"

end
