(* ===== verification/Backup_Reconciler.thy ===== *)
theory Backup_Reconciler
  imports Backup_Builder User_Manager
begin

text \<open>
  The KopiaBackup controller (internal/controller/kopiabackup/reconciler.go): the finalizer, the
  dependencies of a backup, the credentials of its server user, the ConfigMap and the CronJob, the status
  with its conditions, and the functions that map watched objects to backups.
\<close>

section \<open>The reconciler\<close>

definition finalizerName :: string where "finalizerName = ''backup.cloudinfra.be/finalizer''"
definition requeueDelay :: int where "requeueDelay = 30 * time_Second"
definition noPodRequeueDelay :: int where "noPodRequeueDelay = 10 * time_Minute"
definition pvcNameField :: string where "pvcNameField = ''.spec.pvcName''"
definition repositoryNameField :: string where "repositoryNameField = ''.spec.repository''"

definition DefaultKopiaImage :: string where
  "DefaultKopiaImage =
     ''ghcr.io/fastlorenzo/kopia:0.20.1@sha256:4a2660db62960eb0b4ba98982c4566bcc9dd2ee3b15b31af9626146aa4e5d8e3''"

text \<open>
  The fields of KopiaBackupReconciler. The server manager is called only in server mode and without a
  check, so it is not optional here.
\<close>

record 'w KopiaBackupReconciler =
  br_KopiaImage :: string
  br_ServerManager :: "'w ServerManager"
  br_UserManager :: "'w UserManager option"

definition kopiaImage :: "'w KopiaBackupReconciler \<Rightarrow> string" where
  "kopiaImage r = (if br_KopiaImage r \<noteq> '''' then br_KopiaImage r else DefaultKopiaImage)"

definition setCondition :: "env \<Rightarrow> KopiaBackup \<Rightarrow> string \<Rightarrow> ConditionStatus \<Rightarrow> string \<Rightarrow> string \<Rightarrow> KopiaBackup" where
  "setCondition env backup condType status reason message =
     backup\<lparr>kb_status := (kb_status backup)\<lparr>bst_Conditions :=
       SetStatusCondition env (bst_Conditions (kb_status backup))
         \<lparr>co_Type = condType, co_Status = status, co_Reason = reason, co_Message = message,
          co_ObservedGeneration = om_Generation (kb_meta backup)\<rparr>\<rparr>\<rparr>"

section \<open>Lookups\<close>

definition getRelatedPVC :: "env \<Rightarrow> 'w api \<Rightarrow> KopiaBackup \<Rightarrow> ('w st, PersistentVolumeClaim result) state" where
  "getRelatedPVC env api kBackup =
     (if bs_PVCName (kb_spec kBackup) = '''' then ret (Inl (ErrorString ''spec.pvcName is required''))
      else do {
        got \<leftarrow> Get_PVC api (NamespacedName (backup_ns kBackup) (bs_PVCName (kb_spec kBackup)));
        case got of
          Inl err \<Rightarrow> ret (Inl (WrapError
            (''failed to get PVC '' @ fmt_q (isPrint_table env) (bs_PVCName (kb_spec kBackup))) err))
        | Inr pvc \<Rightarrow> ret (Inr pvc)
      })"

definition unique_repository :: "env \<Rightarrow> string \<Rightarrow> string \<Rightarrow> KopiaRepository list \<Rightarrow> KopiaRepository result" where
  "unique_repository env name namespace matches = (case matches of
     [] \<Rightarrow> Inl (ErrorString (''KopiaRepository '' @ fmt_q (isPrint_table env) name @ '' not found in namespace ''
             @ fmt_q (isPrint_table env) namespace @ '' or cluster-wide''))
   | [repo] \<Rightarrow> Inr repo
   | _ \<Rightarrow> Inl (ErrorString (''ambiguous: found '' @ fmt_d (int (length matches)) @ '' KopiaRepositories named ''
            @ fmt_q (isPrint_table env) name @ '' across namespaces'')))"

definition getKopiaRepository :: "env \<Rightarrow> 'w api \<Rightarrow> string \<Rightarrow> string \<Rightarrow> ('w st, KopiaRepository result) state" where
  "getKopiaRepository env api name namespace = do {
     got \<leftarrow> Get_KopiaRepository api (NamespacedName namespace name);
     case got of
       Inr repo \<Rightarrow> ret (Inr repo)
     | Inl _ \<Rightarrow> do {
         l \<leftarrow> List_KopiaRepositories api;
         case l of
           Inl err \<Rightarrow> ret (Inl (WrapError ''listing KopiaRepositories'' err))
         | Inr repos \<Rightarrow> ret (unique_repository env name namespace (filter (\<lambda>r. repo_name r = name) repos))
       }
   }"

definition mounts_claim :: "string \<Rightarrow> Pod \<Rightarrow> bool" where
  "mounts_claim claim pod = list_ex (\<lambda>v. vs_PersistentVolumeClaim (v_Source v) = Some claim) (ps_Volumes (pod_spec pod))"

definition consumer_pod :: "string \<Rightarrow> Pod \<Rightarrow> bool" where
  "consumer_pod claim pod \<longleftrightarrow> pod_Phase pod = PodRunning
     \<and> \<not> strings_HasPrefix (om_Name (pod_meta pod)) CronJobPrefix \<and> mounts_claim claim pod"

definition findPodUsingPVC :: "'w api \<Rightarrow> KopiaBackup \<Rightarrow> ('w st, podPlacement) state" where
  "findPodUsingPVC api kBackup = do {
     l \<leftarrow> List_Pods api (backup_ns kBackup) Map.empty;
     case l of
       Inl err \<Rightarrow> ret zero_podPlacement
     | Inr pods \<Rightarrow> (case List.find (consumer_pod (bs_PVCName (kb_spec kBackup))) pods of
         None \<Rightarrow> ret zero_podPlacement
       | Some pod \<Rightarrow> ret \<lparr>pp_NodeName = ps_NodeName (pod_spec pod),
           pp_AppName = map_at (om_Labels (pod_meta pod)) ''app.kubernetes.io/name'',
           pp_PodName = om_Name (pod_meta pod), pp_Tolerations = ps_Tolerations (pod_spec pod)\<rparr>)
   }"

section \<open>ConfigMap and CronJob\<close>

definition reconcileConfigMap :: "env \<Rightarrow> 'w api \<Rightarrow> KopiaBackup \<Rightarrow> KopiaRepository \<Rightarrow> ('w st, unit result) state" where
  "reconcileConfigMap env api backup repo =
     (case buildConfigMap backup repo of
        Inl err \<Rightarrow> ret (Inl (WrapError ''failed to build ConfigMap'' err))
      | Inr desired \<Rightarrow>
          (case SetControllerReference env ''KopiaBackup'' (kb_meta backup) (cm_meta desired) of
             Inl err \<Rightarrow> ret (Inl (WrapError ''failed to set owner reference on ConfigMap'' err))
           | Inr m \<Rightarrow> do {
               let desired = desired\<lparr>cm_meta := m\<rparr>;
               got \<leftarrow> Get_ConfigMap api (NamespacedName (backup_ns backup) (ConfigMapName (repo_name repo)));
               case got of
                 Inl err \<Rightarrow>
                   if IsNotFound err then do { r \<leftarrow> Create_ConfigMap api desired; ret (discard r) }
                   else ret (Inl (WrapError ''failed to get ConfigMap'' err))
               | Inr existing \<Rightarrow>
                   if map_at (cm_Data existing) ''repository.config'' \<noteq> map_at (cm_Data desired) ''repository.config''
                   then do { r \<leftarrow> Update_ConfigMap api (existing\<lparr>cm_Data := cm_Data desired\<rparr>); ret (discard r) }
                   else ret (Inr ())
             }))"

text \<open>The assignments of \<open>reconcileCronJob\<close> to the fields of the existing spec.\<close>

definition merge_CronJobSpec :: "CronJobSpec \<Rightarrow> CronJobSpec \<Rightarrow> CronJobSpec" where
  "merge_CronJobSpec existing desired =
     (let want = jt_spec (cjs_JobTemplate desired) in
      existing\<lparr>
        cjs_Schedule := cjs_Schedule desired,
        cjs_Suspend := cjs_Suspend desired,
        cjs_ConcurrencyPolicy := cjs_ConcurrencyPolicy desired,
        cjs_SuccessfulJobsHistoryLimit := cjs_SuccessfulJobsHistoryLimit desired,
        cjs_FailedJobsHistoryLimit := cjs_FailedJobsHistoryLimit desired,
        cjs_JobTemplate := (cjs_JobTemplate existing)\<lparr>jt_spec := (jt_spec (cjs_JobTemplate existing))\<lparr>
          js_TTLSecondsAfterFinished := js_TTLSecondsAfterFinished want,
          js_ActiveDeadlineSeconds := js_ActiveDeadlineSeconds want,
          js_BackoffLimit := js_BackoffLimit want,
          js_Template := (js_Template (jt_spec (cjs_JobTemplate existing)))\<lparr>
            pt_meta := pt_meta (js_Template want), pt_spec := pt_spec (js_Template want)\<rparr>,
          js_Suspend := js_Suspend want\<rparr>\<rparr>\<rparr>)"

definition reconcileCronJob :: "env \<Rightarrow> 'w api \<Rightarrow> string \<Rightarrow> KopiaBackup \<Rightarrow> string \<Rightarrow> podPlacement \<Rightarrow> KopiaRepository
    \<Rightarrow> ('w st, unit result) state" where
  "reconcileCronJob env api img backup cronJobName placement repo =
     (let desired = buildCronJob backup cronJobName placement repo img in
      case SetControllerReference env ''KopiaBackup'' (kb_meta backup) (cj_meta desired) of
        Inl err \<Rightarrow> ret (Inl (WrapError ''failed to set owner reference on CronJob'' err))
      | Inr m \<Rightarrow> do {
          let desired = desired\<lparr>cj_meta := m\<rparr>;
          got \<leftarrow> Get_CronJob api (NamespacedName (backup_ns backup) cronJobName);
          case got of
            Inl err \<Rightarrow>
              if IsNotFound err then do { r \<leftarrow> Create_CronJob api desired; ret (discard r) }
              else ret (Inl (WrapError ''failed to get CronJob'' err))
          | Inr existing \<Rightarrow> do {
              let originalSpec = cj_spec existing;
              let existing = existing\<lparr>cj_spec := merge_CronJobSpec (cj_spec existing) (cj_spec desired)\<rparr>;
              if DeepEqual_CronJobSpec env originalSpec (cj_spec existing) then ret (Inr ())
              else do { r \<leftarrow> Update_CronJob api existing; ret (discard r) }
            }
        })"

section \<open>Phases\<close>

text \<open>
  Each phase returns the backup in memory and, where it ends the reconcile, the outcome. A successful
  \<open>Update\<close> replaces the object in memory by the server's answer.
\<close>

definition remove_finalizer :: "env \<Rightarrow> 'w api \<Rightarrow> KopiaBackup \<Rightarrow> ('w st, KopiaBackup \<times> go_error option option) state" where
  "remove_finalizer env api backup = do {
     CleanupBackupMetrics (backup_name backup) (backup_ns backup) (bs_PVCName (kb_spec backup));
     let backup = backup\<lparr>kb_meta := (kb_meta backup)\<lparr>
       om_Finalizers := RemoveFinalizer env (om_Finalizers (kb_meta backup)) finalizerName\<rparr>\<rparr>;
     u \<leftarrow> Update_KopiaBackup api backup;
     case u of
       Inl err \<Rightarrow> ret (backup, Some (Some (WrapError ''failed to remove finalizer'' err)))
     | Inr backup \<Rightarrow> ret (backup, Some None)
   }"

definition delete_user_first :: "env \<Rightarrow> 'w api \<Rightarrow> 'w UserManager \<Rightarrow> KopiaBackup \<Rightarrow> KopiaRepository
    \<Rightarrow> ('w st, KopiaBackup \<times> go_error option option) state" where
  "delete_user_first env api um backup repo = do {
     d \<leftarrow> um_DeleteUser um backup repo;
     case d of
       Inl delErr \<Rightarrow> do {
         emit (AEvent (key_of (kb_meta backup)) EventTypeWarning ''FinalizerFailed''
           (''Failed to delete server user: '' @ Error delErr));
         ret (backup, Some (Some (WrapError ''finalizer cleanup failed, will retry'' delErr)))
       }
     | Inr _ \<Rightarrow> remove_finalizer env api backup
   }"

text \<open>The result's second component is the error of \<open>handleFinalizer\<close> where it is done.\<close>

definition handleFinalizer :: "env \<Rightarrow> 'w api \<Rightarrow> 'w KopiaBackupReconciler \<Rightarrow> KopiaBackup
    \<Rightarrow> ('w st, KopiaBackup \<times> go_error option option) state" where
  "handleFinalizer env api r backup =
     (if \<not> time_IsZero (om_DeletionTimestamp (kb_meta backup)) then
        (if ContainsFinalizer env (om_Finalizers (kb_meta backup)) finalizerName then
           (case br_UserManager r of
              Some um \<Rightarrow>
                if bs_UserCredentialsSecret (kb_spec backup) \<noteq> '''' then do {
                  repo \<leftarrow> getKopiaRepository env api (bs_Repository (kb_spec backup)) (backup_ns backup);
                  case repo of
                    Inr repo \<Rightarrow>
                      if server_enabled repo then delete_user_first env api um backup repo
                      else remove_finalizer env api backup
                  | Inl _ \<Rightarrow> remove_finalizer env api backup
                }
                else remove_finalizer env api backup
            | None \<Rightarrow> remove_finalizer env api backup)
         else ret (backup, Some None))
      else if \<not> ContainsFinalizer env (om_Finalizers (kb_meta backup)) finalizerName then do {
        let backup = backup\<lparr>kb_meta := (kb_meta backup)\<lparr>
          om_Finalizers := AddFinalizer env (om_Finalizers (kb_meta backup)) finalizerName\<rparr>\<rparr>;
        u \<leftarrow> Update_KopiaBackup api backup;
        case u of
          Inl err \<Rightarrow> ret (backup, Some (Some (WrapError ''failed to add finalizer'' err)))
        | Inr backup \<Rightarrow> ret (backup, None)
      }
      else ret (backup, None))"

definition validateDependencies :: "env \<Rightarrow> 'w api \<Rightarrow> KopiaBackup \<Rightarrow> ('w st, KopiaBackup \<times> KopiaRepository option) state" where
  "validateDependencies env api backup = do {
     pvc \<leftarrow> getRelatedPVC env api backup;
     case pvc of
       Inl err \<Rightarrow> do {
         let q = fmt_q (isPrint_table env) (bs_PVCName (kb_spec backup));
         emit (AEvent (key_of (kb_meta backup)) EventTypeWarning ''PVCNotFound'' (''PVC '' @ q @ '' not found''));
         ret (setCondition env backup ConditionTypeReady ConditionFalse ReasonPVCNotFound
                (''PVC '' @ q @ '' not found: '' @ Error err), None)
       }
     | Inr _ \<Rightarrow> do {
         repo \<leftarrow> getKopiaRepository env api (bs_Repository (kb_spec backup)) (backup_ns backup);
         case repo of
           Inl err \<Rightarrow> do {
             let m = ''KopiaRepository '' @ fmt_q (isPrint_table env) (bs_Repository (kb_spec backup)) @ '' not found'';
             emit (AEvent (key_of (kb_meta backup)) EventTypeWarning ''RepositoryNotFound'' m);
             ret (setCondition env backup ConditionTypeReady ConditionFalse ReasonRepositoryNotFound m, None)
           }
         | Inr repo \<Rightarrow> ret (backup, Some repo)
       }
   }"

definition reconcileServerCredentials :: "env \<Rightarrow> 'w api \<Rightarrow> 'w KopiaBackupReconciler \<Rightarrow> KopiaBackup \<Rightarrow> KopiaRepository
    \<Rightarrow> ('w st, KopiaBackup \<times> outcome option) state" where
  "reconcileServerCredentials env api r backup repo = (case br_UserManager r of
     None \<Rightarrow>
       ret (setCondition env backup ConditionTypeReady ConditionFalse ReasonCronJobFailed
              ''Server mode requires UserManager to be configured'',
            Some (no_requeue, Some (ErrorString ''user manager not configured for server mode'')))
   | Some um \<Rightarrow> do {
       e \<leftarrow> um_EnsureUser um backup repo;
       case e of
         Inl err \<Rightarrow>
           if errors_As_ServerNotReady err then ret (backup, Some (requeue_after requeueDelay, None))
           else ret (backup, Some (no_requeue, Some (WrapError ''failed to ensure user'' err)))
       | Inr secretName \<Rightarrow> do {
           (backup, stop) \<leftarrow>
             (if bs_UserCredentialsSecret (kb_spec backup) \<noteq> secretName then do {
                let backup = backup\<lparr>kb_spec := (kb_spec backup)\<lparr>bs_UserCredentialsSecret := secretName\<rparr>\<rparr>;
                u \<leftarrow> Update_KopiaBackup api backup;
                case u of
                  Inl err \<Rightarrow> ret (backup, Some (no_requeue,
                    Some (WrapError ''failed to persist UserCredentialsSecret'' err)))
                | Inr backup \<Rightarrow> ret (backup, None)
              }
              else ret (backup, None));
           case stop of
             Some out \<Rightarrow> ret (backup, Some out)
           | None \<Rightarrow> ret (backup\<lparr>kb_status := (kb_status backup)\<lparr>
               bst_ServerURL := sm_GetServerURL (br_ServerManager r) repo,
               bst_Username := backup_ns backup @ ''-'' @ bs_PVCName (kb_spec backup) @ ''@'' @ rs_Hostname (kr_spec repo),
               bst_Connected := True\<rparr>\<rparr>, None)
         }
     })"

definition reconcileBackupResources :: "env \<Rightarrow> 'w api \<Rightarrow> 'w KopiaBackupReconciler \<Rightarrow> KopiaBackup \<Rightarrow> KopiaRepository
    \<Rightarrow> ('w st, KopiaBackup \<times> outcome) state" where
  "reconcileBackupResources env api r backup repo = do {
     placement \<leftarrow> findPodUsingPVC api backup;
     let cronJobName = CronJobName (bs_PVCName (kb_spec backup));
     let backup = backup\<lparr>kb_status := (kb_status backup)\<lparr>
       bst_NodeName := pp_NodeName placement, bst_CronJobName := cronJobName\<rparr>\<rparr>;
     c \<leftarrow> reconcileCronJob env api (kopiaImage r) backup cronJobName placement repo;
     case c of
       Inl err \<Rightarrow> do {
         emit (AEvent (key_of (kb_meta backup)) EventTypeWarning ''CronJobFailed'' (Error err));
         ret (setCondition env backup ConditionTypeCronJobCreated ConditionFalse ReasonCronJobFailed (Error err),
              (no_requeue, Some err))
       }
     | Inr _ \<Rightarrow> do {
         let backup = setCondition env backup ConditionTypeCronJobCreated ConditionTrue ReasonReconciled
           (''CronJob '' @ fmt_q (isPrint_table env) cronJobName @ '' is up to date'');
         if pp_NodeName placement = '''' then
           ret (setCondition env backup ConditionTypeReady ConditionFalse ReasonNoPodFound
                  ''No running pod found with the PVC mounted'', (requeue_after noPodRequeueDelay, None))
         else if bs_Suspend (kb_spec backup) then
           ret (setCondition env backup ConditionTypeReady ConditionFalse ReasonSuspended
                  ''Backup is suspended'', (no_requeue, None))
         else
           ret (setCondition env backup ConditionTypeReady ConditionTrue ReasonReconciled
                  (''Backup active on node '' @ pp_NodeName placement @ '' (pod '' @ pp_PodName placement @ '')''),
                (no_requeue, None))
       }
   }"

text \<open>Phases 4 and 5 of \<open>reconcile\<close>, then all phases after the finalizer, under the deferred status update.\<close>

definition configure_backup :: "env \<Rightarrow> 'w api \<Rightarrow> 'w KopiaBackupReconciler \<Rightarrow> KopiaBackup \<Rightarrow> KopiaRepository
    \<Rightarrow> ('w st, KopiaBackup \<times> outcome) state" where
  "configure_backup env api r backup repo = do {
     c \<leftarrow> (if \<not> server_enabled repo \<and> rs_StorageType (kr_spec repo) = StorageTypeFilesystem
           then reconcileConfigMap env api backup repo else ret (Inr ()));
     case c of
       Inl err \<Rightarrow> ret (backup, (no_requeue, Some (WrapError ''failed to reconcile ConfigMap'' err)))
     | Inr _ \<Rightarrow> reconcileBackupResources env api r backup repo
   }"

definition backup_phases :: "env \<Rightarrow> 'w api \<Rightarrow> 'w KopiaBackupReconciler \<Rightarrow> KopiaBackup
    \<Rightarrow> ('w st, KopiaBackup \<times> outcome) state" where
  "backup_phases env api r backup = do {
     (backup, repo) \<leftarrow> validateDependencies env api backup;
     case repo of
       None \<Rightarrow> ret (backup, (no_requeue, None))
     | Some repo \<Rightarrow> do {
         (backup, stop) \<leftarrow> (if server_enabled repo then reconcileServerCredentials env api r backup repo
                           else ret (backup, None));
         case stop of
           Some out \<Rightarrow> ret (backup, out)
         | None \<Rightarrow> configure_backup env api r backup repo
       }
   }"

definition backup_reconcile :: "env \<Rightarrow> 'w api \<Rightarrow> 'w KopiaBackupReconciler \<Rightarrow> NamespacedName
    \<Rightarrow> ('w st, outcome) state" where
  "backup_reconcile env api r req = do {
     got \<leftarrow> Get_KopiaBackup api req;
     case got of
       Inl err \<Rightarrow> ret (no_requeue, IgnoreNotFound err)
     | Inr kBackup \<Rightarrow> do {
         (kBackup, done) \<leftarrow> handleFinalizer env api r kBackup;
         case done of
           Some err \<Rightarrow> ret (no_requeue, err)
         | None \<Rightarrow> do {
             (kBackup, out) \<leftarrow> backup_phases env api r kBackup;
             deferred_status (\<lambda>b. Status_Update_KopiaBackup api b) kBackup out
           }
       }
   }"

definition KopiaBackup_Reconcile :: "env \<Rightarrow> 'w api \<Rightarrow> 'w KopiaBackupReconciler \<Rightarrow> NamespacedName
    \<Rightarrow> ('w st, outcome) state" where
  "KopiaBackup_Reconcile env api r req = counting_errors ''kopiabackup'' (backup_reconcile env api r req)"

section \<open>Watches\<close>

text \<open>\<open>findBackupsForField\<close>, for an object with the given metadata.\<close>

definition findBackupsForField :: "'w api \<Rightarrow> string \<Rightarrow> ObjectMeta \<Rightarrow> ('w st, NamespacedName list) state" where
  "findBackupsForField api fieldName obj = do {
     l \<leftarrow> List_KopiaBackups api (om_Namespace obj) fieldName (om_Name obj);
     case l of
       Inl err \<Rightarrow> ret []
     | Inr items \<Rightarrow> ret (map (\<lambda>item. NamespacedName (backup_ns item) (backup_name item)) items)
   }"

text \<open>The predicate on Pod events; None stands for an object that is not a Pod.\<close>

definition podRunningPredicate_Create :: "Pod option \<Rightarrow> bool" where
  "podRunningPredicate_Create obj = (case obj of None \<Rightarrow> False | Some pod \<Rightarrow> pod_Phase pod = PodRunning)"

definition podRunningPredicate_Update :: "Pod option \<Rightarrow> Pod option \<Rightarrow> bool" where
  "podRunningPredicate_Update objOld objNew = (case (objOld, objNew) of
     (Some old, Some new) \<Rightarrow>
       (let phaseChanged = (pod_Phase old \<noteq> PodRunning \<and> pod_Phase new = PodRunning);
            nodeAssigned = (ps_NodeName (pod_spec old) = '''' \<and> ps_NodeName (pod_spec new) \<noteq> '''') in
        phaseChanged \<or> nodeAssigned)
   | _ \<Rightarrow> False)"

definition podRunningPredicate_Delete :: bool where "podRunningPredicate_Delete = False"
definition podRunningPredicate_Generic :: bool where "podRunningPredicate_Generic = False"

fun backups_of_volumes :: "'w api \<Rightarrow> string \<Rightarrow> Volume list \<Rightarrow> ('w st, NamespacedName list) state" where
  "backups_of_volumes api ns [] = ret []"
| "backups_of_volumes api ns (vol # vols) = (case vs_PersistentVolumeClaim (v_Source vol) of
     None \<Rightarrow> backups_of_volumes api ns vols
   | Some claim \<Rightarrow> do {
       l \<leftarrow> List_KopiaBackups api ns pvcNameField claim;
       rest \<leftarrow> backups_of_volumes api ns vols;
       ret ((case l of Inl err \<Rightarrow> []
             | Inr items \<Rightarrow> map (\<lambda>b. NamespacedName (backup_ns b) (backup_name b)) items) @ rest)
     })"

definition findBackupsForPod :: "'w api \<Rightarrow> Pod option \<Rightarrow> ('w st, NamespacedName list) state" where
  "findBackupsForPod api obj = (case obj of
     None \<Rightarrow> ret []
   | Some pod \<Rightarrow>
       if strings_HasPrefix (om_Name (pod_meta pod)) CronJobPrefix then ret []
       else backups_of_volumes api (om_Namespace (pod_meta pod)) (ps_Volumes (pod_spec pod)))"

text \<open>The two field indexers that \<open>SetupWithManager\<close> registers.\<close>

definition pvcName_index :: "KopiaBackup \<Rightarrow> string list" where
  "pvcName_index backup = (if bs_PVCName (kb_spec backup) = '''' then [] else [bs_PVCName (kb_spec backup)])"

definition repository_index :: "KopiaBackup \<Rightarrow> string list" where
  "repository_index backup = (if bs_Repository (kb_spec backup) = '''' then [] else [bs_Repository (kb_spec backup)])"

section \<open>Lookups: what they find\<close>

text \<open>
  \<open>getKopiaRepository\<close> returns the repository of the backup's own namespace where the cluster has it;
  otherwise it returns a repository of that name only if exactly one exists in the whole cluster, and
  an error if there is none or more than one. It has no effect.
\<close>

lemma repository_lookup:
  assumes "run_state (getKopiaRepository env api name ns) s = (r, s')"
    and "api_get_KopiaRepository api (NamespacedName ns name) (world s) = (got, w)"
    and "api_list_KopiaRepositories api w = (Inr repos, w')"
  shows "trace s' = trace s \<and>
    (case got of Inr repo \<Rightarrow> r = Inr repo
     | Inl _ \<Rightarrow> (\<forall>repo. r = Inr repo \<longleftrightarrow> filter (\<lambda>x. repo_name x = name) repos = [repo]))"
  using assms
  by (auto simp: getKopiaRepository_def client_read_def unique_repository_def split: sum.splits list.splits)

lemma find_split:
  "List.find P xs = Some x \<Longrightarrow> \<exists>pre post. xs = pre @ x # post \<and> (\<forall>y \<in> set pre. \<not> P y) \<and> P x"
proof (induction xs)
  case (Cons y ys)
  show ?case
  proof (cases "P y")
    case False
    with Cons obtain pre post where "ys = pre @ x # post" "\<forall>y \<in> set pre. \<not> P y" "P x" by auto
    with False show ?thesis by (intro exI [of _ "y # pre"] exI [of _ post]) simp
  next
    case True
    with Cons(2) have "y # ys = [] @ x # ys" "P x" by auto
    then show ?thesis by (metis empty_iff list.set(1))
  qed
qed simp

text \<open>
  The pod that fixes the node of a backup job is one that runs, mounts the claim and is not itself a
  backup job, and it is the first such pod of the namespace; if there is none (or the pods cannot be
  listed) no node is chosen.
\<close>

lemma pod_choice:
  assumes "run_state (findPodUsingPVC api b) s = (p, s')"
    and "fst (api_list_Pods api (backup_ns b) Map.empty (world s)) = l"
  shows "trace s' = trace s \<and> (p = zero_podPlacement \<and> (case l of Inl _ \<Rightarrow> True
        | Inr pods \<Rightarrow> (\<forall>pod \<in> set pods. \<not> consumer_pod (bs_PVCName (kb_spec b)) pod))
      \<or> (\<exists>pre pod post. l = Inr (pre @ pod # post) \<and> (\<forall>x \<in> set pre. \<not> consumer_pod (bs_PVCName (kb_spec b)) x)
          \<and> consumer_pod (bs_PVCName (kb_spec b)) pod
          \<and> pp_NodeName p = ps_NodeName (pod_spec pod) \<and> pp_PodName p = om_Name (pod_meta pod)
          \<and> pp_Tolerations p = ps_Tolerations (pod_spec pod)))"
proof (cases l)
  case (Inl e)
  with assms show ?thesis by (auto simp: findPodUsingPVC_def client_read_def split: prod.splits)
next
  case (Inr pods)
  show ?thesis
  proof (cases "List.find (consumer_pod (bs_PVCName (kb_spec b))) pods")
    case None
    then have "\<forall>pod \<in> set pods. \<not> consumer_pod (bs_PVCName (kb_spec b)) pod" by (auto simp: find_None_iff)
    with None Inr assms show ?thesis
      by (auto simp: findPodUsingPVC_def client_read_def split: prod.splits)
  next
    case (Some pod)
    from find_split [OF this] obtain pre post where "pods = pre @ pod # post"
      "\<forall>x \<in> set pre. \<not> consumer_pod (bs_PVCName (kb_spec b)) x" "consumer_pod (bs_PVCName (kb_spec b)) pod" by blast
    moreover from Some Inr assms have "trace s' = trace s" "pp_NodeName p = ps_NodeName (pod_spec pod)"
      "pp_PodName p = om_Name (pod_meta pod)" "pp_Tolerations p = ps_Tolerations (pod_spec pod)"
      by (auto simp: findPodUsingPVC_def client_read_def split: prod.splits)
    ultimately show ?thesis using Inr by blast
  qed
qed

definition app_pod :: Pod where
  "app_pod = \<lparr>pod_meta = zero_ObjectMeta\<lparr>om_Name := ''app-0'', om_Namespace := ''ns''\<rparr>,
     pod_spec = zero_PodSpec\<lparr>ps_NodeName := ''node1'', ps_Volumes :=
       [\<lparr>v_Name = ''v'', v_Source = zero_VolumeSource\<lparr>vs_PersistentVolumeClaim := Some ''data''\<rparr>\<rparr>]\<rparr>,
     pod_Phase = PodRunning, pod_ContainerStatuses = []\<rparr>"

section \<open>ConfigMap and CronJob: contract\<close>

definition configmap_writes :: "KopiaBackup \<times> KopiaRepository \<Rightarrow> action \<Rightarrow> bool" where
  "configmap_writes p x \<longleftrightarrow> (\<exists>cm want. (x = ACreateConfigMap cm \<or> x = AUpdateConfigMap cm)
     \<and> buildConfigMap (fst p) (snd p) = Inr want \<and> cm_Data cm = cm_Data want)"

definition cronjob_writes :: "string \<Rightarrow> KopiaBackup \<times> string \<times> podPlacement \<times> KopiaRepository \<Rightarrow> action \<Rightarrow> bool" where
  "cronjob_writes img p x \<longleftrightarrow> (case p of (backup, name, placement, repo) \<Rightarrow>
     let want = cj_spec (buildCronJob backup name placement repo img) in
     (\<exists>cj. x = ACreateCronJob cj \<and> cj_spec cj = want) \<or>
     (\<exists>cj old. x = AUpdateCronJob cj \<and> cj_spec cj = merge_CronJobSpec old want))"

lemma cronjob_writes_simps [simp]:
  "cronjob_writes img (b, n, p, r) (ACreateCronJob (buildCronJob b n p r img\<lparr>cj_meta := m\<rparr>))"
  "cronjob_writes img (b, n, p, r)
     (AUpdateCronJob (e\<lparr>cj_spec := merge_CronJobSpec old (cj_spec (buildCronJob b n p r img))\<rparr>))"
  by (auto simp: cronjob_writes_def Let_def)

interpretation kconfigmap: ensured "\<lambda>p. reconcileConfigMap env api (fst p) (snd p)" configmap_writes for env api
proof
  fix a and s :: "'a st"
  show "wp (reconcileConfigMap env api (fst a) (snd a)) (ensured_post (configmap_writes a) s) s"
    by (auto simp: reconcileConfigMap_def Let_def configmap_writes_def split: sum.splits intro: ensured_postI)
qed

interpretation kcronjob: ensured "\<lambda>(b, n, p, r). reconcileCronJob env api img b n p r" "cronjob_writes img" for env api img
proof
  fix a :: "KopiaBackup \<times> string \<times> podPlacement \<times> KopiaRepository" and s :: "'a st"
  obtain b n p r where a: "a = (b, n, p, r)" by (metis prod.exhaust)
  show "wp (case a of (b, n, p, r) \<Rightarrow> reconcileCronJob env api img b n p r) (ensured_post (cronjob_writes img a) s) s"
    unfolding a by (auto simp: reconcileCronJob_def Let_def split: sum.splits
        intro: ensured_postI)
qed

lemma merge_idem: "merge_CronJobSpec (merge_CronJobSpec e d) d = merge_CronJobSpec e d"
  by (simp add: merge_CronJobSpec_def Let_def)

lemma merge_same_rest:
  "merge_CronJobSpec d d = d"
  by (simp add: merge_CronJobSpec_def Let_def)

text \<open>
  The CronJob converges. Once \<open>reconcileCronJob\<close> has written the CronJob, a later call for the same
  backup, placement and repository that reads back the spec it wrote succeeds and writes nothing,
  provided that \<open>DeepEqual\<close> holds of equal specs.
\<close>

lemma cronjob_converges:
  assumes "deep_equal_refl env"
    and "run_state (reconcileCronJob env api img b n p repo) s = (Inr (), s1)"
    and "act = ACreateCronJob x \<or> act = AUpdateCronJob x" "trace s1 = trace s @ [(act, True)]"
    and "fst (api_get_CronJob api (NamespacedName (backup_ns b) n) (world s2)) = Inr y" "cj_spec y = cj_spec x"
  shows "\<exists>s3. run_state (reconcileCronJob env api img b n p repo) s2 = (Inr (), s3) \<and> trace s3 = trace s2"
proof -
  let ?d = "buildCronJob b n p repo img"
  from assms(2,4) obtain m where m: "SetControllerReference env ''KopiaBackup'' (kb_meta b) (cj_meta ?d) = Inr m"
    by (auto simp: reconcileCronJob_def Let_def split: sum.splits)
  have "run_state (case (b, n, p, repo) of (b, n, p, r) \<Rightarrow> reconcileCronJob env api img b n p r) s = (Inr (), s1)"
    using assms(2) by simp
  then have "cronjob_writes img (b, n, p, repo) act"
    using assms(4) by (cases rule: kcronjob.run_cases) auto
  with assms(3) have "merge_CronJobSpec (cj_spec x) (cj_spec ?d) = cj_spec x"
    by (auto simp: cronjob_writes_def Let_def merge_idem merge_same_rest)
  with m assms(1,5,6) show ?thesis
    by (auto simp: reconcileCronJob_def Let_def client_read_def deep_equal_refl_def split: prod.splits)
qed

lemma ref_reconcileCronJob_create:
  assumes "store_get cj_meta (NamespacedName (backup_ns b) n) (cl_cronjobs (world s)) = None"
  shows "\<exists>x s1. run_state (reconcileCronJob ref_env mem_api img b n p repo) s = (Inr (), s1)
     \<and> trace s1 = trace s @ [(ACreateCronJob x, True)]
     \<and> fst (api_get_CronJob mem_api (NamespacedName (backup_ns b) n) (world s1)) = Inr x"
proof -
  let ?m = "cj_meta (buildCronJob b n p repo img)"
  have m: "om_OwnerReferences ?m = []" "om_Name ?m = n" "om_Namespace ?m = backup_ns b"
    by (simp_all add: buildCronJob_def zero_ObjectMeta_def)
  then obtain m' where "ref_SetControllerReference ''KopiaBackup'' (kb_meta b) ?m = Inr m'"
    "om_Name m' = n" "om_Namespace m' = backup_ns b"
    by (simp add: ref_SetControllerReference_def)
  with assms show ?thesis
    by (simp add: reconcileCronJob_def Let_def client_read_def client_call_def mem_defs IsNotFound_def store_get_put)
qed

section \<open>Conditions\<close>

definition backup_condition :: "KopiaBackup \<Rightarrow> string \<Rightarrow> (ConditionStatus \<times> string \<times> int64) option" where
  "backup_condition b t = map_option (\<lambda>c. (co_Status c, co_Reason c, co_ObservedGeneration c))
     (find_condition (bst_Conditions (kb_status b)) t)"

lemma backup_condition_set:
  "set_condition_law env \<Longrightarrow> backup_condition (setCondition env b t st rs m) t'
     = (if t' = t then Some (st, rs, om_Generation (kb_meta b)) else backup_condition b t')"
  by (simp add: backup_condition_def setCondition_def set_condition_law_def)

lemma setCondition_simps [simp]:
  "kb_meta (setCondition env b t st rs m) = kb_meta b" "kb_spec (setCondition env b t st rs m) = kb_spec b"
  "bst_NodeName (kb_status (setCondition env b t st rs m)) = bst_NodeName (kb_status b)"
  "bst_CronJobName (kb_status (setCondition env b t st rs m)) = bst_CronJobName (kb_status b)"
  "bst_Connected (kb_status (setCondition env b t st rs m)) = bst_Connected (kb_status b)"
  by (simp_all add: setCondition_def)

lemma backup_condition_cong:
  "bst_Conditions (kb_status b) = bst_Conditions (kb_status b') \<Longrightarrow> backup_condition b t = backup_condition b' t"
  by (simp add: backup_condition_def)

lemmas backup_condition_consts = ConditionTypeReady_def ConditionTypeCronJobCreated_def ReasonReconciled_def
  ReasonPVCNotFound_def ReasonRepositoryNotFound_def ReasonNoPodFound_def ReasonCronJobFailed_def ReasonSuspended_def

text \<open>
  The status a reconcile leaves, by its outcome: requeue after 30 seconds means the server was not ready;
  after 10 minutes, the CronJob is up to date but no pod is known; without requeue and error, either a
  dependency is missing, or the CronJob is up to date and Ready says whether the backup is suspended.
\<close>

definition backup_status_post :: "KopiaBackup \<Rightarrow> KopiaBackup \<times> outcome \<Rightarrow> bool" where
  "backup_status_post b0 p = (case p of (b, res, err) \<Rightarrow>
     let gen = om_Generation (kb_meta b); ready = backup_condition b ''Ready'';
         synced = backup_condition b ''CronJobCreated'' = Some (ConditionTrue, ''Reconciled'', gen);
         node = bst_NodeName (kb_status b) in
     if err \<noteq> None then RequeueAfter res = 0
     else if RequeueAfter res = 30 * time_Second then b = b0
     else if RequeueAfter res = 10 * time_Minute then
       synced \<and> node = '''' \<and> ready = Some (ConditionFalse, ''NoPodFound'', gen)
     else RequeueAfter res = 0 \<and>
       (ready = Some (ConditionFalse, ''PVCNotFound'', gen) \<or> ready = Some (ConditionFalse, ''RepositoryNotFound'', gen)
        \<or> synced \<and> node \<noteq> '''' \<and> ready = Some (if bs_Suspend (kb_spec b)
            then (ConditionFalse, ''Suspended'', gen) else (ConditionTrue, ''Reconciled'', gen))))"

lemma requeue_delays [simp]:
  "30 * time_Second \<noteq> 10 * time_Minute" "30 * time_Second \<noteq> 0" "10 * time_Minute \<noteq> 0"
  "0 \<noteq> 30 * time_Second" "0 \<noteq> 10 * time_Minute" "10 * time_Minute \<noteq> 30 * time_Second"
  "time_Second \<noteq> 0" "time_Minute \<noteq> 0"
  by (simp_all add: time_Second_def time_Minute_def)

lemma RequeueAfter_simps [simp]: "RequeueAfter no_requeue = 0" "RequeueAfter (requeue_after d) = d"
  by (simp_all add: no_requeue_def requeue_after_def)

lemma backup_status_error [simp]: "backup_status_post b0 (b, no_requeue, Some e)"
  by (simp add: backup_status_post_def)

lemma resources_status:
  assumes law: "set_condition_law env"
  shows "wp (reconcileBackupResources env api r b repo) (\<lambda>p _. backup_status_post b0 p) s"
  unfolding reconcileBackupResources_def wp_bind
  by (rule wpI) (auto intro!: wpI [of "reconcileCronJob _ _ _ _ _ _ _"] simp: Let_def backup_status_post_def
      backup_condition_set [OF law] backup_condition_consts noPodRequeueDelay_def split: sum.splits)

lemma validate_status:
  assumes law: "set_condition_law env"
  shows "wp (validateDependencies env api b) (\<lambda>(b', repo) _. (repo = None \<longrightarrow> backup_status_post b0 (b', no_requeue, None))
     \<and> (repo \<noteq> None \<longrightarrow> b' = b)) s"
  unfolding validateDependencies_def wp_bind
  by (rule wpI) (auto intro!: wpI [of "getKopiaRepository _ _ _ _"] simp: Let_def backup_status_post_def
      backup_condition_set [OF law] backup_condition_consts split: sum.splits)

lemma credentials_status:
  "wp (reconcileServerCredentials env api r b repo) (\<lambda>(b', stop) _. \<forall>out. stop = Some out \<longrightarrow> backup_status_post b (b', out)) s"
  unfolding reconcileServerCredentials_def
  by (auto intro!: wpI [of "um_EnsureUser _ _ _"] simp: Let_def backup_status_post_def requeueDelay_def
      split: option.splits sum.splits prod.splits)

lemma configure_status:
  assumes law: "set_condition_law env"
  shows "wp (configure_backup env api r b repo) (\<lambda>p _. backup_status_post b0 p) s"
  unfolding configure_backup_def wp_bind
  by (rule wpI) (auto split: sum.splits intro: resources_status [OF law])

lemma phases_status:
  assumes law: "set_condition_law env"
  shows "wp (backup_phases env api r b) (\<lambda>p _. backup_status_post b p) s"
proof -
  have stop: "wp (case stop of Some out \<Rightarrow> ret (b', out) | None \<Rightarrow> configure_backup env api r b' repo)
      (\<lambda>p _. backup_status_post b p) u" if "\<forall>out. stop = Some out \<longrightarrow> backup_status_post b (b', out)" for stop b' repo u
    using that configure_status [OF law] by (cases stop) simp_all
  show ?thesis
    unfolding backup_phases_def wp_bind
    by (rule wp_mono [OF validate_status [OF law]])
      (auto split: option.splits intro!: wp_mono [OF credentials_status] stop configure_status [OF law]
        simp del: wp_case_option)
qed


section \<open>Effects\<close>

text \<open>The controller as cmd/main.go wires it.\<close>

definition backup_controller :: "env \<Rightarrow> 'w api \<Rightarrow> string \<Rightarrow> 'w KopiaBackupReconciler" where
  "backup_controller env api img = \<lparr>br_KopiaImage = img, br_ServerManager = KopiaServerManager env api,
     br_UserManager = Some (KopiaUserManager env api)\<rparr>"

definition backup_effect :: "action \<Rightarrow> bool" where
  "backup_effect a \<longleftrightarrow> user_effect a \<or> (\<exists>k t r m. a = AEvent k t r m)
     \<or> (\<exists>j. a = ACreateCronJob j \<or> a = AUpdateCronJob j) \<or> (\<exists>m. a = ACreateConfigMap m \<or> a = AUpdateConfigMap m)
     \<or> (\<exists>b. a = AUpdateKopiaBackup b)"

lemma backup_effectI [simp]:
  "user_effect a \<Longrightarrow> backup_effect a" "backup_effect (AEvent k t r m)" "backup_effect (ACreateCronJob j)"
  "backup_effect (AUpdateCronJob j)" "backup_effect (ACreateConfigMap m')" "backup_effect (AUpdateConfigMap m')"
  "backup_effect (AUpdateKopiaBackup b)"
  by (auto simp: backup_effect_def)

lemma backup_effect_not [simp]:
  "\<not> backup_effect (AStatusUpdateKopiaBackup b)" "\<not> backup_effect (AMetric m)" "\<not> backup_effect (ADeleteKopiaBackup b)"
  "\<not> backup_effect (ACreateKopiaBackup b)"
  by (auto simp: backup_effect_def)

lemma getKopiaRepository_quiet:
  "wp (getKopiaRepository env api name ns)
     (\<lambda>r s'. trace s' = trace s \<and> r = fst (run_state (getKopiaRepository env api name ns) s)) s"
proof -
  have "wp (getKopiaRepository env api name ns) (\<lambda>r s'. trace s' = trace s) s"
    by (auto simp: getKopiaRepository_def split: sum.splits prod.splits)
  then show ?thesis by (simp add: wp_run)
qed

lemma emits_getKopiaRepository [emits_intros]: "emits_only P (getKopiaRepository env api name ns)"
  unfolding getKopiaRepository_def by (intro emits_intros)

lemma emits_configmap [emits_intros]: "emits_only (\<lambda>x. backup_effect (fst x)) (reconcileConfigMap env api b repo)"
proof -
  have "emits_only (\<lambda>x. configmap_writes (b, repo) (fst x)) (reconcileConfigMap env api b repo)"
    using kconfigmap.effects [where a = "(b, repo)"] by simp
  then show ?thesis by (rule emits_only_mono) (auto simp: configmap_writes_def)
qed

lemma emits_cronjob [emits_intros]: "emits_only (\<lambda>x. backup_effect (fst x)) (reconcileCronJob env api img b n p repo)"
proof -
  have "emits_only (\<lambda>x. cronjob_writes img (b, n, p, repo) (fst x)) (reconcileCronJob env api img b n p repo)"
    using kcronjob.effects [where a = "(b, n, p, repo)"] by simp
  then show ?thesis by (rule emits_only_mono) (auto simp: cronjob_writes_def Let_def)
qed

context user_manager
begin

lemma credentials_effects:
  "br_UserManager r = Some um \<Longrightarrow>
     emits_only (\<lambda>x. backup_effect (fst x)) (reconcileServerCredentials env api r b repo)"
  unfolding reconcileServerCredentials_def Let_def
  by (simp, intro emits_intros emits_only_mono [OF ensure_effects]) auto

lemma phases_effects:
  assumes "br_UserManager r = Some um"
  shows "emits_only (\<lambda>x. backup_effect (fst x)) (backup_phases env api r b)"
  unfolding backup_phases_def configure_backup_def reconcileBackupResources_def validateDependencies_def
    getRelatedPVC_def findPodUsingPVC_def Let_def
  by (intro emits_intros credentials_effects [OF assms]) auto

lemma finalizer_effects:
  assumes "br_UserManager r = Some um"
  shows "emits_only (\<lambda>x. backup_effect (fst x) \<or> (\<exists>m. fst x = AMetric m)) (handleFinalizer env api r b)"
  unfolding handleFinalizer_def delete_user_first_def remove_finalizer_def CleanupBackupMetrics_def Let_def assms option.case
  by (intro emits_intros emits_only_mono [OF delete_effects]) auto

end

lemma controller_manager [simp]: "br_UserManager (backup_controller env api img) = Some (KopiaUserManager env api)"
  by (simp add: backup_controller_def)

lemmas controller_phases = kum.phases_effects [OF controller_manager]
lemmas controller_finalizer = kum.finalizer_effects [OF controller_manager]

abbreviation no_status :: "entry list \<Rightarrow> bool" where
  "no_status t \<equiv> \<forall>x \<in> set t. \<forall>b. fst x \<noteq> AStatusUpdateKopiaBackup b"

lemma deferred_status_trace:
  "wp (deferred_status (\<lambda>b. Status_Update_KopiaBackup api b) b out) (\<lambda>(res, err) s'. \<exists>done.
     trace s' = trace s @ [(AStatusUpdateKopiaBackup b, done)] \<and> (\<not> done \<longrightarrow> err \<noteq> None)
     \<and> (snd out \<noteq> None \<longrightarrow> err = snd out) \<and> res = fst out) s"
  by (auto simp: deferred_status_def split: prod.splits option.splits)
    (metis err_of.simps(1) ok_simps(2) option.distinct(1) sum.exhaust)+

definition status_last :: "entry list \<Rightarrow> outcome \<Rightarrow> 'w st \<Rightarrow> bool" where
  "status_last t0 out s' \<longleftrightarrow> (\<exists>t. no_status t \<and> (trace s' = t0 @ t \<or>
     (\<exists>b done. trace s' = t0 @ t @ [(AStatusUpdateKopiaBackup b, done)] \<and> (\<not> done \<longrightarrow> snd out \<noteq> None))))"

lemma status_last_none: "trace u = t0 @ t \<Longrightarrow> no_status t \<Longrightarrow> status_last t0 out u"
  by (auto simp: status_last_def)

lemma status_after_phases:
  assumes "trace u = t0 @ t" "no_status t"
  shows "wp (backup_phases env api (backup_controller env api img) b
      \<bind> (\<lambda>(b, out). deferred_status (\<lambda>b. Status_Update_KopiaBackup api b) b out)) (status_last t0) u"
  unfolding wp_bind
proof (rule wp_mono [OF emits_only_wp [OF controller_phases]], elim exE conjE, goal_cases)
  case (1 p u' t')
  obtain b' out where p: "p = (b', out)" by (metis prod.exhaust)
  have "no_status (t @ t')" using assms(2) 1(2) by fastforce
  with assms(1) 1(1) show ?case unfolding p prod.case
    by (intro wp_mono [OF deferred_status_trace]) (auto simp: status_last_def intro!: exI [of _ "t @ t'"])
qed

lemma status_after_finalizer:
  assumes "trace u = t0"
  shows "wp (handleFinalizer env api (backup_controller env api img) b \<bind> (\<lambda>(b, done). case done of
        Some err \<Rightarrow> ret (no_requeue, err)
      | None \<Rightarrow> backup_phases env api (backup_controller env api img) b
          \<bind> (\<lambda>(b, out). deferred_status (\<lambda>b. Status_Update_KopiaBackup api b) b out))) (status_last t0) u"
  unfolding wp_bind [of "handleFinalizer _ _ _ _"]
proof (rule wp_mono [OF emits_only_wp [OF controller_finalizer]], elim exE conjE, goal_cases)
  case (1 p u' t)
  obtain b' d where p: "p = (b', d)" by (metis prod.exhaust)
  have t: "no_status t" "trace u' = t0 @ t" using assms 1 by fastforce+
  show ?case
    by (cases d) (simp_all add: p status_last_none [OF t(2,1)] status_after_phases [OF t(2,1), simplified])
qed

lemma backup_reconcile_status:
  "wp (backup_reconcile env api (backup_controller env api img) req) (status_last (trace s)) s"
  unfolding backup_reconcile_def
  by (simp del: wp_bind add: wp_bind [of "client_read _"] split: sum.splits prod.splits)
    (auto simp del: wp_bind intro!: status_after_finalizer status_last_none [where t = "[]"])

text \<open>
  C17: a reconcile of a backup writes the status at most once and as its very last call, and a status
  that could not be written makes the reconcile fail.
\<close>

theorem backup_status_written_last:
  assumes "run_state (backup_reconcile env api (backup_controller env api img) req) s = ((res, err), s')"
  shows "\<exists>t. (\<forall>x \<in> set t. \<forall>b. fst x \<noteq> AStatusUpdateKopiaBackup b) \<and>
     (trace s' = trace s @ t \<or>
      (\<exists>b done. trace s' = trace s @ t @ [(AStatusUpdateKopiaBackup b, done)] \<and> (\<not> done \<longrightarrow> err \<noteq> None)))"
  using wpD [OF backup_reconcile_status assms] by (simp add: status_last_def)

section \<open>Deletion\<close>

text \<open>
  The effects of \<open>handleFinalizer\<close> for a backup that is being deleted, where \<open>lookup\<close> is what the search
  for its repository gave.
\<close>

definition deletion_effects :: "env \<Rightarrow> KopiaBackup \<Rightarrow> KopiaRepository result \<Rightarrow> entry list \<Rightarrow> bool" where
  "deletion_effects env b lookup t \<longleftrightarrow> (\<exists>calls final. t = calls @ final
     \<and> (calls = [] \<or> (\<exists>repo r. lookup = Inr repo \<and> delete_effects b repo r calls))
     \<and> ((\<exists>k m. final = [(AEvent k EventTypeWarning ''FinalizerFailed'' m, True)]) \<or> final = []
        \<or> (\<exists>b' done. final = [(AMetric (DeleteLastSuccessfulBackup (backup_name b) (backup_ns b) (bs_PVCName (kb_spec b))), True),
              (AUpdateKopiaBackup b', done)]
            \<and> om_Finalizers (kb_meta b') = RemoveFinalizer env (om_Finalizers (kb_meta b)) finalizerName
            \<and> (\<forall>repo. bs_UserCredentialsSecret (kb_spec b) \<noteq> '''' \<and> lookup = Inr repo \<and> server_enabled repo \<longrightarrow>
                 delete_effects b repo (Inr ()) calls))))"

lemma remove_finalizer_effects:
  assumes "trace u = t0 @ calls"
    and "calls = [] \<or> (\<exists>repo r. lookup = Inr repo \<and> delete_effects b repo r calls)"
    and "\<And>repo. bs_UserCredentialsSecret (kb_spec b) \<noteq> '''' \<and> lookup = Inr repo \<and> server_enabled repo \<Longrightarrow>
      delete_effects b repo (Inr ()) calls"
  shows "wp (remove_finalizer env api b) (\<lambda>(b', d) s'. (\<exists>e. d = Some e)
     \<and> (\<exists>t. trace s' = t0 @ t \<and> deletion_effects env b lookup t)) u"
proof -
  have "deletion_effects env b lookup (calls @ [
      (AMetric (DeleteLastSuccessfulBackup (backup_name b) (backup_ns b) (bs_PVCName (kb_spec b))), True),
      (AUpdateKopiaBackup (b\<lparr>kb_meta := (kb_meta b)\<lparr>om_Finalizers :=
         RemoveFinalizer env (om_Finalizers (kb_meta b)) finalizerName\<rparr>\<rparr>), done)])" for "done"
    unfolding deletion_effects_def using assms(2,3)
    by (intro exI [of _ calls] exI conjI) auto
  with assms(1) show ?thesis
    by (auto simp: remove_finalizer_def CleanupBackupMetrics_def Let_def split: sum.splits prod.splits)
qed

abbreviation repo_lookup :: "env \<Rightarrow> 'w api \<Rightarrow> KopiaBackup \<Rightarrow> 'w st \<Rightarrow> KopiaRepository result" where
  "repo_lookup env api b s \<equiv>
     fst (run_state (getKopiaRepository env api (bs_Repository (kb_spec b)) (backup_ns b)) s)"

lemma deletion_effects_failed:
  "delete_effects b repo r calls \<Longrightarrow>
     deletion_effects env b (Inr repo) (calls @ [(AEvent k EventTypeWarning ''FinalizerFailed'' m, True)])"
  unfolding deletion_effects_def
  by (rule exI [of _ calls], rule exI [of _ "[(AEvent k EventTypeWarning ''FinalizerFailed'' m, True)]"]) blast

lemma delete_user_first_effects:
  assumes "lookup = Inr repo" "trace u = t0"
  shows "wp (delete_user_first env api (KopiaUserManager env api) b repo) (\<lambda>(b', d) s'. (\<exists>e. d = Some e)
     \<and> (\<exists>t. trace s' = t0 @ t \<and> deletion_effects env b lookup t)) u"
  unfolding delete_user_first_def wp_bind KopiaUserManager_def UserManager.select_convs
proof (rule wp_mono [OF DeleteUser_trace], elim exE conjE, goal_cases)
  case (1 d s' calls)
  show ?case
  proof (cases d)
    case (Inl e)
    with 1 assms show ?thesis by (auto intro: deletion_effects_failed)
  next
    case (Inr v)
    with 1 assms show ?thesis by (auto intro!: remove_finalizer_effects [where calls = calls])
  qed
qed

lemma handleFinalizer_deleted:
  assumes "\<not> time_IsZero (om_DeletionTimestamp (kb_meta b))"
  shows "wp (handleFinalizer env api (backup_controller env api img) b) (\<lambda>(b', d) s'. (\<exists>e. d = Some e)
     \<and> (\<exists>t. trace s' = trace s @ t \<and> deletion_effects env b (repo_lookup env api b s) t)) s"
proof -
  have "deletion_effects env b lookup []" for lookup by (simp add: deletion_effects_def)
  with assms show ?thesis
    by (auto simp: handleFinalizer_def split: sum.splits
        intro!: wp_mono [OF getKopiaRepository_quiet] remove_finalizer_effects [where calls = "[]"]
          delete_user_first_effects)
qed


text \<open>
  C16: a live backup without the finalizer gets it before anything else is done for it: the first effect
  of the reconcile is the update that adds the finalizer, and if that fails it is the only one and
  the reconcile fails.
\<close>

theorem finalizer_added_first:
  assumes "finalizer_law env"
    and "api_get_KopiaBackup api req (world s) = (Inr b, w)"
    and "time_IsZero (om_DeletionTimestamp (kb_meta b))" "finalizerName \<notin> set (om_Finalizers (kb_meta b))"
    and "run_state (backup_reconcile env api (backup_controller env api img) req) s = (out, s')"
  shows "\<exists>b' done t. trace s' = trace s @ (AUpdateKopiaBackup b', done) # t
    \<and> finalizerName \<in> set (om_Finalizers (kb_meta b')) \<and> (\<not> done \<longrightarrow> t = [] \<and> snd out \<noteq> None)"
proof -
  let ?b = "b\<lparr>kb_meta := (kb_meta b)\<lparr>om_Finalizers := AddFinalizer env (om_Finalizers (kb_meta b)) finalizerName\<rparr>\<rparr>"
  have fin: "\<not> ContainsFinalizer env (om_Finalizers (kb_meta b)) finalizerName"
    "finalizerName \<in> set (om_Finalizers (kb_meta ?b))"
    using assms(1,4) by (simp_all add: finalizer_law_def)
  have grows: "wp (backup_phases env api r b' \<bind> (\<lambda>(b, out). deferred_status (\<lambda>b. Status_Update_KopiaBackup api b) b out))
      (\<lambda>_ s'. \<exists>t. trace s' = trace u @ t) u" if "r = backup_controller env api img" for r b' u
    unfolding wp_bind that
    by (rule wp_mono [OF emits_only_wp [OF controller_phases]])
      (auto intro!: wp_mono [OF deferred_status_trace])
  have "wp (backup_reconcile env api (backup_controller env api img) req) (\<lambda>out s'. \<exists>done t.
      trace s' = trace s @ (AUpdateKopiaBackup ?b, done) # t \<and> (\<not> done \<longrightarrow> t = [] \<and> snd out \<noteq> None)) s"
    using assms(2,3) fin(1)
    by (auto simp: backup_reconcile_def handleFinalizer_def Let_def simp del: wp_bind
        simp: wp_bind [of "client_read _"] wp_bind [of "client_call _ _"] wp_bind [of "State_Monad.bind _ _"] wp_bind [of "if _ then _ else _"]
        split: sum.splits prod.splits intro!: wp_mono [OF grows [OF refl]])
  from wpD [OF this assms(5)] fin(2) show ?thesis by blast
qed

section \<open>Examples\<close>

abbreviation example_req :: NamespacedName where
  "example_req \<equiv> NamespacedName ''ns'' ''data''"

abbreviation backup_cluster :: "KopiaBackup \<Rightarrow> cluster" where
  "backup_cluster b \<equiv> empty_cluster\<lparr>cl_backups := [b]\<rparr>"

abbreviation ref_controller :: "cluster KopiaBackupReconciler" where
  "ref_controller \<equiv> backup_controller ref_env mem_api ''''"

abbreviation final_backup :: "int option \<Rightarrow> KopiaBackup" where
  "final_backup del \<equiv> example_backup\<lparr>kb_meta := (kb_meta example_backup)\<lparr>om_DeletionTimestamp := del,
     om_Finalizers := [finalizerName]\<rparr>\<rparr>"

lemma example_backup_simps [simp]:
  "backup_ns example_backup = ''ns''" "backup_name example_backup = ''data''"
  "bs_PVCName (kb_spec example_backup) = ''data''" "bs_UserCredentialsSecret (kb_spec example_backup) = ''''"
  "om_DeletionTimestamp (kb_meta example_backup) = None" "om_Finalizers (kb_meta example_backup) = []"
  "om_Generation (kb_meta example_backup) = 0"
  by (simp_all add: example_backup_def zero_defs)

lemma example_no_pvc:
  assumes "cl_pvcs (world s) = []" "kb_spec b = kb_spec example_backup" "backup_ns b = ''ns''"
  shows "\<exists>b' s'. run_state (backup_phases ref_env mem_api r b) s = ((b', no_requeue, None), s')
     \<and> world s' = world s \<and> kb_meta b' = kb_meta b \<and> (\<exists>e. trace s' = trace s @ [(e, True)])"
  using assms by (simp add: backup_phases_def validateDependencies_def getRelatedPVC_def client_read_def mem_defs Let_def
      emit_def)


theorem backup_status_written_last_witness:
  "\<exists>res err s' t b done. run_state (backup_reconcile ref_env mem_api ref_controller example_req)
       (start (backup_cluster (final_backup None))) = ((res, err), s')
     \<and> trace s' = t @ [(AStatusUpdateKopiaBackup b, done)] \<and> (\<forall>x \<in> set t. \<forall>b. fst x \<noteq> AStatusUpdateKopiaBackup b)"
proof -
  let ?s = "start (backup_cluster (final_backup None))"
  obtain res err s' where run: "run_state (backup_reconcile ref_env mem_api ref_controller example_req) ?s = ((res, err), s')"
    by (metis prod.exhaust)
  have "cl_pvcs (world ?s) = []" by (simp add: start_def empty_cluster_def)
  from example_no_pvc [OF this, of "final_backup None" ref_controller] obtain b' s1 where
    "run_state (backup_phases ref_env mem_api ref_controller (final_backup None)) ?s = ((b', no_requeue, None), s1)"
    by auto
  with run have "\<exists>b done. last (trace s') = (AStatusUpdateKopiaBackup b, done) \<and> trace s' \<noteq> []"
    by (auto simp: backup_reconcile_def handleFinalizer_def client_read_def client_call_def deferred_status_def
        start_def mem_defs time_IsZero_def split: prod.splits)
  with backup_status_written_last [OF run] run show ?thesis
    by (auto simp: start_def) (metis fst_conv last_in_set)+
qed


theorem finalizer_added_first_witness:
  "\<exists>out s' b' done t. run_state (backup_reconcile ref_env mem_api ref_controller example_req)
       (start (backup_cluster example_backup)) = (out, s')
     \<and> trace s' = (AUpdateKopiaBackup b', done) # t \<and> finalizerName \<in> set (om_Finalizers (kb_meta b'))"
proof -
  let ?s = "start (backup_cluster example_backup)"
  obtain out s' where run: "run_state (backup_reconcile ref_env mem_api ref_controller example_req) ?s = (out, s')"
    by (metis prod.exhaust)
  have "api_get_KopiaBackup mem_api example_req (world ?s) = (Inr example_backup, world ?s)"
    by (simp add: start_def mem_defs)
  from finalizer_added_first [OF ref_finalizer_law this _ _ run] run show ?thesis
    by (auto simp: start_def time_IsZero_def)
qed

end
