(* ===== verification/Kopia_Webhooks.thy ===== *)
theory Kopia_Webhooks
  imports K8s_Client Go_Text
begin

text \<open>
  The validating admission webhooks (api/backup/v1alpha1/kopiabackup\_webhook.go and
  kopiarepository\_webhook.go). A validator returns warnings and an optional error; the request
  is admitted when there is no error.
\<close>

section \<open>Definitions\<close>

text \<open>A \<open>runtime.Object\<close>, with the Go type name that \<open>%T\<close> prints for any other type.\<close>

datatype runtime_Object =
    ObjKopiaBackup KopiaBackup
  | ObjKopiaRepository KopiaRepository
  | ObjOther string

fun type_name :: "runtime_Object \<Rightarrow> string" where
  "type_name (ObjKopiaBackup b) = ''*v1alpha1.KopiaBackup''"
| "type_name (ObjKopiaRepository r) = ''*v1alpha1.KopiaRepository''"
| "type_name (ObjOther t) = t"

type_synonym validation = "string list \<times> go_error option"

definition validateCronSchedule :: "string \<Rightarrow> go_error option" where
  "validateCronSchedule schedule =
     (let fields = strings_Fields schedule in
      if length fields \<noteq> 5
      then Some (ErrorString (''must have exactly 5 fields (minute hour day-of-month month day-of-week), got ''
             @ fmt_d (int (length fields))))
      else None)"

definition validateKopiaBackup :: "env \<Rightarrow> KopiaBackup \<Rightarrow> validation" where
  "validateKopiaBackup env backup =
     (let e1 = (case validateCronSchedule (bs_Schedule (kb_spec backup)) of
                  Some err \<Rightarrow> [''spec.schedule: '' @ Error err] | None \<Rightarrow> []);
          errs = IsDNS1123Subdomain env (bs_PVCName (kb_spec backup));
          e2 = (if errs \<noteq> [] then [''spec.pvcName: '' @ strings_Join errs ''; ''] else []);
          allErrs = e1 @ e2
      in if allErrs \<noteq> []
         then ([], Some (ErrorString (''validation failed: '' @ strings_Join allErrs '', '')))
         else ([], None))"

definition KopiaBackup_ValidateCreate :: "env \<Rightarrow> runtime_Object \<Rightarrow> validation" where
  "KopiaBackup_ValidateCreate env obj = (case obj of
     ObjKopiaBackup backup \<Rightarrow> validateKopiaBackup env backup
   | _ \<Rightarrow> ([], Some (ErrorString (''expected KopiaBackup, got '' @ type_name obj))))"

definition KopiaBackup_ValidateUpdate :: "env \<Rightarrow> runtime_Object \<Rightarrow> runtime_Object \<Rightarrow> validation" where
  "KopiaBackup_ValidateUpdate env oldObj newObj = (case newObj of
     ObjKopiaBackup backup \<Rightarrow> validateKopiaBackup env backup
   | _ \<Rightarrow> ([], Some (ErrorString (''expected KopiaBackup, got '' @ type_name newObj))))"

definition KopiaBackup_ValidateDelete :: "runtime_Object \<Rightarrow> validation" where
  "KopiaBackup_ValidateDelete obj = ([], None)"

definition repository_errors :: "env \<Rightarrow> KopiaRepositorySpec \<Rightarrow> string list" where
  "repository_errors env spec =
     (if rs_StorageType spec = StorageTypeFilesystem then
        (if fs_Path (rs_FileSystemOptions spec) = ''''
         then [''spec.fileSystemOptions.path is required when storageType is \"filesystem\"''] else [])
      else if rs_StorageType spec = StorageTypeSFTP then
        (if sftp_Path (rs_SFTPOptions spec) = ''''
         then [''spec.sftpOptions.path is required when storageType is \"sftp\"''] else [])
        @ (if sftp_Host (rs_SFTPOptions spec) = ''''
         then [''spec.sftpOptions.host is required when storageType is \"sftp\"''] else [])
        @ (if sftp_CredentialsSecret (rs_SFTPOptions spec) = ''''
         then [''spec.sftpOptions.credentialsSecret is required when storageType is \"sftp\"''] else [])
      else [''unsupported storageType '' @ fmt_q (isPrint_table env) (rs_StorageType spec)
            @ '', must be one of: '' @ fmt_q (isPrint_table env) StorageTypeFilesystem
            @ '', '' @ fmt_q (isPrint_table env) StorageTypeSFTP])"

definition repository_warnings :: "KopiaRepositorySpec \<Rightarrow> string list" where
  "repository_warnings spec =
     (if srv_Enabled (rs_Server spec) \<and> srv_AdminPasswordSecretName (rs_Server spec) = ''''
      then [''server.adminPasswordSecretName not set; repository password secret will be used for the server admin password'']
      else [])"

definition validateKopiaRepository :: "env \<Rightarrow> KopiaRepository \<Rightarrow> validation" where
  "validateKopiaRepository env repo =
     (let allErrs = repository_errors env (kr_spec repo);
          warnings = repository_warnings (kr_spec repo)
      in if allErrs \<noteq> []
         then (warnings, Some (ErrorString (''validation failed: '' @ strings_Join allErrs '', '')))
         else (warnings, None))"

definition KopiaRepository_ValidateCreate :: "env \<Rightarrow> runtime_Object \<Rightarrow> validation" where
  "KopiaRepository_ValidateCreate env obj = (case obj of
     ObjKopiaRepository repo \<Rightarrow> validateKopiaRepository env repo
   | _ \<Rightarrow> ([], Some (ErrorString (''expected KopiaRepository, got '' @ type_name obj))))"

definition KopiaRepository_ValidateUpdate :: "env \<Rightarrow> runtime_Object \<Rightarrow> runtime_Object \<Rightarrow> validation" where
  "KopiaRepository_ValidateUpdate env oldObj newObj = (case newObj of
     ObjKopiaRepository repo \<Rightarrow> validateKopiaRepository env repo
   | _ \<Rightarrow> ([], Some (ErrorString (''expected KopiaRepository, got '' @ type_name newObj))))"

definition KopiaRepository_ValidateDelete :: "runtime_Object \<Rightarrow> validation" where
  "KopiaRepository_ValidateDelete obj = ([], None)"

section \<open>Admission\<close>

definition admitted :: "validation \<Rightarrow> bool" where
  "admitted v \<longleftrightarrow> snd v = None"

lemma validateCronSchedule_None:
  "validateCronSchedule sched = None \<longleftrightarrow> length (strings_Fields sched) = 5"
  by (simp add: validateCronSchedule_def Let_def)

lemma validateKopiaBackup_admitted:
  "admitted (validateKopiaBackup env b) \<longleftrightarrow>
     length (strings_Fields (bs_Schedule (kb_spec b))) = 5 \<and>
     IsDNS1123Subdomain env (bs_PVCName (kb_spec b)) = []"
  by (auto simp: admitted_def validateKopiaBackup_def Let_def
      validateCronSchedule_None [symmetric] split: option.splits)

text \<open>
  C39: a KopiaBackup is admitted, on creation and on update, exactly when its schedule has five
  fields and its PVC name is a DNS-1123 subdomain; an object of another type never is, and a
  deletion always is.
\<close>

theorem backup_admission:
  "(admitted (KopiaBackup_ValidateCreate env obj) \<longleftrightarrow>
      (\<exists>b. obj = ObjKopiaBackup b \<and> length (strings_Fields (bs_Schedule (kb_spec b))) = 5
         \<and> IsDNS1123Subdomain env (bs_PVCName (kb_spec b)) = []))
   \<and> KopiaBackup_ValidateUpdate env old obj = KopiaBackup_ValidateCreate env obj
   \<and> admitted (KopiaBackup_ValidateDelete obj)"
  by (cases obj) (simp_all add: KopiaBackup_ValidateCreate_def KopiaBackup_ValidateUpdate_def
      KopiaBackup_ValidateDelete_def validateKopiaBackup_admitted, simp_all add: admitted_def)

text \<open>Whatever the words are, exactly the schedules of five words pass the schedule check.\<close>

lemma schedule_of_words:
  assumes "\<forall>w \<in> set ws. word_ok w"
  shows "validateCronSchedule (strings_Join ws '' '') = None \<longleftrightarrow> length ws = 5"
  using strings_Fields_Join [OF assms] by (simp add: validateCronSchedule_None)

text \<open>
  C40: a KopiaRepository is admitted exactly when its storage type is one of the two supported
  ones and the fields that type requires are set; a warning is given exactly when server mode
  has no admin password of its own, whether or not the request is admitted.
\<close>

theorem repository_admission:
  "(admitted (KopiaRepository_ValidateCreate env (ObjKopiaRepository r)) \<longleftrightarrow>
      (rs_StorageType (kr_spec r) = ''filesystem'' \<and> fs_Path (rs_FileSystemOptions (kr_spec r)) \<noteq> '''')
      \<or> (rs_StorageType (kr_spec r) = ''sftp'' \<and> sftp_Path (rs_SFTPOptions (kr_spec r)) \<noteq> ''''
         \<and> sftp_Host (rs_SFTPOptions (kr_spec r)) \<noteq> ''''
         \<and> sftp_CredentialsSecret (rs_SFTPOptions (kr_spec r)) \<noteq> ''''))
   \<and> (fst (KopiaRepository_ValidateCreate env (ObjKopiaRepository r)) \<noteq> [] \<longleftrightarrow>
      server_enabled r \<and> srv_AdminPasswordSecretName (rs_Server (kr_spec r)) = '''')
   \<and> KopiaRepository_ValidateUpdate env old obj = KopiaRepository_ValidateCreate env obj"
proof (intro conjI)
  have eq: "KopiaRepository_ValidateCreate env (ObjKopiaRepository r) = validateKopiaRepository env r"
    by (simp add: KopiaRepository_ValidateCreate_def)
  show "admitted (KopiaRepository_ValidateCreate env (ObjKopiaRepository r)) \<longleftrightarrow>
      (rs_StorageType (kr_spec r) = ''filesystem'' \<and> fs_Path (rs_FileSystemOptions (kr_spec r)) \<noteq> '''')
      \<or> (rs_StorageType (kr_spec r) = ''sftp'' \<and> sftp_Path (rs_SFTPOptions (kr_spec r)) \<noteq> ''''
         \<and> sftp_Host (rs_SFTPOptions (kr_spec r)) \<noteq> ''''
         \<and> sftp_CredentialsSecret (rs_SFTPOptions (kr_spec r)) \<noteq> '''')"
    unfolding eq by (auto simp: admitted_def validateKopiaRepository_def Let_def
        repository_errors_def StorageTypeFilesystem_def StorageTypeSFTP_def)
  show "fst (KopiaRepository_ValidateCreate env (ObjKopiaRepository r)) \<noteq> [] \<longleftrightarrow>
      server_enabled r \<and> srv_AdminPasswordSecretName (rs_Server (kr_spec r)) = ''''"
    unfolding eq by (auto simp: validateKopiaRepository_def Let_def repository_warnings_def)
  show "KopiaRepository_ValidateUpdate env old obj = KopiaRepository_ValidateCreate env obj"
    by (cases obj) (simp_all add: KopiaRepository_ValidateUpdate_def KopiaRepository_ValidateCreate_def)
qed

end
