(* ===== verification/PVC_Watcher.thy ===== *)
theory PVC_Watcher
  imports Backup_Reconciler Kopia_Webhooks
begin

text \<open>
  The PVC watcher (internal/controller/pvcwatcher/reconciler.go): it creates a KopiaBackup for every
  claim with the repository label, keeps its schedule in step with the claim's annotation, and deletes
  it when the label goes.
\<close>

section \<open>The reconciler\<close>

definition repositoryLabelKey :: string where "repositoryLabelKey = ''backup.cloudinfra.be/repository''"
definition scheduleAnnotationKey :: string where "scheduleAnnotationKey = ''backup.cloudinfra.be/schedule''"

abbreviation pvc_name :: "PersistentVolumeClaim \<Rightarrow> string" where
  "pvc_name pvc \<equiv> om_Name (pvc_meta pvc)"

abbreviation pvc_ns :: "PersistentVolumeClaim \<Rightarrow> string" where
  "pvc_ns pvc \<equiv> om_Namespace (pvc_meta pvc)"

definition getScheduleFromPVC :: "PersistentVolumeClaim option \<Rightarrow> string \<Rightarrow> string" where
  "getScheduleFromPVC pvc defaultSchedule = (case pvc of
     None \<Rightarrow> defaultSchedule
   | Some pvc \<Rightarrow> (case om_Annotations (pvc_meta pvc) of
       None \<Rightarrow> defaultSchedule
     | Some annotations \<Rightarrow> (case annotations scheduleAnnotationKey of
         None \<Rightarrow> defaultSchedule
       | Some schedule \<Rightarrow> if schedule \<noteq> '''' then schedule else defaultSchedule)))"

text \<open>The loop of the watcher's own \<open>getKopiaRepository\<close> that collects the repositories of one name.\<close>

fun collect_matches :: "string \<Rightarrow> KopiaRepository list \<Rightarrow> KopiaRepository list \<Rightarrow> KopiaRepository list" where
  "collect_matches name [] matches = matches"
| "collect_matches name (item # items) matches =
     collect_matches name items (if repo_name item = name then matches @ [item] else matches)"

definition pvc_getKopiaRepository :: "env \<Rightarrow> 'w api \<Rightarrow> string \<Rightarrow> string \<Rightarrow> ('w st, KopiaRepository result) state" where
  "pvc_getKopiaRepository env api name namespace = do {
     got \<leftarrow> Get_KopiaRepository api (NamespacedName namespace name);
     case got of
       Inr repo \<Rightarrow> ret (Inr repo)
     | Inl _ \<Rightarrow> do {
         l \<leftarrow> List_KopiaRepositories api;
         case l of
           Inl err \<Rightarrow> ret (Inl (WrapError ''listing KopiaRepositories'' err))
         | Inr items \<Rightarrow>
             let matches = collect_matches name items []; q = fmt_q (isPrint_table env) in
             ret (case matches of
                [] \<Rightarrow> Inl (ErrorString (''KopiaRepository '' @ q name @ '' not found in namespace '' @ q namespace @ '' or cluster-wide''))
              | [repo] \<Rightarrow> Inr repo
              | _ \<Rightarrow> Inl (ErrorString (''ambiguous: found '' @ fmt_d (int (length matches)) @ '' KopiaRepositories named ''
                       @ q name @ '' across namespaces'')))
       }
   }"

definition syncSchedule :: "env \<Rightarrow> 'w api \<Rightarrow> PersistentVolumeClaim \<Rightarrow> KopiaBackup \<Rightarrow> string \<Rightarrow> ('w st, outcome) state" where
  "syncSchedule env api pvc backup repoName = do {
     repo \<leftarrow> pvc_getKopiaRepository env api repoName (pvc_ns pvc);
     case repo of
       Inl err \<Rightarrow> ret (no_requeue, None)
     | Inr repo \<Rightarrow>
         let newSchedule = getScheduleFromPVC (Some pvc) (rs_DefaultSchedule (kr_spec repo)) in
         if newSchedule \<noteq> bs_Schedule (kb_spec backup) then do {
           let backup = backup\<lparr>kb_spec := (kb_spec backup)\<lparr>bs_Schedule := newSchedule\<rparr>\<rparr>;
           u \<leftarrow> Update_KopiaBackup api backup;
           case u of
             Inl err \<Rightarrow> ret (no_requeue, Some (WrapError ''failed to update schedule'' err))
           | Inr _ \<Rightarrow> ret (no_requeue, None)
         }
         else ret (no_requeue, None)
   }"

definition new_backup :: "PersistentVolumeClaim \<Rightarrow> string \<Rightarrow> KopiaRepository \<Rightarrow> KopiaBackup" where
  "new_backup pvc repoName repo = zero_KopiaBackup\<lparr>
     kb_meta := zero_ObjectMeta\<lparr>om_Name := pvc_name pvc, om_Namespace := pvc_ns pvc\<rparr>,
     kb_spec := zero_KopiaBackupSpec\<lparr>bs_PVCName := pvc_name pvc, bs_Repository := repoName,
       bs_Schedule := getScheduleFromPVC (Some pvc) (rs_DefaultSchedule (kr_spec repo))\<rparr>\<rparr>"

text \<open>A successful \<open>Create\<close> replaces the object in memory by the server's answer.\<close>

definition createBackupForPVC :: "env \<Rightarrow> 'w api \<Rightarrow> PersistentVolumeClaim \<Rightarrow> string \<Rightarrow> ('w st, outcome) state" where
  "createBackupForPVC env api pvc repoName = do {
     repo \<leftarrow> pvc_getKopiaRepository env api repoName (pvc_ns pvc);
     case repo of
       Inl err \<Rightarrow> ret (no_requeue, None)
     | Inr repo \<Rightarrow>
         let newBackup = new_backup pvc repoName repo in
         (case SetControllerReference env ''PersistentVolumeClaim'' (pvc_meta pvc) (kb_meta newBackup) of
            Inl err \<Rightarrow> ret (no_requeue, Some (WrapError ''failed to set owner reference'' err))
          | Inr m \<Rightarrow> do {
              c \<leftarrow> Create_KopiaBackup api (newBackup\<lparr>kb_meta := m\<rparr>);
              case c of
                Inl err \<Rightarrow>
                  if IsAlreadyExists err then ret (no_requeue, None)
                  else ret (no_requeue, Some (WrapError ''failed to create KopiaBackup'' err))
              | Inr newBackup \<Rightarrow> do {
                  u \<leftarrow> Status_Update_KopiaBackup api
                    (newBackup\<lparr>kb_status := (kb_status newBackup)\<lparr>bst_AutoCreated := True\<rparr>\<rparr>);
                  case u of
                    Inl err \<Rightarrow> ret (no_requeue, Some (WrapError ''failed to update KopiaBackup status'' err))
                  | Inr newBackup \<Rightarrow> do {
                      emit (AEvent (key_of (kb_meta newBackup)) EventTypeNormal ''Created''
                        (''Auto-created KopiaBackup for PVC '' @ pvc_name pvc));
                      ret (no_requeue, None)
                    }
                }
            })
   }"

definition isAutoCreated :: "env \<Rightarrow> PersistentVolumeClaim \<Rightarrow> KopiaBackup \<Rightarrow> bool" where
  "isAutoCreated env pvc backup \<longleftrightarrow>
     bst_AutoCreated (kb_status backup) \<or> IsControlledBy env (kb_meta backup) (pvc_meta pvc)"

text \<open>The branch of \<open>Reconcile\<close> for a claim without the label; None stands for no backup.\<close>

definition label_removed :: "env \<Rightarrow> 'w api \<Rightarrow> PersistentVolumeClaim \<Rightarrow> KopiaBackup option \<Rightarrow> ('w st, outcome) state" where
  "label_removed env api pvc existingBackup = (case existingBackup of
     None \<Rightarrow> ret (no_requeue, None)
   | Some backup \<Rightarrow>
       if isAutoCreated env pvc backup then do {
         d \<leftarrow> Delete_KopiaBackup api backup;
         let deleted = do {
           emit (AEvent (key_of (pvc_meta pvc)) EventTypeNormal ''BackupDeleted''
             (''Deleted auto-created KopiaBackup '' @ fmt_q (isPrint_table env) (backup_name backup) @ '' (label removed)''));
           ret (no_requeue, None)
         };
         case d of
           Inl err \<Rightarrow> if \<not> IsNotFound err then ret (no_requeue, Some (WrapError ''failed to delete KopiaBackup'' err))
                      else deleted
         | Inr _ \<Rightarrow> deleted
       }
       else ret (no_requeue, None))"

text \<open>The branch for a labelled claim whose backup exists.\<close>

definition backup_present :: "env \<Rightarrow> 'w api \<Rightarrow> PersistentVolumeClaim \<Rightarrow> KopiaBackup \<Rightarrow> string \<Rightarrow> ('w st, outcome) state" where
  "backup_present env api pvc backup repoName =
     (if isAutoCreated env pvc backup \<and> \<not> bst_AutoCreated (kb_status backup) then do {
        u \<leftarrow> Status_Update_KopiaBackup api (backup\<lparr>kb_status := (kb_status backup)\<lparr>bst_AutoCreated := True\<rparr>\<rparr>);
        case u of
          Inl err \<Rightarrow> ret (no_requeue, Some (WrapError ''failed to update KopiaBackup AutoCreated status'' err))
        | Inr backup \<Rightarrow> syncSchedule env api pvc backup repoName
      }
      else if isAutoCreated env pvc backup then syncSchedule env api pvc backup repoName
      else ret (no_requeue, None))"

definition PVC_Reconcile :: "env \<Rightarrow> 'w api \<Rightarrow> NamespacedName \<Rightarrow> ('w st, outcome) state" where
  "PVC_Reconcile env api req = do {
     got \<leftarrow> Get_PVC api req;
     case got of
       Inl err \<Rightarrow> ret (no_requeue, IgnoreNotFound err)
     | Inr pvc \<Rightarrow> do {
         let repoName = map_at (om_Labels (pvc_meta pvc)) repositoryLabelKey;
         b \<leftarrow> Get_KopiaBackup api (NamespacedName (pvc_ns pvc) (pvc_name pvc));
         case (case b of Inr backup \<Rightarrow> Inr (Some backup)
               | Inl err \<Rightarrow> if IsNotFound err then Inr None else Inl err) of
           Inl err \<Rightarrow> ret (no_requeue, Some (WrapError ''failed to get KopiaBackup'' err))
         | Inr existingBackup \<Rightarrow>
             if repoName = '''' then label_removed env api pvc existingBackup
             else (case existingBackup of
                     Some backup \<Rightarrow> backup_present env api pvc backup repoName
                   | None \<Rightarrow> createBackupForPVC env api pvc repoName)
       }
   }"

section \<open>The repository lookup\<close>

text \<open>The watcher's copy of the lookup is the lookup of the KopiaBackup controller.\<close>

lemma collect_matches_filter: "collect_matches name items acc = acc @ filter (\<lambda>r. repo_name r = name) items"
  by (induction name items acc rule: collect_matches.induct) simp_all

lemma pvc_getKopiaRepository_eq: "pvc_getKopiaRepository = getKopiaRepository"
  unfolding pvc_getKopiaRepository_def [abs_def] getKopiaRepository_def [abs_def] collect_matches_filter
    unique_repository_def Let_def append_Nil by (rule refl)

section \<open>What the watcher does\<close>

abbreviation pvc_label :: "PersistentVolumeClaim \<Rightarrow> string" where
  "pvc_label pvc \<equiv> map_at (om_Labels (pvc_meta pvc)) repositoryLabelKey"

abbreviation pvc_schedule :: "PersistentVolumeClaim \<Rightarrow> KopiaRepository \<Rightarrow> string" where
  "pvc_schedule pvc repo \<equiv> getScheduleFromPVC (Some pvc) (rs_DefaultSchedule (kr_spec repo))"

lemma getSchedule_map_at:
  "getScheduleFromPVC (Some pvc) d = (if map_at (om_Annotations (pvc_meta pvc)) scheduleAnnotationKey \<noteq> ''''
     then map_at (om_Annotations (pvc_meta pvc)) scheduleAnnotationKey else d)"
  by (auto simp: getScheduleFromPVC_def map_at_def split: option.splits)

text \<open>The effects of each branch, for the outcome \<open>err\<close> of the reconcile.\<close>

definition deletion_done :: "env \<Rightarrow> PersistentVolumeClaim \<Rightarrow> KopiaBackup \<Rightarrow> go_error option \<Rightarrow> entry list \<Rightarrow> bool" where
  "deletion_done env pvc b err t \<longleftrightarrow> (\<exists>done.
     if err = None then \<exists>m. t = [(ADeleteKopiaBackup b, done), (AEvent (key_of (pvc_meta pvc)) EventTypeNormal ''BackupDeleted'' m, True)]
     else t = [(ADeleteKopiaBackup b, False)])"

definition adopted :: "KopiaBackup \<Rightarrow> entry list \<Rightarrow> bool" where
  "adopted b t \<longleftrightarrow> t = (if bst_AutoCreated (kb_status b) then []
     else [(AStatusUpdateKopiaBackup (b\<lparr>kb_status := (kb_status b)\<lparr>bst_AutoCreated := True\<rparr>\<rparr>), True)])"

definition with_schedule :: "string \<Rightarrow> KopiaBackup \<Rightarrow> KopiaBackup" where
  "with_schedule sched b = b\<lparr>kb_spec := (kb_spec b)\<lparr>bs_Schedule := sched\<rparr>\<rparr>"

text \<open>A repository that a lookup for the label of the claim returned.\<close>

definition found_repo :: "env \<Rightarrow> 'w api \<Rightarrow> PersistentVolumeClaim \<Rightarrow> KopiaRepository \<Rightarrow> bool" where
  "found_repo env api pvc repo \<longleftrightarrow>
     (\<exists>u. fst (run_state (getKopiaRepository env api (pvc_label pvc) (pvc_ns pvc)) u) = Inr repo)"

definition sync_done :: "env \<Rightarrow> 'w api \<Rightarrow> PersistentVolumeClaim \<Rightarrow> KopiaBackup \<Rightarrow> go_error option \<Rightarrow> entry list \<Rightarrow> bool" where
  "sync_done env api pvc b err t \<longleftrightarrow>
     (\<exists>t1. adopted b t1 \<and> (t = t1 \<and> err = None
        \<or> (\<exists>repo b0. found_repo env api pvc repo \<and> bs_Schedule (kb_spec b0) \<noteq> pvc_schedule pvc repo
             \<and> (t1 = [] \<longrightarrow> b0 = b)
             \<and> t = t1 @ [(AUpdateKopiaBackup (with_schedule (pvc_schedule pvc repo) b0), err = None)])))
     \<or> (err \<noteq> None \<and> t = [(AStatusUpdateKopiaBackup (b\<lparr>kb_status := (kb_status b)\<lparr>bst_AutoCreated := True\<rparr>\<rparr>), False)])"

definition creation_done :: "env \<Rightarrow> PersistentVolumeClaim \<Rightarrow> KopiaRepository result \<Rightarrow> go_error option \<Rightarrow> entry list \<Rightarrow> bool" where
  "creation_done env pvc lookup err t \<longleftrightarrow> (case lookup of
     Inl _ \<Rightarrow> t = [] \<and> err = None
   | Inr repo \<Rightarrow> let nb = new_backup pvc (pvc_label pvc) repo in
       (t = [] \<and> err \<noteq> None)
       \<or> (\<exists>m. SetControllerReference env ''PersistentVolumeClaim'' (pvc_meta pvc) (kb_meta nb) = Inr m
          \<and> (t = [(ACreateKopiaBackup (nb\<lparr>kb_meta := m\<rparr>), False)]
             \<or> (\<exists>y done rest. t = (ACreateKopiaBackup (nb\<lparr>kb_meta := m\<rparr>), True) # (AStatusUpdateKopiaBackup y, done) # rest
                  \<and> bst_AutoCreated (kb_status y) \<and> (done \<longleftrightarrow> err = None)
                  \<and> (if done then \<exists>k msg. rest = [(AEvent k EventTypeNormal ''Created'' msg, True)] else rest = [])))))"

lemma label_removed_effects:
  assumes "isAutoCreated env pvc b"
  shows "wp (label_removed env api pvc (Some b)) (\<lambda>(res, err) s'. res = no_requeue
     \<and> (\<exists>t. trace s' = trace s @ t \<and> deletion_done env pvc b err t)) s"
  using assms by (auto simp: label_removed_def deletion_done_def Let_def split: sum.splits prod.splits)

lemma syncSchedule_effects:
  "wp (syncSchedule env api pvc b (pvc_label pvc)) (\<lambda>(res, err) s'. res = no_requeue \<and>
     (trace s' = trace s \<and> err = None \<or> (\<exists>repo. found_repo env api pvc repo \<and> bs_Schedule (kb_spec b) \<noteq> pvc_schedule pvc repo
        \<and> trace s' = trace s @ [(AUpdateKopiaBackup (with_schedule (pvc_schedule pvc repo) b), err = None)]))) s"
  unfolding syncSchedule_def pvc_getKopiaRepository_eq wp_bind
  by (rule wp_mono [OF getKopiaRepository_quiet])
    (auto simp: Let_def with_schedule_def found_repo_def split: sum.splits prod.splits)

lemma backup_present_effects:
  assumes "isAutoCreated env pvc b"
  shows "wp (backup_present env api pvc b (pvc_label pvc)) (\<lambda>(res, err) s'. res = no_requeue
     \<and> (\<exists>t. trace s' = trace s @ t \<and> sync_done env api pvc b err t)) s"
  using assms unfolding backup_present_def
  by (auto simp: sync_done_def adopted_def split: sum.splits prod.splits intro!: wp_mono [OF syncSchedule_effects])
    blast+

lemma creation_done_Inl: "creation_done env pvc (Inl e) None []"
  by (simp add: creation_done_def)

lemma creation_done_Inr:
  "creation_done env pvc (Inr repo) (Some e) []"
  "SetControllerReference env ''PersistentVolumeClaim'' (pvc_meta pvc) (kb_meta (new_backup pvc (pvc_label pvc) repo)) = Inr m \<Longrightarrow>
     creation_done env pvc (Inr repo) err [(ACreateKopiaBackup (new_backup pvc (pvc_label pvc) repo\<lparr>kb_meta := m\<rparr>), False)]"
  "SetControllerReference env ''PersistentVolumeClaim'' (pvc_meta pvc) (kb_meta (new_backup pvc (pvc_label pvc) repo)) = Inr m \<Longrightarrow>
     bst_AutoCreated (kb_status y) \<Longrightarrow> creation_done env pvc (Inr repo) (Some e)
       [(ACreateKopiaBackup (new_backup pvc (pvc_label pvc) repo\<lparr>kb_meta := m\<rparr>), True), (AStatusUpdateKopiaBackup y, False)]"
  "SetControllerReference env ''PersistentVolumeClaim'' (pvc_meta pvc) (kb_meta (new_backup pvc (pvc_label pvc) repo)) = Inr m \<Longrightarrow>
     bst_AutoCreated (kb_status y) \<Longrightarrow> creation_done env pvc (Inr repo) None
       [(ACreateKopiaBackup (new_backup pvc (pvc_label pvc) repo\<lparr>kb_meta := m\<rparr>), True), (AStatusUpdateKopiaBackup y, True),
        (AEvent k EventTypeNormal ''Created'' msg, True)]"
  by (auto simp: creation_done_def Let_def)

lemma creation_done_owner:
  "creation_done env pvc lookup err ((ACreateKopiaBackup x, d) # t) \<Longrightarrow>
     \<exists>m0. SetControllerReference env ''PersistentVolumeClaim'' (pvc_meta pvc) m0 = Inr (kb_meta x)"
  by (auto simp: creation_done_def Let_def split: sum.splits)

lemma createBackupForPVC_effects:
  "wp (createBackupForPVC env api pvc (pvc_label pvc)) (\<lambda>(res, err) s'. res = no_requeue
     \<and> (\<exists>t. trace s' = trace s @ t \<and> creation_done env pvc
          (fst (run_state (getKopiaRepository env api (pvc_label pvc) (pvc_ns pvc)) s)) err t)) s"
  unfolding createBackupForPVC_def pvc_getKopiaRepository_eq wp_bind
proof (rule wp_mono [OF getKopiaRepository_quiet], elim conjE, goal_cases)
  case (1 r s1)
  show ?case
  proof (cases r)
    case (Inl e)
    with 1 show ?thesis by (simp add: creation_done_Inl flip: 1(2))
  next
    case (Inr repo)
    with 1 show ?thesis
      by (auto simp: Let_def creation_done_Inr simp flip: 1(2) split: sum.splits prod.splits)
  qed
qed

lemma PVC_Reconcile_unfold:
  assumes "api_get_PVC api req (world s) = (Inr pvc, w)"
    and "api_get_KopiaBackup api (NamespacedName (pvc_ns pvc) (pvc_name pvc)) w = (bk, w')"
  shows "run_state (PVC_Reconcile env api req) s = run_state (case bk of
      Inr b \<Rightarrow> if pvc_label pvc = '''' then label_removed env api pvc (Some b) else backup_present env api pvc b (pvc_label pvc)
    | Inl e \<Rightarrow> if \<not> IsNotFound e then ret (no_requeue, Some (WrapError ''failed to get KopiaBackup'' e))
        else if pvc_label pvc = '''' then label_removed env api pvc None else createBackupForPVC env api pvc (pvc_label pvc))
    (s\<lparr>world := w'\<rparr>)"
  using assms by (simp add: PVC_Reconcile_def client_read_def Let_def split: sum.splits)

lemma PVC_Reconcile_effects:
  assumes "api_get_PVC api req (world s) = (Inr pvc, w)"
    and "api_get_KopiaBackup api (NamespacedName (pvc_ns pvc) (pvc_name pvc)) w = (bk, w')"
    and "run_state (PVC_Reconcile env api req) s = ((res, err), s')"
  shows "res = no_requeue \<and> (\<exists>t. trace s' = trace s @ t \<and> (case bk of
      Inr b \<Rightarrow> if \<not> isAutoCreated env pvc b then t = [] \<and> err = None
        else if pvc_label pvc = '''' then deletion_done env pvc b err t
        else sync_done env api pvc b err t
    | Inl e \<Rightarrow> if \<not> IsNotFound e then t = [] \<and> err \<noteq> None
        else if pvc_label pvc = '''' then t = [] \<and> err = None
        else creation_done env pvc
          (fst (run_state (getKopiaRepository env api (pvc_label pvc) (pvc_ns pvc)) (s\<lparr>world := w'\<rparr>))) err t))"
proof (cases bk)
  case (Inl e)
  note run = assms(3) [unfolded PVC_Reconcile_unfold [OF assms(1,2)] Inl sum.case]
  show ?thesis
    using run wpD [OF createBackupForPVC_effects [of env api pvc "s\<lparr>world := w'\<rparr>"], of "(res, err)" s']
    by (auto simp: Inl label_removed_def split: if_splits)
next
  case (Inr b)
  note run = assms(3) [unfolded PVC_Reconcile_unfold [OF assms(1,2)] Inr sum.case]
  show ?thesis
  proof (cases "isAutoCreated env pvc b")
    case True
    show ?thesis
      using run wpD [OF label_removed_effects [OF True, of api "s\<lparr>world := w'\<rparr>"], of "(res, err)" s']
        wpD [OF backup_present_effects [OF True, of api "s\<lparr>world := w'\<rparr>"], of "(res, err)" s']
      by (auto simp: Inr True split: if_splits)
  next
    case False
    with run show ?thesis by (auto simp: Inr label_removed_def backup_present_def split: if_splits)
  qed
qed


text \<open>
  C18: a backup whose creation succeeded but whose mark was lost (the status update after the creation
  failed) is recognised by its owner reference: the next reconcile of the claim that reads it back, with
  the owner references it was created with, sets the mark before anything else.
\<close>

theorem lost_mark_recovered:
  assumes "owner_law env" "controlled_by_law env"
    and "api_get_PVC api req (world s) = (Inr pvc, w)"
    and "api_get_KopiaBackup api (NamespacedName (pvc_ns pvc) (pvc_name pvc)) w = (Inl e, w')"
    and "run_state (PVC_Reconcile env api req) s = (out, s1)"
    and "trace s1 = trace s @ [(ACreateKopiaBackup x, True), (AStatusUpdateKopiaBackup y, False)]"
    and "api_get_PVC api req (world s2) = (Inr pvc2, v)" "om_UID (pvc_meta pvc2) = om_UID (pvc_meta pvc)"
      "pvc_label pvc2 \<noteq> ''''"
    and "api_get_KopiaBackup api (NamespacedName (pvc_ns pvc2) (pvc_name pvc2)) v = (Inr b, v')"
      "om_OwnerReferences (kb_meta b) = om_OwnerReferences (kb_meta x)" "\<not> bst_AutoCreated (kb_status b)"
    and "run_state (PVC_Reconcile env api req) s2 = ((res, err), s3)"
  shows "\<exists>done t. trace s3 = trace s2
       @ (AStatusUpdateKopiaBackup (b\<lparr>kb_status := (kb_status b)\<lparr>bst_AutoCreated := True\<rparr>\<rparr>), done) # t
     \<and> (\<not> done \<longrightarrow> err \<noteq> None)"
proof -
  obtain res1 err1 where out: "out = (res1, err1)" by (cases out)
  have "creation_done env pvc (fst (run_state (getKopiaRepository env api (pvc_label pvc) (pvc_ns pvc)) (s\<lparr>world := w'\<rparr>)))
      err1 [(ACreateKopiaBackup x, True), (AStatusUpdateKopiaBackup y, False)]"
    using PVC_Reconcile_effects [OF assms(3,4) assms(5) [unfolded out]]
    by (simp add: assms(6) split: if_splits)
  then obtain m0 where "SetControllerReference env ''PersistentVolumeClaim'' (pvc_meta pvc) m0 = Inr (kb_meta x)"
    using creation_done_owner by blast
  then have "IsControlledBy env (kb_meta x) (pvc_meta pvc)" using assms(1) unfolding owner_law_def by blast
  then have "isAutoCreated env pvc2 b"
    using assms(2,8,11) unfolding controlled_by_law_def isAutoCreated_def by metis
  with PVC_Reconcile_effects [OF assms(7,10,13)] assms(9,12) show ?thesis
    by (auto simp: sync_done_def adopted_def)
qed

section \<open>Examples\<close>

abbreviation labelled_pvc :: PersistentVolumeClaim where
  "labelled_pvc \<equiv> example_pvc (Some [repositoryLabelKey \<mapsto> ''repo''])"

abbreviation watched_cluster :: cluster where
  "watched_cluster \<equiv> empty_cluster\<lparr>cl_pvcs := [labelled_pvc], cl_repositories := [example_repo]\<rparr>"

text \<open>An API server that refuses every update of a backup's status.\<close>

abbreviation no_status_api :: "cluster api" where
  "no_status_api \<equiv> mem_api\<lparr>api_status_KopiaBackup := (\<lambda>b w. (Inl (ErrorString ''conflict''), w))\<rparr>"

abbreviation watched_backup :: KopiaBackup where
  "watched_backup \<equiv> (new_backup labelled_pvc ''repo'' example_repo)\<lparr>kb_meta :=
     (kb_meta (new_backup labelled_pvc ''repo'' example_repo))\<lparr>om_OwnerReferences :=
       [\<lparr>or_Kind = ''PersistentVolumeClaim'', or_Name = ''data'', or_UID = ''p1'', or_Controller = True\<rparr>]\<rparr>\<rparr>"

lemma watched_simps [simp]:
  "pvc_name (example_pvc l) = ''data''" "pvc_ns (example_pvc l) = ''ns''" "om_UID (pvc_meta (example_pvc l)) = ''p1''"
  "om_Labels (pvc_meta (example_pvc l)) = l" "repo_name example_repo = ''repo''" "repo_ns example_repo = ''ns''"
  by (simp_all add: example_pvc_def example_repo_def zero_defs)

lemma watched_lookup:
  "cl_repositories (world s) = [example_repo] \<Longrightarrow>
     run_state (getKopiaRepository env no_status_api ''repo'' ''ns'') s = (Inr example_repo, s)"
  "cl_repositories (world s) = [example_repo] \<Longrightarrow>
     run_state (getKopiaRepository env mem_api ''repo'' ''ns'') s = (Inr example_repo, s)"
  by (simp_all add: getKopiaRepository_def client_read_def mem_defs)

lemma watched_reads:
  "api_get_PVC mem_api example_req watched_cluster = (Inr labelled_pvc, watched_cluster)"
  "api_get_KopiaBackup mem_api example_req watched_cluster = (Inl (StatusError NotFound ''not found''), watched_cluster)"
  by (simp_all add: mem_defs empty_cluster_def)


lemma watched_first_run:
  "\<exists>out s1. run_state (PVC_Reconcile ref_env no_status_api example_req) (start watched_cluster) = (out, s1)
     \<and> world s1 = watched_cluster\<lparr>cl_backups := [watched_backup]\<rparr>
     \<and> trace s1 = [(ACreateKopiaBackup watched_backup, True),
         (AStatusUpdateKopiaBackup (watched_backup\<lparr>kb_status := (kb_status watched_backup)\<lparr>bst_AutoCreated := True\<rparr>\<rparr>), False)]"
  by (simp add: PVC_Reconcile_def createBackupForPVC_def pvc_getKopiaRepository_eq client_read_def client_call_def start_def
      mem_defs empty_cluster_def IsNotFound_def watched_lookup Let_def ref_SetControllerReference_def new_backup_def zero_defs)

theorem lost_mark_recovered_witness:
  "\<exists>out s1 b done s3 t. run_state (PVC_Reconcile ref_env no_status_api example_req) (start watched_cluster) = (out, s1)
     \<and> snd (run_state (PVC_Reconcile ref_env no_status_api example_req) s1) = s3
     \<and> trace s3 = trace s1 @ (AStatusUpdateKopiaBackup b, done) # t \<and> bst_AutoCreated (kb_status b)"
proof -
  let ?s = "start watched_cluster" and ?w1 = "watched_cluster\<lparr>cl_backups := [watched_backup]\<rparr>"
  obtain out s1 where run1: "run_state (PVC_Reconcile ref_env no_status_api example_req) ?s = (out, s1)"
    and s1: "world s1 = ?w1"
    and t1: "trace s1 = trace ?s @ [(ACreateKopiaBackup watched_backup, True),
         (AStatusUpdateKopiaBackup (watched_backup\<lparr>kb_status := (kb_status watched_backup)\<lparr>bst_AutoCreated := True\<rparr>\<rparr>), False)]"
    using watched_first_run by (auto simp: start_def)
  obtain res err s3 where run2: "run_state (PVC_Reconcile ref_env no_status_api example_req) s1 = ((res, err), s3)"
    by (metis prod.exhaust)
  have w: "world ?s = watched_cluster" by (simp add: start_def)
  have first: "api_get_PVC no_status_api example_req (world ?s) = (Inr labelled_pvc, watched_cluster)"
    "api_get_KopiaBackup no_status_api (NamespacedName (pvc_ns labelled_pvc) (pvc_name labelled_pvc)) watched_cluster
      = (Inl (StatusError NotFound ''not found''), watched_cluster)"
    using watched_reads by (simp_all add: w)
  have second: "api_get_PVC no_status_api example_req (world s1) = (Inr labelled_pvc, ?w1)"
    "api_get_KopiaBackup no_status_api (NamespacedName (pvc_ns labelled_pvc) (pvc_name labelled_pvc)) ?w1
      = (Inr watched_backup, ?w1)"
    by (simp_all add: s1 mem_defs new_backup_def zero_defs)
  have "pvc_label labelled_pvc \<noteq> ''''" "\<not> bst_AutoCreated (kb_status watched_backup)"
    by (simp_all add: new_backup_def zero_defs)
  from lost_mark_recovered [OF ref_owner_law ref_controlled_by_law first run1 t1 second(1) refl this(1)
      second(2) refl this(2) run2] run1 run2
  show ?thesis by fastforce
qed

end
