(* ===== verification/Repository_Reconciler.thy ===== *)
theory Repository_Reconciler
  imports Ref_Cluster
begin

text \<open>
  The KopiaRepository controller (internal/controller/kopiarepository/reconciler.go): validate the
  password reference, in server mode drive the ServerManager through certificate, Deployment and
  Service, and report readiness in the status, the conditions and a metric.
\<close>

section \<open>Definitions\<close>

definition set_repo_condition ::
    "env \<Rightarrow> KopiaRepository \<Rightarrow> string \<Rightarrow> ConditionStatus \<Rightarrow> string \<Rightarrow> string \<Rightarrow> KopiaRepository" where
  "set_repo_condition env repo type status reason message =
     repo\<lparr>kr_status := (kr_status repo)\<lparr>rst_Conditions :=
       SetStatusCondition env (rst_Conditions (kr_status repo))
         \<lparr>co_Type = type, co_Status = status, co_Reason = reason, co_Message = message,
          co_ObservedGeneration = om_Generation (kr_meta repo)\<rparr>\<rparr>\<rparr>"

text \<open>What the server phase leaves: the repository in memory, and the outcome where it ends here.\<close>

type_synonym repo_phase = "KopiaRepository \<times> outcome option"

definition server_failed ::
    "env \<Rightarrow> KopiaRepository \<Rightarrow> string \<Rightarrow> string \<Rightarrow> string \<Rightarrow> go_error \<Rightarrow> ('w st, repo_phase) state" where
  "server_failed env repo what event wrap err = do {
     let repo = set_repo_condition env repo ConditionTypeServerReady ConditionFalse ReasonServerFailed
       (what @ Error err);
     emit (AEvent (key_of (kr_meta repo)) EventTypeWarning event (Error err));
     ret (repo, Some (no_requeue, Some (WrapError wrap err)))
   }"

definition server_phase :: "env \<Rightarrow> 'w ServerManager option \<Rightarrow> KopiaRepository \<Rightarrow> ('w st, repo_phase) state" where
  "server_phase env mgr repo = (case mgr of
     None \<Rightarrow>
       ret (set_repo_condition env repo ConditionTypeRepositoryReady ConditionFalse ReasonServerFailed
              ''Server mode requires ServerManager to be configured'',
            Some (no_requeue, Some (ErrorString ''server manager not configured for server mode'')))
   | Some sm \<Rightarrow> do {
       tls \<leftarrow> sm_EnsureTLSSecret sm repo;
       case tls of
         Inl err \<Rightarrow> server_failed env repo ''Failed to ensure TLS: '' ''TLSFailed''
                      ''failed to ensure TLS secret'' err
       | Inr fingerprint \<Rightarrow> do {
           let repo = repo\<lparr>kr_status := (kr_status repo)\<lparr>rst_TLSCertFingerprint := fingerprint\<rparr>\<rparr>;
           d \<leftarrow> sm_EnsureServerDeployment sm repo;
           case d of
             Inl err \<Rightarrow> server_failed env repo ''Failed to ensure Deployment: '' ''DeploymentFailed''
                          ''failed to ensure server deployment'' err
           | Inr _ \<Rightarrow> do {
               v \<leftarrow> sm_EnsureServerService sm repo;
               case v of
                 Inl err \<Rightarrow> server_failed env repo ''Failed to ensure Service: '' ''ServiceFailed''
                              ''failed to ensure server service'' err
               | Inr _ \<Rightarrow> do {
                   (ready, readyErr) \<leftarrow> sm_IsServerReady sm repo;
                   let repo = repo\<lparr>kr_status := (kr_status repo)\<lparr>
                     rst_ServerReady := ready,
                     rst_ServerURL := sm_GetServerURL sm repo,
                     rst_ServerDeployment := ServerDeploymentName (repo_name repo),
                     rst_ServerService := ServerServiceName (repo_name repo)\<rparr>\<rparr>;
                   emit (AMetric (SetServerReady (repo_name repo) (repo_ns repo) (if ready then 1 else 0)));
                   if ready then do {
                     let repo = set_repo_condition env repo ConditionTypeServerReady ConditionTrue
                       ReasonServerDeployed ''Kopia Server is deployed and ready'';
                     emit (AEvent (key_of (kr_meta repo)) EventTypeNormal ''ServerReady''
                       ''Kopia Server is deployed and ready'');
                     ret (repo, None)
                   } else do {
                     let repo = set_repo_condition env repo ConditionTypeServerReady ConditionFalse
                       ReasonServerFailed ''Kopia Server deployment is not ready yet'';
                     let repo = set_repo_condition env repo ConditionTypeRepositoryReady ConditionFalse
                       ReasonServerFailed ''Waiting for Kopia Server to be ready'';
                     ret (repo, Some (requeue_after (15 * time_Second), None))
                   }
                 }
             }
         }
     })"

definition repo_phases :: "env \<Rightarrow> 'w ServerManager option \<Rightarrow> KopiaRepository
    \<Rightarrow> ('w st, KopiaRepository \<times> outcome) state" where
  "repo_phases env mgr repo =
     (if rs_PasswordSecretName (kr_spec repo) = '''' then
        ret (set_repo_condition env repo ConditionTypeRepositoryReady ConditionFalse
               ReasonMissingPassword ''spec.passwordSecretName must be set'', (no_requeue, None))
      else do {
        (repo, stop) \<leftarrow> (if server_enabled repo then server_phase env mgr repo else ret (repo, None));
        case stop of
          Some out \<Rightarrow> ret (repo, out)
        | None \<Rightarrow>
            ret (set_repo_condition env repo ConditionTypeRepositoryReady ConditionTrue
                   ReasonConfigValid ''Repository configuration is valid'', (no_requeue, None))
      })"

definition repo_reconcile :: "env \<Rightarrow> 'w api \<Rightarrow> 'w ServerManager option \<Rightarrow> NamespacedName
    \<Rightarrow> ('w st, outcome) state" where
  "repo_reconcile env api mgr req = do {
     got \<leftarrow> Get_KopiaRepository api req;
     case got of
       Inl err \<Rightarrow> ret (no_requeue, IgnoreNotFound err)
     | Inr repo \<Rightarrow> do {
         (repo, out) \<leftarrow> repo_phases env mgr repo;
         deferred_status (\<lambda>r. Status_Update_KopiaRepository api r) repo out
       }
   }"

definition KopiaRepository_Reconcile :: "env \<Rightarrow> 'w api \<Rightarrow> 'w ServerManager option \<Rightarrow> NamespacedName
    \<Rightarrow> ('w st, outcome) state" where
  "KopiaRepository_Reconcile env api mgr req =
     counting_errors ''kopiarepository'' (repo_reconcile env api mgr req)"

abbreviation repo_conds :: "KopiaRepository \<Rightarrow> Condition list" where
  "repo_conds r \<equiv> rst_Conditions (kr_status r)"

definition repo_condition :: "KopiaRepository \<Rightarrow> string \<Rightarrow> (ConditionStatus \<times> string \<times> int64) option" where
  "repo_condition r t = map_option (\<lambda>c. (co_Status c, co_Reason c, co_ObservedGeneration c))
     (find_condition (repo_conds r) t)"

section \<open>Conditions\<close>

lemma set_repo_condition_meta [simp]:
  "kr_meta (set_repo_condition env r t st rs m) = kr_meta r"
  "kr_spec (set_repo_condition env r t st rs m) = kr_spec r"
  "rst_ServerReady (kr_status (set_repo_condition env r t st rs m)) = rst_ServerReady (kr_status r)"
  "rst_TLSCertFingerprint (kr_status (set_repo_condition env r t st rs m))
     = rst_TLSCertFingerprint (kr_status r)"
  by (simp_all add: set_repo_condition_def)

lemma repo_condition_set:
  "set_condition_law env \<Longrightarrow> repo_condition (set_repo_condition env r t st rs m) t'
     = (if t' = t then Some (st, rs, om_Generation (kr_meta r)) else repo_condition r t')"
  by (simp add: repo_condition_def set_repo_condition_def set_condition_law_def)

lemma repo_condition_cong:
  "repo_conds r = repo_conds r' \<Longrightarrow> repo_condition r t = repo_condition r' t"
  by (simp add: repo_condition_def)

lemmas repo_condition_types = ConditionTypeRepositoryReady_def ConditionTypeServerReady_def

text \<open>
  The status the server phase leaves: on a failure only ServerReady is set to false and Ready
  stays as it was; while the server is not ready both are false; when it is ready ServerReady
  is true and the phase lets the controller go on.
\<close>

definition server_phase_post :: "KopiaRepository \<Rightarrow> repo_phase \<Rightarrow> bool" where
  "server_phase_post repo p = (case p of (repo', stop) \<Rightarrow>
     kr_meta repo' = kr_meta repo \<and> kr_spec repo' = kr_spec repo \<and>
     (case stop of
        None \<Rightarrow> rst_ServerReady (kr_status repo') \<and>
          repo_condition repo' ''ServerReady'' = Some (ConditionTrue, ''ServerDeployed'', om_Generation (kr_meta repo))
      | Some (res, Some e) \<Rightarrow> res = no_requeue \<and>
          repo_condition repo' ''ServerReady'' = Some (ConditionFalse, ''ServerFailed'', om_Generation (kr_meta repo)) \<and>
          repo_condition repo' ''Ready'' = repo_condition repo ''Ready''
      | Some (res, None) \<Rightarrow> res = requeue_after (15 * time_Second) \<and> \<not> rst_ServerReady (kr_status repo') \<and>
          repo_condition repo' ''ServerReady'' = Some (ConditionFalse, ''ServerFailed'', om_Generation (kr_meta repo)) \<and>
          repo_condition repo' ''Ready'' = Some (ConditionFalse, ''ServerFailed'', om_Generation (kr_meta repo))))"

lemma server_phase_conditions:
  assumes law: "set_condition_law env"
  shows "wp (server_phase env (Some sm) repo) (\<lambda>p _. server_phase_post repo p) s"
  unfolding server_phase_def
  by (auto simp: law Let_def server_failed_def repo_condition_set repo_condition_types
      server_phase_post_def ReasonServerFailed_def ReasonServerDeployed_def
      repo_condition_def [of "_\<lparr>kr_status := _\<rparr>"] repo_condition_def [of repo]
      split: sum.splits intro!: manager_wpI)

text \<open>What a whole reconcile leaves, for a repository with the given spec.\<close>

definition repo_phases_post :: "KopiaRepository \<Rightarrow> KopiaRepository \<times> outcome \<Rightarrow> bool" where
  "repo_phases_post repo p = (case p of (repo', res, err) \<Rightarrow>
     let gen = om_Generation (kr_meta repo); pw = rs_PasswordSecretName (kr_spec repo) \<noteq> '''';
         waiting = server_enabled repo \<and> \<not> rst_ServerReady (kr_status repo') in
     kr_meta repo' = kr_meta repo \<and> kr_spec repo' = kr_spec repo
     \<and> (err = None \<longrightarrow> repo_condition repo' ''Ready'' = Some
          (if \<not> pw then (ConditionFalse, ''MissingPassword'', gen)
           else if waiting then (ConditionFalse, ''ServerFailed'', gen)
           else (ConditionTrue, ''ConfigValid'', gen)))
     \<and> (err \<noteq> None \<longrightarrow> pw \<and> server_enabled repo
          \<and> repo_condition repo' ''Ready'' = repo_condition repo ''Ready''
          \<and> repo_condition repo' ''ServerReady'' = Some (ConditionFalse, ''ServerFailed'', gen))
     \<and> RequeueAfter res = (if pw \<and> waiting \<and> err = None then 15 * time_Second else 0))"

lemma repo_phases_post_stop:
  assumes "server_phase_post repo (r', Some (res, err))"
    and "rs_PasswordSecretName (kr_spec repo) \<noteq> ''''" "server_enabled repo"
  shows "repo_phases_post repo (r', res, err)"
  using assms by (cases err)
    (auto simp: server_phase_post_def repo_phases_post_def no_requeue_def requeue_after_def)

lemma repo_phases_post_go:
  assumes "set_condition_law env" "server_phase_post repo (r', None)"
    and "rs_PasswordSecretName (kr_spec repo) \<noteq> ''''" "server_enabled repo"
  shows "repo_phases_post repo (set_repo_condition env r' ConditionTypeRepositoryReady ConditionTrue
     ReasonConfigValid m, no_requeue, None)"
  using assms by (simp add: server_phase_post_def repo_phases_post_def no_requeue_def
      repo_condition_set repo_condition_types ReasonConfigValid_def)

lemma repo_phases_conditions:
  assumes law: "set_condition_law env"
  shows "wp (repo_phases env (Some sm) repo) (\<lambda>p _. repo_phases_post repo p) s"
proof (cases "rs_PasswordSecretName (kr_spec repo) \<noteq> '''' \<and> server_enabled repo")
  case False
  then show ?thesis
    by (auto simp: repo_phases_def repo_phases_post_def law repo_condition_set repo_condition_types
        no_requeue_def ReasonMissingPassword_def ReasonConfigValid_def)
next
  case True
  have "wp (server_phase env (Some sm) repo) (\<lambda>(r', stop). wp (case stop of
          Some out \<Rightarrow> ret (r', out)
        | None \<Rightarrow> ret (set_repo_condition env r' ConditionTypeRepositoryReady ConditionTrue
            ReasonConfigValid ''Repository configuration is valid'', no_requeue, None))
          (\<lambda>p _. repo_phases_post repo p)) s"
    using True repo_phases_post_go [OF law] repo_phases_post_stop
    by (auto intro!: wp_mono [OF server_phase_conditions [OF law]] split: option.splits prod.splits)
  with True show ?thesis by (simp add: repo_phases_def case_prod_unfold)
qed

text \<open>
  C9: with a server manager configured, a reconcile of a repository that ends without an error
  sets Ready for the current generation to false for a missing password reference, to false
  while the server of a server-mode repository is not ready, and otherwise to true; exactly in
  the second case it asks to be run again after 15 seconds. A reconcile that ends with an error
  sets ServerReady to false and leaves Ready as it was. Metadata and spec are never changed.
\<close>

theorem repository_conditions:
  assumes "set_condition_law env"
    and "run_state (repo_phases env (Some sm) repo) s = ((repo', res, err), s')"
  defines "pw \<equiv> rs_PasswordSecretName (kr_spec repo) \<noteq> ''''"
    and "waiting \<equiv> server_enabled repo \<and> \<not> rst_ServerReady (kr_status repo')"
  shows "kr_meta repo' = kr_meta repo \<and> kr_spec repo' = kr_spec repo
    \<and> (err = None \<longrightarrow> repo_condition repo' ''Ready'' = Some
         (if \<not> pw then (ConditionFalse, ''MissingPassword'', om_Generation (kr_meta repo))
          else if waiting then (ConditionFalse, ''ServerFailed'', om_Generation (kr_meta repo))
          else (ConditionTrue, ''ConfigValid'', om_Generation (kr_meta repo))))
    \<and> (err \<noteq> None \<longrightarrow> pw \<and> server_enabled repo
         \<and> repo_condition repo' ''Ready'' = repo_condition repo ''Ready''
         \<and> repo_condition repo' ''ServerReady''
             = Some (ConditionFalse, ''ServerFailed'', om_Generation (kr_meta repo)))
    \<and> RequeueAfter res = (if pw \<and> waiting \<and> err = None then 15 * time_Second else 0)"
  using wpD [OF repo_phases_conditions [OF assms(1)] assms(2)]
  by (simp add: repo_phases_post_def pw_def waiting_def Let_def)

section \<open>Effects\<close>

definition repo_effect :: "action \<Rightarrow> bool" where
  "repo_effect a \<longleftrightarrow> server_effect a \<or> (\<exists>k t r m. a = AEvent k t r m)
     \<or> (\<exists>r n v. a = AMetric (SetServerReady r n v))"

lemma repo_effectI [simp]:
  "server_effect a \<Longrightarrow> repo_effect a" "repo_effect (AEvent k t r m)"
  "repo_effect (AMetric (SetServerReady r n v))"
  by (auto simp: repo_effect_def)

lemma repo_effect_not [simp]:
  "\<not> repo_effect (AStatusUpdateKopiaRepository r)" "\<not> repo_effect (AMetric (IncReconcileErrors c))"
  by (auto simp: repo_effect_def)

context server_manager
begin

lemma server_phase_effects:
  "emits_only (\<lambda>x. repo_effect (fst x)) (server_phase env (Some sm) repo)"
  unfolding server_phase_def server_failed_def Let_def
  by (simp, intro emits_intros emits_only_mono [OF tls_effects] emits_only_mono [OF service_effects]
      emits_only_mono [OF deployment_effects] emits_only_mono [OF ready_effects]) auto

lemma repo_phases_effects:
  "emits_only (\<lambda>x. repo_effect (fst x)) (repo_phases env (Some sm) repo)"
  unfolding repo_phases_def by (intro emits_intros server_phase_effects)

end

lemma repo_phases_effects_None:
  "emits_only (\<lambda>x. repo_effect (fst x)) (repo_phases env None repo)"
  unfolding repo_phases_def server_phase_def option.case by (intro emits_intros)

section \<open>The readiness gauge\<close>

abbreviation ready_value :: "KopiaRepository \<Rightarrow> int" where
  "ready_value r \<equiv> (if rst_ServerReady (kr_status r) then 1 else 0)"

lemma server_phase_gauge:
  "wp (server_phase env (Some sm) repo) (\<lambda>(repo', stop) s'. kr_meta repo' = kr_meta repo \<and> kr_spec repo' = kr_spec repo
     \<and> ((\<exists>res e. stop = Some (res, Some e))
          \<or> ServerReady_gauge (repo_name repo) (repo_ns repo) (trace s') = Some (ready_value repo'))) s"
  unfolding server_phase_def
  by (auto simp: Let_def server_failed_def ServerReady_gauge_def split: sum.splits intro!: manager_wpI)

lemma repo_phases_gauge:
  "wp (repo_phases env (Some sm) repo) (\<lambda>(repo', res, err) s'. kr_meta repo' = kr_meta repo \<and> kr_spec repo' = kr_spec repo
     \<and> (err = None \<and> server_enabled repo \<and> rs_PasswordSecretName (kr_spec repo) \<noteq> '''' \<longrightarrow>
          ServerReady_gauge (repo_name repo) (repo_ns repo) (trace s') = Some (ready_value repo'))) s"
  unfolding repo_phases_def
  by (auto simp: case_prod_unfold split: option.splits intro!: wp_mono [OF server_phase_gauge])

definition stub_manager :: "bool \<Rightarrow> 'w ServerManager" where
  "stub_manager ready = \<lparr>sm_EnsureServerDeployment = (\<lambda>_. ret (Inr ())),
     sm_EnsureServerService = (\<lambda>_. ret (Inr ())), sm_EnsureTLSSecret = (\<lambda>_. ret (Inr ''AB12'')),
     sm_IsServerReady = (\<lambda>_. ret (ready, None)), sm_GetServerURL = (\<lambda>_. ''https://server'')\<rparr>"

theorem repository_conditions_witness:
  "\<exists>repo'. fst (run_state (repo_phases ref_env (Some (stub_manager False)) example_repo) (start empty_cluster))
       = (repo', requeue_after (15 * time_Second), None)
     \<and> repo_condition repo' ''Ready'' = Some (ConditionFalse, ''ServerFailed'', 0)"
proof -
  obtain repo' res err s' where run:
    "run_state (repo_phases ref_env (Some (stub_manager False)) example_repo) (start empty_cluster)
       = ((repo', res, err), s')"
    by (metis prod.exhaust)
  have "err = None" "res = requeue_after (15 * time_Second)" "\<not> rst_ServerReady (kr_status repo')"
    using run
    by (auto simp: repo_phases_def server_phase_def stub_manager_def example_repo_def zero_defs
        Let_def emit_def set_repo_condition_def)
  with repository_conditions [OF ref_set_condition_law run] run show ?thesis
    by (simp add: example_repo_def zero_defs)
qed

end
