(* ===== verification/Operator.thy ===== *)
theory Operator
  imports PVC_Watcher Repository_Reconciler
begin

text \<open>
  The operator as a whole: the three controllers with the managers that cmd/main.go gives them, as a
  relation between states with any number of reconciles in any order, interleaved with changes that
  other clients make to the cluster, and what holds of every effect in every such run.
\<close>

section \<open>Policies\<close>

text \<open>
  A policy says which effects are allowed. If the managers keep to it, and it allows what the controllers
  themselves write, then every controller keeps to it.
\<close>

locale effect_policy =
  fixes P :: "entry \<Rightarrow> bool" and img :: string and sm :: "'w ServerManager" and um :: "'w UserManager"
  assumes deployment_kept: "emits_only P (sm_EnsureServerDeployment sm repo)"
    and service_kept: "emits_only P (sm_EnsureServerService sm repo)"
    and tls_kept: "emits_only P (sm_EnsureTLSSecret sm repo)"
    and ready_kept: "emits_only P (sm_IsServerReady sm repo)"
    and ensure_kept: "emits_only P (um_EnsureUser um backup repo)"
    and delete_kept: "emits_only P (um_DeleteUser um backup repo)"
    and events_allowed: "P (AEvent k ty reason msg, True)"
    and metrics_allowed: "P (AMetric (SetServerReady rn ns v), True)" "P (AMetric (DeleteLastSuccessfulBackup bn ns pn), True)"
    and backup_writes_allowed: "P (AUpdateKopiaBackup b, d)" "P (AStatusUpdateKopiaBackup b, d)"
    and repository_status_allowed: "P (AStatusUpdateKopiaRepository r, d)"
    and configmap_allowed: "configmap_writes p x \<Longrightarrow> P (x, d)"
    and cronjob_allowed: "cronjob_writes img (backup, CronJobName (bs_PVCName (kb_spec backup)), placement, repo) x \<Longrightarrow> P (x, d)"
begin

lemmas allowed = events_allowed metrics_allowed backup_writes_allowed repository_status_allowed

lemma server_phase_kept: "emits_only P (server_phase env (Some sm) repo)"
  unfolding server_phase_def server_failed_def Let_def option.case
  by (intro emits_intros tls_kept deployment_kept service_kept ready_kept allowed)

lemma repo_reconcile_kept: "emits_only P (repo_reconcile env api (Some sm) req)"
  unfolding repo_reconcile_def repo_phases_def
  by (intro emits_intros server_phase_kept allowed)

lemma configmap_kept: "emits_only P (reconcileConfigMap env api b repo)"
  using emits_only_mono [OF kconfigmap.effects [where a = "(b, repo)" and env = env and api = api], of P]
    configmap_allowed [of "(b, repo)"] by fastforce

lemma cronjob_kept:
  assumes "n = CronJobName (bs_PVCName (kb_spec b))"
  shows "emits_only P (reconcileCronJob env api img b n p repo)"
  using emits_only_mono [OF kcronjob.effects [where a = "(b, n, p, repo)" and env = env and api = api and img = img], of P]
    cronjob_allowed [of b p repo] by (fastforce simp: assms)

lemma resources_kept: "kopiaImage r = img \<Longrightarrow> emits_only P (reconcileBackupResources env api r b repo)"
  unfolding reconcileBackupResources_def findPodUsingPVC_def Let_def
  by (simp, intro emits_intros cronjob_kept allowed) simp

lemma phases_kept:
  assumes "kopiaImage r = img" "br_UserManager r = Some um"
  shows "emits_only P (backup_phases env api r b)"
  unfolding backup_phases_def configure_backup_def validateDependencies_def getRelatedPVC_def reconcileServerCredentials_def
    assms(2) option.case Let_def
  by (intro emits_intros resources_kept [OF assms(1)] configmap_kept ensure_kept allowed)

lemma finalizer_kept:
  assumes "br_UserManager r = Some um"
  shows "emits_only P (handleFinalizer env api r b)"
  unfolding handleFinalizer_def delete_user_first_def remove_finalizer_def CleanupBackupMetrics_def Let_def assms option.case
  by (intro emits_intros delete_kept allowed)

lemma backup_reconcile_kept:
  assumes "kopiaImage r = img" "br_UserManager r = Some um"
  shows "emits_only P (backup_reconcile env api r req)"
  unfolding backup_reconcile_def
  by (intro emits_intros phases_kept [OF assms] finalizer_kept [OF assms(2)] allowed)

end

text \<open>A policy that also allows to count errors is kept by the exported \<open>Reconcile\<close> methods.\<close>

locale counting_policy = effect_policy +
  assumes counters_allowed: "P (AMetric (IncReconcileErrors c), True)"
begin

lemma repository_kept: "emits_only P (KopiaRepository_Reconcile env api (Some sm) req)"
  unfolding KopiaRepository_Reconcile_def by (intro emits_intros repo_reconcile_kept counters_allowed)

lemma backup_kept:
  assumes "kopiaImage r = img" "br_UserManager r = Some um"
  shows "emits_only P (KopiaBackup_Reconcile env api r req)"
  unfolding KopiaBackup_Reconcile_def by (intro emits_intros backup_reconcile_kept [OF assms] counters_allowed)

end

section \<open>What the operator may do\<close>

text \<open>
  The policy of the operator. Every CronJob it writes runs the pod that \<open>buildCronJob\<close> describes for some
  backup, under the name derived from the claim; every server Deployment is well formed; commands run only in the
  container of the server and only to set or remove a user; a Secret it creates holds either a certificate with
  its key and fingerprint or the credentials of one user; a KopiaBackup is deleted only if it was
  created automatically, for a claim without the label, and created only for a claim with one.
\<close>

definition job_of :: "string \<Rightarrow> CronJob \<Rightarrow> bool" where
  "job_of img j \<longleftrightarrow> (\<exists>b p repo. job_pod j = backup_pod_spec b p repo img
     \<and> cjs_Schedule (cj_spec j) = bs_Schedule (kb_spec b) \<and> cjs_ConcurrencyPolicy (cj_spec j) = ''Forbid'')"

definition secret_ok :: "env \<Rightarrow> Secret \<Rightarrow> bool" where
  "secret_ok env x \<longleftrightarrow>
     (\<exists>cert key fp. sec_Data x = [''tls.crt'' \<mapsto> cert, ''tls.key'' \<mapsto> key, ''fingerprint'' \<mapsto> fp]
        \<and> calculateCertFingerprint env cert = Inr fp)
     \<or> (\<exists>b repo password. sec_StringData x
          = [''KOPIA_SERVER_USERNAME'' \<mapsto> user_of b repo, ''KOPIA_SERVER_PASSWORD'' \<mapsto> password])"

definition operator_entry :: "env \<Rightarrow> string \<Rightarrow> entry \<Rightarrow> bool" where
  "operator_entry env img x = (case fst x of
     ACreateCronJob j \<Rightarrow> job_of img j
   | AUpdateCronJob j \<Rightarrow> job_of img j
   | ACreateDeployment d \<Rightarrow> (\<exists>repo. server_spec_ok repo (dep_spec d))
   | AUpdateDeployment d \<Rightarrow> (\<exists>repo. server_spec_ok repo (dep_spec d))
   | ACreateSecret y \<Rightarrow> secret_ok env y
   | AExec ns pod cont cmd \<Rightarrow> cont = ''kopia-server'' \<and>
       ((\<exists>user password fp. cmd = buildCreateUserCommand user password fp) \<or> (\<exists>user. cmd = buildDeleteUserCommand user))
   | ADeleteKopiaBackup b \<Rightarrow> (\<exists>pvc. isAutoCreated env pvc b \<and> pvc_label pvc = '''')
   | ACreateKopiaBackup b \<Rightarrow> (\<exists>pvc. bs_PVCName (kb_spec b) = pvc_name pvc \<and> bs_Repository (kb_spec b) = pvc_label pvc
       \<and> pvc_label pvc \<noteq> '''')
   | _ \<Rightarrow> True)"

lemma job_pod_built: "job_pod (buildCronJob b n p repo img) = backup_pod_spec b p repo img"
  "cjs_Schedule (cj_spec (buildCronJob b n p repo img)) = bs_Schedule (kb_spec b)"
  "cjs_ConcurrencyPolicy (cj_spec (buildCronJob b n p repo img)) = ''Forbid''"
  by (simp_all add: buildCronJob_def)

lemma job_of_writes: "cronjob_writes img (b, n, p, repo) x \<Longrightarrow> operator_entry env img (x, d)"
  by (auto simp: cronjob_writes_def Let_def operator_entry_def job_of_def job_pod_built merge_CronJobSpec_def)
    (metis job_pod_built)+

lemma operator_entry_simps [simp]:
  "operator_entry env img (ACreateDeployment d, b) = (\<exists>repo. server_spec_ok repo (dep_spec d))"
  "operator_entry env img (AUpdateDeployment d, b) = (\<exists>repo. server_spec_ok repo (dep_spec d))"
  "operator_entry env img (ACreateSecret y, b) = secret_ok env y"
  "operator_entry env img (ACreateService v, b)" "operator_entry env img (AUpdateService v, b)"
  "operator_entry env img (APatchSecret y, b)" "operator_entry env img (ADeleteSecret y, b)"
  "operator_entry env img (AExec ns pod ''kopia-server'' (buildCreateUserCommand u p fp), b)"
  "operator_entry env img (AExec ns pod ''kopia-server'' (buildDeleteUserCommand u), b)"
  "operator_entry env img (ALog m xs, b)" "operator_entry env img (AEvent k ty r m, b)" "operator_entry env img (AMetric mo, b)"
  "operator_entry env img (AUpdateKopiaBackup kb, b)" "operator_entry env img (AStatusUpdateKopiaBackup kb, b)"
  "operator_entry env img (AStatusUpdateKopiaRepository kr, b)"
  "operator_entry env img (ACreateConfigMap cm, b)" "operator_entry env img (AUpdateConfigMap cm, b)"
  by (auto simp: operator_entry_def)

lemma secret_okI:
  "sec_Data x = [''tls.crt'' \<mapsto> cert, ''tls.key'' \<mapsto> key, ''fingerprint'' \<mapsto> fp] \<Longrightarrow>
     calculateCertFingerprint env cert = Inr fp \<Longrightarrow> secret_ok env x"
  "sec_StringData x = [''KOPIA_SERVER_USERNAME'' \<mapsto> user_of b repo, ''KOPIA_SERVER_PASSWORD'' \<mapsto> password] \<Longrightarrow> secret_ok env x"
  by (auto simp: secret_ok_def) blast

lemma tls_create_kept: "tls_create env repo r t \<Longrightarrow> x \<in> set t \<Longrightarrow> operator_entry env img x"
  by (auto simp: tls_create_def intro: secret_okI)

lemma tls_effects_kept:
  "tls_effects env repo r t \<Longrightarrow> x \<in> set t \<Longrightarrow> operator_entry env img x"
  unfolding tls_effects_def by (elim disjE exE conjE) (auto dest: tls_create_kept)

lemma user_effects_kept:
  "user_effects env backup repo got r t \<Longrightarrow> x \<in> set t \<Longrightarrow> operator_entry env img x"
  by (auto simp: user_effects_def new_user_effects_def known_user_effects_def user_calls_def exec_calls_def marked_def
      split: sum.splits if_splits) (metis secret_okI(2))+

lemma delete_effects_kept: "delete_effects backup repo r t \<Longrightarrow> x \<in> set t \<Longrightarrow> operator_entry env img x"
  by (auto simp: delete_effects_def delete_calls_def exec_calls_def)

interpretation kop: counting_policy "operator_entry env img" img "KopiaServerManager env api" "KopiaUserManager env api"
  for env img api
proof
  fix repo backup
  show "emits_only (operator_entry env img) (sm_EnsureServerDeployment (KopiaServerManager env api) repo)"
    unfolding KopiaServerManager_def ServerManager.select_convs
    by (rule emits_only_mono [OF kdeployment.effects])
      (auto simp: deployment_writes_def constructServerDeployment_ok intro!: exI [of _ repo])
  show "emits_only (operator_entry env img) (sm_EnsureServerService (KopiaServerManager env api) repo)"
    unfolding KopiaServerManager_def ServerManager.select_convs
    by (rule emits_only_mono [OF kservice.effects]) (auto simp: service_writes_def Let_def)
  show "emits_only (operator_entry env img) (sm_IsServerReady (KopiaServerManager env api) repo)"
    by (rule emits_only_mono [OF ksm.ready_effects]) simp
  show "emits_only (operator_entry env img) (um_EnsureUser (KopiaUserManager env api) backup repo)"
    unfolding KopiaUserManager_def UserManager.select_convs
    by (rule emits_onlyI_wp, rule wp_mono [OF EnsureUser_trace]) (blast dest: user_effects_kept)
  show "emits_only (operator_entry env img) (um_DeleteUser (KopiaUserManager env api) backup repo)"
    unfolding KopiaUserManager_def UserManager.select_convs
    by (rule emits_onlyI_wp, rule wp_mono [OF DeleteUser_trace]) (blast dest: delete_effects_kept)
  show "emits_only (operator_entry env img) (sm_EnsureTLSSecret (KopiaServerManager env api) repo)"
    unfolding KopiaServerManager_def ServerManager.select_convs
    by (rule emits_onlyI_wp, rule wp_mono [OF EnsureTLSSecret_trace]) (blast dest: tls_effects_kept)
qed (auto simp: configmap_writes_def intro: job_of_writes)

lemma kopiaImage_controller [simp]:
  "kopiaImage (backup_controller env api img) = (if img \<noteq> '''' then img else DefaultKopiaImage)"
  by (simp add: kopiaImage_def backup_controller_def)

lemma deletion_done_kept:
  "deletion_done env pvc b err t \<Longrightarrow> isAutoCreated env pvc b \<Longrightarrow> pvc_label pvc = '''' \<Longrightarrow> x \<in> set t \<Longrightarrow> operator_entry env img x"
  by (auto simp: deletion_done_def operator_entry_def split: if_splits) blast+

lemma sync_done_kept: "sync_done env api pvc b err t \<Longrightarrow> x \<in> set t \<Longrightarrow> operator_entry env img x"
  by (auto simp: sync_done_def adopted_def split: if_splits)

lemma new_backup_kept:
  "pvc_label pvc \<noteq> '''' \<Longrightarrow> operator_entry env img (ACreateKopiaBackup (new_backup pvc (pvc_label pvc) repo\<lparr>kb_meta := m\<rparr>), b)"
  by (auto simp: operator_entry_def new_backup_def intro!: exI [of _ pvc])

lemma creation_done_kept:
  "creation_done env pvc lookup err t \<Longrightarrow> pvc_label pvc \<noteq> '''' \<Longrightarrow> x \<in> set t \<Longrightarrow> operator_entry env img x"
  by (auto simp: creation_done_def new_backup_kept Let_def split: sum.splits if_splits)

lemma watcher_kept: "emits_only (operator_entry env img) (PVC_Reconcile env api req)"
proof (rule emits_onlyI_wp)
  fix s :: "'a st"
  obtain got w where got: "api_get_PVC api req (world s) = (got, w)" by (metis prod.exhaust)
  show "wp (PVC_Reconcile env api req) (\<lambda>_ s'. \<exists>t. trace s' = trace s @ t \<and> (\<forall>x \<in> set t. operator_entry env img x)) s"
  proof (cases got)
    case (Inl e)
    with got show ?thesis by (simp add: PVC_Reconcile_def)
  next
    case (Inr pvc)
    obtain bk w' where bk: "api_get_KopiaBackup api (NamespacedName (pvc_ns pvc) (pvc_name pvc)) w = (bk, w')"
      by (metis prod.exhaust)
    show ?thesis
    proof (rule wpI)
      fix out s' assume "run_state (PVC_Reconcile env api req) s = (out, s')"
      from PVC_Reconcile_effects [OF got [unfolded Inr] bk, of env "fst out" "snd out" s'] this obtain t where
        t: "trace s' = trace s @ t" "case bk of
          Inr b \<Rightarrow> if \<not> isAutoCreated env pvc b then t = [] \<and> snd out = None
            else if pvc_label pvc = '''' then deletion_done env pvc b (snd out) t
            else sync_done env api pvc b (snd out) t
        | Inl e \<Rightarrow> if \<not> IsNotFound e then t = [] \<and> snd out \<noteq> None
            else if pvc_label pvc = '''' then t = [] \<and> snd out = None
            else creation_done env pvc
              (fst (run_state (getKopiaRepository env api (pvc_label pvc) (pvc_ns pvc)) (s\<lparr>world := w'\<rparr>))) (snd out) t"
        by auto
      then have "\<forall>x \<in> set t. operator_entry env img x"
        by (cases bk) (auto split: if_splits dest: deletion_done_kept sync_done_kept creation_done_kept)
      with t(1) show "\<exists>t. trace s' = trace s @ t \<and> (\<forall>x \<in> set t. operator_entry env img x)" by blast
    qed
  qed
qed

section \<open>Runs\<close>

text \<open>
  A run: reconciles of any objects by the three controllers in any order, and changes of the cluster by
  others in between. (The reads and writes within a reconcile see whatever the API answers, so changes by
  others during a reconcile are covered as well.) The events of a run record the outcome of each
  reconcile.
\<close>

datatype op_event = RepositoryRun outcome | BackupRun outcome | ClaimRun outcome | OtherClients

inductive operator_step :: "env \<Rightarrow> 'w api \<Rightarrow> string \<Rightarrow> 'w st \<Rightarrow> op_event \<Rightarrow> 'w st \<Rightarrow> bool" for env api img where
  repository: "run_state (KopiaRepository_Reconcile env api (Some (KopiaServerManager env api)) req) s = (out, s')
    \<Longrightarrow> operator_step env api img s (RepositoryRun out) s'"
| backup: "run_state (KopiaBackup_Reconcile env api (backup_controller env api img) req) s = (out, s')
    \<Longrightarrow> operator_step env api img s (BackupRun out) s'"
| claim: "run_state (PVC_Reconcile env api req) s = (out, s') \<Longrightarrow> operator_step env api img s (ClaimRun out) s'"
| others: "operator_step env api img s OtherClients (s\<lparr>world := w\<rparr>)"

inductive operator_run :: "env \<Rightarrow> 'w api \<Rightarrow> string \<Rightarrow> 'w st \<Rightarrow> op_event list \<Rightarrow> 'w st \<Rightarrow> bool" for env api img where
  idle: "operator_run env api img s [] s"
| step: "operator_run env api img s evs s1 \<Longrightarrow> operator_step env api img s1 ev s2 \<Longrightarrow>
    operator_run env api img s (evs @ [ev]) s2"

lemma operator_run_one: "operator_step env api img s ev s' \<Longrightarrow> operator_run env api img s [ev] s'"
  using operator_run.step [OF operator_run.idle] by fastforce

abbreviation job_image :: "string \<Rightarrow> string" where
  "job_image img \<equiv> (if img \<noteq> '''' then img else DefaultKopiaImage)"

lemma operator_step_kept:
  assumes "operator_step env api img s ev s'"
  shows "\<exists>t. trace s' = trace s @ t \<and> (\<forall>x \<in> set t. operator_entry env (job_image img) x)"
  using assms
proof cases
  case (repository req out)
  with emits_onlyD [OF kop.repository_kept] show ?thesis by blast
next
  case (backup req out)
  with emits_onlyD [OF kop.backup_kept [OF kopiaImage_controller controller_manager]] show ?thesis by blast
next
  case (claim req out)
  with emits_onlyD [OF watcher_kept] show ?thesis by blast
qed simp

lemma operator_run_kept:
  "operator_run env api img s evs s' \<Longrightarrow> \<exists>t. trace s' = trace s @ t \<and> (\<forall>x \<in> set t. operator_entry env (job_image img) x)"
proof (induction rule: operator_run.induct)
  case (step s evs s1 ev s2)
  from step.IH operator_step_kept [OF step.hyps(2)] show ?case by (metis UnE append.assoc set_append)
qed simp


text \<open>The policy that forbids to count errors: the reconciles proper keep to it.\<close>

abbreviation uncounted :: "entry \<Rightarrow> bool" where
  "uncounted x \<equiv> \<forall>c. fst x \<noteq> AMetric (IncReconcileErrors c)"

lemma server_effect_uncounted: "server_effect (fst x) \<Longrightarrow> uncounted x"
  by auto

lemma user_effect_uncounted: "user_effect (fst x) \<Longrightarrow> uncounted x"
  by auto

interpretation kcount: effect_policy uncounted img "KopiaServerManager env api" "KopiaUserManager env api" for env img api
  by unfold_locales
    (auto simp: configmap_writes_def cronjob_writes_def Let_def
      intro: emits_only_mono [OF ksm.deployment_effects server_effect_uncounted] emits_only_mono [OF ksm.service_effects server_effect_uncounted]
        emits_only_mono [OF ksm.tls_effects server_effect_uncounted] emits_only_mono [OF ksm.ready_effects]
        emits_only_mono [OF kum.ensure_effects user_effect_uncounted] emits_only_mono [OF kum.delete_effects user_effect_uncounted])

lemma watcher_uncounted: "emits_only uncounted (PVC_Reconcile env api req)"
  unfolding PVC_Reconcile_def label_removed_def backup_present_def syncSchedule_def createBackupForPVC_def
    pvc_getKopiaRepository_eq Let_def
  by (intro emits_intros) auto

lemma ReconcileErrors_uncounted:
  assumes "emits_only uncounted m" "run_state m s = (a, s')"
  shows "ReconcileErrors c (trace s') = ReconcileErrors c (trace s)"
  using emits_onlyD [OF assms] by (auto simp: ReconcileErrors_none)

lemma counting_errors_all:
  assumes "emits_only uncounted m" "run_state (counting_errors c m) s = ((res, err), s')"
  shows "ReconcileErrors c' (trace s') = ReconcileErrors c' (trace s) + (if c' = c \<and> err \<noteq> None then 1 else 0)"
proof (cases "c' = c")
  case True
  have "emits_only (\<lambda>x. fst x \<noteq> AMetric (IncReconcileErrors c)) m"
    by (rule emits_only_mono [OF assms(1)]) simp
  from wpD [OF counting_errors_counter [OF this] assms(2)] True show ?thesis by simp
next
  case False
  have "emits_only (\<lambda>x. fst x \<noteq> AMetric (IncReconcileErrors c')) (counting_errors c m)"
    using False by (intro emits_intros emits_only_mono [OF assms(1)]) auto
  from emits_onlyD [OF this assms(2)] False show ?thesis by (auto simp: ReconcileErrors_none)
qed

fun failed_run :: "string \<Rightarrow> op_event \<Rightarrow> bool" where
  "failed_run c (RepositoryRun (res, err)) \<longleftrightarrow> c = ''kopiarepository'' \<and> err \<noteq> None"
| "failed_run c (BackupRun (res, err)) \<longleftrightarrow> c = ''kopiabackup'' \<and> err \<noteq> None"
| "failed_run c _ \<longleftrightarrow> False"

lemma operator_step_counter:
  assumes "operator_step env api img s ev s'"
  shows "ReconcileErrors c (trace s') = ReconcileErrors c (trace s) + (if failed_run c ev then 1 else 0)"
  using assms
proof cases
  case (repository req out)
  obtain res err where out: "out = (res, err)" by (cases out)
  from repository(2) have "run_state (counting_errors ''kopiarepository'' (repo_reconcile env api (Some (KopiaServerManager env api)) req)) s
      = ((res, err), s')" by (simp add: KopiaRepository_Reconcile_def out)
  from counting_errors_all [OF kcount.repo_reconcile_kept this] show ?thesis by (simp add: repository(1) out)
next
  case (backup req out)
  obtain res err where out: "out = (res, err)" by (cases out)
  from backup(2) have "run_state (counting_errors ''kopiabackup'' (backup_reconcile env api (backup_controller env api img) req)) s
      = ((res, err), s')" by (simp add: KopiaBackup_Reconcile_def out)
  from counting_errors_all [OF kcount.backup_reconcile_kept [OF kopiaImage_controller controller_manager] this]
  show ?thesis by (simp add: backup(1) out)
next
  case (claim req out)
  with ReconcileErrors_uncounted [OF watcher_uncounted] show ?thesis by simp
qed simp

text \<open>
  C23: the error counter of a controller is the number of its reconciles that failed, over every run; no
  failure is missed or counted twice, and failures of the watcher are not counted at all.
\<close>

theorem error_counters:
  assumes "operator_run env api img s evs s'"
  shows "ReconcileErrors c (trace s') = ReconcileErrors c (trace s) + length (filter (failed_run c) evs)"
  using assms by (induction rule: operator_run.induct) (simp_all add: operator_step_counter)

section \<open>The status of a repository\<close>

lemma repository_deferred_status:
  "wp (deferred_status (\<lambda>r. Status_Update_KopiaRepository api r) r out) (\<lambda>(res, err) s'. \<exists>done.
     trace s' = trace s @ [(AStatusUpdateKopiaRepository r, done)] \<and> (\<not> done \<longrightarrow> err \<noteq> None) \<and> (err = None \<longrightarrow> snd out = None)) s"
  by (auto simp: deferred_status_def ok_def split: prod.splits option.splits sum.splits)

text \<open>
  C10: a reconcile of a repository that exists writes the status exactly once, as its very last call and with
  metadata and spec unchanged, and fails if that write fails. After a reconcile in server mode that did
  not fail, the readiness gauge of the repository shows the readiness in the status that was
  written.
\<close>

theorem repository_status_written:
  assumes "api_get_KopiaRepository api req (world s) = (Inr repo, w)"
    and "run_state (repo_reconcile env api (Some (KopiaServerManager env api)) req) s = ((res, err), s')"
  shows "\<exists>t repo' done. trace s' = trace s @ t @ [(AStatusUpdateKopiaRepository repo', done)]
    \<and> (\<forall>x \<in> set t. \<forall>r. fst x \<noteq> AStatusUpdateKopiaRepository r)
    \<and> kr_meta repo' = kr_meta repo \<and> kr_spec repo' = kr_spec repo \<and> (\<not> done \<longrightarrow> err \<noteq> None)
    \<and> (err = None \<and> server_enabled repo \<and> rs_PasswordSecretName (kr_spec repo) \<noteq> '''' \<longrightarrow>
         ServerReady_gauge (repo_name repo) (repo_ns repo) (trace s') = Some (ready_value repo'))"
proof -
  let ?m = "Some (KopiaServerManager env api)" and ?s = "s\<lparr>world := w\<rparr>"
  obtain repo' out s1 where ph: "run_state (repo_phases env ?m repo) ?s = ((repo', out), s1)" by (metis prod.exhaust)
  have last: "run_state (deferred_status (\<lambda>r. Status_Update_KopiaRepository api r) repo' out) s1 = ((res, err), s')"
    using assms ph by (simp add: repo_reconcile_def client_read_def)
  from emits_onlyD [OF server_manager.repo_phases_effects [OF ksm.server_manager_axioms] ph] obtain t where
    t: "trace s1 = trace s @ t" "\<forall>x \<in> set t. repo_effect (fst x)" by auto
  from wpD [OF repository_deferred_status last] obtain done' where
    d: "trace s' = trace s1 @ [(AStatusUpdateKopiaRepository repo', done')]" "\<not> done' \<longrightarrow> err \<noteq> None" "err = None \<longrightarrow> snd out = None"
    by auto
  have "\<forall>x \<in> set t. \<forall>r. fst x \<noteq> AStatusUpdateKopiaRepository r" using t(2) by fastforce
  moreover have "ServerReady_gauge n ns (trace s') = ServerReady_gauge n ns (trace s1)" for n ns
    by (simp add: d(1) ServerReady_gauge_snoc)
  ultimately show ?thesis using wpD [OF repo_phases_gauge ph] t(1) d
    by (intro exI [of _ t] exI [of _ repo'] exI [of _ done']) (auto split: prod.splits)
qed

section \<open>Examples\<close>


theorem error_counters_witness:
  "\<exists>out s. operator_run ref_env no_status_api '''' (start watched_cluster) [BackupRun out] s
     \<and> ReconcileErrors ''kopiabackup'' (trace s) = length (filter (failed_run ''kopiabackup'') [BackupRun out])"
proof -
  obtain out s1 where run: "run_state (KopiaBackup_Reconcile ref_env no_status_api (backup_controller ref_env no_status_api '''') example_req)
      (start watched_cluster) = (out, s1)"
    by (metis prod.exhaust)
  then have "operator_run ref_env no_status_api '''' (start watched_cluster) [BackupRun out] s1"
    by (intro operator_run_one operator_step.backup)
  moreover from error_counters [OF this, of "''kopiabackup''"]
  have "ReconcileErrors ''kopiabackup'' (trace s1) = length (filter (failed_run ''kopiabackup'') [BackupRun out])"
    by (simp only: start_def st.select_convs ReconcileErrors_Nil add_0)
  ultimately show ?thesis by blast
qed

theorem repository_status_written_witness:
  "\<exists>out s' t repo' done. run_state (repo_reconcile ref_env mem_api (Some (KopiaServerManager ref_env mem_api))
       (NamespacedName ''ns'' ''repo'')) (start watched_cluster) = (out, s')
     \<and> trace s' = t @ [(AStatusUpdateKopiaRepository repo', done)] \<and> repo_name repo' = ''repo''"
proof -
  let ?req = "NamespacedName ''ns'' ''repo''"
  obtain res err s' where run: "run_state (repo_reconcile ref_env mem_api (Some (KopiaServerManager ref_env mem_api)) ?req)
      (start watched_cluster) = ((res, err), s')"
    by (metis prod.exhaust)
  have "api_get_KopiaRepository mem_api ?req (world (start watched_cluster)) = (Inr example_repo, watched_cluster)"
    by (simp add: start_def mem_defs)
  from repository_status_written [OF this run] run show ?thesis by (auto simp: start_def)
qed

end
