(* ===== verification/Operator_Main.thy ===== *)
theory Operator_Main
  imports Operator Kopia_Webhooks
begin

text \<open>
  The start of the process (cmd/main.go, groupversion\_info.go, the \<open>init\<close> functions) and the registration of the controllers (the three
  \<open>SetupWithManager\<close> methods). The manager of controller-runtime is a parameter: \<open>lib c\<close> is the effect of
  the call \<open>c\<close> on the library's state and whether it fails. What is registered is kept as it is in the
  source: the kinds that a controller watches, the functions of the operator that map and filter their
  events, the field indexers, the validators and the reconcile functions.

  Before \<open>main\<close>, the \<open>init\<close> functions register the metrics and the types of the custom resources; a failure there is a panic.
  The flags are taken as parsed; the flags of the logger and log lines are left out.
\<close>

section \<open>Flags and options\<close>

record flags =
  fl_metricsAddr :: string
  fl_probeAddr :: string
  fl_enableLeaderElection :: bool
  fl_secureMetrics :: bool
  fl_enableHTTP2 :: bool
  fl_kopiaImage :: string

definition default_flags :: flags where
  "default_flags = \<lparr>fl_metricsAddr = '':8080'', fl_probeAddr = '':8081'', fl_enableLeaderElection = True,
     fl_secureMetrics = False, fl_enableHTTP2 = False, fl_kopiaImage = ''''\<rparr>"

record tls_Config =
  tls_NextProtos :: "string list"

definition disableHTTP2 :: "tls_Config \<Rightarrow> tls_Config" where
  "disableHTTP2 c = c\<lparr>tls_NextProtos := [''http/1.1'']\<rparr>"

record manager_Options =
  mo_MetricsBindAddress :: string
  mo_SecureServing :: bool
  mo_MetricsTLSOpts :: "(tls_Config \<Rightarrow> tls_Config) list"
  mo_WebhookPort :: int
  mo_WebhookTLSOpts :: "(tls_Config \<Rightarrow> tls_Config) list"
  mo_HealthProbeBindAddress :: string
  mo_LeaderElection :: bool
  mo_LeaderElectionID :: string
  mo_LeaderElectionReleaseOnCancel :: bool

definition tlsOpts :: "flags \<Rightarrow> (tls_Config \<Rightarrow> tls_Config) list" where
  "tlsOpts fl = [] @ (if \<not> fl_enableHTTP2 fl then [disableHTTP2] else [])"

definition manager_options :: "flags \<Rightarrow> manager_Options" where
  "manager_options fl = \<lparr>mo_MetricsBindAddress = fl_metricsAddr fl, mo_SecureServing = fl_secureMetrics fl,
     mo_MetricsTLSOpts = tlsOpts fl, mo_WebhookPort = 9443, mo_WebhookTLSOpts = tlsOpts fl,
     mo_HealthProbeBindAddress = fl_probeAddr fl, mo_LeaderElection = fl_enableLeaderElection fl,
     mo_LeaderElectionID = ''71b0af1d.cloudinfra.be'', mo_LeaderElectionReleaseOnCancel = True\<rparr>"

section \<open>Registration of the types\<close>

text \<open>
  The package of the custom resources registers its types with a \<open>scheme.Builder\<close>, in the \<open>init\<close> functions of its files;
  the builder is kept as the group, the version and the types it was given.
\<close>

record scheme_Builder =
  sb_GroupVersion :: "string \<times> string"
  sb_types :: "string list"

definition GroupVersion :: "string \<times> string" where
  "GroupVersion = (''backup.cloudinfra.be'', ''v1alpha1'')"

definition Register :: "string list \<Rightarrow> scheme_Builder \<Rightarrow> scheme_Builder" where
  "Register objs b = b\<lparr>sb_types := sb_types b @ objs\<rparr>"

definition KopiaBackup_init :: "scheme_Builder \<Rightarrow> scheme_Builder" where
  "KopiaBackup_init = Register [''KopiaBackup'', ''KopiaBackupList'']"

definition KopiaRepository_init :: "scheme_Builder \<Rightarrow> scheme_Builder" where
  "KopiaRepository_init = Register [''KopiaRepository'', ''KopiaRepositoryList'']"

definition SchemeBuilder :: scheme_Builder where
  "SchemeBuilder = KopiaRepository_init (KopiaBackup_init \<lparr>sb_GroupVersion = GroupVersion, sb_types = []\<rparr>)"

section \<open>Calls of the library\<close>

text \<open>The predicates of controller-runtime that the operator names, and its own one on pods.\<close>

datatype event_filter =
    ResourceVersionChangedPredicate
  | LabelChangedPredicate
  | AnnotationChangedPredicate
  | PredicateOr "event_filter list"
  | PodRunningPredicate "Pod option \<Rightarrow> bool" "Pod option \<Rightarrow> Pod option \<Rightarrow> bool" bool bool

datatype 'w map_func =
    MapObject "ObjectMeta \<Rightarrow> ('w st, NamespacedName list) state"
  | MapPod "Pod option \<Rightarrow> ('w st, NamespacedName list) state"

record 'w controller =
  ctl_Named :: "string option"
  ctl_For :: string
  ctl_Owns :: "string list"
  ctl_Watches :: "(string \<times> 'w map_func \<times> event_filter) list"
  ctl_EventFilter :: "event_filter option"
  ctl_Reconciler :: "NamespacedName \<Rightarrow> ('w st, outcome) state"

datatype 'w call =
    MustRegister "metric_vec list"
  | ClientGo_AddToScheme
  | AddToScheme scheme_Builder
  | GetConfigOrDie
  | NewManager manager_Options
  | NewForConfig
  | IndexField string "KopiaBackup \<Rightarrow> string list"
  | Controller_Complete "'w controller"
  | Webhook_Complete string "runtime_Object \<Rightarrow> validation" "runtime_Object \<Rightarrow> runtime_Object \<Rightarrow> validation"
      "runtime_Object \<Rightarrow> validation"
  | AddHealthzCheck string
  | AddReadyzCheck string
  | Manager_Start

record ('w, 'm) process =
  pr_lib :: 'm
  pr_calls :: "('w call \<times> bool) list"

type_synonym ('w, 'm) library = "'w call \<Rightarrow> 'm \<Rightarrow> unit result \<times> 'm"

definition lib_call :: "('w, 'm) library \<Rightarrow> 'w call \<Rightarrow> (('w, 'm) process, unit result) state" where
  "lib_call lib c = State (\<lambda>s. case lib c (pr_lib s) of (r, m) \<Rightarrow>
     (r, s\<lparr>pr_lib := m, pr_calls := pr_calls s @ [(c, ok r)]\<rparr>))"

section \<open>Registration of the controllers\<close>

definition KopiaBackup_controller :: "env \<Rightarrow> 'w api \<Rightarrow> 'w KopiaBackupReconciler \<Rightarrow> 'w controller" where
  "KopiaBackup_controller env api r = \<lparr>ctl_Named = None, ctl_For = ''KopiaBackup'',
     ctl_Owns = [''CronJob'', ''Secret'', ''ConfigMap''],
     ctl_Watches =
       [(''PersistentVolumeClaim'', MapObject (findBackupsForField api pvcNameField), ResourceVersionChangedPredicate),
        (''KopiaRepository'', MapObject (findBackupsForField api repositoryNameField), ResourceVersionChangedPredicate),
        (''Pod'', MapPod (findBackupsForPod api), PodRunningPredicate podRunningPredicate_Create podRunningPredicate_Update
           podRunningPredicate_Delete podRunningPredicate_Generic)],
     ctl_EventFilter = None, ctl_Reconciler = KopiaBackup_Reconcile env api r\<rparr>"

definition KopiaBackup_SetupWithManager :: "env \<Rightarrow> 'w api \<Rightarrow> ('w, 'm) library \<Rightarrow> 'w KopiaBackupReconciler
    \<Rightarrow> (('w, 'm) process, unit result) state" where
  "KopiaBackup_SetupWithManager env api lib r = do {
     e1 \<leftarrow> lib_call lib (IndexField pvcNameField pvcName_index);
     case e1 of
       Inl err \<Rightarrow> ret (Inl err)
     | Inr _ \<Rightarrow> do {
         e2 \<leftarrow> lib_call lib (IndexField repositoryNameField repository_index);
         case e2 of
           Inl err \<Rightarrow> ret (Inl err)
         | Inr _ \<Rightarrow> lib_call lib (Controller_Complete (KopiaBackup_controller env api r))
       }
   }"

definition KopiaRepository_SetupWithManager :: "env \<Rightarrow> 'w api \<Rightarrow> ('w, 'm) library \<Rightarrow> 'w ServerManager option
    \<Rightarrow> (('w, 'm) process, unit result) state" where
  "KopiaRepository_SetupWithManager env api lib mgr = lib_call lib (Controller_Complete
     \<lparr>ctl_Named = None, ctl_For = ''KopiaRepository'', ctl_Owns = [''Deployment'', ''Service''], ctl_Watches = [],
      ctl_EventFilter = None, ctl_Reconciler = KopiaRepository_Reconcile env api mgr\<rparr>)"

definition PVCWatcher_SetupWithManager :: "env \<Rightarrow> 'w api \<Rightarrow> ('w, 'm) library \<Rightarrow> (('w, 'm) process, unit result) state" where
  "PVCWatcher_SetupWithManager env api lib = lib_call lib (Controller_Complete
     \<lparr>ctl_Named = Some ''pvc-watcher'', ctl_For = ''PersistentVolumeClaim'', ctl_Owns = [], ctl_Watches = [],
      ctl_EventFilter = Some (PredicateOr [LabelChangedPredicate, AnnotationChangedPredicate]),
      ctl_Reconciler = PVC_Reconcile env api\<rparr>)"

section \<open>main\<close>

datatype exit_status = Returned | Exited nat string | Panicked go_error

text \<open>\<open>if err != nil { setupLog.Error(err, msg); os.Exit(1) }\<close>, and otherwise what follows.\<close>

definition or_exit :: "('s, 'a result) state \<Rightarrow> string \<Rightarrow> ('a \<Rightarrow> ('s, exit_status) state) \<Rightarrow> ('s, exit_status) state" where
  "or_exit m msg k = do { r \<leftarrow> m; case r of Inl err \<Rightarrow> ret (Exited 1 msg) | Inr v \<Rightarrow> k v }"

text \<open>The user manager needs a client of its own, for commands in pods.\<close>

definition NewKopiaUserManager :: "env \<Rightarrow> 'w api \<Rightarrow> ('w, 'm) library \<Rightarrow> (('w, 'm) process, 'w UserManager result) state" where
  "NewKopiaUserManager env api lib = do {
     c \<leftarrow> lib_call lib NewForConfig;
     case c of
       Inl err \<Rightarrow> ret (Inl (WrapError ''failed to create clientset'' err))
     | Inr _ \<Rightarrow> ret (Inr (KopiaUserManager env api))
   }"

text \<open>The message of \<open>GetConfigOrDie\<close> is the library's.\<close>

definition operator_main :: "env \<Rightarrow> 'w api \<Rightarrow> ('w, 'm) library \<Rightarrow> flags \<Rightarrow> (string \<Rightarrow> string)
    \<Rightarrow> (('w, 'm) process, exit_status) state" where
  "operator_main env api lib fl getenv =
     or_exit (lib_call lib GetConfigOrDie) '''' (\<lambda>_.
     or_exit (lib_call lib (NewManager (manager_options fl))) ''unable to start manager'' (\<lambda>_.
     let serverManager = KopiaServerManager env api in
     or_exit (NewKopiaUserManager env api lib) ''unable to create KopiaUserManager'' (\<lambda>userManager.
     or_exit (KopiaBackup_SetupWithManager env api lib \<lparr>br_KopiaImage = fl_kopiaImage fl,
         br_ServerManager = serverManager, br_UserManager = Some userManager\<rparr>) ''unable to create controller'' (\<lambda>_.
     or_exit (KopiaRepository_SetupWithManager env api lib (Some serverManager)) ''unable to create controller'' (\<lambda>_.
     or_exit (PVCWatcher_SetupWithManager env api lib) ''unable to create controller'' (\<lambda>_.
     let start =
       or_exit (lib_call lib (AddHealthzCheck ''healthz'')) ''unable to set up health check'' (\<lambda>_.
       or_exit (lib_call lib (AddReadyzCheck ''readyz'')) ''unable to set up ready check'' (\<lambda>_.
       or_exit (lib_call lib Manager_Start) ''problem running manager'' (\<lambda>_. ret Returned))) in
     if getenv ''ENABLE_WEBHOOKS'' \<noteq> ''false'' then
       or_exit (lib_call lib (Webhook_Complete ''KopiaBackup'' (KopiaBackup_ValidateCreate env)
         (KopiaBackup_ValidateUpdate env) KopiaBackup_ValidateDelete)) ''unable to create webhook'' (\<lambda>_.
       or_exit (lib_call lib (Webhook_Complete ''KopiaRepository'' (KopiaRepository_ValidateCreate env)
         (KopiaRepository_ValidateUpdate env) KopiaRepository_ValidateDelete)) ''unable to create webhook'' (\<lambda>_.
       start))
     else start))))))"

section \<open>Initialisation\<close>

text \<open>\<open>MustRegister\<close> and \<open>utilruntime.Must\<close> panic with the error of the call.\<close>

definition or_panic :: "('s, 'a result) state \<Rightarrow> ('a \<Rightarrow> ('s, exit_status) state) \<Rightarrow> ('s, exit_status) state" where
  "or_panic m k = do { r \<leftarrow> m; case r of Inl err \<Rightarrow> ret (Panicked err) | Inr v \<Rightarrow> k v }"

definition metrics_init :: "('w, 'm) library \<Rightarrow> (('w, 'm) process, unit result) state" where
  "metrics_init lib = lib_call lib (MustRegister
     [BackupsPerRepository_vec, LastSuccessfulBackup_vec, ReconcileErrors_vec, ServerReady_vec])"

definition main_init :: "('w, 'm) library \<Rightarrow> (('w, 'm) process, exit_status) state \<Rightarrow> (('w, 'm) process, exit_status) state" where
  "main_init lib k =
     or_panic (lib_call lib ClientGo_AddToScheme) (\<lambda>_.
     or_panic (lib_call lib (AddToScheme SchemeBuilder)) (\<lambda>_. k))"

text \<open>The process: packages are initialised before the package that imports them, and \<open>main\<close> runs last.\<close>

definition operator_process :: "env \<Rightarrow> 'w api \<Rightarrow> ('w, 'm) library \<Rightarrow> flags \<Rightarrow> (string \<Rightarrow> string)
    \<Rightarrow> (('w, 'm) process, exit_status) state" where
  "operator_process env api lib fl getenv =
     or_panic (metrics_init lib) (\<lambda>_. main_init lib (operator_main env api lib fl getenv))"

section \<open>What a start does\<close>

text \<open>The calls of a start, in order.\<close>

definition startup :: "env \<Rightarrow> 'w api \<Rightarrow> flags \<Rightarrow> (string \<Rightarrow> string) \<Rightarrow> 'w call list" where
  "startup env api fl getenv =
     [GetConfigOrDie, NewManager (manager_options fl), NewForConfig,
      IndexField pvcNameField pvcName_index, IndexField repositoryNameField repository_index,
      Controller_Complete (KopiaBackup_controller env api (backup_controller env api (fl_kopiaImage fl))),
      Controller_Complete \<lparr>ctl_Named = None, ctl_For = ''KopiaRepository'', ctl_Owns = [''Deployment'', ''Service''],
        ctl_Watches = [], ctl_EventFilter = None,
        ctl_Reconciler = KopiaRepository_Reconcile env api (Some (KopiaServerManager env api))\<rparr>,
      Controller_Complete \<lparr>ctl_Named = Some ''pvc-watcher'', ctl_For = ''PersistentVolumeClaim'', ctl_Owns = [],
        ctl_Watches = [], ctl_EventFilter = Some (PredicateOr [LabelChangedPredicate, AnnotationChangedPredicate]),
        ctl_Reconciler = PVC_Reconcile env api\<rparr>]
     @ (if getenv ''ENABLE_WEBHOOKS'' \<noteq> ''false'' then
          [Webhook_Complete ''KopiaBackup'' (KopiaBackup_ValidateCreate env) (KopiaBackup_ValidateUpdate env) KopiaBackup_ValidateDelete,
           Webhook_Complete ''KopiaRepository'' (KopiaRepository_ValidateCreate env) (KopiaRepository_ValidateUpdate env)
             KopiaRepository_ValidateDelete] else [])
     @ [AddHealthzCheck ''healthz'', AddReadyzCheck ''readyz'', Manager_Start]"

definition initialisation :: "'w call list" where
  "initialisation = [MustRegister [BackupsPerRepository_vec, LastSuccessfulBackup_vec, ReconcileErrors_vec, ServerReady_vec],
     ClientGo_AddToScheme, AddToScheme SchemeBuilder]"

text \<open>The types that a start names: those of controllers, what they own and watch, and those of webhooks.\<close>

definition call_kinds :: "'w call \<Rightarrow> string list" where
  "call_kinds c = (case c of
     Controller_Complete ctl \<Rightarrow> ctl_For ctl # ctl_Owns ctl @ map fst (ctl_Watches ctl)
   | Webhook_Complete kind _ _ _ \<Rightarrow> [kind]
   | _ \<Rightarrow> [])"

definition client_go_kinds :: "string list" where
  "client_go_kinds = [''ConfigMap'', ''CronJob'', ''Deployment'', ''PersistentVolumeClaim'', ''Pod'', ''Secret'', ''Service'']"

text \<open>
  A computation makes the calls of a list up to the first one that fails: either all succeed and it
  returns a value that is \<open>good\<close>, or one fails, is the last one, and the value is \<open>bad\<close>.
\<close>

definition makes_calls :: "'w call list \<Rightarrow> ('a \<Rightarrow> bool) \<Rightarrow> ('a \<Rightarrow> bool) \<Rightarrow> ('w, 'm) process \<Rightarrow> 'a \<Rightarrow> ('w, 'm) process \<Rightarrow> bool" where
  "makes_calls cs good bad s a s' \<longleftrightarrow>
     good a \<and> pr_calls s' = pr_calls s @ map (\<lambda>c. (c, True)) cs
     \<or> bad a \<and> (\<exists>pre c post. cs = pre @ c # post \<and> pr_calls s' = pr_calls s @ map (\<lambda>c. (c, True)) pre @ [(c, False)])"

definition exited :: "exit_status \<Rightarrow> bool" where
  "exited e \<longleftrightarrow> (\<exists>msg. e = Exited 1 msg)"

lemma exited_Exited: "exited (Exited 1 msg)"
  by (simp add: exited_def)

lemma makes_calls_Nil [simp]: "makes_calls [] good bad s a s' \<longleftrightarrow> good a \<and> pr_calls s' = pr_calls s"
  by (simp add: makes_calls_def)

lemma wp_lib_call [simp]:
  "wp (lib_call lib c) Q s = (case lib c (pr_lib s) of (r, m) \<Rightarrow> Q r (s\<lparr>pr_lib := m, pr_calls := pr_calls s @ [(c, ok r)]\<rparr>))"
  by (simp add: wp_def lib_call_def split: prod.splits)

lemma lib_call_calls: "wp (lib_call lib c) (makes_calls [c] ok (\<lambda>r. \<not> ok r) s) s"
  by (auto simp: makes_calls_def split: prod.splits)

lemma makes_calls_append:
  assumes "makes_calls cs ok (\<lambda>r. \<not> ok r) s r t"
  shows "ok r \<Longrightarrow> makes_calls ds good bad t a u \<Longrightarrow> makes_calls (cs @ ds) good bad s a u"
    and "\<not> ok r \<Longrightarrow> bad a \<Longrightarrow> makes_calls (cs @ ds) good bad s a t"
proof -
  assume "ok r" "makes_calls ds good bad t a u"
  with assms show "makes_calls (cs @ ds) good bad s a u"
    unfolding makes_calls_def by (elim disjE exE conjE; simp; metis append.assoc append_Cons map_append)
next
  assume "\<not> ok r" "bad a"
  with assms show "makes_calls (cs @ ds) good bad s a t" unfolding makes_calls_def by fastforce
qed

lemma or_exit_calls:
  assumes "\<And>s. wp m (makes_calls cs ok (\<lambda>r. \<not> ok r) s) s"
    and "\<And>v s. wp (k v) (makes_calls ds (\<lambda>e. e = Returned) exited s) s"
  shows "wp (or_exit m msg k) (makes_calls (cs @ ds) (\<lambda>e. e = Returned) exited s) s"
  unfolding or_exit_def wp_bind
proof (rule wp_mono [OF assms(1)], goal_cases)
  case (1 r t)
  show ?case
  proof (cases r)
    case (Inl e)
    with makes_calls_append(2) [OF 1, of exited] show ?thesis by (simp add: exited_Exited [simplified])
  next
    case (Inr u)
    have "wp (k u) (makes_calls (cs @ ds) (\<lambda>e. e = Returned) exited s) t"
      by (rule wp_mono [OF assms(2)]) (use makes_calls_append(1) [OF 1] Inr in simp)
    with Inr show ?thesis by simp
  qed
qed

lemmas or_exit_call = or_exit_calls [OF lib_call_calls, unfolded append_Cons append_Nil]

lemma setup_backup_calls:
  "wp (KopiaBackup_SetupWithManager env api lib r) (makes_calls [IndexField pvcNameField pvcName_index,
     IndexField repositoryNameField repository_index, Controller_Complete (KopiaBackup_controller env api r)] ok (\<lambda>r. \<not> ok r) s) s"
  by (auto simp: KopiaBackup_SetupWithManager_def makes_calls_def Cons_eq_append_conv split: sum.splits prod.splits)

lemma or_exit_user_manager:
  "or_exit (NewKopiaUserManager env api lib) msg k = or_exit (lib_call lib NewForConfig) msg (\<lambda>_. k (KopiaUserManager env api))"
  unfolding or_exit_def NewKopiaUserManager_def State_Monad.bind_assoc
  by (rule arg_cong [where f = "State_Monad.bind _"]) (auto split: sum.splits)

lemma operator_main_calls:
  "wp (operator_main env api lib fl getenv)
     (makes_calls (startup env api fl getenv) (\<lambda>e. e = Returned) exited s) s"
  unfolding operator_main_def or_exit_user_manager startup_def Let_def KopiaRepository_SetupWithManager_def PVCWatcher_SetupWithManager_def
    backup_controller_def append_Cons append_Nil if_distrib [of "\<lambda>x. x @ _"]
  by (intro or_exit_call or_exit_calls [OF setup_backup_calls, unfolded append_Cons append_Nil])
    (auto intro!: or_exit_call simp del: wp_lib_call)

text \<open>The registered reconcile functions are the steps of the operator.\<close>

lemma registered_steps:
  assumes "Controller_Complete ctl \<in> set (startup env api fl getenv)" "run_state (ctl_Reconciler ctl req) u = (out, u')"
  shows "\<exists>ev. operator_step env api (fl_kopiaImage fl) u ev u'"
proof -
  from assms(1) consider "ctl_Reconciler ctl = KopiaBackup_Reconcile env api (backup_controller env api (fl_kopiaImage fl))"
    | "ctl_Reconciler ctl = KopiaRepository_Reconcile env api (Some (KopiaServerManager env api))"
    | "ctl_Reconciler ctl = PVC_Reconcile env api"
    by (auto simp: startup_def KopiaBackup_controller_def split: if_splits)
  with assms(2) show ?thesis by cases (metis operator_step.intros)+
qed

text \<open>How a process ends: all calls succeed, or one fails, in the initialisation or in \<open>main\<close>, and is the last.\<close>

definition process_ends :: "'w call list \<Rightarrow> 'w call list \<Rightarrow> ('w, 'm) process \<Rightarrow> exit_status \<Rightarrow> ('w, 'm) process \<Rightarrow> bool" where
  "process_ends ini cs s e s' \<longleftrightarrow> (case e of
     Returned \<Rightarrow> pr_calls s' = pr_calls s @ map (\<lambda>c. (c, True)) (ini @ cs)
   | Exited n msg \<Rightarrow> n = 1 \<and> (\<exists>pre c post. cs = pre @ c # post \<and> pr_calls s' = pr_calls s @ map (\<lambda>c. (c, True)) (ini @ pre) @ [(c, False)])
   | Panicked err \<Rightarrow> (\<exists>pre c post. ini = pre @ c # post \<and> pr_calls s' = pr_calls s @ map (\<lambda>c. (c, True)) pre @ [(c, False)]))"

lemma process_ends_Cons:
  "pr_calls t = pr_calls s @ [(c, True)] \<Longrightarrow> process_ends ini cs t e s' \<Longrightarrow> process_ends (c # ini) cs s e s'"
  unfolding process_ends_def by (cases e) (auto, metis append_Cons list.simps(9))

lemma or_panic_ends:
  assumes "\<And>t. wp (k ()) (process_ends ini cs t) t"
  shows "wp (or_panic (lib_call lib c) k) (process_ends (c # ini) cs s) s"
proof (cases "lib c (pr_lib s)")
  case (Pair r m)
  show ?thesis
  proof (cases r)
    case (Inl err)
    with Pair show ?thesis by (force simp: or_panic_def process_ends_def)
  next
    case (Inr u)
    have "wp (k ()) (process_ends (c # ini) cs s) (s\<lparr>pr_lib := m, pr_calls := pr_calls s @ [(c, True)]\<rparr>)"
      by (rule wp_mono [OF assms], erule process_ends_Cons [rotated], simp)
    with Pair Inr show ?thesis by (simp add: or_panic_def)
  qed
qed

lemma operator_process_ends:
  "wp (operator_process env api lib fl getenv) (process_ends initialisation (startup env api fl getenv) s) s"
  unfolding operator_process_def metrics_init_def main_init_def initialisation_def
proof (intro or_panic_ends)
  show "wp (operator_main env api lib fl getenv) (process_ends [] (startup env api fl getenv) t) t" for t
    by (rule wp_mono [OF operator_main_calls]) (auto simp: makes_calls_def exited_def process_ends_def, blast)
qed

text \<open>
  C20: a start of the process first registers the metrics, whose names are distinct, and the types, and then makes the calls
  of \<open>startup\<close>, in this order, up to the first call that fails: a failure of the initialisation is a panic, one of \<open>main\<close>
  an exit with code 1, and otherwise the process ends when the manager does. So the manager is started only
  after both indexers, all three controllers, the two webhooks (unless they are switched off) and both
  health checks are registered. Every kind that a controller or a webhook is registered for is one of client-go's
  or was added to the scheme. What the manager runs for a controller is a step of the operator with
  the image of the flag, and unless HTTP/2 is switched on, the TLS options of both servers leave
  HTTP/1.1 as the only protocol.
\<close>

theorem operator_starts:
  assumes "run_state (operator_process env api lib fl getenv) s = (e, s')"
  shows "process_ends initialisation (startup env api fl getenv) s e s'
    \<and> (\<forall>ms. MustRegister ms \<in> set (initialisation @ startup env api fl getenv) \<longrightarrow> distinct (map (\<lambda>m. (mv_Namespace m, mv_Name m)) ms))
    \<and> (\<forall>c \<in> set (startup env api fl getenv). set (call_kinds c) \<subseteq> set client_go_kinds \<union> set (sb_types SchemeBuilder))
    \<and> (\<forall>ctl req u out u'. Controller_Complete ctl \<in> set (startup env api fl getenv)
         \<and> run_state (ctl_Reconciler ctl req) u = (out, u') \<longrightarrow> (\<exists>ev. operator_step env api (fl_kopiaImage fl) u ev u'))
    \<and> (\<forall>opt c. NewManager opt \<in> set (startup env api fl getenv) \<and> \<not> fl_enableHTTP2 fl \<longrightarrow>
         tls_NextProtos (fold (\<lambda>f. f) (mo_MetricsTLSOpts opt) c) = [''http/1.1'']
         \<and> tls_NextProtos (fold (\<lambda>f. f) (mo_WebhookTLSOpts opt) c) = [''http/1.1''])"
proof (intro conjI)
  show "process_ends initialisation (startup env api fl getenv) s e s'"
    using wpD [OF operator_process_ends assms] .
  show "\<forall>ms. MustRegister ms \<in> set (initialisation @ startup env api fl getenv) \<longrightarrow> distinct (map (\<lambda>m. (mv_Namespace m, mv_Name m)) ms)"
    by (auto simp: startup_def initialisation_def BackupsPerRepository_vec_def LastSuccessfulBackup_vec_def ReconcileErrors_vec_def
      ServerReady_vec_def split: if_splits)
  show "\<forall>c \<in> set (startup env api fl getenv). set (call_kinds c) \<subseteq> set client_go_kinds \<union> set (sb_types SchemeBuilder)"
    by (auto simp: startup_def call_kinds_def client_go_kinds_def KopiaBackup_controller_def SchemeBuilder_def
      KopiaBackup_init_def KopiaRepository_init_def Register_def split: if_splits)
  show "\<forall>ctl req u out u'. Controller_Complete ctl \<in> set (startup env api fl getenv)
         \<and> run_state (ctl_Reconciler ctl req) u = (out, u') \<longrightarrow> (\<exists>ev. operator_step env api (fl_kopiaImage fl) u ev u')"
    using registered_steps by blast
  show "\<forall>opt c. NewManager opt \<in> set (startup env api fl getenv) \<and> \<not> fl_enableHTTP2 fl \<longrightarrow>
         tls_NextProtos (fold (\<lambda>f. f) (mo_MetricsTLSOpts opt) c) = [''http/1.1'']
         \<and> tls_NextProtos (fold (\<lambda>f. f) (mo_WebhookTLSOpts opt) c) = [''http/1.1'']"
    by (auto simp: startup_def manager_options_def tlsOpts_def disableHTTP2_def split: if_splits)
qed

theorem operator_starts_witness:
  "\<exists>s'. run_state (operator_process ref_env mem_api (\<lambda>c m. (Inr (), m)) default_flags (\<lambda>_. [])) \<lparr>pr_lib = (), pr_calls = []\<rparr> = (Returned, s')
     \<and> pr_calls s' = map (\<lambda>c. (c, True)) (initialisation @ startup ref_env mem_api default_flags (\<lambda>_. []))"
proof -
  let ?m = "operator_process ref_env mem_api (\<lambda>c m. (Inr (), m)) default_flags (\<lambda>_. [])"
  obtain e s' where run: "run_state ?m \<lparr>pr_lib = (), pr_calls = []\<rparr> = (e, s')" by (metis prod.exhaust)
  have "fst (run_state ?m \<lparr>pr_lib = (), pr_calls = []\<rparr>) = Returned"
    by (simp add: operator_process_def metrics_init_def main_init_def or_panic_def operator_main_def NewKopiaUserManager_def or_exit_def
        lib_call_def KopiaBackup_SetupWithManager_def KopiaRepository_SetupWithManager_def PVCWatcher_SetupWithManager_def Let_def)
  with run have "e = Returned" by simp
  with operator_starts [OF run] run show ?thesis by (auto simp: process_ends_def)
qed

end
