(* ===== verification/Backup_Watches.thy ===== *)
theory Backup_Watches
  imports Backup_Reconciler
begin

text \<open>
  The watches of the KopiaBackup controller: which backups an event on a claim, a repository or a pod
  queues. The functions and the field indexers that \<open>SetupWithManager\<close> registers are defined in
  \<open>Backup_Reconciler\<close>; the cache behind a list with a field selector is the client library's, and its
  documented behaviour is the contract below.
\<close>

section \<open>The field index\<close>

text \<open>
  A list with a field selector returns the objects of the namespace whose index has the value;
  \<open>objs w\<close> are the KopiaBackups of the cluster, which listing does not change.
\<close>

definition indexed :: "string \<Rightarrow> string \<Rightarrow> KopiaBackup \<Rightarrow> bool" where
  "indexed f v b \<longleftrightarrow> f = pvcNameField \<and> v \<in> set (pvcName_index b)
     \<or> f = repositoryNameField \<and> v \<in> set (repository_index b)"

locale backup_index =
  fixes lst :: "string \<Rightarrow> string \<Rightarrow> string \<Rightarrow> 'w \<Rightarrow> KopiaBackup list result \<times> 'w"
    and objs :: "'w \<Rightarrow> KopiaBackup set"
  assumes list_indexed: "v \<noteq> '''' \<Longrightarrow>
      \<exists>items w'. lst ns f v w = (Inr items, w') \<and> set items = {b \<in> objs w. backup_ns b = ns \<and> indexed f v b}"
    and list_frame: "objs (snd (lst ns f v w)) = objs w"
begin

lemma listE:
  assumes "v \<noteq> ''''"
  obtains items w' where "lst ns f v w = (Inr items, w')" "objs w' = objs w"
    "set items = {b \<in> objs w. backup_ns b = ns \<and> indexed f v b}"
  using list_indexed [OF assms, of ns f w] list_frame [of ns f v w] by auto

end

lemma indexed_simps [simp]:
  "v \<noteq> '''' \<Longrightarrow> indexed pvcNameField v b \<longleftrightarrow> bs_PVCName (kb_spec b) = v"
  "v \<noteq> '''' \<Longrightarrow> indexed repositoryNameField v b \<longleftrightarrow> bs_Repository (kb_spec b) = v"
  by (auto simp: indexed_def pvcName_index_def repository_index_def pvcNameField_def repositoryNameField_def)

interpretation mem_index: backup_index "api_list_KopiaBackups mem_api" "\<lambda>w. set (cl_backups w)"
proof
  show "\<exists>items w'. api_list_KopiaBackups mem_api ns f v w = (Inr items, w')
      \<and> set items = {b \<in> set (cl_backups w). backup_ns b = ns \<and> indexed f v b}" if "v \<noteq> ''''" for v ns f w
    using that by (auto simp: mem_api_def indexed_def pvcName_index_def repository_index_def pvcNameField_def repositoryNameField_def)
qed (simp add: mem_api_def)

section \<open>What an event queues\<close>

lemma findBackupsForField_requests:
  assumes "backup_index (api_list_KopiaBackups api) objs" "om_Name m \<noteq> ''''"
  shows "wp (findBackupsForField api f m) (\<lambda>reqs s'. trace s' = trace s \<and> set reqs
     = (\<lambda>b. key_of (kb_meta b)) ` {b \<in> objs (world s). backup_ns b = om_Namespace m \<and> indexed f (om_Name m) b}) s"
proof -
  obtain items w' where "api_list_KopiaBackups api (om_Namespace m) f (om_Name m) (world s) = (Inr items, w')"
    "set items = {b \<in> objs (world s). backup_ns b = om_Namespace m \<and> indexed f (om_Name m) b}"
    by (rule backup_index.listE [OF assms])
  then show ?thesis by (simp add: findBackupsForField_def key_of_def image_image)
qed

text \<open>The claims that a list of volumes mounts.\<close>

definition claims_of :: "Volume list \<Rightarrow> string set" where
  "claims_of vols = {c. \<exists>v \<in> set vols. vs_PersistentVolumeClaim (v_Source v) = Some c}"

lemma backups_of_volumes_requests:
  assumes "backup_index (api_list_KopiaBackups api) objs" "'''' \<notin> claims_of vols"
  shows "wp (backups_of_volumes api ns vols) (\<lambda>reqs s'. trace s' = trace s \<and> objs (world s') = objs (world s)
     \<and> set reqs = (\<lambda>b. key_of (kb_meta b)) ` {b \<in> objs (world s). backup_ns b = ns \<and> bs_PVCName (kb_spec b) \<in> claims_of vols}) s"
  using assms(2)
proof (induction vols arbitrary: s)
  case (Cons v vols)
  show ?case
  proof (cases "vs_PersistentVolumeClaim (v_Source v)")
    case None
    then have "claims_of (v # vols) = claims_of vols" by (auto simp: claims_of_def)
    with None Cons show ?thesis by simp
  next
    case (Some c)
    then have c: "claims_of (v # vols) = insert c (claims_of vols)" by (auto simp: claims_of_def)
    with Cons.prems have ne: "c \<noteq> ''''" "'''' \<notin> claims_of vols" by auto
    obtain items w' where l: "api_list_KopiaBackups api ns pvcNameField c (world s) = (Inr items, w')"
      "objs w' = objs (world s)" "set items = {b \<in> objs (world s). backup_ns b = ns \<and> indexed pvcNameField c b}"
      by (rule backup_index.listE [OF assms(1) ne(1)])
    have "wp (backups_of_volumes api ns vols) (\<lambda>reqs s'. trace s' = trace s \<and> objs (world s') = objs (world s)
       \<and> set reqs = (\<lambda>b. key_of (kb_meta b)) ` {b \<in> objs (world s). backup_ns b = ns \<and> bs_PVCName (kb_spec b) \<in> claims_of vols})
       (s\<lparr>world := w'\<rparr>)"
      using Cons.IH [OF ne(2), of "s\<lparr>world := w'\<rparr>"] l(2) by simp
    with Some l ne c show ?thesis by (auto simp: key_of_def image_Un elim!: wp_mono)
  qed
qed (simp add: claims_of_def)

lemma mounts_claims_of: "mounts_claim c pod \<longleftrightarrow> c \<in> claims_of (ps_Volumes (pod_spec pod))"
  by (auto simp: mounts_claim_def claims_of_def list_ex_iff)

text \<open>
  A pod that starts to use a claim passes the predicate of the watch.
\<close>

lemma new_consumer_fires:
  assumes "consumer_pod c new" "\<not> consumer_pod c old"
    and "pod_meta old = pod_meta new" "ps_Volumes (pod_spec old) = ps_Volumes (pod_spec new)"
  shows "podRunningPredicate_Update (Some old) (Some new)"
  using assms by (auto simp: podRunningPredicate_Update_def consumer_pod_def mounts_claim_def Let_def)



end
