(* ===== verification/Object_Store.thy ===== *)
theory Object_Store
  imports Ref_Cluster
begin

text \<open>
  The API server as a store of objects of one kind, as a locale over the calls of \<open>K8s_Client\<close>:
  \<open>view w\<close> is the map from keys to the objects stored in the cluster \<open>w\<close>, and \<open>stored x y\<close> relates an
  object that a client sends to what the server may store for it (it fills in defaults and
  metadata). A write that fails may or may not have taken effect, as when its answer is lost. Other
  clients do not write this kind of object during the run that the view describes.

  On top of it, the algorithm that the four create-or-update operations of the operator share, and
  the specification it implements.
\<close>

section \<open>Specification\<close>

text \<open>
  What an operation that ensures one object promises: no other object changes, and after success
  the object exists and is \<open>good\<close>.
\<close>

definition ensure_spec :: "'k \<Rightarrow> ('o \<Rightarrow> bool) \<Rightarrow> ('k \<rightharpoonup> 'o) \<Rightarrow> 'a result \<Rightarrow> ('k \<rightharpoonup> 'o) \<Rightarrow> bool" where
  "ensure_spec k good v r v' \<longleftrightarrow> (\<forall>k'. k' \<noteq> k \<longrightarrow> v' k' = v k')
     \<and> (ok r \<longrightarrow> (\<exists>y. v' k = Some y \<and> good y))"

lemma ensure_specI:
  "v k = Some y \<Longrightarrow> good y \<Longrightarrow> ensure_spec k good v r v"
  "good y \<Longrightarrow> ensure_spec k good v r (v(k \<mapsto> y))"
  "ensure_spec k good v (Inl e) v"
  by (auto simp: ensure_spec_def)

lemma ensure_spec_mono:
  "ensure_spec k good v r v' \<Longrightarrow> (\<And>y. good y \<Longrightarrow> good' y) \<Longrightarrow> ensure_spec k good' v r v'"
  by (auto simp: ensure_spec_def)

lemma ensure_spec_discard [simp]: "ensure_spec k good v (discard r) v' = ensure_spec k good v r v'"
  by (simp add: ensure_spec_def)

section \<open>The shared algorithm\<close>

text \<open>
  Read the object, create it if it is missing, leave it if it is \<open>uptodate\<close>, and otherwise send the
  existing object with the desired parts put in.
\<close>

definition create_or_update :: "(NamespacedName \<Rightarrow> 'w \<Rightarrow> 'o result \<times> 'w) \<Rightarrow> ('o \<Rightarrow> ('w st, 'o result) state)
    \<Rightarrow> ('o \<Rightarrow> ('w st, 'o result) state) \<Rightarrow> (go_error \<Rightarrow> go_error) \<Rightarrow> NamespacedName \<Rightarrow> 'o \<Rightarrow> ('o \<Rightarrow> bool)
    \<Rightarrow> ('o \<Rightarrow> 'o) \<Rightarrow> ('w st, unit result) state" where
  "create_or_update get cre upd wrap k desired uptodate merge = do {
     got \<leftarrow> client_read (get k);
     case got of
       Inl err \<Rightarrow> if IsNotFound err then do { r \<leftarrow> cre desired; ret (discard r) } else ret (Inl (wrap err))
     | Inr existing \<Rightarrow> if uptodate existing then ret (Inr ())
         else do { r \<leftarrow> upd (merge existing); ret (discard r) }
   }"

text \<open>Reading.\<close>

locale object_view =
  fixes meta :: "'o \<Rightarrow> ObjectMeta"
    and get :: "NamespacedName \<Rightarrow> 'w \<Rightarrow> 'o result \<times> 'w"
    and view :: "'w \<Rightarrow> NamespacedName \<rightharpoonup> 'o"
  assumes get_ok: "get k w = (Inr x, w') \<Longrightarrow> view w' = view w \<and> view w k = Some x"
    and get_error: "get k w = (Inl e, w') \<Longrightarrow> view w' = view w \<and> (IsNotFound e \<longrightarrow> view w k = None)"
    and view_key: "view w k = Some x \<Longrightarrow> key_of (meta x) = k"

text \<open>Reading, creating and updating.\<close>

locale object_store = object_view meta get view
    for meta :: "'o \<Rightarrow> ObjectMeta" and get :: "NamespacedName \<Rightarrow> 'w \<Rightarrow> 'o result \<times> 'w"
    and view :: "'w \<Rightarrow> NamespacedName \<rightharpoonup> 'o" +
  fixes create :: "'o \<Rightarrow> 'w \<Rightarrow> 'o result \<times> 'w"
    and update :: "'o \<Rightarrow> 'w \<Rightarrow> 'o result \<times> 'w"
    and stored :: "'o \<Rightarrow> 'o \<Rightarrow> bool"
  assumes create_ok: "create x w = (Inr y, w') \<Longrightarrow> stored x y \<and> view w' = (view w)(key_of (meta x) \<mapsto> y)"
    and create_error: "create x w = (Inl e, w') \<Longrightarrow>
      view w' = view w \<or> (\<exists>y. stored x y \<and> view w' = (view w)(key_of (meta x) \<mapsto> y))"
    and update_ok: "update x w = (Inr y, w') \<Longrightarrow> stored x y \<and> view w' = (view w)(key_of (meta x) \<mapsto> y)"
    and update_error: "update x w = (Inl e, w') \<Longrightarrow>
      view w' = view w \<or> (\<exists>y. stored x y \<and> view w' = (view w)(key_of (meta x) \<mapsto> y))"
begin

lemma write_ensures:
  assumes "\<And>y. stored x y \<Longrightarrow> good y" "key_of (meta x) = k" "call = create \<or> call = update"
  shows "wp (do { r \<leftarrow> client_call a (call x); ret (discard r) })
     (\<lambda>r s'. ensure_spec k good (view (world s)) r (view (world s'))) s"
proof (cases "call x (world s)")
  case (Pair r w)
  have "\<exists>y. good y \<and> view w = (view (world s))(k \<mapsto> y)" if "ok r"
    using that Pair assms create_ok [of x "world s" _ w] update_ok [of x "world s" _ w] by (cases r) auto
  moreover have "view w = view (world s) \<or> (\<exists>y. good y \<and> view w = (view (world s))(k \<mapsto> y))" if "r = Inl e" for e
    using that Pair assms create_error [of x "world s" e w] update_error [of x "world s" e w] by auto
  ultimately show ?thesis using Pair by (cases r) (auto intro: ensure_specI)
qed

theorem create_or_update_refines:
  assumes "key_of (meta desired) = k" "\<And>x. meta (merge x) = meta x"
    and "\<And>y. stored desired y \<Longrightarrow> good y" "\<And>y. uptodate y \<Longrightarrow> good y" "\<And>x y. stored (merge x) y \<Longrightarrow> good y"
  shows "wp (create_or_update get (\<lambda>x. client_call (a x) (create x)) (\<lambda>x. client_call (b x) (update x)) wrap k
      desired uptodate merge) (\<lambda>r s'. ensure_spec k good (view (world s)) r (view (world s'))) s"
proof (cases "get k (world s)")
  case (Pair got w)
  show ?thesis
  proof (cases got)
    case (Inl e)
    with get_error [of k "world s" e w] Pair have v: "view w = view (world s)" by simp
    have "wp (do { r \<leftarrow> client_call (a desired) (create desired); ret (discard r) })
        (\<lambda>r s'. ensure_spec k good (view (world s)) r (view (world s'))) (s\<lparr>world := w\<rparr>)"
      using write_ensures [where s = "s\<lparr>world := w\<rparr>"] assms(1,3) v by fastforce
    with Inl Pair v show ?thesis by (auto simp: create_or_update_def intro: ensure_specI)
  next
    case (Inr x)
    with get_ok [of k "world s" x w] Pair have v: "view w = view (world s)" "view (world s) k = Some x" by simp_all
    have "key_of (meta (merge x)) = k" using view_key [OF v(2)] assms(2) by simp
    then have "wp (do { r \<leftarrow> client_call (b (merge x)) (update (merge x)); ret (discard r) })
        (\<lambda>r s'. ensure_spec k good (view (world s)) r (view (world s'))) (s\<lparr>world := w\<rparr>)"
      using write_ensures [where s = "s\<lparr>world := w\<rparr>"] assms(5) v by fastforce
    with Inr Pair v assms(4) show ?thesis by (auto simp: create_or_update_def intro: ensure_specI)
  qed
qed

end

section \<open>Secrets\<close>

text \<open>
  The store of Secrets, with the calls the user manager makes in between. The server merges
  \<open>stringData\<close> into \<open>data\<close>. A merge patch from \<open>old\<close> to \<open>x\<close> leaves alone what \<open>old\<close> and \<open>x\<close> agree on. A
  deletion takes the Secret away, at once or, when it fails, perhaps. Listing pods, running a
  command in a pod and drawing random bytes change no Secret.
\<close>

locale secret_store = object_view sec_meta "api_get_Secret api" view
    for api :: "'w api" and view :: "'w \<Rightarrow> NamespacedName \<rightharpoonup> Secret" +
  assumes create_ok: "api_create_Secret api x w = (Inr y, w') \<Longrightarrow>
      sec_Data y = sec_Data x ++ sec_StringData x \<and> key_of (sec_meta y) = key_of (sec_meta x)
      \<and> view w' = (view w)(key_of (sec_meta x) \<mapsto> y)"
    and create_error: "api_create_Secret api x w = (Inl e, w') \<Longrightarrow>
      view w' = view w \<or> (\<exists>y. view w' = (view w)(key_of (sec_meta x) \<mapsto> y))"
    and patch: "api_patch_Secret api old x w = (r, w') \<Longrightarrow> view w' = view w \<or>
      (\<exists>cur y. view w (key_of (sec_meta x)) = Some cur \<and> view w' = (view w)(key_of (sec_meta x) \<mapsto> y)
        \<and> (sec_Data x = sec_Data old \<and> sec_StringData x = sec_StringData old \<longrightarrow> sec_Data y = sec_Data cur))"
    and delete: "api_delete_Secret api x w = (d, w') \<Longrightarrow>
      view w' = view w \<or> view w' = (view w)(key_of (sec_meta x) := None)"
    and delete_ok: "api_delete_Secret api x w = (Inr (), w') \<Longrightarrow> view w' = (view w)(key_of (sec_meta x) := None)"
    and executor_frame: "view (snd (api_NewSPDYExecutor api ns pod cont cmd w)) = view w"
    and stream_frame: "view (snd (api_StreamWithContext api tmo ns pod cont cmd w)) = view w"
    and pods_frame: "view (snd (api_list_Pods api ns sel w)) = view w"
    and rand_frame: "view (snd (api_rand_Read api n w)) = view w"

section \<open>The reference cluster\<close>

lemma store_get_key: "store_get meta k xs = Some x \<Longrightarrow> key_of (meta x) = k"
  by (induction xs) (auto split: if_splits)

text \<open>A field of the cluster with its update function, and an update that keeps metadata.\<close>

locale cluster_field =
  fixes meta :: "'o \<Rightarrow> ObjectMeta"
    and fld :: "cluster \<Rightarrow> 'o list"
    and upd :: "('o list \<Rightarrow> 'o list) \<Rightarrow> cluster \<Rightarrow> cluster"
    and merge :: "'o \<Rightarrow> 'o \<Rightarrow> 'o"
  assumes fld_upd: "fld (upd f w) = f (fld w)"
    and merge_meta: "meta (merge old x) = meta x"

sublocale cluster_field \<subseteq> object_store meta "mem_get meta fld" "\<lambda>w k. store_get meta k (fld w)"
    "mem_create meta fld upd" "mem_update meta fld upd merge" "\<lambda>x y. y = x \<or> (\<exists>old. y = merge old x)"
  by unfold_locales (auto simp: mem_get_def mem_create_def mem_update_def not_found_def already_exists_def
      IsNotFound_def fld_upd merge_meta store_get_put fun_eq_iff store_get_key split: option.splits)

interpretation mem_cronjobs: cluster_field cj_meta cl_cronjobs cl_cronjobs_update "\<lambda>old x. x"
  by unfold_locales simp_all

interpretation mem_configmaps: cluster_field cm_meta cl_configmaps cl_configmaps_update "\<lambda>old x. x"
  by unfold_locales simp_all

interpretation mem_deployments: cluster_field dep_meta cl_deployments cl_deployments_update
    "\<lambda>old x. old\<lparr>dep_meta := dep_meta x, dep_spec := dep_spec x\<rparr>"
  by unfold_locales simp_all

lemma store_secret_simps [simp]:
  "sec_meta (store_secret x) = sec_meta x" "sec_Data (store_secret x) = sec_Data x ++ sec_StringData x"
  by (simp_all add: store_secret_def)

interpretation mem_secrets: secret_store mem_api "\<lambda>w k. store_get sec_meta k (cl_secrets w)"
  by unfold_locales (auto simp: mem_get_def mem_create_def mem_update_def mem_delete_def not_found_def already_exists_def
      IsNotFound_def patch_secret_def store_get_put store_get_del fun_eq_iff store_get_key split: option.splits if_splits)

end
