(* ===== verification/Convergence.thy ===== *)
theory Convergence
  imports Object_Store Backup_Reconciler
begin

text \<open>
  The create-or-update operations and \<open>EnsureUser\<close> against the specification \<open>ensure_spec\<close> of the object
  store: what the cluster holds after they succeeded, where the other theories speak about the calls
  they make.
\<close>

section \<open>Create or update\<close>

lemma reconcileCronJob_eq:
  "reconcileCronJob env api img b n p repo =
     (let want = buildCronJob b n p repo img in
      case SetControllerReference env ''KopiaBackup'' (kb_meta b) (cj_meta want) of
        Inl err \<Rightarrow> ret (Inl (WrapError ''failed to set owner reference on CronJob'' err))
      | Inr m \<Rightarrow> create_or_update (api_get_CronJob api) (\<lambda>x. Create_CronJob api x) (\<lambda>x. Update_CronJob api x)
          (WrapError ''failed to get CronJob'') (NamespacedName (backup_ns b) n) (want\<lparr>cj_meta := m\<rparr>)
          (\<lambda>x. DeepEqual_CronJobSpec env (cj_spec x) (merge_CronJobSpec (cj_spec x) (cj_spec want)))
          (\<lambda>x. x\<lparr>cj_spec := merge_CronJobSpec (cj_spec x) (cj_spec want)\<rparr>))"
  by (simp add: reconcileCronJob_def create_or_update_def Let_def cong: sum.case_cong if_cong)

lemma reconcileConfigMap_eq:
  "reconcileConfigMap env api b repo =
     (case buildConfigMap b repo of
        Inl err \<Rightarrow> ret (Inl (WrapError ''failed to build ConfigMap'' err))
      | Inr want \<Rightarrow> (case SetControllerReference env ''KopiaBackup'' (kb_meta b) (cm_meta want) of
          Inl err \<Rightarrow> ret (Inl (WrapError ''failed to set owner reference on ConfigMap'' err))
        | Inr m \<Rightarrow> create_or_update (api_get_ConfigMap api) (\<lambda>x. Create_ConfigMap api x) (\<lambda>x. Update_ConfigMap api x)
            (WrapError ''failed to get ConfigMap'') (NamespacedName (backup_ns b) (ConfigMapName (repo_name repo)))
            (want\<lparr>cm_meta := m\<rparr>)
            (\<lambda>x. map_at (cm_Data x) ''repository.config'' = map_at (cm_Data want) ''repository.config'')
            (\<lambda>x. x\<lparr>cm_Data := cm_Data want\<rparr>)))"
  by (auto simp: reconcileConfigMap_def create_or_update_def Let_def fun_eq_iff split: sum.splits
      intro!: arg_cong [where f = "State_Monad.bind (client_read _)"])

lemma EnsureServerDeployment_eq:
  "EnsureServerDeployment env api repo =
     (let n = ServerDeploymentName (repo_name repo); want = constructServerDeployment repo n in
      case SetControllerReference env ''KopiaRepository'' (kr_meta repo) (dep_meta want) of
        Inl err \<Rightarrow> ret (Inl (WrapError ''failed to set controller reference on Deployment'' err))
      | Inr m \<Rightarrow> create_or_update (api_get_Deployment api) (\<lambda>x. Create_Deployment api x) (\<lambda>x. Update_Deployment api x)
          (WrapError (''failed to get Deployment '' @ n)) (NamespacedName (repo_ns repo) n) (want\<lparr>dep_meta := m\<rparr>)
          (\<lambda>x. DeepEqual_DeploymentSpec env (dep_spec x) (dep_spec want)) (\<lambda>x. x\<lparr>dep_spec := dep_spec want\<rparr>))"
  by (auto simp: EnsureServerDeployment_def create_or_update_def Let_def fun_eq_iff split: sum.splits
      intro!: arg_cong [where f = "State_Monad.bind (client_read _)"])

lemma controlled_key:
  "owner_law env \<Longrightarrow> SetControllerReference env kind owner m = Inr m' \<Longrightarrow> key_of m' = key_of m"
  unfolding owner_law_def key_of_def by (metis ObjectMeta.select_convs(1,2) ObjectMeta.surjective ObjectMeta.update_convs)

text \<open>
  The CronJob in the cluster is good if its spec needs no change, or if it is what the server stores for
  a CronJob whose spec needs no change.
\<close>

definition cronjob_good :: "env \<Rightarrow> (CronJob \<Rightarrow> CronJob \<Rightarrow> bool) \<Rightarrow> CronJobSpec \<Rightarrow> CronJob \<Rightarrow> bool" where
  "cronjob_good env stored want y \<longleftrightarrow> DeepEqual_CronJobSpec env (cj_spec y) (merge_CronJobSpec (cj_spec y) want)
     \<or> (\<exists>x. stored x y \<and> merge_CronJobSpec (cj_spec x) want = cj_spec x)"



text \<open>The Deployment in the cluster is good if its spec is as desired, or if it is what the server stores for that.\<close>

definition deployment_good :: "env \<Rightarrow> (Deployment \<Rightarrow> Deployment \<Rightarrow> bool) \<Rightarrow> DeploymentSpec \<Rightarrow> Deployment \<Rightarrow> bool" where
  "deployment_good env stored want y \<longleftrightarrow> DeepEqual_DeploymentSpec env (dep_spec y) want
     \<or> (\<exists>x. stored x y \<and> dep_spec x = want)"

text \<open>
  C13: \<open>EnsureServerDeployment\<close> refines the specification of a store of Deployments: it changes no Deployment but
  the server's, and after it succeeded that Deployment exists and has the spec constructed from the
  repository.
\<close>

theorem deployment_ensured:
  assumes "owner_law env"
    and "object_store dep_meta (api_get_Deployment api) view (api_create_Deployment api) (api_update_Deployment api) stored"
    and "run_state (EnsureServerDeployment env api repo) s = (r, s')"
  shows "ensure_spec (NamespacedName (repo_ns repo) (ServerDeploymentName (repo_name repo)))
     (deployment_good env stored (dep_spec (constructServerDeployment repo (ServerDeploymentName (repo_name repo)))))
     (view (world s)) r (view (world s'))"
proof -
  let ?n = "ServerDeploymentName (repo_name repo)"
  let ?want = "constructServerDeployment repo ?n" and ?k = "NamespacedName (repo_ns repo) ?n"
  have "wp (EnsureServerDeployment env api repo)
     (\<lambda>r s'. ensure_spec ?k (deployment_good env stored (dep_spec ?want)) (view (world s)) r (view (world s'))) s"
  proof (cases "SetControllerReference env ''KopiaRepository'' (kr_meta repo) (dep_meta ?want)")
    case (Inl e)
    then show ?thesis by (simp add: EnsureServerDeployment_eq ensure_specI)
  next
    case (Inr m)
    have "key_of m = ?k"
      using controlled_key [OF assms(1) Inr] by (simp add: key_of_def constructServerDeployment_def Let_def)
    then show ?thesis
      unfolding EnsureServerDeployment_eq Let_def Inr sum.case
      by (intro object_store.create_or_update_refines [OF assms(2)]) (auto simp: deployment_good_def)
  qed
  from wpD [OF this assms(3)] show ?thesis .
qed

text \<open>
  The ConfigMap of a repository, where the server stores the data as it is sent: afterwards its
  \<open>repository.config\<close> is the one built from the repository.
\<close>

lemma configmap_ensured:
  assumes "owner_law env"
    and "object_store cm_meta (api_get_ConfigMap api) view (api_create_ConfigMap api) (api_update_ConfigMap api) stored"
    and "\<And>x y. stored x y \<Longrightarrow> cm_Data y = cm_Data x" "buildConfigMap b repo = Inr want"
  shows "wp (reconcileConfigMap env api b repo) (\<lambda>r s'. ensure_spec (NamespacedName (backup_ns b) (ConfigMapName (repo_name repo)))
     (\<lambda>y. map_at (cm_Data y) ''repository.config'' = map_at (cm_Data want) ''repository.config'')
     (view (world s)) r (view (world s'))) s"
proof (cases "SetControllerReference env ''KopiaBackup'' (kb_meta b) (cm_meta want)")
  case (Inl e)
  then show ?thesis by (simp add: reconcileConfigMap_eq assms(4) ensure_specI)
next
  case (Inr m)
  have "key_of m = NamespacedName (backup_ns b) (ConfigMapName (repo_name repo))"
    using controlled_key [OF assms(1) Inr] assms(4)
    by (auto simp: key_of_def buildConfigMap_def split: sum.splits if_splits)
  then show ?thesis
    unfolding reconcileConfigMap_eq assms(4) Inr sum.case
    by (intro object_store.create_or_update_refines [OF assms(2)]) (auto dest: assms(3))
qed

lemma ref_EnsureServerDeployment_create:
  assumes "store_get dep_meta (NamespacedName (repo_ns repo) (ServerDeploymentName (repo_name repo))) (cl_deployments (world s)) = None"
  shows "\<exists>s1. run_state (EnsureServerDeployment ref_env mem_api repo) s = (Inr (), s1)"
proof -
  let ?m = "dep_meta (constructServerDeployment repo (ServerDeploymentName (repo_name repo)))"
  have "om_OwnerReferences ?m = []" "om_Name ?m = ServerDeploymentName (repo_name repo)" "om_Namespace ?m = repo_ns repo"
    by (simp_all add: constructServerDeployment_def Let_def zero_ObjectMeta_def)
  with assms show ?thesis
    by (simp add: EnsureServerDeployment_def Let_def client_read_def client_call_def mem_defs IsNotFound_def
        ref_SetControllerReference_def)
qed

theorem deployment_ensured_witness:
  "\<exists>s' y. run_state (EnsureServerDeployment ref_env mem_api example_repo) (start empty_cluster) = (Inr (), s')
     \<and> store_get dep_meta (NamespacedName ''ns'' ''kopia-server-repo'') (cl_deployments (world s')) = Some y
     \<and> dep_spec y = dep_spec (constructServerDeployment example_repo ''kopia-server-repo'')"
proof -
  let ?stored = "\<lambda>x y. y = x \<or> (\<exists>old :: Deployment. y = old\<lparr>dep_meta := dep_meta x, dep_spec := dep_spec x\<rparr>)"
  obtain s' where run: "run_state (EnsureServerDeployment ref_env mem_api example_repo) (start empty_cluster) = (Inr (), s')"
    using ref_EnsureServerDeployment_create [of example_repo "start empty_cluster"]
    by (auto simp: start_def empty_cluster_def)
  have store: "object_store dep_meta (api_get_Deployment mem_api) (\<lambda>w k. store_get dep_meta k (cl_deployments w))
     (api_create_Deployment mem_api) (api_update_Deployment mem_api) ?stored"
    using mem_deployments.object_store_axioms by simp
  have "repo_ns example_repo = ''ns''" "ServerDeploymentName (repo_name example_repo) = ''kopia-server-repo''"
    by (simp_all add: example_repo_def ServerDeploymentName_def)
  with deployment_ensured [OF ref_owner_law store run] run show ?thesis
    by (auto simp: ensure_spec_def deployment_good_def)
qed

section \<open>Credentials\<close>

context secret_store
begin

lemma read_frame: "view (snd (api_get_Secret api k w)) = view w"
  using get_ok [of k w] get_error [of k w]
  by (metis prod.collapse sum.exhaust_sel)

lemma getServerPodName_frame: "wp (getServerPodName api repo) (\<lambda>r s'. view (world s') = view (world s)) s"
  using pods_frame [of "repo_ns repo" "ServerLabels (repo_name repo)" "world s"]
  by (auto simp: getServerPodName_def split: sum.splits prod.splits option.splits)

lemma execInPod_frame: "wp (execInPod api ns pod c cmd) (\<lambda>r s'. view (world s') = view (world s)) s"
proof -
  obtain x w where x: "api_NewSPDYExecutor api ns pod c cmd (world s) = (x, w)" by fastforce
  have "view w = view (world s)" using executor_frame [of ns pod c cmd "world s"] x by simp
  moreover have "view w' = view w" if "api_StreamWithContext api tmo ns pod c cmd w = (l, w')" for tmo l w'
    using stream_frame [of tmo ns pod c cmd w] that by simp
  ultimately show ?thesis using x by (cases x) (auto simp: execInPod_def split: prod.splits)
qed

lemma createUserOnServer_frame: "wp (createUserOnServer api repo u p) (\<lambda>r s'. view (world s') = view (world s)) s"
  unfolding createUserOnServer_def wp_bind
proof (rule wp_mono [OF getServerPodName_frame], goal_cases)
  case (1 g t)
  show ?case
  proof (cases g)
    case (Inl e)
    with 1 show ?thesis by simp
  next
    case (Inr pod)
    then show ?thesis unfolding Inr sum.case wp_bind
      by (intro wp_mono [OF execInPod_frame]) (use 1 in \<open>auto simp: Let_def split: option.splits\<close>)
  qed
qed

lemma generateSecurePassword_frame: "wp (generateSecurePassword api) (\<lambda>r s'. view (world s') = view (world s)) s"
proof -
  have "view w' = view w" if "api_rand_Read api n w = (b, w')" for n w b w'
    using rand_frame [of n w] that by simp
  then show ?thesis by (auto simp: generateSecurePassword_def Let_def split: sum.splits prod.splits)
qed

text \<open>The mark goes into the annotations: the Secret stays, with its data.\<close>

lemma markUserSynced_keeps:
  assumes "key_of (sec_meta secret) = k"
  shows "wp (markUserSynced env api secret u p) (\<lambda>_ s'. view (world s') = view (world s) \<or>
     (\<exists>cur y. view (world s) k = Some cur \<and> view (world s') = (view (world s))(k \<mapsto> y) \<and> sec_Data y = sec_Data cur)) s"
proof -
  have "view w' = view w \<or> (\<exists>cur y. view w k = Some cur \<and> view w' = (view w)(k \<mapsto> y) \<and> sec_Data y = sec_Data cur)"
    if "api_patch_Secret api secret (secret\<lparr>sec_meta := (sec_meta secret)\<lparr>om_Annotations := a\<rparr>\<rparr>) w = (r, w')" for a w r w'
    using patch [OF that] assms by (simp add: key_of_def)
  then show ?thesis by (auto simp: markUserSynced_def Let_def split: prod.splits)
qed

text \<open>A successful mark keeps the credentials readable.\<close>

lemma markUserSynced_ensures:
  assumes "view (world s) k = Some cur" "good (sec_Data cur)" "key_of (sec_meta secret) = k"
    and "\<forall>k'. k' \<noteq> k \<longrightarrow> view (world s) k' = v k'"
  shows "wp (markUserSynced env api secret u p)
     (\<lambda>_ s'. ensure_spec k (\<lambda>y. good (sec_Data y)) v r (view (world s'))) s"
  by (rule wp_mono [OF markUserSynced_keeps [OF assms(3)]]) (use assms in \<open>auto simp: ensure_spec_def\<close>)

lemma register_new_user_ensures:
  assumes "view (world s) k = Some cur" "good (sec_Data cur)" "key_of (sec_meta secret) = k"
    and "\<forall>k'. k' \<noteq> k \<longrightarrow> view (world s) k' = v k'"
  shows "wp (register_new_user env api repo secret u p n)
     (\<lambda>r s'. ensure_spec k (\<lambda>y. good (sec_Data y)) v r (view (world s'))) s"
  unfolding register_new_user_def wp_bind
proof (rule wp_mono [OF createUserOnServer_frame], goal_cases)
  case (1 c t)
  show ?case
  proof (cases c)
    case (Inl e)
    have "view w' = view (world t) \<or> view w' = (view (world t))(k := None)"
      if "api_delete_Secret api secret (world t) = (d, w')" for d w'
      using delete [OF that] assms(3) by simp
    with Inl 1 assms show ?thesis by (fastforce simp: ensure_spec_def split: prod.splits)
  next
    case (Inr x)
    with 1 assms markUserSynced_ensures [of t k cur good secret v env u p "Inr n"] show ?thesis
      by (auto elim: wp_mono)
  qed
qed

lemma ensure_new_user_ensures:
  assumes "owner_law env"
    and good: "\<And>p m. m ''KOPIA_SERVER_USERNAME'' = Some (user_of b repo) \<Longrightarrow> m ''KOPIA_SERVER_PASSWORD'' = Some p \<Longrightarrow> good m"
  shows "wp (ensure_new_user env api b repo)
     (\<lambda>r s'. ensure_spec (user_key b) (\<lambda>y. good (sec_Data y)) (view (world s)) r (view (world s'))) s"
  unfolding ensure_new_user_def Let_def wp_bind
proof (rule wp_mono [OF generateSecurePassword_frame], goal_cases)
  case (1 g t)
  show ?case
  proof (cases g)
    case (Inl e)
    with 1 show ?thesis by (simp add: ensure_specI)
  next
    case (Inr p)
    let ?n = "UserSecretName (backup_ns b) (bs_PVCName (kb_spec b))"
    let ?x = "user_Secret b ?n (user_of b repo) p"
    show ?thesis
    proof (cases "SetControllerReference env ''KopiaBackup'' (kb_meta b) (sec_meta ?x)")
      case (Inl e)
      with 1 Inr show ?thesis by (simp add: ensure_specI)
    next
      case m: (Inr m)
      have k: "key_of m = user_key b"
        using controlled_key [OF assms(1) m] by (simp add: key_of_def user_Secret_def)
      obtain c w where c: "api_create_Secret api (?x\<lparr>sec_meta := m\<rparr>) (world t) = (c, w)" by fastforce
      show ?thesis
      proof (cases c)
        case (Inl e)
        with create_error [OF c [unfolded Inl]] k 1 Inr m c show ?thesis by (auto simp: ensure_spec_def)
      next
        case y: (Inr y)
        note made = create_ok [OF c [unfolded y]]
        have "good (sec_Data y)" using made by (intro good) (auto simp: user_Secret_def)
        with made k 1 have "wp (register_new_user env api repo y (user_of b repo) p ?n)
          (\<lambda>r s'. ensure_spec (user_key b) (\<lambda>y. good (sec_Data y)) (view (world s)) r (view (world s')))
          (t\<lparr>world := w, trace := trace t @ [(ACreateSecret (?x\<lparr>sec_meta := m\<rparr>), True)]\<rparr>)"
          by (intro register_new_user_ensures) auto
        with Inr m c y show ?thesis by simp
      qed
    qed
  qed
qed

lemma ensure_known_user_ensures:
  assumes "view (world s) (user_key b) = Some secret"
    and good: "\<And>u p m. m ''KOPIA_SERVER_USERNAME'' = Some u \<Longrightarrow> m ''KOPIA_SERVER_PASSWORD'' = Some p \<Longrightarrow> good m"
  shows "wp (ensure_known_user env api b repo secret)
     (\<lambda>r s'. ensure_spec (user_key b) (\<lambda>y. good (sec_Data y)) (view (world s)) r (view (world s'))) s"
proof -
  let ?Q = "\<lambda>r s'. ensure_spec (user_key b) (\<lambda>y. good (sec_Data y)) (view (world s)) r (view (world s'))"
  have "wp (createUserOnServer api repo u p) (\<lambda>c. wp (case c of Inl err \<Rightarrow>
         if errors_As_ServerNotReady err then ret (Inl err) else ret (Inl (WrapError ''failed to ensure user on Kopia server'' err))
       | Inr _ \<Rightarrow> do { markUserSynced env api secret u p; ret (Inr n) }) ?Q) s"
    if "good (sec_Data secret)" for u p and n :: string
  proof (rule wp_mono [OF createUserOnServer_frame], goal_cases)
    case (1 c t)
    with that assms(1) view_key [OF assms(1)]
      markUserSynced_ensures [of t "user_key b" secret good secret "view (world s)" env u p "Inr n"]
    show ?case by (cases c) (auto simp: ensure_specI elim: wp_mono)
  qed
  with assms show ?thesis
    by (auto simp: ensure_known_user_def Let_def ensure_specI split: option.splits)
qed

lemma EnsureUser_ensures:
  assumes "owner_law env"
    and good: "\<And>u p m. m ''KOPIA_SERVER_USERNAME'' = Some u \<Longrightarrow> m ''KOPIA_SERVER_PASSWORD'' = Some p \<Longrightarrow> good m"
  shows "wp (EnsureUser env api b repo)
     (\<lambda>r s'. ensure_spec (user_key b) (\<lambda>y. good (sec_Data y)) (view (world s)) r (view (world s'))) s"
proof -
  obtain g w where g: "api_get_Secret api (user_key b) (world s) = (g, w)" by fastforce
  show ?thesis
  proof (cases g)
    case (Inl e)
    with get_error [OF g [unfolded Inl]] g ensure_new_user_ensures [OF assms(1), of b repo good "s\<lparr>world := w\<rparr>"] good
    show ?thesis by (auto simp: EnsureUser_def ensure_specI)
  next
    case (Inr x)
    with get_ok [OF g [unfolded Inr]] g ensure_known_user_ensures [of "s\<lparr>world := w\<rparr>" b x good env repo] good
    show ?thesis by (auto simp: EnsureUser_def)
  qed
qed

end

lemma server_mode_secret_refs:
  assumes "server_enabled repo"
  shows "ev \<in> set (pc_env (backup_pod_config b placement repo)) \<Longrightarrow> ev_SecretKeyRef ev = Some ref \<Longrightarrow>
      NamespacedName (backup_ns b) (sk_Name ref) = user_key b \<and> sk_Key ref = ''KOPIA_SERVER_PASSWORD''"
    and "pc_envFrom (backup_pod_config b placement repo) = [SecretRef (nn_Name (user_key b))]"
  using assms by (auto simp: backup_pod_config_def Let_def buildServerModeConfig_def env_value_def zero_EnvVar_def
      split: if_splits)

text \<open>
  C11: once \<open>EnsureUser\<close> has succeeded, the credentials that the backup's job needs are in the cluster: the one
  Secret that its container imports as a whole has the user's name, every single key that a variable
  of the container takes from a Secret is there, and no Secret but the user's has changed.
\<close>

theorem credentials_available:
  assumes "secret_store api view" "owner_law env" "server_enabled repo"
    and "run_state (EnsureUser env api b repo) s = (Inr n, s')"
  shows "pc_envFrom (backup_pod_config b placement repo) = [SecretRef n]
    \<and> (\<exists>y. view (world s') (NamespacedName (backup_ns b) n) = Some y \<and> ''KOPIA_SERVER_USERNAME'' \<in> dom (sec_Data y))
    \<and> (\<forall>ev \<in> set (pc_env (backup_pod_config b placement repo)). \<forall>ref. ev_SecretKeyRef ev = Some ref \<longrightarrow>
         (\<exists>y. view (world s') (NamespacedName (backup_ns b) (sk_Name ref)) = Some y \<and> sk_Key ref \<in> dom (sec_Data y)))
    \<and> (\<forall>k. k \<noteq> NamespacedName (backup_ns b) n \<longrightarrow> view (world s') k = view (world s) k)"
proof -
  let ?good = "\<lambda>m :: string \<rightharpoonup> string. {''KOPIA_SERVER_USERNAME'', ''KOPIA_SERVER_PASSWORD''} \<subseteq> dom m"
  have "wp (EnsureUser env api b repo)
     (\<lambda>r s'. ensure_spec (user_key b) (\<lambda>y. ?good (sec_Data y)) (view (world s)) r (view (world s'))) s"
    by (rule secret_store.EnsureUser_ensures [OF assms(1,2)]) auto
  from wpD [OF this assms(4)] have "\<forall>k. k \<noteq> user_key b \<longrightarrow> view (world s') k = view (world s) k"
    "\<exists>y. view (world s') (user_key b) = Some y \<and> ?good (sec_Data y)"
    by (simp_all add: ensure_spec_def)
  moreover have "NamespacedName (backup_ns b) n = user_key b"
    using assms(4) kum.ensure_name [unfolded KopiaUserManager_def UserManager.select_convs] by blast
  ultimately show ?thesis
    using server_mode_secret_refs [OF assms(3), where b = b and placement = placement] by fastforce
qed


theorem credentials_available_witness:
  "\<exists>n s' y. run_state (EnsureUser ref_env mem_api example_backup example_repo) (start (server_cluster [])) = (Inr n, s')
     \<and> pc_envFrom (backup_pod_config example_backup zero_podPlacement example_repo) = [SecretRef n]
     \<and> store_get sec_meta (NamespacedName (backup_ns example_backup) n) (cl_secrets (world s')) = Some y
     \<and> ''KOPIA_SERVER_USERNAME'' \<in> dom (sec_Data y)"
proof -
  obtain n s' where run: "run_state (EnsureUser ref_env mem_api example_backup example_repo) (start (server_cluster [])) = (Inr n, s')"
    using ref_EnsureUser_new by blast
  have "server_enabled example_repo" by (simp add: example_repo_def zero_defs)
  from credentials_available [OF mem_secrets.secret_store_axioms ref_owner_law this run] run show ?thesis by blast
qed

end
