(* ===== verification/Progress.thy ===== *)
theory Progress
  imports Convergence
begin

text \<open>
  Progress of the KopiaBackup controller: in a cluster that answers, where the claim, the repository and
  a pod that uses the claim exist, one reconcile brings a backup to its final state. The other
  theories say what the controller does whatever the answers are; this one says that it does get there.
\<close>

section \<open>Computations in a cluster that answers\<close>

text \<open>
  \<open>I\<close> is what stays true of the cluster. A call \<open>answers\<close> if it returns a result as expected and keeps \<open>I\<close>,
  a computation makes \<open>progress\<close> if it does, whatever the trace is.
\<close>

definition answers :: "('w \<Rightarrow> bool) \<Rightarrow> ('w \<Rightarrow> 'a \<times> 'w) \<Rightarrow> ('a \<Rightarrow> bool) \<Rightarrow> bool" where
  "answers I f Q \<longleftrightarrow> (\<forall>w. I w \<longrightarrow> (case f w of (r, w') \<Rightarrow> I w' \<and> Q r))"

definition progress :: "('w \<Rightarrow> bool) \<Rightarrow> ('w st, 'a) state \<Rightarrow> ('a \<Rightarrow> bool) \<Rightarrow> bool" where
  "progress I m Q \<longleftrightarrow> (\<forall>s. I (world s) \<longrightarrow> wp m (\<lambda>a s'. I (world s') \<and> Q a) s)"

lemma answersI: "(\<And>w. I w \<Longrightarrow> I (snd (f w)) \<and> Q (fst (f w))) \<Longrightarrow> answers I f Q"
  by (simp add: answers_def case_prod_beta)

lemma answersD: "answers I f Q \<Longrightarrow> I w \<Longrightarrow> f w = (r, w') \<Longrightarrow> I w' \<and> Q r"
  by (auto simp: answers_def)

lemma ok_iff: "ok r \<longleftrightarrow> (\<exists>v. r = Inr v)"
  by (simp add: ok_def split: sum.splits)

lemma progressD: "progress I m Q \<Longrightarrow> I (world s) \<Longrightarrow> wp m (\<lambda>a s'. I (world s') \<and> Q a) s"
  by (simp add: progress_def)

named_theorems progress_intros \<open>introduction rules of \<open>progress\<close>\<close>

lemma progress_ret [progress_intros]: "Q a \<Longrightarrow> progress I (ret a) Q"
  by (simp add: progress_def)

lemma progress_bind: "progress I m P \<Longrightarrow> (\<And>a. P a \<Longrightarrow> progress I (f a) Q) \<Longrightarrow> progress I (State_Monad.bind m f) Q"
  unfolding progress_def by (fastforce elim: wp_mono)

lemma progress_bind_eq: "progress I m (\<lambda>a. a = v) \<Longrightarrow> progress I (f v) Q \<Longrightarrow> progress I (State_Monad.bind m f) Q"
  by (erule progress_bind) simp

lemma progress_bind_ok: "progress I m ok \<Longrightarrow> (\<And>v. progress I (f (Inr v)) Q) \<Longrightarrow> progress I (State_Monad.bind m f) Q"
  by (erule progress_bind) (auto simp: ok_iff)

lemma progress_read: "answers I f Q \<Longrightarrow> progress I (client_read f) Q"
  by (auto simp: progress_def answers_def split: prod.splits)

lemma progress_call: "answers I f Q \<Longrightarrow> progress I (client_call a f) Q"
  by (auto simp: progress_def answers_def split: prod.splits)

text \<open>
  An object that can be read and then written: it is found or missing, and the server accepts to create it
  if it was missing and to update it if it was found.
\<close>

definition accepted :: "('w \<Rightarrow> bool) \<Rightarrow> ('w \<Rightarrow> 'a result \<times> 'w) \<Rightarrow> 'w \<Rightarrow> bool" where
  "accepted I f w \<longleftrightarrow> (case f w of (r, w') \<Rightarrow> I w' \<and> ok r)"

definition writable :: "('w \<Rightarrow> bool) \<Rightarrow> ('o \<Rightarrow> ObjectMeta) \<Rightarrow> (NamespacedName \<Rightarrow> 'w \<Rightarrow> 'o result \<times> 'w)
    \<Rightarrow> ('o \<Rightarrow> 'w \<Rightarrow> 'o result \<times> 'w) \<Rightarrow> ('o \<Rightarrow> 'w \<Rightarrow> 'o result \<times> 'w) \<Rightarrow> NamespacedName \<Rightarrow> bool" where
  "writable I meta get create update k \<longleftrightarrow> (\<forall>w. I w \<longrightarrow> (case get k w of (g, w') \<Rightarrow> I w' \<and> (case g of
       Inl e \<Rightarrow> IsNotFound e \<and> (\<forall>x. key_of (meta x) = k \<longrightarrow> accepted I (create x) w')
     | Inr y \<Rightarrow> \<forall>x. meta x = meta y \<longrightarrow> accepted I (update x) w')))"

lemma create_or_update_progress:
  assumes "writable I meta get create update k" "key_of (meta desired) = k" "\<And>x. meta (merge x) = meta x"
  shows "progress I (create_or_update get (\<lambda>x. client_call (a x) (create x)) (\<lambda>x. client_call (c x) (update x)) wrap k
    desired uptodate merge) ok"
  unfolding progress_def
proof (intro allI impI)
  fix s :: "'a st" assume "I (world s)"
  obtain g w where g: "get k (world s) = (g, w)" by fastforce
  with assms(1) \<open>I (world s)\<close> have "I w" "case g of
       Inl e \<Rightarrow> IsNotFound e \<and> (\<forall>x. key_of (meta x) = k \<longrightarrow> accepted I (create x) w)
     | Inr y \<Rightarrow> \<forall>x. meta x = meta y \<longrightarrow> accepted I (update x) w"
    unfolding writable_def by (auto split: prod.splits)
  with g assms(2,3) show "wp (create_or_update get (\<lambda>x. client_call (a x) (create x)) (\<lambda>x. client_call (c x) (update x)) wrap k
      desired uptodate merge) (\<lambda>r s'. I (world s') \<and> ok r) s"
    by (cases g) (auto simp: create_or_update_def accepted_def split: prod.splits)
qed

section \<open>A cluster that answers\<close>

text \<open>
  What a backup of the given claim and repository needs: its reads find the objects (the CronJob and the
  ConfigMap may be missing), a pod that uses the claim runs on a node, writes are accepted, and in server
  mode the user manager succeeds. The answer to an update has the spec that was sent.
\<close>

definition same_backup :: "KopiaBackup \<Rightarrow> KopiaBackup \<Rightarrow> bool" where
  "same_backup b x \<longleftrightarrow> key_of (kb_meta x) = key_of (kb_meta b) \<and> bs_PVCName (kb_spec x) = bs_PVCName (kb_spec b)
     \<and> bs_Repository (kb_spec x) = bs_Repository (kb_spec b) \<and> bs_Suspend (kb_spec x) = bs_Suspend (kb_spec b)"

text \<open>
  The final state: the CronJob is up to date, the node is known, and Ready is true unless the backup is
  suspended, all for the current generation.
\<close>

definition ready_status :: "KopiaBackup \<Rightarrow> KopiaBackup \<Rightarrow> bool" where
  "ready_status b x \<longleftrightarrow> same_backup b x \<and> bst_NodeName (kb_status x) \<noteq> ''''
     \<and> bst_CronJobName (kb_status x) = CronJobName (bs_PVCName (kb_spec b))
     \<and> backup_condition x ''CronJobCreated'' = Some (ConditionTrue, ''Reconciled'', om_Generation (kb_meta x))
     \<and> backup_condition x ''Ready'' = Some (if bs_Suspend (kb_spec b)
         then (ConditionFalse, ''Suspended'', om_Generation (kb_meta x))
         else (ConditionTrue, ''Reconciled'', om_Generation (kb_meta x)))"

locale responsive =
  fixes env :: env and api :: "'w api" and r :: "'w KopiaBackupReconciler" and I :: "'w \<Rightarrow> bool"
    and b :: KopiaBackup and repo :: KopiaRepository
  assumes claim: "bs_PVCName (kb_spec b) \<noteq> ''''"
      "answers I (api_get_PVC api (NamespacedName (backup_ns b) (bs_PVCName (kb_spec b)))) ok"
    and repository: "answers I (api_get_KopiaRepository api (NamespacedName (backup_ns b) (bs_Repository (kb_spec b)))) (\<lambda>x. x = Inr repo)"
    and pods: "answers I (api_list_Pods api (backup_ns b) Map.empty) (\<lambda>l. \<exists>pods. l = Inr pods
      \<and> (\<exists>pod \<in> set pods. consumer_pod (bs_PVCName (kb_spec b)) pod)
      \<and> (\<forall>pod \<in> set pods. consumer_pod (bs_PVCName (kb_spec b)) pod \<longrightarrow> ps_NodeName (pod_spec pod) \<noteq> ''''))"
    and cronjob: "writable I cj_meta (api_get_CronJob api) (api_create_CronJob api) (api_update_CronJob api)
      (NamespacedName (backup_ns b) (CronJobName (bs_PVCName (kb_spec b))))"
    and configmap: "writable I cm_meta (api_get_ConfigMap api) (api_create_ConfigMap api) (api_update_ConfigMap api)
      (NamespacedName (backup_ns b) (ConfigMapName (repo_name repo)))"
    and backups: "same_backup b x \<Longrightarrow> answers I (api_update_KopiaBackup api x) (\<lambda>u. \<exists>y. u = Inr y \<and> kb_spec y = kb_spec x
      \<and> key_of (kb_meta y) = key_of (kb_meta x))" "same_backup b x \<Longrightarrow> answers I (api_status_KopiaBackup api x) ok"
    and owner: "om_OwnerReferences m = [] \<Longrightarrow> \<exists>m'. SetControllerReference env kind ref m = Inr m' \<and> key_of m' = key_of m"
    and user: "server_enabled repo \<Longrightarrow> \<exists>um. br_UserManager r = Some um \<and> (\<forall>x. same_backup b x \<longrightarrow> progress I (um_EnsureUser um x repo) ok)"
begin

abbreviation "same \<equiv> same_backup b"

lemma same_simps: "same x \<Longrightarrow> backup_ns x = backup_ns b" "same x \<Longrightarrow> bs_PVCName (kb_spec x) = bs_PVCName (kb_spec b)"
  "same x \<Longrightarrow> bs_Repository (kb_spec x) = bs_Repository (kb_spec b)" "same x \<Longrightarrow> bs_Suspend (kb_spec x) = bs_Suspend (kb_spec b)"
  by (simp_all add: same_backup_def key_of_def)

lemma validate_progress:
  assumes "same x"
  shows "progress I (validateDependencies env api x) (\<lambda>p. p = (x, Some repo))"
proof -
  have pvc: "progress I (getRelatedPVC env api x) ok"
    unfolding getRelatedPVC_def using same_simps [OF assms] claim
    by (auto intro!: progress_bind [OF progress_read] progress_intros split: sum.splits)
  have rep: "progress I (getKopiaRepository env api (bs_Repository (kb_spec x)) (backup_ns x)) (\<lambda>g. g = Inr repo)"
    unfolding getKopiaRepository_def using same_simps [OF assms]
    by (auto intro!: progress_bind [OF progress_read [OF repository]] progress_intros)
  show ?thesis
    unfolding validateDependencies_def
    by (rule progress_bind_ok [OF pvc], unfold sum.case, rule progress_bind_eq [OF rep], unfold sum.case,
        rule progress_ret, rule refl)
qed

lemma credentials_progress:
  assumes "same x" "server_enabled repo"
  shows "progress I (reconcileServerCredentials env api r x repo) (\<lambda>(y, stop). same y \<and> stop = None)"
proof -
  obtain um where um: "br_UserManager r = Some um" "progress I (um_EnsureUser um x repo) ok"
    using user [OF assms(2)] assms(1) by blast
  let ?store = "\<lambda>n. if bs_UserCredentialsSecret (kb_spec x) \<noteq> n then do {
        let backup = x\<lparr>kb_spec := (kb_spec x)\<lparr>bs_UserCredentialsSecret := n\<rparr>\<rparr>;
        u \<leftarrow> Update_KopiaBackup api backup;
        case u of
          Inl err \<Rightarrow> ret (backup, Some (no_requeue, Some (WrapError ''failed to persist UserCredentialsSecret'' err)))
        | Inr backup \<Rightarrow> ret (backup, None)
      } else ret (x, None)"
  have store: "progress I (?store n) (\<lambda>(y, stop). same y \<and> stop = None)" for n
    using assms(1) by (auto simp: Let_def same_backup_def intro!: progress_bind [OF progress_call [OF backups(1)]] progress_intros)
  show ?thesis
    unfolding reconcileServerCredentials_def um(1) option.case
  proof (rule progress_bind [OF um(2)])
    fix e :: "string result" assume "ok e"
    then obtain n where e: "e = Inr n" by (auto simp: ok_iff)
    show "progress I (case e of Inl err \<Rightarrow>
           if errors_As_ServerNotReady err then ret (x, Some (requeue_after requeueDelay, None))
           else ret (x, Some (no_requeue, Some (WrapError ''failed to ensure user'' err)))
       | Inr secretName \<Rightarrow> ?store secretName \<bind> (\<lambda>(backup, stop). case stop of
           None \<Rightarrow> ret (backup\<lparr>kb_status := (kb_status backup)\<lparr>
               bst_ServerURL := sm_GetServerURL (br_ServerManager r) repo,
               bst_Username := backup_ns backup @ ''-'' @ bs_PVCName (kb_spec backup) @ ''@'' @ rs_Hostname (kr_spec repo),
               bst_Connected := True\<rparr>\<rparr>, None)
         | Some out \<Rightarrow> ret (backup, Some out))) (\<lambda>(y, stop). same y \<and> stop = None)"
      unfolding e sum.case by (rule progress_bind [OF store]) (auto simp: same_backup_def intro!: progress_intros)
  qed
qed

lemma configmap_progress:
  assumes "same x" "rs_StorageType (kr_spec repo) = StorageTypeFilesystem"
  shows "progress I (reconcileConfigMap env api x repo) ok"
proof -
  obtain want where want: "buildConfigMap x repo = Inr want" "om_OwnerReferences (cm_meta want) = []"
    "key_of (cm_meta want) = NamespacedName (backup_ns x) (ConfigMapName (repo_name repo))"
    using assms(2) by (simp add: buildConfigMap_def Let_def zero_ObjectMeta_def key_of_def)
  obtain m where m: "SetControllerReference env ''KopiaBackup'' (kb_meta x) (cm_meta want) = Inr m" "key_of m = key_of (cm_meta want)"
    using owner [OF want(2)] by blast
  show ?thesis
    unfolding reconcileConfigMap_eq want(1) sum.case m(1)
    by (intro create_or_update_progress [where meta = cm_meta]) (use configmap same_simps [OF assms(1)] m want in simp_all)
qed

lemma cronjob_progress:
  assumes "same x"
  shows "progress I (reconcileCronJob env api img x (CronJobName (bs_PVCName (kb_spec x))) p repo) ok"
proof -
  let ?n = "CronJobName (bs_PVCName (kb_spec x))"
  let ?want = "buildCronJob x ?n p repo img"
  have want: "om_OwnerReferences (cj_meta ?want) = []" "key_of (cj_meta ?want) = NamespacedName (backup_ns x) ?n"
    by (simp_all add: buildCronJob_def zero_ObjectMeta_def key_of_def)
  obtain m where m: "SetControllerReference env ''KopiaBackup'' (kb_meta x) (cj_meta ?want) = Inr m" "key_of m = key_of (cj_meta ?want)"
    using owner [OF want(1)] by blast
  show ?thesis
    unfolding reconcileCronJob_eq Let_def m(1) sum.case
    by (intro create_or_update_progress [where meta = cj_meta]) (use cronjob same_simps [OF assms] m want in simp_all)
qed

lemma pod_progress:
  assumes "same x"
  shows "progress I (findPodUsingPVC api x) (\<lambda>p. pp_NodeName p \<noteq> '''')"
proof -
  let ?c = "bs_PVCName (kb_spec b)"
  note same = same_simps [OF assms]
  show ?thesis
    unfolding findPodUsingPVC_def same
  proof (rule progress_bind [OF progress_read [OF pods]])
    fix l :: "Pod list result"
    assume "\<exists>ps. l = Inr ps \<and> (\<exists>pod \<in> set ps. consumer_pod ?c pod)
      \<and> (\<forall>pod \<in> set ps. consumer_pod ?c pod \<longrightarrow> ps_NodeName (pod_spec pod) \<noteq> '''')"
    then obtain ps where ps: "l = Inr ps" "\<exists>pod \<in> set ps. consumer_pod ?c pod"
      "\<forall>pod \<in> set ps. consumer_pod ?c pod \<longrightarrow> ps_NodeName (pod_spec pod) \<noteq> ''''" by blast
    then obtain pod where pod: "List.find (consumer_pod ?c) ps = Some pod"
      by (metis find_None_iff option.exhaust)
    then have "pod \<in> set ps" "consumer_pod ?c pod" by (auto simp: find_Some_iff)
    with ps(3) have "ps_NodeName (pod_spec pod) \<noteq> ''''" by blast
    then show "progress I (case l of Inl err \<Rightarrow> ret zero_podPlacement
       | Inr pods \<Rightarrow> (case List.find (consumer_pod ?c) pods of
         None \<Rightarrow> ret zero_podPlacement
       | Some pod \<Rightarrow> ret \<lparr>pp_NodeName = ps_NodeName (pod_spec pod),
           pp_AppName = map_at (om_Labels (pod_meta pod)) ''app.kubernetes.io/name'',
           pp_PodName = om_Name (pod_meta pod), pp_Tolerations = ps_Tolerations (pod_spec pod)\<rparr>))
       (\<lambda>p. pp_NodeName p \<noteq> '''')"
      unfolding ps(1) sum.case pod option.case by (intro progress_ret) simp
  qed
qed

lemma resources_progress:
  assumes "same x" "set_condition_law env"
  shows "progress I (reconcileBackupResources env api r x repo) (\<lambda>(y, out). ready_status b y \<and> out = (no_requeue, None))"
  unfolding reconcileBackupResources_def
proof (rule progress_bind [OF pod_progress [OF assms(1)]], unfold Let_def, goal_cases)
  case (1 p)
  let ?x = "x\<lparr>kb_status := (kb_status x)\<lparr>bst_NodeName := pp_NodeName p, bst_CronJobName := CronJobName (bs_PVCName (kb_spec x))\<rparr>\<rparr>"
  have "same ?x" using assms(1) by (simp add: same_backup_def)
  note cron = cronjob_progress [OF this, simplified]
  from 1 assms(1) show ?case
    by (intro progress_bind_ok [OF cron]) (auto intro!: progress_intros simp: ready_status_def same_backup_def
        backup_condition_set [OF assms(2)] backup_condition_consts)
qed

lemma configure_progress:
  assumes "same x" "set_condition_law env"
  shows "progress I (configure_backup env api r x repo) (\<lambda>(y, out). ready_status b y \<and> out = (no_requeue, None))"
  unfolding configure_backup_def
  by (rule progress_bind_ok, simp add: configmap_progress [OF assms(1)] progress_ret, unfold sum.case, rule resources_progress [OF assms])

lemma phases_progress:
  assumes "same x" "set_condition_law env"
  shows "progress I (backup_phases env api r x) (\<lambda>(y, out). ready_status b y \<and> out = (no_requeue, None))"
proof -
  have "progress I (if server_enabled repo then reconcileServerCredentials env api r x repo else ret (x, None))
     (\<lambda>(y, stop). same y \<and> stop = None)"
    using credentials_progress [OF assms(1)] assms(1) by (simp add: progress_ret)
  then have "progress I ((if server_enabled repo then reconcileServerCredentials env api r x repo else ret (x, None))
     \<bind> (\<lambda>(y, stop). case stop of None \<Rightarrow> configure_backup env api r y repo | Some out \<Rightarrow> ret (y, out)))
     (\<lambda>(y, out). ready_status b y \<and> out = (no_requeue, None))"
    by (rule progress_bind) (use configure_progress [OF _ assms(2)] in auto)
  then show ?thesis
    unfolding backup_phases_def by (intro progress_bind_eq [OF validate_progress [OF assms(1)]]) simp
qed

lemma finalizer_progress:
  assumes "time_IsZero (om_DeletionTimestamp (kb_meta b))"
  shows "progress I (handleFinalizer env api r b) (\<lambda>(y, stop). same y \<and> stop = None)"
  using assms unfolding handleFinalizer_def Let_def
  by (auto intro!: progress_bind [OF progress_call [OF backups(1)]] progress_intros simp: same_backup_def key_of_def)

lemma reconcile_progress:
  assumes "time_IsZero (om_DeletionTimestamp (kb_meta b))" "set_condition_law env"
    and get: "api_get_KopiaBackup api req (world s) = (Inr b, w)" "I w"
  shows "wp (backup_reconcile env api r req) (\<lambda>out s'. out = (no_requeue, None) \<and> I (world s')
     \<and> (\<exists>y. ready_status b y \<and> (\<exists>t. trace s' = t @ [(AStatusUpdateKopiaBackup y, True)]))) s"
proof -
  let ?Q = "\<lambda>out s'. out = (no_requeue, None) \<and> I (world s')
     \<and> (\<exists>y. ready_status b y \<and> (\<exists>t. trace s' = t @ [(AStatusUpdateKopiaBackup y, True)]))"
  have status: "wp (deferred_status (\<lambda>b. Status_Update_KopiaBackup api b) y out) ?Q u"
    if "I (world u)" "ready_status b y" "out = (no_requeue, None)" for y out u
    using that backups(2) [of y] unfolding ready_status_def
    by (fastforce simp: deferred_status_def answers_def ok_iff split: prod.splits)
  have phases: "wp (backup_phases env api r y) (\<lambda>p. wp (case p of (x, out) \<Rightarrow> deferred_status (\<lambda>b. Status_Update_KopiaBackup api b) x out) ?Q) u"
    if "I (world u)" "same y" for y u
    by (rule wp_mono [OF progressD [OF phases_progress [OF that(2) assms(2)] that(1)]]) (auto intro!: status)
  have fin: "wp (handleFinalizer env api r b) (\<lambda>(y, stop) s'. I (world s') \<and> same y \<and> stop = None) u" if "I (world u)" for u
    by (rule wp_mono [OF progressD [OF finalizer_progress [OF assms(1)] that]]) auto
  from get fin [of "s\<lparr>world := w\<rparr>"] show ?thesis
    unfolding backup_reconcile_def
    by (auto elim!: wp_mono intro!: phases split: prod.splits)
qed

end


section \<open>Examples\<close>

definition direct_repo :: KopiaRepository where
  "direct_repo = example_repo\<lparr>kr_spec := (kr_spec example_repo)\<lparr>rs_Server := zero_KopiaServerSpec\<rparr>\<rparr>"

definition ready_cluster :: "cluster \<Rightarrow> bool" where
  "ready_cluster w \<longleftrightarrow> store_get pvc_meta (NamespacedName ''ns'' ''data'') (cl_pvcs w) \<noteq> None
     \<and> store_get kr_meta (NamespacedName ''ns'' ''repo'') (cl_repositories w) = Some direct_repo
     \<and> cl_pods w = [app_pod] \<and> store_get kb_meta (NamespacedName ''ns'' ''data'') (cl_backups w) \<noteq> None"

lemma example_backup_names:
  "backup_ns example_backup = ''ns''" "bs_PVCName (kb_spec example_backup) = ''data''"
  "bs_Repository (kb_spec example_backup) = ''repo''" "key_of (kb_meta example_backup) = NamespacedName ''ns'' ''data''"
  by (simp_all add: example_backup_def key_of_def zero_defs)

lemma mem_writable:
  assumes "\<And>f w. fld (upd f w) = f (fld w)" "\<And>f w. I (upd f w) = I w"
  shows "writable I meta (mem_get meta fld) (mem_create meta fld upd) (mem_update meta fld upd (\<lambda>old x. x)) k"
proof -
  have "key_of (meta y) = k" if "store_get meta k (fld w) = Some y" for y w using store_get_key [OF that] .
  with assms show ?thesis
    by (auto simp: writable_def accepted_def mem_get_def mem_create_def mem_update_def not_found_def IsNotFound_def split: option.splits)
qed

interpretation mem_responsive: responsive ref_env mem_api "backup_controller ref_env mem_api ''img''" ready_cluster example_backup direct_repo
proof
  show "writable ready_cluster cj_meta (api_get_CronJob mem_api) (api_create_CronJob mem_api) (api_update_CronJob mem_api) k" for k
    unfolding mem_api_simps by (rule mem_writable) (simp_all add: ready_cluster_def)
  show "writable ready_cluster cm_meta (api_get_ConfigMap mem_api) (api_create_ConfigMap mem_api) (api_update_ConfigMap mem_api) k" for k
    unfolding mem_api_simps by (rule mem_writable) (simp_all add: ready_cluster_def)
  show "\<exists>m'. SetControllerReference ref_env kind ref m = Inr m' \<and> key_of m' = key_of m" if "om_OwnerReferences m = []" for m kind ref
    using that by (simp add: ref_SetControllerReference_def key_of_def)
  show "server_enabled direct_repo \<Longrightarrow> P" for P by (simp add: direct_repo_def zero_defs)
qed (auto intro!: answersI simp: example_backup_names ready_cluster_def mem_get_def mem_update_def same_backup_def store_get_put
    labels_match_def consumer_pod_def mounts_claim_def app_pod_def zero_defs CronJobPrefix_def strings_HasPrefix_def)

definition ready_example :: cluster where
  "ready_example = empty_cluster\<lparr>cl_pvcs := [example_pvc None], cl_repositories := [direct_repo], cl_pods := [app_pod],
     cl_backups := [example_backup]\<rparr>"


end
