(* ===== verification/Steady_State.thy ===== *)
theory Steady_State
  imports Progress
begin

text \<open>
  The control loop of a backup comes to rest: once the objects of a backup are as the controller wants them, a
  reconcile changes nothing but the status, and the next one changes nothing at all. What is sent is
  stated exactly; an update of the CronJob that is sent has no effect on the CronJob that is stored, since
  the server fills in the defaults that the builder leaves out.
\<close>

section \<open>Computations with known effects\<close>

text \<open>While \<open>I\<close> holds of the cluster, \<open>m\<close> makes exactly the calls \<open>l\<close>, keeps \<open>I\<close> and returns a value with \<open>Q\<close>.\<close>

definition settles :: "('w \<Rightarrow> bool) \<Rightarrow> ('w st, 'a) state \<Rightarrow> entry list \<Rightarrow> ('a \<Rightarrow> bool) \<Rightarrow> bool" where
  "settles I m l Q \<longleftrightarrow> (\<forall>s. I (world s) \<longrightarrow> wp m (\<lambda>a s'. I (world s') \<and> trace s' = trace s @ l \<and> Q a) s)"

lemma settlesD: "settles I m l Q \<Longrightarrow> I (world s) \<Longrightarrow> wp m (\<lambda>a s'. I (world s') \<and> trace s' = trace s @ l \<and> Q a) s"
  by (simp add: settles_def)

lemma settles_mono: "settles I m l P \<Longrightarrow> (\<And>a. P a \<Longrightarrow> Q a) \<Longrightarrow> settles I m l Q"
  unfolding settles_def by (fastforce elim: wp_mono)

lemma settles_ret: "Q a \<Longrightarrow> settles I (ret a) [] Q"
  by (simp add: settles_def)

lemma settles_bind: "settles I m l P \<Longrightarrow> (\<And>a. P a \<Longrightarrow> settles I (f a) l' Q) \<Longrightarrow> settles I (State_Monad.bind m f) (l @ l') Q"
  unfolding settles_def by (fastforce elim: wp_mono)

lemma settles_bind_eq: "settles I m l (\<lambda>a. a = v) \<Longrightarrow> settles I (f v) l' Q \<Longrightarrow> settles I (State_Monad.bind m f) (l @ l') Q"
  by (erule settles_bind) simp

lemma settles_bind_ok: "settles I m l ok \<Longrightarrow> (\<And>v. settles I (f (Inr v)) l' Q) \<Longrightarrow> settles I (State_Monad.bind m f) (l @ l') Q"
  by (erule settles_bind) (auto simp: ok_iff)

lemma settles_read: "answers I f Q \<Longrightarrow> settles I (client_read f) [] Q"
  by (auto simp: settles_def answers_def split: prod.splits)

lemma settles_call: "answers I f ok \<Longrightarrow> settles I (client_call a f) [(a, True)] ok"
  by (auto simp: settles_def answers_def split: prod.splits)

lemma settles_write: "answers I f ok \<Longrightarrow> settles I (do { r \<leftarrow> client_call a f; ret (discard r) }) [(a, True)] (\<lambda>c. c = Inr ())"
  by (rule settles_bind_ok [OF settles_call, where l' = "[]", unfolded append_Nil2]) (simp_all add: settles_ret)

lemma settles_emit: "settles I (emit a) [(a, True)] (\<lambda>_. True)"
  by (simp add: settles_def)

lemmas quiet_bind = settles_bind [where l = "[]", simplified]
lemmas quiet_bind_eq = settles_bind_eq [where l = "[]", simplified]
lemmas quiet_bind_ok = settles_bind_ok [where l = "[]", simplified]

section \<open>The status a reconcile computes\<close>

text \<open>What \<open>findPodUsingPVC\<close> makes of a list of pods.\<close>

definition placement_of :: "string \<Rightarrow> Pod list \<Rightarrow> podPlacement" where
  "placement_of claim pods = (case List.find (consumer_pod claim) pods of
     None \<Rightarrow> zero_podPlacement
   | Some pod \<Rightarrow> \<lparr>pp_NodeName = ps_NodeName (pod_spec pod),
       pp_AppName = map_at (om_Labels (pod_meta pod)) ''app.kubernetes.io/name'',
       pp_PodName = om_Name (pod_meta pod), pp_Tolerations = ps_Tolerations (pod_spec pod)\<rparr>)"

text \<open>
  Status, reason and message of the Ready condition, and the backup that \<open>reconcileBackupResources\<close> leaves in memory
  once the CronJob is up to date.
\<close>

definition verdict :: "podPlacement \<Rightarrow> bool \<Rightarrow> ConditionStatus \<times> string \<times> string" where
  "verdict p suspended =
     (if pp_NodeName p = '''' then (ConditionFalse, ReasonNoPodFound, ''No running pod found with the PVC mounted'')
      else if suspended then (ConditionFalse, ReasonSuspended, ''Backup is suspended'')
      else (ConditionTrue, ReasonReconciled, ''Backup active on node '' @ pp_NodeName p @ '' (pod '' @ pp_PodName p @ '')''))"

definition finish :: "env \<Rightarrow> podPlacement \<Rightarrow> KopiaBackup \<Rightarrow> KopiaBackup" where
  "finish env p b =
     (let n = CronJobName (bs_PVCName (kb_spec b)); (st, rs, m) = verdict p (bs_Suspend (kb_spec b)) in
      setCondition env
        (setCondition env (b\<lparr>kb_status := (kb_status b)\<lparr>bst_NodeName := pp_NodeName p, bst_CronJobName := n\<rparr>\<rparr>)
           ConditionTypeCronJobCreated ConditionTrue ReasonReconciled (''CronJob '' @ fmt_q (isPrint_table env) n @ '' is up to date''))
        ConditionTypeReady st rs m)"

definition finish_outcome :: "podPlacement \<Rightarrow> outcome" where
  "finish_outcome p = (if pp_NodeName p = '''' then (requeue_after noPodRequeueDelay, None) else (no_requeue, None))"

text \<open>\<open>meta.SetStatusCondition\<close> leaves a condition alone that is already as given.\<close>

definition set_condition_same :: "env \<Rightarrow> bool" where
  "set_condition_same e \<longleftrightarrow> (\<forall>cs c. find_condition cs (co_Type c) = Some c \<longrightarrow> SetStatusCondition e cs c = cs)"

lemma finish_simps [simp]:
  "kb_meta (finish env p b) = kb_meta b" "kb_spec (finish env p b) = kb_spec b"
  "bst_NodeName (kb_status (finish env p b)) = pp_NodeName p"
  "bst_CronJobName (kb_status (finish env p b)) = CronJobName (bs_PVCName (kb_spec b))"
  by (simp_all add: finish_def Let_def split: prod.splits)

text \<open>Computing the status again changes nothing.\<close>

lemma setCondition_same:
  assumes "set_condition_same env" "find_condition (bst_Conditions (kb_status b)) t
     = Some \<lparr>co_Type = t, co_Status = st, co_Reason = rs, co_Message = m, co_ObservedGeneration = om_Generation (kb_meta b)\<rparr>"
  shows "setCondition env b t st rs m = b"
  using assms by (simp add: setCondition_def set_condition_same_def)

lemma find_setCondition:
  "set_condition_law env \<Longrightarrow> find_condition (bst_Conditions (kb_status (setCondition env b t st rs m))) t'
     = (if t' = t then Some \<lparr>co_Type = t, co_Status = st, co_Reason = rs, co_Message = m,
          co_ObservedGeneration = om_Generation (kb_meta b)\<rparr> else find_condition (bst_Conditions (kb_status b)) t')"
  by (simp add: setCondition_def set_condition_law_def)

lemma status_same:
  "bst_NodeName (kb_status b) = n \<Longrightarrow> bst_CronJobName (kb_status b) = c
     \<Longrightarrow> b\<lparr>kb_status := (kb_status b)\<lparr>bst_NodeName := n, bst_CronJobName := c\<rparr>\<rparr> = b"
  by (cases b; cases "kb_status b") simp

lemma finish_again:
  assumes "set_condition_law env" "set_condition_same env"
  shows "finish env p (finish env p b) = finish env p b"
proof -
  let ?b = "finish env p b" and ?n = "CronJobName (bs_PVCName (kb_spec b))"
  obtain st rs m where v: "verdict p (bs_Suspend (kb_spec b)) = (st, rs, m)" by (metis prod.exhaust)
  have "setCondition env ?b ConditionTypeCronJobCreated ConditionTrue ReasonReconciled
      (''CronJob '' @ fmt_q (isPrint_table env) ?n @ '' is up to date'') = ?b"
    and "setCondition env ?b ConditionTypeReady st rs m = ?b"
    by (rule setCondition_same [OF assms(2)];
        simp add: finish_def [of env p b] Let_def v find_setCondition [OF assms(1)] backup_condition_consts)+
  then show ?thesis
    by (subst finish_def) (simp only: Let_def finish_simps status_same v prod.case)
qed

text \<open>The status fields of a backup in server mode, and the whole status.\<close>

definition connect :: "'w KopiaBackupReconciler \<Rightarrow> KopiaRepository \<Rightarrow> KopiaBackup \<Rightarrow> KopiaBackup" where
  "connect r repo b = (if server_enabled repo then b\<lparr>kb_status := (kb_status b)\<lparr>
       bst_ServerURL := sm_GetServerURL (br_ServerManager r) repo,
       bst_Username := backup_ns b @ ''-'' @ bs_PVCName (kb_spec b) @ ''@'' @ rs_Hostname (kr_spec repo),
       bst_Connected := True\<rparr>\<rparr> else b)"

definition final :: "env \<Rightarrow> 'w KopiaBackupReconciler \<Rightarrow> KopiaRepository \<Rightarrow> podPlacement \<Rightarrow> KopiaBackup \<Rightarrow> KopiaBackup" where
  "final env r repo p b = finish env p (connect r repo b)"

lemma connect_simps [simp]: "kb_meta (connect r repo b) = kb_meta b" "kb_spec (connect r repo b) = kb_spec b"
  "connect r repo (connect r repo b) = connect r repo b"
  by (simp_all add: connect_def)

lemma connect_finish: "connect r repo (finish env p b) = finish env p (connect r repo b)"
  by (simp add: connect_def finish_def setCondition_def Let_def split: prod.splits)

lemma final_simps [simp]: "kb_meta (final env r repo p b) = kb_meta b" "kb_spec (final env r repo p b) = kb_spec b"
  by (simp_all add: final_def)

lemma final_again:
  "set_condition_law env \<Longrightarrow> set_condition_same env \<Longrightarrow> final env r repo p (final env r repo p b) = final env r repo p b"
  by (simp add: final_def connect_finish finish_again)

text \<open>The builders do not look at the status.\<close>

lemma builder_status:
  assumes "kb_meta x = kb_meta b" "kb_spec x = kb_spec b"
  shows "buildCronJob x n p repo img = buildCronJob b n p repo img" "buildConfigMap x repo = buildConfigMap b repo"
  unfolding buildCronJob_def backup_pod_spec_def backup_pod_config_def buildServerModeConfig_def backup_mountPath_def
    backup_labels_def buildBackupCommand_def buildConfigMap_def assms by (rule refl)+

section \<open>A cluster at rest\<close>

text \<open>
  What the objects of a backup look like when there is nothing left to do: the backup lives and has its finalizer,
  the CronJob stored is what the server makes of the one that the controller would send (\<open>dflt\<close>
  fills in what the builder leaves out), and an update that amounts to it is accepted; the ConfigMap of a backup in direct mode has
  the configuration, and in server mode the user is known and the backup names its Secret. Nothing is
  said about the status.
\<close>

locale settled =
  fixes env :: env and api :: "'w api" and r :: "'w KopiaBackupReconciler" and I :: "'w \<Rightarrow> bool"
    and b :: KopiaBackup and repo :: KopiaRepository and pods :: "Pod list" and cj :: CronJob
    and dflt :: "CronJobSpec \<Rightarrow> CronJobSpec"
  assumes live: "time_IsZero (om_DeletionTimestamp (kb_meta b))" "ContainsFinalizer env (om_Finalizers (kb_meta b)) finalizerName"
    and claim: "bs_PVCName (kb_spec b) \<noteq> ''''"
      "answers I (api_get_PVC api (NamespacedName (backup_ns b) (bs_PVCName (kb_spec b)))) ok"
    and repository: "answers I (api_get_KopiaRepository api (NamespacedName (backup_ns b) (bs_Repository (kb_spec b)))) (\<lambda>x. x = Inr repo)"
    and listed: "answers I (api_list_Pods api (backup_ns b) Map.empty) (\<lambda>l. l = Inr pods)"
    and cronjob: "answers I (api_get_CronJob api (NamespacedName (backup_ns b) (CronJobName (bs_PVCName (kb_spec b))))) (\<lambda>g. g = Inr cj)"
      "dflt (merge_CronJobSpec (cj_spec cj) (cj_spec (buildCronJob b (CronJobName (bs_PVCName (kb_spec b)))
         (placement_of (bs_PVCName (kb_spec b)) pods) repo (kopiaImage r)))) = cj_spec cj"
      "cj_meta x = cj_meta cj \<Longrightarrow> dflt (cj_spec x) = cj_spec cj \<Longrightarrow> answers I (api_update_CronJob api x) ok"
    and configmap: "\<not> server_enabled repo \<Longrightarrow> rs_StorageType (kr_spec repo) = StorageTypeFilesystem \<Longrightarrow>
      answers I (api_get_ConfigMap api (NamespacedName (backup_ns b) (ConfigMapName (repo_name repo))))
        (\<lambda>g. \<exists>y want. g = Inr y \<and> buildConfigMap b repo = Inr want
           \<and> map_at (cm_Data y) ''repository.config'' = map_at (cm_Data want) ''repository.config'')"
    and owner: "om_OwnerReferences m = [] \<Longrightarrow> ok (SetControllerReference env kind (kb_meta b) m)"
    and user: "server_enabled repo \<Longrightarrow> \<exists>um. br_UserManager r = Some um
      \<and> (\<forall>x. kb_meta x = kb_meta b \<longrightarrow> kb_spec x = kb_spec b
         \<longrightarrow> settles I (um_EnsureUser um x repo) [] (\<lambda>e. e = Inr (bs_UserCredentialsSecret (kb_spec b))))"
begin

abbreviation "place \<equiv> placement_of (bs_PVCName (kb_spec b)) pods"

abbreviation "sent \<equiv> cj\<lparr>cj_spec := merge_CronJobSpec (cj_spec cj) (cj_spec (buildCronJob b (CronJobName (bs_PVCName (kb_spec b)))
  place repo (kopiaImage r)))\<rparr>"

abbreviation "calls \<equiv> if DeepEqual_CronJobSpec env (cj_spec cj) (cj_spec sent) then [] else [(AUpdateCronJob sent, True)]"

lemma finalizer_quiet: "kb_meta x = kb_meta b \<Longrightarrow> handleFinalizer env api r x = ret (x, None)"
  using live by (simp add: handleFinalizer_def)

lemma validate_quiet:
  assumes same: "kb_meta x = kb_meta b" "kb_spec x = kb_spec b"
  shows "settles I (validateDependencies env api x) [] (\<lambda>p. p = (x, Some repo))"
proof -
  have pvc: "settles I (getRelatedPVC env api x) [] ok"
    unfolding getRelatedPVC_def using claim same
    by (auto intro!: quiet_bind [OF settles_read] settles_ret split: sum.splits)
  have rep: "settles I (getKopiaRepository env api (bs_Repository (kb_spec x)) (backup_ns x)) [] (\<lambda>g. g = Inr repo)"
    unfolding getKopiaRepository_def same by (rule quiet_bind_eq [OF settles_read [OF repository]]) (simp add: settles_ret)
  show ?thesis
    unfolding validateDependencies_def
    by (rule quiet_bind_ok [OF pvc], unfold sum.case, rule quiet_bind_eq [OF rep], unfold sum.case, rule settles_ret, rule refl)
qed

lemma credentials_quiet:
  assumes same: "kb_meta x = kb_meta b" "kb_spec x = kb_spec b" and server: "server_enabled repo"
  shows "settles I (reconcileServerCredentials env api r x repo) [] (\<lambda>p. p = (connect r repo x, None))"
proof -
  obtain um where um: "br_UserManager r = Some um"
    "settles I (um_EnsureUser um x repo) [] (\<lambda>e. e = Inr (bs_UserCredentialsSecret (kb_spec x)))"
    using user [OF server] same by metis
  show ?thesis
    unfolding reconcileServerCredentials_def um(1) option.case
    by (rule quiet_bind_eq [OF um(2)]) (simp add: connect_def server settles_ret)
qed

lemma configmap_quiet:
  assumes same: "kb_meta x = kb_meta b" "kb_spec x = kb_spec b"
    and direct: "\<not> server_enabled repo" "rs_StorageType (kr_spec repo) = StorageTypeFilesystem"
  shows "settles I (reconcileConfigMap env api x repo) [] (\<lambda>c. c = Inr ())"
proof -
  obtain want where want: "buildConfigMap b repo = Inr want" "om_OwnerReferences (cm_meta want) = []"
    using direct(2) by (simp add: buildConfigMap_def Let_def zero_ObjectMeta_def)
  obtain m where m: "SetControllerReference env ''KopiaBackup'' (kb_meta b) (cm_meta want) = Inr m"
    using owner [OF want(2)] by (auto simp: ok_iff)
  show ?thesis
    unfolding reconcileConfigMap_def builder_status(2) [OF same] want(1) sum.case same m Let_def
    by (rule quiet_bind [OF settles_read [OF configmap [OF direct]]]) (auto simp: want(1) settles_ret)
qed

lemma cronjob_settles:
  assumes same: "kb_meta x = kb_meta b" "kb_spec x = kb_spec b"
  shows "settles I (reconcileCronJob env api (kopiaImage r) x (CronJobName (bs_PVCName (kb_spec b))) place repo) calls (\<lambda>c. c = Inr ())"
proof -
  let ?want = "buildCronJob b (CronJobName (bs_PVCName (kb_spec b))) place repo (kopiaImage r)"
  have "om_OwnerReferences (cj_meta ?want) = []" by (simp add: buildCronJob_def zero_ObjectMeta_def)
  then obtain m where m: "SetControllerReference env ''KopiaBackup'' (kb_meta b) (cj_meta ?want) = Inr m"
    using owner by (auto simp: ok_iff)
  have "answers I (api_update_CronJob api sent) ok" by (rule cronjob(3)) (simp_all add: cronjob(2))
  note update = settles_write [OF this]
  show ?thesis
    unfolding reconcileCronJob_def builder_status(1) [OF same] Let_def same m sum.case
    by (rule quiet_bind_eq [OF settles_read [OF cronjob(1)]]) (simp add: settles_ret update)
qed

lemma resources_settle:
  assumes same: "kb_meta x = kb_meta b" "kb_spec x = kb_spec b"
  shows "settles I (reconcileBackupResources env api r x repo) calls (\<lambda>p. p = (finish env place x, finish_outcome place))"
proof -
  have pod: "settles I (findPodUsingPVC api x) [] (\<lambda>p. p = place)"
    unfolding findPodUsingPVC_def same
    by (rule quiet_bind_eq [OF settles_read [OF listed]]) (auto simp: placement_of_def settles_ret split: option.splits)
  let ?x = "x\<lparr>kb_status := (kb_status x)\<lparr>bst_NodeName := pp_NodeName place, bst_CronJobName := CronJobName (bs_PVCName (kb_spec b))\<rparr>\<rparr>"
  have "kb_meta ?x = kb_meta b" "kb_spec ?x = kb_spec b" using same by simp_all
  note cron = cronjob_settles [OF this]
  show ?thesis
    unfolding reconcileBackupResources_def Let_def same
    by (rule quiet_bind_eq [OF pod], rule settles_bind_eq [OF cron, where l' = "[]", unfolded append_Nil2])
      (simp add: settles_ret finish_def finish_outcome_def verdict_def same Let_def)
qed

lemma configure_settles:
  assumes same: "kb_meta x = kb_meta b" "kb_spec x = kb_spec b"
  shows "settles I (configure_backup env api r x repo) calls (\<lambda>p. p = (finish env place x, finish_outcome place))"
proof -
  have "settles I (if \<not> server_enabled repo \<and> rs_StorageType (kr_spec repo) = StorageTypeFilesystem
      then reconcileConfigMap env api x repo else ret (Inr ())) [] (\<lambda>c. c = Inr ())"
    using configmap_quiet [OF same] by (simp add: settles_ret)
  then show ?thesis
    unfolding configure_backup_def by (rule quiet_bind_eq) (use resources_settle [OF same] in simp)
qed

lemma phases_settle:
  assumes same: "kb_meta x = kb_meta b" "kb_spec x = kb_spec b"
  shows "settles I (backup_phases env api r x) calls (\<lambda>p. p = (final env r repo place x, finish_outcome place))"
proof -
  have "settles I (if server_enabled repo then reconcileServerCredentials env api r x repo else ret (x, None)) []
     (\<lambda>p. p = (connect r repo x, None))"
    using credentials_quiet [OF same] by (simp add: settles_ret connect_def)
  then have "settles I ((if server_enabled repo then reconcileServerCredentials env api r x repo else ret (x, None))
     \<bind> (\<lambda>(y, stop). case stop of None \<Rightarrow> configure_backup env api r y repo | Some out \<Rightarrow> ret (y, out))) calls
     (\<lambda>p. p = (final env r repo place x, finish_outcome place))"
    by (rule quiet_bind_eq) (use configure_settles [of "connect r repo x"] same in \<open>simp add: final_def\<close>)
  then show ?thesis
    unfolding backup_phases_def by (intro quiet_bind_eq [OF validate_quiet [OF same]]) simp
qed

lemma reconcile_settles:
  assumes same: "kb_meta x = kb_meta b" "kb_spec x = kb_spec b"
    and get: "api_get_KopiaBackup api req (world s) = (Inr x, w)" "I w"
  shows "wp (backup_reconcile env api r req) (\<lambda>out s'. fst out = fst (finish_outcome place)
     \<and> (\<exists>g. trace s' = trace s @ calls @ [(AStatusUpdateKopiaBackup (final env r repo place x), g)] \<and> (snd out = None \<longleftrightarrow> g))) s"
proof -
  let ?Q = "\<lambda>out s'. fst out = fst (finish_outcome place)
     \<and> (\<exists>g. trace s' = trace s @ calls @ [(AStatusUpdateKopiaBackup (final env r repo place x), g)] \<and> (snd out = None \<longleftrightarrow> g))"
  have status: "wp (deferred_status (\<lambda>b. Status_Update_KopiaBackup api b) (final env r repo place x) (finish_outcome place)) ?Q u"
    if "trace u = trace s @ calls" for u
    using that by (auto simp: deferred_status_def finish_outcome_def ok_def split: prod.splits sum.splits)
  have "wp (backup_phases env api r x) (\<lambda>p. wp (case p of (y, out) \<Rightarrow> deferred_status (\<lambda>b. Status_Update_KopiaBackup api b) y out) ?Q)
      (s\<lparr>world := w\<rparr>)"
  proof (rule wp_mono [OF settlesD [OF phases_settle [OF same]]])
    show "I (world (s\<lparr>world := w\<rparr>))" using get(2) by simp
    fix p and u :: "'w st" assume "I (world u) \<and> trace u = trace (s\<lparr>world := w\<rparr>) @ calls \<and> p = (final env r repo place x, finish_outcome place)"
    then have u: "trace u = trace s @ calls" and p: "p = (final env r repo place x, finish_outcome place)" by simp_all
    show "wp (case p of (y, out) \<Rightarrow> deferred_status (\<lambda>b. Status_Update_KopiaBackup api b) y out) ?Q u"
      unfolding p prod.case by (rule status [OF u])
  qed
  with get(1) show ?thesis unfolding backup_reconcile_def by (simp add: finalizer_quiet [OF same(1)])
qed

end

text \<open>A user whose Secret carries the mark of its credentials needs no call to the server.\<close>

lemma EnsureUser_settles:
  assumes "answers I (api_get_Secret api (user_key x)) (\<lambda>g. g = Inr secret)"
    and "sec_Data secret ''KOPIA_SERVER_USERNAME'' = Some u" "sec_Data secret ''KOPIA_SERVER_PASSWORD'' = Some pw"
    and "map_at (om_Annotations (sec_meta secret)) ''backup.cloudinfra.be/user-synced'' = credentialsFingerprint env u pw"
  shows "settles I (EnsureUser env api x repo) [] (\<lambda>e. e = Inr (UserSecretName (backup_ns x) (bs_PVCName (kb_spec x))))"
  unfolding EnsureUser_def
  by (rule quiet_bind_eq [OF settles_read [OF assms(1)]])
    (simp add: ensure_known_user_def Let_def UserSyncedAnnotation_def settles_ret assms)

text \<open>
  C14: the control loop comes to rest. In a cluster where the objects of a backup are as the controller wants them,
  a reconcile changes no object but the status, whatever the status was, in direct mode and in server
  mode: it sends the CronJob that is stored already, up to the server's defaults, or nothing if the two
  are deeply equal, and then the status. The next reconcile, which reads the status that was written,
  makes the same calls, writes that same status again, and asks for the same repetition; it asks for
  one only while no running pod uses the claim.
\<close>

theorem backup_comes_to_rest:
  assumes "settled env api r I b repo pods cj dflt" "set_condition_law env" "set_condition_same env"
    and "api_get_KopiaBackup api req (world s) = (Inr b, w)" "I w"
    and "run_state (backup_reconcile env api r req) s = (out, s')"
    and "last (trace s') = (AStatusUpdateKopiaBackup y, g)"
    and "api_get_KopiaBackup api req (world t) = (Inr y, v)" "I v"
    and "run_state (backup_reconcile env api r req) t = (out2, t')"
  shows "kb_meta y = kb_meta b \<and> kb_spec y = kb_spec b \<and> fst out2 = fst out
    \<and> (fst out = no_requeue \<longleftrightarrow> bst_NodeName (kb_status y) \<noteq> '''')
    \<and> (\<exists>h x calls. cj_meta x = cj_meta cj \<and> dflt (cj_spec x) = cj_spec cj
         \<and> calls = (if DeepEqual_CronJobSpec env (cj_spec cj) (cj_spec x) then [] else [(AUpdateCronJob x, True)])
         \<and> trace s' = trace s @ calls @ [(AStatusUpdateKopiaBackup y, g)]
         \<and> trace t' = trace t @ calls @ [(AStatusUpdateKopiaBackup y, h)])"
proof -
  let ?p = "placement_of (bs_PVCName (kb_spec b)) pods"
  let ?x = "cj\<lparr>cj_spec := merge_CronJobSpec (cj_spec cj) (cj_spec (buildCronJob b (CronJobName (bs_PVCName (kb_spec b))) ?p repo (kopiaImage r)))\<rparr>"
  define calls where "calls = (if DeepEqual_CronJobSpec env (cj_spec cj) (cj_spec ?x) then [] else [(AUpdateCronJob ?x, True)])"
  note settles = wpD [OF settled.reconcile_settles [OF assms(1)], folded calls_def]
  have y: "trace s' = trace s @ calls @ [(AStatusUpdateKopiaBackup y, g)]" "y = final env r repo ?p b" "fst out = fst (finish_outcome ?p)"
    using settles [OF refl refl assms(4,5,6)] assms(7) by auto
  have again: "final env r repo ?p y = y" "bst_NodeName (kb_status y) = pp_NodeName ?p" "kb_meta y = kb_meta b" "kb_spec y = kb_spec b"
    using final_again [OF assms(2,3)] y(2) by (simp_all add: final_def)
  obtain h where "trace t' = trace t @ calls @ [(AStatusUpdateKopiaBackup y, h)]" "fst out2 = fst (finish_outcome ?p)"
    using settles [OF again(3,4) assms(8,9,10)] again(1) by auto
  moreover have "dflt (cj_spec ?x) = cj_spec cj" "cj_meta ?x = cj_meta cj"
    using settled.cronjob(2) [OF assms(1)] by simp_all
  moreover have "requeue_after noPodRequeueDelay \<noteq> no_requeue"
    by (simp add: noPodRequeueDelay_def no_requeue_def requeue_after_def time_Minute_def time_Second_def)
  then have "fst (finish_outcome ?p) = no_requeue \<longleftrightarrow> pp_NodeName ?p \<noteq> ''''" by (simp add: finish_outcome_def)
  ultimately show ?thesis using y again calls_def by metis
qed

section \<open>An example at rest\<close>

text \<open>
  A backup in server mode, in a cluster that fills in a default of the pod specification when it stores a CronJob.
  The CronJob is sent on every reconcile, and never changes.
\<close>

definition fill_defaults :: "CronJobSpec \<Rightarrow> CronJobSpec" where
  "fill_defaults c = (let t = cjs_JobTemplate c; p = js_Template (jt_spec t) in
     c\<lparr>cjs_JobTemplate := t\<lparr>jt_spec := (jt_spec t)\<lparr>js_Template := p\<lparr>pt_spec := (pt_spec p)\<lparr>ps_Rest := ''dnsPolicy: ClusterFirst''\<rparr>\<rparr>\<rparr>\<rparr>\<rparr>)"

definition defaulting_api :: "cluster api" where
  "defaulting_api = mem_api\<lparr>
     api_create_CronJob := (\<lambda>x. api_create_CronJob mem_api (x\<lparr>cj_spec := fill_defaults (cj_spec x)\<rparr>)),
     api_update_CronJob := (\<lambda>x. api_update_CronJob mem_api (x\<lparr>cj_spec := fill_defaults (cj_spec x)\<rparr>))\<rparr>"

abbreviation example_controller :: "cluster KopiaBackupReconciler" where
  "example_controller \<equiv> backup_controller ref_env defaulting_api ''img''"

definition settled_backup :: KopiaBackup where
  "settled_backup = example_backup\<lparr>kb_meta := (kb_meta example_backup)\<lparr>om_Finalizers := [finalizerName]\<rparr>,
     kb_spec := (kb_spec example_backup)\<lparr>bs_UserCredentialsSecret := ''kopia-backup-user-ns-data''\<rparr>\<rparr>"

definition wanted_cronjob :: CronJob where
  "wanted_cronjob = buildCronJob settled_backup (CronJobName ''data'') (placement_of ''data'' [app_pod]) example_repo ''img''"

definition settled_cronjob :: CronJob where
  "settled_cronjob = wanted_cronjob\<lparr>cj_spec := fill_defaults (cj_spec wanted_cronjob)\<rparr>"

definition settled_cluster :: "cluster \<Rightarrow> bool" where
  "settled_cluster w \<longleftrightarrow> store_get pvc_meta example_req (cl_pvcs w) \<noteq> None
     \<and> store_get kr_meta (NamespacedName ''ns'' ''repo'') (cl_repositories w) = Some example_repo
     \<and> store_get sec_meta (NamespacedName ''ns'' ''kopia-backup-user-ns-data'') (cl_secrets w) = Some synced_secret
     \<and> cl_pods w = [app_pod] \<and> cl_cronjobs w = [settled_cronjob]"

lemma settled_backup_simps:
  "backup_ns settled_backup = ''ns''" "bs_PVCName (kb_spec settled_backup) = ''data''"
  "bs_Repository (kb_spec settled_backup) = ''repo''" "key_of (kb_meta settled_backup) = example_req"
  "time_IsZero (om_DeletionTimestamp (kb_meta settled_backup))" "om_Finalizers (kb_meta settled_backup) = [finalizerName]"
  "bs_UserCredentialsSecret (kb_spec settled_backup) = ''kopia-backup-user-ns-data''"
  by (simp_all add: settled_backup_def example_backup_def key_of_def zero_defs time_IsZero_def)

lemma fill_merge: "fill_defaults (merge_CronJobSpec (fill_defaults d) d) = fill_defaults d"
  by (simp add: fill_defaults_def merge_CronJobSpec_def Let_def)

lemma wanted_sent: "merge_CronJobSpec (cj_spec settled_cronjob) (cj_spec wanted_cronjob) = cj_spec wanted_cronjob"
  "cj_spec settled_cronjob \<noteq> cj_spec wanted_cronjob"
proof -
  have "ps_Rest (pt_spec (js_Template (jt_spec (cjs_JobTemplate (cj_spec wanted_cronjob))))) = ''''"
    by (simp add: wanted_cronjob_def buildCronJob_def backup_pod_spec_def Let_def zero_PodSpec_def)
  moreover have "ps_Rest (pt_spec (js_Template (jt_spec (cjs_JobTemplate (cj_spec settled_cronjob))))) \<noteq> ''''"
    by (simp add: settled_cronjob_def fill_defaults_def Let_def)
  ultimately show "cj_spec settled_cronjob \<noteq> cj_spec wanted_cronjob" by auto
qed (simp add: settled_cronjob_def fill_defaults_def merge_CronJobSpec_def Let_def)

lemma settled_cronjob_key: "key_of (cj_meta settled_cronjob) = NamespacedName ''ns'' (CronJobName ''data'')"
  by (simp add: settled_cronjob_def wanted_cronjob_def buildCronJob_def settled_backup_simps key_of_def)

lemma ref_set_condition_same: "set_condition_same ref_env"
proof -
  have "find_condition cs (co_Type c) = Some c \<Longrightarrow> ref_SetStatusCondition cs c = cs" for cs c
    by (induction cs) (auto simp: find_condition_def split: if_splits)
  then show ?thesis by (simp add: set_condition_same_def)
qed

lemma example_controller_simps:
  "kopiaImage example_controller = ''img''" "br_UserManager example_controller = Some (KopiaUserManager ref_env defaulting_api)"
  by (simp_all add: kopiaImage_def backup_controller_def)

lemma defaulting_user:
  assumes "kb_meta x = kb_meta settled_backup" "kb_spec x = kb_spec settled_backup"
  shows "settles settled_cluster (EnsureUser ref_env defaulting_api x example_repo) [] (\<lambda>e. e = Inr ''kopia-backup-user-ns-data'')"
proof -
  have name: "UserSecretName (backup_ns x) (bs_PVCName (kb_spec x)) = ''kopia-backup-user-ns-data''"
    "user_key x = NamespacedName ''ns'' ''kopia-backup-user-ns-data''"
    using assms by (simp_all add: settled_backup_simps UserSecretName_def)
  have "answers settled_cluster (api_get_Secret defaulting_api (user_key x)) (\<lambda>g. g = Inr synced_secret)"
    unfolding name(2) by (rule answersI) (simp add: settled_cluster_def defaulting_api_def mem_get_def)
  from EnsureUser_settles [OF this, of "''u''" "''p''"] show ?thesis unfolding name(1) by simp
qed

interpretation example_settled: settled ref_env defaulting_api example_controller settled_cluster settled_backup
  example_repo "[app_pod]" settled_cronjob fill_defaults
proof
  show "server_enabled example_repo \<Longrightarrow> \<exists>um. br_UserManager example_controller = Some um
      \<and> (\<forall>x. kb_meta x = kb_meta settled_backup \<longrightarrow> kb_spec x = kb_spec settled_backup
         \<longrightarrow> settles settled_cluster (um_EnsureUser um x example_repo) [] (\<lambda>e. e = Inr (bs_UserCredentialsSecret (kb_spec settled_backup))))"
    using defaulting_user by (simp add: example_controller_simps KopiaUserManager_def settled_backup_simps)
  show "answers settled_cluster (api_update_CronJob defaulting_api x) ok"
    if "cj_meta x = cj_meta settled_cronjob" "fill_defaults (cj_spec x) = cj_spec settled_cronjob" for x
  proof -
    have x: "x\<lparr>cj_spec := fill_defaults (cj_spec x)\<rparr> = settled_cronjob" using that by simp
    show ?thesis
      by (rule answersI) (simp add: settled_cluster_def defaulting_api_def mem_update_def settled_cronjob_key x ok_def)
  qed
  show "fill_defaults (merge_CronJobSpec (cj_spec settled_cronjob) (cj_spec (buildCronJob settled_backup
      (CronJobName (bs_PVCName (kb_spec settled_backup))) (placement_of (bs_PVCName (kb_spec settled_backup)) [app_pod])
      example_repo (kopiaImage example_controller)))) = cj_spec settled_cronjob"
    unfolding settled_backup_simps example_controller_simps wanted_cronjob_def [symmetric] wanted_sent by (simp add: settled_cronjob_def)
  show "\<not> server_enabled example_repo \<Longrightarrow> P" for P by (simp add: example_repo_def zero_defs)
  show "ok (SetControllerReference ref_env kind (kb_meta settled_backup) m)" if "om_OwnerReferences m = []" for m kind
    using that by (simp add: ref_SetControllerReference_def ok_def)
  have "om_Namespace (pod_meta app_pod) = ''ns''" "om_Labels (pod_meta app_pod) = None"
    by (simp_all add: app_pod_def zero_ObjectMeta_def)
  then show "answers settled_cluster (api_list_Pods defaulting_api (backup_ns settled_backup) Map.empty) (\<lambda>l. l = Inr [app_pod])"
    by (auto intro!: answersI simp: settled_backup_simps settled_cluster_def defaulting_api_def labels_match_def)
qed (auto intro!: answersI simp: settled_backup_simps settled_cluster_def defaulting_api_def mem_get_def ok_def settled_cronjob_key)

definition settled_example :: "KopiaBackup \<Rightarrow> cluster" where
  "settled_example b = empty_cluster\<lparr>cl_pvcs := [example_pvc None], cl_repositories := [example_repo], cl_pods := [app_pod],
     cl_secrets := [synced_secret], cl_cronjobs := [settled_cronjob], cl_backups := [b]\<rparr>"

lemma settled_example_simps:
  assumes "kb_meta b = kb_meta settled_backup"
  shows "settled_cluster (settled_example b)"
    "api_get_KopiaBackup defaulting_api example_req (world (start (settled_example b))) = (Inr b, settled_example b)"
  using assms settled_backup_simps(4)
  by (simp_all add: settled_cluster_def settled_example_def start_def defaulting_api_def mem_get_def)
    (simp add: example_pvc_def example_repo_def key_of_def)

theorem backup_comes_to_rest_witness:
  "\<exists>x y out s' out2 t' g h.
     run_state (backup_reconcile ref_env defaulting_api example_controller example_req) (start (settled_example settled_backup)) = (out, s')
     \<and> run_state (backup_reconcile ref_env defaulting_api example_controller example_req) (start (settled_example y)) = (out2, t')
     \<and> fill_defaults (cj_spec x) = cj_spec settled_cronjob
     \<and> trace s' = [(AUpdateCronJob x, True), (AStatusUpdateKopiaBackup y, g)]
     \<and> trace t' = [(AUpdateCronJob x, True), (AStatusUpdateKopiaBackup y, h)]"
proof -
  let ?m = "backup_reconcile ref_env defaulting_api example_controller example_req"
  let ?y = "final ref_env example_controller example_repo example_settled.place settled_backup"
  let ?x = "settled_cronjob\<lparr>cj_spec := cj_spec wanted_cronjob\<rparr>"
  have sent: "example_settled.sent = ?x"
    unfolding settled_backup_simps example_controller_simps wanted_cronjob_def [symmetric] wanted_sent(1) by (rule refl)
  have calls: "example_settled.calls = [(AUpdateCronJob ?x, True)]"
    unfolding sent using wanted_sent(2) by simp
  note example = settled_example_simps [of settled_backup, OF refl]
  obtain out s' where run: "run_state ?m (start (settled_example settled_backup)) = (out, s')" by (metis prod.exhaust)
  obtain out2 t' where run2: "run_state ?m (start (settled_example ?y)) = (out2, t')" by (metis prod.exhaust)
  from wpD [OF example_settled.reconcile_settles [OF refl refl example(2,1)] run, unfolded calls]
  obtain g where "trace s' = [(AUpdateCronJob ?x, True), (AStatusUpdateKopiaBackup ?y, g)]" by (auto simp: start_def)
  from backup_comes_to_rest [OF example_settled.settled_axioms ref_set_condition_law ref_set_condition_same example(2,1) run _
      settled_example_simps(2,1) run2, of g] this
  show ?thesis using run run2 by (auto simp: start_def split: if_splits)
qed


end
