(* ===== verification/Steady_Repository.thy ===== *)
theory Steady_Repository
  imports Steady_State Repository_Reconciler
begin

text \<open>
  The control loop of a repository in server mode comes to rest: with the TLS Secret, the Deployment and the
  Service in place, a reconcile changes nothing but the status, and the next one nothing at all. It does
  send the Deployment and the Service again, because the server's defaults are missing in what the operator
  compares them with, and it does record an event and a metric, each time.
\<close>

section \<open>The status a reconcile computes\<close>

definition server_verdict :: "bool \<Rightarrow> ConditionStatus \<times> string \<times> string" where
  "server_verdict ready = (if ready then (ConditionTrue, ReasonServerDeployed, ''Kopia Server is deployed and ready'')
     else (ConditionFalse, ReasonServerFailed, ''Kopia Server deployment is not ready yet''))"

definition repo_verdict :: "bool \<Rightarrow> ConditionStatus \<times> string \<times> string" where
  "repo_verdict ready = (if ready then (ConditionTrue, ReasonConfigValid, ''Repository configuration is valid'')
     else (ConditionFalse, ReasonServerFailed, ''Waiting for Kopia Server to be ready''))"

definition server_status :: "string \<Rightarrow> bool \<Rightarrow> KopiaRepository \<Rightarrow> KopiaRepository" where
  "server_status fp ready repo = repo\<lparr>kr_status := (kr_status repo)\<lparr>
     rst_TLSCertFingerprint := fp, rst_ServerReady := ready, rst_ServerURL := GetServerURL repo,
     rst_ServerDeployment := ServerDeploymentName (repo_name repo), rst_ServerService := ServerServiceName (repo_name repo)\<rparr>\<rparr>"

definition report :: "env \<Rightarrow> string \<Rightarrow> bool \<Rightarrow> KopiaRepository \<Rightarrow> KopiaRepository" where
  "report env fp ready repo =
     (let (st, rs, m) = server_verdict ready; (st', rs', m') = repo_verdict ready in
      set_repo_condition env (set_repo_condition env (server_status fp ready repo) ConditionTypeServerReady st rs m)
        ConditionTypeRepositoryReady st' rs' m')"

definition repo_outcome :: "bool \<Rightarrow> outcome" where
  "repo_outcome ready = (if ready then (no_requeue, None) else (requeue_after (15 * time_Second), None))"

lemma report_simps [simp]:
  "kr_meta (report env fp ready x) = kr_meta x" "kr_spec (report env fp ready x) = kr_spec x"
  "rst_ServerReady (kr_status (report env fp ready x)) = ready" "rst_TLSCertFingerprint (kr_status (report env fp ready x)) = fp"
  "rst_ServerURL (kr_status (report env fp ready x)) = GetServerURL x"
  "rst_ServerDeployment (kr_status (report env fp ready x)) = ServerDeploymentName (repo_name x)"
  "rst_ServerService (kr_status (report env fp ready x)) = ServerServiceName (repo_name x)"
  by (simp_all add: report_def server_status_def set_repo_condition_def server_verdict_def repo_verdict_def)

lemma server_status_same:
  assumes "rst_TLSCertFingerprint (kr_status x) = fp" "rst_ServerReady (kr_status x) = ready" "rst_ServerURL (kr_status x) = GetServerURL x"
    and "rst_ServerDeployment (kr_status x) = ServerDeploymentName (repo_name x)"
    and "rst_ServerService (kr_status x) = ServerServiceName (repo_name x)"
  shows "server_status fp ready x = x"
  using assms by (cases x; cases "kr_status x") (simp add: server_status_def)

lemma set_repo_condition_same:
  assumes "set_condition_same env" "find_condition (rst_Conditions (kr_status x)) t
     = Some \<lparr>co_Type = t, co_Status = st, co_Reason = rs, co_Message = m, co_ObservedGeneration = om_Generation (kr_meta x)\<rparr>"
  shows "set_repo_condition env x t st rs m = x"
  using assms by (simp add: set_repo_condition_def set_condition_same_def)

lemma find_set_repo_condition:
  "set_condition_law env \<Longrightarrow> find_condition (rst_Conditions (kr_status (set_repo_condition env x t st rs m))) t'
     = (if t' = t then Some \<lparr>co_Type = t, co_Status = st, co_Reason = rs, co_Message = m,
          co_ObservedGeneration = om_Generation (kr_meta x)\<rparr> else find_condition (rst_Conditions (kr_status x)) t')"
  by (simp add: set_repo_condition_def set_condition_law_def)

lemma GetServerURL_status: "kr_meta x = kr_meta y \<Longrightarrow> kr_spec x = kr_spec y \<Longrightarrow> GetServerURL x = GetServerURL y"
  by (simp add: GetServerURL_def)

lemma report_again:
  assumes "set_condition_law env" "set_condition_same env"
  shows "report env fp ready (report env fp ready x) = report env fp ready x"
proof -
  let ?x = "report env fp ready x"
  obtain st rs m st' rs' m' where v: "server_verdict ready = (st, rs, m)" "repo_verdict ready = (st', rs', m')" by (metis prod.exhaust)
  have "server_status fp ready ?x = ?x"
    by (rule server_status_same) (simp_all add: GetServerURL_status [of ?x x])
  moreover have "set_repo_condition env ?x ConditionTypeServerReady st rs m = ?x"
    and "set_repo_condition env ?x ConditionTypeRepositoryReady st' rs' m' = ?x"
    by (rule set_repo_condition_same [OF assms(2)];
        simp add: report_def [of env fp ready x] v find_set_repo_condition [OF assms(1)] repo_condition_types server_status_def)+
  ultimately show ?thesis by (subst report_def) (simp only: v prod.case Let_def)
qed

text \<open>What the server manager builds does not depend on the status.\<close>

lemma server_command_status:
  assumes "kr_meta x = kr_meta y" "kr_spec x = kr_spec y"
  shows "constructServerCommand x = constructServerCommand y"
  unfolding constructServerCommand_def writeFilesystemServerScript_def writeSFTPServerScript_def writeAdminUserSetup_def
    writeServerStartCommand_def sftp_target_def writeSFTPAuthFlags_def assms by (rule refl)

lemma server_builder_status:
  assumes "kr_meta x = kr_meta y" "kr_spec x = kr_spec y"
  shows "constructServerDeployment x n = constructServerDeployment y n" "constructServerService x n = constructServerService y n"
    "getTLSSecretName x = getTLSSecretName y" "user_provided_TLS env x secret = user_provided_TLS env y secret"
  unfolding constructServerDeployment_def server_container_def server_env_def server_mounts_def server_volumes_def
    constructStorageVolume_def constructServerService_def getTLSSecretName_def user_provided_TLS_def
    getRepositoryPasswordSecretKeyRef_def getServerAdminPasswordSecretKeyRef_def server_command_status [OF assms] assms
  by (rule refl)+

section \<open>A server at rest\<close>

definition server_ready :: "Deployment \<Rightarrow> bool" where
  "server_ready d \<longleftrightarrow> dep_StatusReadyReplicas d = dep_StatusReplicas d \<and> 0 < sint (dep_StatusReplicas d)"

text \<open>
  The Secret has a certificate that need not be renewed (or one of the user's that can be read), and Deployment and
  Service are what the server makes of those that the operator would send (\<open>ddflt\<close> and \<open>sdflt\<close> fill in what it
  leaves out); updates that amount to them are accepted. Nothing is said about the status.
\<close>

locale settled_server =
  fixes env :: env and api :: "'w api" and I :: "'w \<Rightarrow> bool" and repo :: KopiaRepository and secret :: Secret and fp :: string
    and dep :: Deployment and svc :: Service and ddflt :: "DeploymentSpec \<Rightarrow> DeploymentSpec" and sdflt :: "ServiceSpec \<Rightarrow> ServiceSpec"
  assumes server: "server_enabled repo" "rs_PasswordSecretName (kr_spec repo) \<noteq> ''''"
    and tls: "answers I (api_get_Secret api (NamespacedName (repo_ns repo) (getTLSSecretName repo))) (\<lambda>g. g = Inr secret)"
    and own: "tls_SecretName (srv_TLS (rs_Server (kr_spec repo))) \<noteq> '''' \<Longrightarrow> user_provided_TLS env repo secret = Inr fp"
    and generated: "tls_SecretName (srv_TLS (rs_Server (kr_spec repo))) = '''' \<Longrightarrow> \<exists>pem. sec_Data secret ''tls.crt'' = Some pem
      \<and> sec_Data secret ''fingerprint'' = Some fp \<and> answers I (api_time_Now api) (\<lambda>now. \<not> rotation_due env pem now)"
    and deployment: "answers I (api_get_Deployment api (NamespacedName (repo_ns repo) (ServerDeploymentName (repo_name repo)))) (\<lambda>g. g = Inr dep)"
      "ddflt (dep_spec (constructServerDeployment repo (ServerDeploymentName (repo_name repo)))) = dep_spec dep"
      "x = dep\<lparr>dep_spec := d\<rparr> \<Longrightarrow> ddflt d = dep_spec dep \<Longrightarrow> answers I (api_update_Deployment api x) ok"
    and service: "answers I (api_get_Service api (NamespacedName (repo_ns repo) (ServerServiceName (repo_name repo)))) (\<lambda>g. g = Inr svc)"
      "want = svc_spec (constructServerService repo (ServerServiceName (repo_name repo))) \<Longrightarrow>
         sdflt ((svc_spec svc)\<lparr>ss_Ports := ss_Ports want, ss_Type := ss_Type want, ss_Selector := ss_Selector want\<rparr>) = svc_spec svc"
      "y = svc\<lparr>svc_spec := v\<rparr> \<Longrightarrow> sdflt v = svc_spec svc \<Longrightarrow> answers I (api_update_Service api y) ok"
    and owner: "om_OwnerReferences m = [] \<Longrightarrow> ok (SetControllerReference env kind (kr_meta repo) m)"
begin

abbreviation "ready \<equiv> server_ready dep"

abbreviation "want_dep \<equiv> dep_spec (constructServerDeployment repo (ServerDeploymentName (repo_name repo)))"

abbreviation "want_svc \<equiv> svc_spec (constructServerService repo (ServerServiceName (repo_name repo)))"

abbreviation "sent_svc \<equiv> (svc_spec svc)\<lparr>ss_Ports := ss_Ports want_svc, ss_Type := ss_Type want_svc, ss_Selector := ss_Selector want_svc\<rparr>"

abbreviation "dep_calls \<equiv> if DeepEqual_DeploymentSpec env (dep_spec dep) want_dep then [] else [(AUpdateDeployment (dep\<lparr>dep_spec := want_dep\<rparr>), True)]"

abbreviation "svc_calls \<equiv> if DeepEqual_ServiceSpec env sent_svc want_svc then [] else [(AUpdateService (svc\<lparr>svc_spec := sent_svc\<rparr>), True)]"

abbreviation "notes \<equiv> (AMetric (SetServerReady (repo_name repo) (repo_ns repo) (if ready then 1 else 0)), True)
  # (if ready then [(AEvent (key_of (kr_meta repo)) EventTypeNormal ''ServerReady'' ''Kopia Server is deployed and ready'', True)] else [])"

lemma certificate_quiet:
  assumes "answers I (api_time_Now api) (\<lambda>now. \<not> rotation_due env pem now)"
  shows "settles I (certNeedsRotation env api pem renewBefore) [] (\<lambda>rot. rot = None)"
  unfolding settles_def
proof (intro allI impI)
  fix s :: "'w st" assume "I (world s)"
  with assms have now: "\<not> rotation_due env pem (clock api s)" by (simp add: answers_def clock_def case_prod_beta)
  have "wp (certNeedsRotation env api pem renewBefore) (\<lambda>rot s'. I (world s')) s"
    using assms \<open>I (world s)\<close>
    by (auto simp: certNeedsRotation_def Let_def answers_def split: option.splits sum.splits prod.splits)
  from wp_conj [OF this certNeedsRotation_due]
  show "wp (certNeedsRotation env api pem renewBefore) (\<lambda>rot s'. I (world s') \<and> trace s' = trace s @ [] \<and> rot = None) s"
    by (rule wp_mono) (use now in auto)
qed

lemma tls_quiet:
  assumes same: "kr_meta x = kr_meta repo" "kr_spec x = kr_spec repo"
  shows "settles I (EnsureTLSSecret env api x) [] (\<lambda>t. t = Inr fp)"
proof -
  have "settles I (if tls_SecretName (srv_TLS (rs_Server (kr_spec repo))) \<noteq> '''' then ret (user_provided_TLS env repo secret)
      else managed_TLS env api x secret) [] (\<lambda>t. t = Inr fp)"
  proof (cases "tls_SecretName (srv_TLS (rs_Server (kr_spec repo))) = ''''")
    case True
    then obtain pem where pem: "sec_Data secret ''tls.crt'' = Some pem" "sec_Data secret ''fingerprint'' = Some fp"
      "answers I (api_time_Now api) (\<lambda>now. \<not> rotation_due env pem now)" using generated by blast
    have "settles I (managed_TLS env api x secret) [] (\<lambda>t. t = Inr fp)"
      unfolding managed_TLS_def pem(1) option.case
      by (rule quiet_bind_eq [OF certificate_quiet [OF pem(3)]]) (simp add: pem(2) settles_ret)
    with True show ?thesis by simp
  next
    case False
    with own show ?thesis by (simp add: settles_ret)
  qed
  then show ?thesis
    unfolding EnsureTLSSecret_def Let_def same server_builder_status(3,4) [OF same]
    by (intro quiet_bind_eq [OF settles_read [OF tls]]) simp
qed

lemma deployment_settles:
  assumes same: "kr_meta x = kr_meta repo" "kr_spec x = kr_spec repo"
  shows "settles I (EnsureServerDeployment env api x) dep_calls (\<lambda>d. d = Inr ())"
proof -
  have "om_OwnerReferences (dep_meta (constructServerDeployment repo (ServerDeploymentName (repo_name repo)))) = []"
    by (simp add: constructServerDeployment_def Let_def zero_ObjectMeta_def)
  then obtain m where m: "SetControllerReference env ''KopiaRepository'' (kr_meta repo)
      (dep_meta (constructServerDeployment repo (ServerDeploymentName (repo_name repo)))) = Inr m"
    using owner by (auto simp: ok_iff)
  note update = settles_write [OF deployment(3) [OF refl deployment(2)]]
  show ?thesis
    unfolding EnsureServerDeployment_def Let_def same server_builder_status(1) [OF same] m sum.case
    by (rule quiet_bind_eq [OF settles_read [OF deployment(1)]]) (simp add: settles_ret update)
qed

lemma service_settles:
  assumes same: "kr_meta x = kr_meta repo" "kr_spec x = kr_spec repo"
  shows "settles I (EnsureServerService env api x) svc_calls (\<lambda>d. d = Inr ())"
proof -
  have "om_OwnerReferences (svc_meta (constructServerService repo (ServerServiceName (repo_name repo)))) = []"
    by (simp add: constructServerService_def Let_def zero_ObjectMeta_def)
  then obtain m where m: "SetControllerReference env ''KopiaRepository'' (kr_meta repo)
      (svc_meta (constructServerService repo (ServerServiceName (repo_name repo)))) = Inr m"
    using owner by (auto simp: ok_iff)
  note update = settles_write [OF service(3) [OF refl service(2) [OF refl]]]
  show ?thesis
    unfolding EnsureServerService_def Let_def same server_builder_status(2) [OF same] m sum.case
    by (rule quiet_bind_eq [OF settles_read [OF service(1)]]) (simp add: settles_ret update)
qed

lemma ready_quiet:
  assumes same: "kr_meta x = kr_meta repo" "kr_spec x = kr_spec repo"
  shows "settles I (IsServerReady api x) [] (\<lambda>p. p = (ready, None))"
  unfolding IsServerReady_def Let_def same
  by (rule quiet_bind_eq [OF settles_read [OF deployment(1)]]) (simp add: settles_ret server_ready_def)

text \<open>The end of the server phase, and the phase.\<close>

lemma notes_settle:
  assumes "kr_meta x = kr_meta repo"
  shows "settles I (do {
       emit (AMetric (SetServerReady (repo_name x) (repo_ns x) (if ready then 1 else 0)));
       if ready then do {
         let repo = set_repo_condition env x ConditionTypeServerReady ConditionTrue
           ReasonServerDeployed ''Kopia Server is deployed and ready'';
         emit (AEvent (key_of (kr_meta repo)) EventTypeNormal ''ServerReady'' ''Kopia Server is deployed and ready'');
         ret (repo, None)
       } else do {
         let repo = set_repo_condition env x ConditionTypeServerReady ConditionFalse
           ReasonServerFailed ''Kopia Server deployment is not ready yet'';
         let repo = set_repo_condition env repo ConditionTypeRepositoryReady ConditionFalse
           ReasonServerFailed ''Waiting for Kopia Server to be ready'';
         ret (repo, Some (requeue_after (15 * time_Second), None))
       }
     }) notes (\<lambda>p. p = (if ready
       then (set_repo_condition env x ConditionTypeServerReady ConditionTrue ReasonServerDeployed ''Kopia Server is deployed and ready'', None)
       else (set_repo_condition env (set_repo_condition env x ConditionTypeServerReady ConditionFalse ReasonServerFailed
           ''Kopia Server deployment is not ready yet'') ConditionTypeRepositoryReady ConditionFalse ReasonServerFailed
           ''Waiting for Kopia Server to be ready'', Some (requeue_after (15 * time_Second), None))))"
  by (auto simp: settles_def assms Let_def)

lemma server_phase_settles:
  assumes same: "kr_meta x = kr_meta repo" "kr_spec x = kr_spec repo"
  shows "settles I (server_phase env (Some (KopiaServerManager env api)) x) (dep_calls @ svc_calls @ notes)
     (\<lambda>p. p = (if ready then (set_repo_condition env (server_status fp True x) ConditionTypeServerReady
          ConditionTrue ReasonServerDeployed ''Kopia Server is deployed and ready'', None)
        else (report env fp False x, Some (repo_outcome False))))"
proof -
  let ?x = "x\<lparr>kr_status := (kr_status x)\<lparr>rst_TLSCertFingerprint := fp\<rparr>\<rparr>"
  have "kr_meta ?x = kr_meta repo" "kr_spec ?x = kr_spec repo" using same by simp_all
  note calls = deployment_settles [OF this] service_settles [OF this] ready_quiet [OF this]
  have url: "GetServerURL ?x = GetServerURL x" by (rule GetServerURL_status) simp_all
  have status: "?x\<lparr>kr_status := (kr_status ?x)\<lparr>rst_ServerReady := c, rst_ServerURL := GetServerURL ?x,
      rst_ServerDeployment := ServerDeploymentName (repo_name ?x), rst_ServerService := ServerServiceName (repo_name ?x)\<rparr>\<rparr>
      = server_status fp c x" for c
    by (simp add: server_status_def url)
  have meta: "kr_meta (server_status fp c x) = kr_meta repo" for c using same by (simp add: server_status_def)
  note manager = KopiaServerManager_def ServerManager.select_convs option.case sum.case prod.case
  show ?thesis
    unfolding server_phase_def manager
    by (rule quiet_bind_eq [OF tls_quiet [OF same]], unfold manager Let_def, rule settles_bind_eq [OF calls(1)], unfold manager,
        rule settles_bind_eq [OF calls(2)], unfold manager, rule quiet_bind_eq [OF calls(3)], unfold manager status,
        rule settles_mono [OF notes_settle [OF meta, unfolded Let_def]])
      (auto simp: report_def server_verdict_def repo_verdict_def repo_outcome_def split: if_splits)
qed

lemma phases_settle:
  assumes same: "kr_meta x = kr_meta repo" "kr_spec x = kr_spec repo"
  shows "settles I (repo_phases env (Some (KopiaServerManager env api)) x) (dep_calls @ svc_calls @ notes)
     (\<lambda>p. p = (report env fp ready x, repo_outcome ready))"
proof -
  have enter: "repo_phases env mgr x = do { (repo, stop) \<leftarrow> server_phase env mgr x; case stop of
       Some out \<Rightarrow> ret (repo, out)
     | None \<Rightarrow> ret (set_repo_condition env repo ConditionTypeRepositoryReady ConditionTrue
         ReasonConfigValid ''Repository configuration is valid'', (no_requeue, None)) }" for mgr :: "'w ServerManager option"
    using server same by (simp add: repo_phases_def)
  show ?thesis
    unfolding enter
    by (rule settles_bind_eq [OF server_phase_settles [OF same], where l' = "[]", unfolded append_Nil2])
      (simp add: report_def server_verdict_def repo_verdict_def repo_outcome_def settles_ret)
qed

lemma reconcile_settles:
  assumes same: "kr_meta x = kr_meta repo" "kr_spec x = kr_spec repo"
    and get: "api_get_KopiaRepository api req (world s) = (Inr x, w)" "I w"
  shows "wp (repo_reconcile env api (Some (KopiaServerManager env api)) req) (\<lambda>out s'. fst out = fst (repo_outcome ready)
     \<and> (\<exists>g. trace s' = trace s @ (dep_calls @ svc_calls @ notes) @ [(AStatusUpdateKopiaRepository (report env fp ready x), g)])) s"
proof -
  define calls where "calls = dep_calls @ svc_calls @ notes"
  let ?Q = "\<lambda>out s'. fst out = fst (repo_outcome ready)
     \<and> (\<exists>g. trace s' = trace s @ calls @ [(AStatusUpdateKopiaRepository (report env fp ready x), g)])"
  have status: "wp (deferred_status (\<lambda>r. Status_Update_KopiaRepository api r) (report env fp ready x) (repo_outcome ready)) ?Q u"
    if "trace u = trace s @ calls" for u
    using that by (auto simp: deferred_status_def split: prod.splits)
  have "wp (repo_phases env (Some (KopiaServerManager env api)) x)
      (\<lambda>p. wp (case p of (y, out) \<Rightarrow> deferred_status (\<lambda>r. Status_Update_KopiaRepository api r) y out) ?Q) (s\<lparr>world := w\<rparr>)"
  proof (rule wp_mono [OF settlesD [OF phases_settle [OF same], folded calls_def]])
    show "I (world (s\<lparr>world := w\<rparr>))" using get(2) by simp
    fix p and u :: "'w st" assume "I (world u) \<and> trace u = trace (s\<lparr>world := w\<rparr>) @ calls \<and> p = (report env fp ready x, repo_outcome ready)"
    then have u: "trace u = trace s @ calls" and p: "p = (report env fp ready x, repo_outcome ready)" by simp_all
    show "wp (case p of (y, out) \<Rightarrow> deferred_status (\<lambda>r. Status_Update_KopiaRepository api r) y out) ?Q u"
      unfolding p prod.case by (rule status [OF u])
  qed
  with get(1) show ?thesis unfolding repo_reconcile_def calls_def by simp
qed

end

text \<open>
  C15: the control loop of a repository in server mode comes to rest. With a certificate that need not be renewed and the
  Deployment and the Service in place, a reconcile changes no object but the status, whatever the status
  was: it sends the Deployment and the Service that are stored already, up to the server's defaults, or
  leaves them out if the comparison says so, sets the readiness gauge, records an event if the server is
  ready, and writes the status. The next reconcile, which reads that status, does exactly the same and
  writes the same status again. It asks to be repeated only while the server is not ready.
\<close>

theorem repository_comes_to_rest:
  assumes "settled_server env api I repo secret fp dep svc ddflt sdflt" "set_condition_law env" "set_condition_same env"
    and "api_get_KopiaRepository api req (world s) = (Inr repo, w)" "I w"
    and "run_state (repo_reconcile env api (Some (KopiaServerManager env api)) req) s = (out, s')"
    and "last (trace s') = (AStatusUpdateKopiaRepository y, g)"
    and "api_get_KopiaRepository api req (world t) = (Inr y, v)" "I v"
    and "run_state (repo_reconcile env api (Some (KopiaServerManager env api)) req) t = (out2, t')"
  shows "kr_meta y = kr_meta repo \<and> kr_spec y = kr_spec repo \<and> rst_TLSCertFingerprint (kr_status y) = fp
    \<and> fst out2 = fst out \<and> (fst out = no_requeue \<longleftrightarrow> rst_ServerReady (kr_status y))
    \<and> (\<exists>h d x calls. ddflt d = dep_spec dep \<and> sdflt x = svc_spec svc
         \<and> calls = (if DeepEqual_DeploymentSpec env (dep_spec dep) d then [] else [(AUpdateDeployment (dep\<lparr>dep_spec := d\<rparr>), True)])
             @ (if DeepEqual_ServiceSpec env x (svc_spec (constructServerService repo (ServerServiceName (repo_name repo)))) then []
                else [(AUpdateService (svc\<lparr>svc_spec := x\<rparr>), True)])
             @ (AMetric (SetServerReady (repo_name repo) (repo_ns repo) (if rst_ServerReady (kr_status y) then 1 else 0)), True)
             # (if rst_ServerReady (kr_status y) then [(AEvent (key_of (kr_meta repo)) EventTypeNormal ''ServerReady''
                  ''Kopia Server is deployed and ready'', True)] else [])
         \<and> trace s' = trace s @ calls @ [(AStatusUpdateKopiaRepository y, g)]
         \<and> trace t' = trace t @ calls @ [(AStatusUpdateKopiaRepository y, h)])"
proof -
  define d where "d = dep_spec (constructServerDeployment repo (ServerDeploymentName (repo_name repo)))"
  define x where "x = (let want = svc_spec (constructServerService repo (ServerServiceName (repo_name repo))) in
    (svc_spec svc)\<lparr>ss_Ports := ss_Ports want, ss_Type := ss_Type want, ss_Selector := ss_Selector want\<rparr>)"
  define calls where "calls = (if DeepEqual_DeploymentSpec env (dep_spec dep) d then [] else [(AUpdateDeployment (dep\<lparr>dep_spec := d\<rparr>), True)])
             @ (if DeepEqual_ServiceSpec env x (svc_spec (constructServerService repo (ServerServiceName (repo_name repo)))) then []
                else [(AUpdateService (svc\<lparr>svc_spec := x\<rparr>), True)])
             @ (AMetric (SetServerReady (repo_name repo) (repo_ns repo) (if server_ready dep then 1 else 0)), True)
             # (if server_ready dep then [(AEvent (key_of (kr_meta repo)) EventTypeNormal ''ServerReady''
                  ''Kopia Server is deployed and ready'', True)] else [])"
  have settles: "fst o' = fst (repo_outcome (server_ready dep))
      \<and> (\<exists>g. trace u' = trace u @ calls @ [(AStatusUpdateKopiaRepository (report env fp (server_ready dep) z), g)])"
    if "kr_meta z = kr_meta repo" "kr_spec z = kr_spec repo" "api_get_KopiaRepository api req (world u) = (Inr z, w')" "I w'"
      "run_state (repo_reconcile env api (Some (KopiaServerManager env api)) req) u = (o', u')" for z u w' o' u'
    using wpD [OF settled_server.reconcile_settles [OF assms(1) that(1-4)] that(5)]
    by (simp only: calls_def d_def x_def Let_def append_assoc)
  have y: "trace s' = trace s @ calls @ [(AStatusUpdateKopiaRepository y, g)]" "y = report env fp (server_ready dep) repo"
    "fst out = fst (repo_outcome (server_ready dep))"
    using settles [OF refl refl assms(4-6)] assms(7) by auto
  have again: "report env fp (server_ready dep) y = y" "kr_meta y = kr_meta repo" "kr_spec y = kr_spec repo"
    "rst_ServerReady (kr_status y) = server_ready dep" "rst_TLSCertFingerprint (kr_status y) = fp"
    using report_again [OF assms(2,3)] y(2) by simp_all
  obtain h where second: "trace t' = trace t @ calls @ [(AStatusUpdateKopiaRepository y, h)]" "fst out2 = fst (repo_outcome (server_ready dep))"
    using settles [OF again(2,3) assms(8-10)] again(1) by auto
  have stored: "ddflt d = dep_spec dep" "sdflt x = svc_spec svc"
    using settled_server.deployment(2) [OF assms(1)] settled_server.service(2) [OF assms(1) refl] by (simp_all add: d_def x_def Let_def)
  have requeue: "fst (repo_outcome (server_ready dep)) = no_requeue \<longleftrightarrow> server_ready dep"
    by (simp add: repo_outcome_def no_requeue_def requeue_after_def time_Second_def)
  show ?thesis
    unfolding again(2-5) y(3) second(2) requeue
    by (intro conjI exI [of _ h] exI [of _ d] exI [of _ x] exI [of _ calls]; (rule refl stored y(1) second(1) calls_def)?)
qed

section \<open>An example at rest\<close>

text \<open>
  A repository with a generated certificate that has a year to go, a Service with a cluster address, and a
  Deployment for which the server fills in an update strategy.
\<close>

definition fill_strategy :: "DeploymentSpec \<Rightarrow> DeploymentSpec" where
  "fill_strategy d = d\<lparr>ds_Rest := ''strategy: RollingUpdate''\<rparr>"

definition strategy_api :: "cluster api" where
  "strategy_api = mem_api\<lparr>api_update_Deployment := (\<lambda>x. api_update_Deployment mem_api (x\<lparr>dep_spec := fill_strategy (dep_spec x)\<rparr>))\<rparr>"

definition settled_tls :: Secret where
  "settled_tls = (example_tls ''kopia-server-tls-repo'' [])\<lparr>sec_Data := [''tls.crt'' \<mapsto> ''PEM:'' @ fmt_d (365 * 24 * time_Hour),
     ''tls.key'' \<mapsto> ''k'', ''fingerprint'' \<mapsto> ''F'']\<rparr>"

definition wanted_deployment :: Deployment where
  "wanted_deployment = constructServerDeployment example_repo ''kopia-server-repo''"

definition settled_deployment :: Deployment where
  "settled_deployment = wanted_deployment\<lparr>dep_spec := fill_strategy (dep_spec wanted_deployment), dep_StatusReplicas := 1,
     dep_StatusReadyReplicas := 1\<rparr>"

definition settled_service :: Service where
  "settled_service = (let v = constructServerService example_repo ''kopia-server-repo'' in
     v\<lparr>svc_spec := (svc_spec v)\<lparr>ss_Rest := ''clusterIP: 10.0.0.1''\<rparr>\<rparr>)"

definition settled_server_cluster :: "cluster \<Rightarrow> bool" where
  "settled_server_cluster w \<longleftrightarrow> cl_secrets w = [settled_tls] \<and> cl_deployments w = [settled_deployment]
     \<and> cl_services w = [settled_service] \<and> cl_now w = 0"

lemma settled_server_names:
  "repo_ns example_repo = ''ns''" "repo_name example_repo = ''repo''" "ServerDeploymentName ''repo'' = ''kopia-server-repo''"
  "ServerServiceName ''repo'' = ''kopia-server-repo''" "getTLSSecretName example_repo = ''kopia-server-tls-repo''"
  "tls_SecretName (srv_TLS (rs_Server (kr_spec example_repo))) = ''''" "server_enabled example_repo"
  "rs_PasswordSecretName (kr_spec example_repo) = ''pw''"
  by (simp_all add: example_repo_def zero_defs ServerDeploymentName_def ServerServiceName_def getTLSSecretName_def TLSSecretName_def)

lemma settled_server_keys:
  "key_of (sec_meta settled_tls) = NamespacedName ''ns'' ''kopia-server-tls-repo''"
  "key_of (dep_meta settled_deployment) = NamespacedName ''ns'' ''kopia-server-repo''"
  "key_of (svc_meta settled_service) = NamespacedName ''ns'' ''kopia-server-repo''"
  by (simp_all add: settled_tls_def example_tls_def settled_deployment_def wanted_deployment_def constructServerDeployment_def
      settled_service_def constructServerService_def Let_def key_of_def settled_server_names)

lemma settled_service_sent:
  assumes "want = svc_spec (constructServerService example_repo ''kopia-server-repo'')"
  shows "(svc_spec settled_service)\<lparr>ss_Ports := ss_Ports want, ss_Type := ss_Type want, ss_Selector := ss_Selector want\<rparr> = svc_spec settled_service"
    "svc_spec settled_service \<noteq> want"
proof -
  show "(svc_spec settled_service)\<lparr>ss_Ports := ss_Ports want, ss_Type := ss_Type want, ss_Selector := ss_Selector want\<rparr> = svc_spec settled_service"
    by (simp add: assms settled_service_def Let_def)
  have "ss_Rest (svc_spec settled_service) \<noteq> ss_Rest want"
    by (simp add: assms settled_service_def constructServerService_def Let_def)
  then show "svc_spec settled_service \<noteq> want" by metis
qed

interpretation example_server: settled_server ref_env strategy_api settled_server_cluster example_repo settled_tls "''F''"
  settled_deployment settled_service fill_strategy "\<lambda>x. x"
proof (unfold_locales, goal_cases)
  case 5
  have "\<not> rotation_due ref_env (''PEM:'' @ fmt_d (365 * 24 * time_Hour)) 0"
    by (simp add: rotation_due_def strings_HasPrefix_def read_int_fmt_d time_defs)
  then show ?case
    by (intro exI [of _ "''PEM:'' @ fmt_d (365 * 24 * time_Hour)"] conjI answersI)
      (simp_all add: settled_tls_def settled_server_cluster_def strategy_api_def)
next
  case 7
  then show ?case by (simp add: settled_server_names settled_deployment_def wanted_deployment_def)
next
  case (8 x d)
  then have "x\<lparr>dep_spec := fill_strategy (dep_spec x)\<rparr> = settled_deployment" by simp
  then show ?case
    by (intro answersI) (simp add: 8 settled_server_cluster_def strategy_api_def mem_update_def settled_server_keys ok_def)
next
  case (10 want)
  then show ?case using settled_service_sent(1) by (simp add: settled_server_names)
next
  case (11 y v)
  then have "y = settled_service" by simp
  then show ?case
    by (intro answersI) (simp add: settled_server_cluster_def strategy_api_def mem_update_def settled_server_keys ok_def)
next
  case (12 m kind)
  then show ?case by (simp add: ref_SetControllerReference_def ok_def)
qed (auto intro!: answersI simp: settled_server_names settled_server_keys settled_server_cluster_def strategy_api_def mem_get_def)


definition settled_repo_example :: "KopiaRepository \<Rightarrow> cluster" where
  "settled_repo_example x = empty_cluster\<lparr>cl_repositories := [x], cl_secrets := [settled_tls], cl_deployments := [settled_deployment],
     cl_services := [settled_service]\<rparr>"

lemma settled_repo_example_simps:
  assumes "kr_meta x = kr_meta example_repo"
  shows "settled_server_cluster (settled_repo_example x)"
    "api_get_KopiaRepository strategy_api (NamespacedName ''ns'' ''repo'') (world (start (settled_repo_example x))) = (Inr x, settled_repo_example x)"
proof -
  have "key_of (kr_meta x) = NamespacedName ''ns'' ''repo''" using assms by (simp add: key_of_def settled_server_names)
  then show "api_get_KopiaRepository strategy_api (NamespacedName ''ns'' ''repo'') (world (start (settled_repo_example x))) = (Inr x, settled_repo_example x)"
    by (simp add: settled_repo_example_def start_def strategy_api_def mem_get_def)
qed (simp add: settled_server_cluster_def settled_repo_example_def empty_cluster_def)

theorem repository_comes_to_rest_witness:
  "\<exists>y calls out s' out2 t' g h.
     run_state (repo_reconcile ref_env strategy_api (Some (KopiaServerManager ref_env strategy_api)) (NamespacedName ''ns'' ''repo''))
       (start (settled_repo_example example_repo)) = (out, s')
     \<and> run_state (repo_reconcile ref_env strategy_api (Some (KopiaServerManager ref_env strategy_api)) (NamespacedName ''ns'' ''repo''))
       (start (settled_repo_example y)) = (out2, t')
     \<and> rst_ServerReady (kr_status y) \<and> out2 = (no_requeue, snd out2) \<and> (AUpdateService settled_service, True) \<in> set calls
     \<and> trace s' = calls @ [(AStatusUpdateKopiaRepository y, g)] \<and> trace t' = calls @ [(AStatusUpdateKopiaRepository y, h)]"
proof -
  let ?m = "repo_reconcile ref_env strategy_api (Some (KopiaServerManager ref_env strategy_api)) (NamespacedName ''ns'' ''repo'')"
  let ?y = "report ref_env ''F'' True example_repo"
  have ready: "server_ready settled_deployment" by (simp add: server_ready_def settled_deployment_def)
  note example = settled_repo_example_simps [of example_repo, OF refl]
  obtain out s' where run: "run_state ?m (start (settled_repo_example example_repo)) = (out, s')" by (metis prod.exhaust)
  obtain out2 t' where run2: "run_state ?m (start (settled_repo_example ?y)) = (out2, t')" by (metis prod.exhaust)
  from wpD [OF example_server.reconcile_settles [OF refl refl example(2,1)] run] ready
  obtain g where g: "last (trace s') = (AStatusUpdateKopiaRepository ?y, g)" by auto
  have "svc_spec settled_service \<noteq> svc_spec (constructServerService example_repo (ServerServiceName (repo_name example_repo)))"
    "settled_service\<lparr>svc_spec := svc_spec settled_service\<rparr> = settled_service"
    using settled_service_sent(2) [OF refl] by (simp_all add: settled_server_names)
  with repository_comes_to_rest [OF example_server.settled_server_axioms ref_set_condition_law ref_set_condition_same example(2,1) run g
      settled_repo_example_simps(2,1) run2]
  show ?thesis using run run2 by (auto simp: start_def prod_eq_iff)
qed

end
