(* ===== verification/Go_Memory.thy ===== *)
theory Go_Memory
  imports Main "HOL-Library.Monad_Syntax"
begin

text \<open>
  Memory of a Go program, for code whose point is what is shared and what is not: cells at addresses,
  pointers that may be nil, slices that are windows of arrays. A computation faults (None) where it
  follows an address to a cell of another type.

  The contract of a deep copy is the locale \<open>copyable\<close>: it succeeds on whatever denotes a value, the copy
  denotes the same value, and lives in new cells only. It is closed under the constructions of Go's types
  (pairs, structs, pointers, slices), so that a copy function is verified by composing its parts.
\<close>

section \<open>Cells and computations\<close>

type_synonym addr = nat

record 'c heap =
  cells :: "addr \<Rightarrow> 'c option"
  lim :: addr

record slice =
  sl_array :: addr
  sl_off :: nat
  sl_len :: nat

type_synonym ('c, 'a) mem = "'c heap \<Rightarrow> ('a \<times> 'c heap) option"

definition give :: "'a \<Rightarrow> ('c, 'a) mem" where
  "give a h = Some (a, h)"

definition and_then :: "('c, 'a) mem \<Rightarrow> ('a \<Rightarrow> ('c, 'b) mem) \<Rightarrow> ('c, 'b) mem" where
  "and_then m f h = (case m h of None \<Rightarrow> None | Some (a, h') \<Rightarrow> f a h')"

definition alloc :: "'c \<Rightarrow> ('c, addr) mem" where
  "alloc c h = Some (lim h, h\<lparr>cells := (cells h)(lim h \<mapsto> c), lim := Suc (lim h)\<rparr>)"

definition load :: "('c \<Rightarrow> 'a option) \<Rightarrow> addr \<Rightarrow> ('c, 'a) mem" where
  "load get a h = (case Option.bind (cells h a) get of None \<Rightarrow> None | Some v \<Rightarrow> Some (v, h))"

definition store :: "addr \<Rightarrow> 'c \<Rightarrow> ('c, unit) mem" where
  "store a c h = (case cells h a of None \<Rightarrow> None | Some _ \<Rightarrow> Some ((), h\<lparr>cells := (cells h)(a \<mapsto> c)\<rparr>))"

text \<open>The computation does not fault, and its result satisfies \<open>Q\<close>.\<close>

definition runs :: "('c, 'a) mem \<Rightarrow> ('a \<Rightarrow> 'c heap \<Rightarrow> bool) \<Rightarrow> 'c heap \<Rightarrow> bool" where
  "runs m Q h \<longleftrightarrow> (\<exists>a h'. m h = Some (a, h') \<and> Q a h')"

lemma runs_simps [simp]:
  "runs (give v) Q = Q v"
  "runs (and_then m f) B = runs m (\<lambda>a. runs (f a) B)"
  "runs (alloc c) A = (\<lambda>h. A (lim h) (h\<lparr>cells := (cells h)(lim h \<mapsto> c), lim := Suc (lim h)\<rparr>))"
  "runs (load get a) L = (\<lambda>h. \<exists>u. Option.bind (cells h a) get = Some u \<and> L u h)"
  "runs (store a c) U = (\<lambda>h. cells h a \<noteq> None \<and> U () (h\<lparr>cells := (cells h)(a \<mapsto> c)\<rparr>))"
  by (auto simp: runs_def give_def and_then_def alloc_def load_def store_def fun_eq_iff split: option.splits)

lemma runs_mono: "runs m P h \<Longrightarrow> (\<And>a h'. P a h' \<Longrightarrow> Q a h') \<Longrightarrow> runs m Q h"
  by (auto simp: runs_def)

lemma and_then_assoc [simp]: "and_then (and_then m f) g = and_then m (\<lambda>a. and_then (f a) g)"
  by (auto simp: and_then_def fun_eq_iff split: option.splits prod.splits)

lemma and_then_give [simp]: "and_then (give a) f = f a" "and_then m give = m"
  by (auto simp: and_then_def give_def fun_eq_iff split: option.splits)

section \<open>Growth and agreement of heaps\<close>

definition wf_heap :: "'c heap \<Rightarrow> bool" where
  "wf_heap h \<longleftrightarrow> (\<forall>a. cells h a \<noteq> None \<longrightarrow> a < lim h)"

definition agree :: "addr set \<Rightarrow> 'c heap \<Rightarrow> 'c heap \<Rightarrow> bool" where
  "agree S h h' \<longleftrightarrow> (\<forall>a \<in> S. cells h' a = cells h a)"

definition extends :: "'c heap \<Rightarrow> 'c heap \<Rightarrow> bool" where
  "extends h h' \<longleftrightarrow> wf_heap h' \<and> lim h \<le> lim h' \<and> agree {..<lim h} h h'"

lemma agree_simps [simp]: "agree {} h h'" "agree (S \<union> T) h h' \<longleftrightarrow> agree S h h' \<and> agree T h h'"
  "agree (insert a S) h h' \<longleftrightarrow> cells h' a = cells h a \<and> agree S h h'" "agree (\<Union>x \<in> A. F x) h h' \<longleftrightarrow> (\<forall>x \<in> A. agree (F x) h h')"
  "agree S h h"
  by (auto simp: agree_def)

lemma agree_mono: "agree T h h' \<Longrightarrow> S \<subseteq> T \<Longrightarrow> agree S h h'"
  by (auto simp: agree_def)

lemma extends_refl: "wf_heap h \<Longrightarrow> extends h h"
  by (simp add: extends_def)

lemma extends_trans: "extends h h' \<Longrightarrow> extends h' h'' \<Longrightarrow> extends h h''"
  by (auto simp: extends_def agree_def)

lemma extends_wf: "extends h h' \<Longrightarrow> wf_heap h'"
  by (simp add: extends_def)

lemma extends_lim: "extends h h' \<Longrightarrow> lim h \<le> lim h'"
  by (simp add: extends_def)

lemma extends_agree: "extends h h' \<Longrightarrow> S \<subseteq> {..<lim h} \<Longrightarrow> agree S h h'"
  by (auto simp: extends_def agree_def)

lemma extends_alloc:
  "wf_heap h \<Longrightarrow> extends h (h\<lparr>cells := (cells h)(lim h \<mapsto> c), lim := Suc (lim h)\<rparr>)"
  by (auto simp: extends_def wf_heap_def agree_def less_Suc_eq)

text \<open>Writing to a cell that is new since \<open>h\<close>.\<close>

lemma extends_store:
  "extends h h' \<Longrightarrow> lim h \<le> a \<Longrightarrow> a < lim h' \<Longrightarrow> extends h (h'\<lparr>cells := (cells h')(a \<mapsto> c)\<rparr>)"
  by (auto simp: extends_def wf_heap_def agree_def)

section \<open>Deep copies\<close>

text \<open>
  \<open>den h x\<close> is the value that \<open>x\<close> denotes in the heap \<open>h\<close>, if everything it points to is there and of the right
  type; \<open>foot h x\<close> are the cells it reaches; \<open>copy x\<close> makes the copy.
\<close>

locale copyable =
  fixes den :: "'c heap \<Rightarrow> 'm \<Rightarrow> 'v option" and foot :: "'c heap \<Rightarrow> 'm \<Rightarrow> addr set" and copy :: "'m \<Rightarrow> ('c, 'm) mem"
  assumes frame: "agree (foot h x) h h' \<Longrightarrow> den h' x = den h x \<and> foot h' x = foot h x"
    and bounded: "wf_heap h \<Longrightarrow> den h x = Some v \<Longrightarrow> foot h x \<subseteq> {..<lim h}"
    and copies: "wf_heap h \<Longrightarrow> den h x = Some v \<Longrightarrow> runs (copy x)
      (\<lambda>y h'. extends h h' \<and> den h' y = Some v \<and> foot h' y \<subseteq> {lim h..<lim h'}) h"
begin

lemma below: "wf_heap h \<Longrightarrow> den h x = Some v \<Longrightarrow> a \<in> foot h x \<Longrightarrow> a < lim h"
  using bounded by blast

lemma stable:
  assumes "wf_heap h" "den h x = Some v" "extends h h'"
  shows "den h' x = Some v" "foot h' x = foot h x"
  using frame [OF extends_agree [OF assms(3) bounded [OF assms(1,2)]]] assms(2) by simp_all

text \<open>
  Isolation. Whatever is done to the memory of the copy, the original keeps its value, and whatever is done to the
  memory that was there before, the copy keeps it.
\<close>

lemma isolated:
  assumes "wf_heap h" "den h x = Some v" "copy x h = Some (y, h')"
  shows "agree (- foot h' y) h' h'' \<Longrightarrow> den h'' x = Some v"
    and "agree (- {..<lim h}) h' h'' \<Longrightarrow> den h'' y = Some v"
proof -
  from copies [OF assms(1,2)] assms(3)
  have c: "extends h h'" "den h' y = Some v" "foot h' y \<subseteq> {lim h..<lim h'}" by (auto simp: runs_def)
  have x: "den h' x = Some v" "foot h' x = foot h x" using stable [OF assms(1,2) c(1)] by simp_all
  have "foot h' x \<subseteq> - foot h' y" using x(2) bounded [OF assms(1,2)] c(3) by fastforce
  then show "agree (- foot h' y) h' h'' \<Longrightarrow> den h'' x = Some v"
    using frame [of h' x h''] agree_mono x(1) by metis
  have "foot h' y \<subseteq> - {..<lim h}" using c(3) by auto
  then show "agree (- {..<lim h}) h' h'' \<Longrightarrow> den h'' y = Some v"
    using frame [of h' y h''] agree_mono c(2) by metis
qed

end

section \<open>Structs\<close>

lemma copyable_flat: "copyable (\<lambda>h x. Some (f x)) (\<lambda>h x. {}) give"
  by unfold_locales (auto intro: extends_refl)

definition pair_den :: "('c heap \<Rightarrow> 'm \<Rightarrow> 'v option) \<Rightarrow> ('c heap \<Rightarrow> 'n \<Rightarrow> 'w option) \<Rightarrow> 'c heap \<Rightarrow> 'm \<times> 'n \<Rightarrow> ('v \<times> 'w) option" where
  "pair_den d d' h p = do { v \<leftarrow> d h (fst p); w \<leftarrow> d' h (snd p); Some (v, w) }"

definition pair_foot :: "('c heap \<Rightarrow> 'm \<Rightarrow> addr set) \<Rightarrow> ('c heap \<Rightarrow> 'n \<Rightarrow> addr set) \<Rightarrow> 'c heap \<Rightarrow> 'm \<times> 'n \<Rightarrow> addr set" where
  "pair_foot f f' h p = f h (fst p) \<union> f' h (snd p)"

definition pair_copy :: "('m \<Rightarrow> ('c, 'm) mem) \<Rightarrow> ('n \<Rightarrow> ('c, 'n) mem) \<Rightarrow> 'm \<times> 'n \<Rightarrow> ('c, 'm \<times> 'n) mem" where
  "pair_copy c c' p = and_then (c (fst p)) (\<lambda>a. and_then (c' (snd p)) (\<lambda>b. give (a, b)))"

lemma copyable_pair:
  assumes c: "copyable d f c" and c': "copyable d' f' c'"
  shows "copyable (pair_den d d') (pair_foot f f') (pair_copy c c')"
proof
  fix h h' p
  assume "agree (pair_foot f f' h p) h h'"
  then show "pair_den d d' h' p = pair_den d d' h p \<and> pair_foot f f' h' p = pair_foot f f' h p"
    using copyable.frame [OF c, of h "fst p" h'] copyable.frame [OF c', of h "snd p" h']
    by (simp add: pair_den_def pair_foot_def)
next
  fix h p v
  assume wf: "wf_heap h" and "pair_den d d' h p = Some v"
  then obtain v1 v2 where v: "d h (fst p) = Some v1" "d' h (snd p) = Some v2" "v = (v1, v2)"
    by (auto simp: pair_den_def bind_eq_Some_conv)
  show "pair_foot f f' h p \<subseteq> {..<lim h}"
    using copyable.bounded [OF c wf v(1)] copyable.bounded [OF c' wf v(2)] by (simp add: pair_foot_def)
  show "runs (pair_copy c c' p) (\<lambda>y h'. extends h h' \<and> pair_den d d' h' y = Some v \<and> pair_foot f f' h' y \<subseteq> {lim h..<lim h'}) h"
    unfolding pair_copy_def runs_simps
  proof (rule runs_mono [OF copyable.copies [OF c wf v(1)]], elim conjE)
    fix a h1 assume 1: "extends h h1" "d h1 a = Some v1" "f h1 a \<subseteq> {lim h..<lim h1}"
    have "d' h1 (snd p) = Some v2" using copyable.stable(1) [OF c' wf v(2) 1(1)] .
    from copyable.copies [OF c' extends_wf [OF 1(1)] this]
    show "runs (c' (snd p)) (\<lambda>b h'. extends h h' \<and> pair_den d d' h' (a, b) = Some v \<and> pair_foot f f' h' (a, b) \<subseteq> {lim h..<lim h'}) h1"
    proof (rule runs_mono, elim conjE)
      fix b h2 assume 2: "extends h1 h2" "d' h2 b = Some v2" "f' h2 b \<subseteq> {lim h1..<lim h2}"
      have "d h2 a = Some v1" "f h2 a = f h1 a" using copyable.stable [OF c extends_wf [OF 1(1)] 1(2) 2(1)] by simp_all
      with 1 2 v(3) extends_trans [OF 1(1) 2(1)] extends_lim [OF 1(1)] extends_lim [OF 2(1)]
      show "extends h h2 \<and> pair_den d d' h2 (a, b) = Some v \<and> pair_foot f f' h2 (a, b) \<subseteq> {lim h..<lim h2}"
        by (auto simp: pair_den_def pair_foot_def)
    qed
  qed
qed

text \<open>
  A struct, seen as the fields that need a copy (\<open>parts\<close>) and the rest, which the assignment \<open>*out = *in\<close> copies:
  \<open>build x m\<close> is \<open>x\<close> with the fields \<open>m\<close>, and \<open>mk x\<close> turns the values of the fields into the value of the struct.
\<close>

lemma copyable_struct:
  assumes c: "copyable d f c" and "\<And>x m. parts (build x m) = m" "\<And>x m. mk (build x m) = mk x"
    and den: "\<And>h x. den h x = map_option (mk x) (d h (parts x))" and foot: "\<And>h x. foot h x = f h (parts x)"
    and into: "\<And>x. into x = and_then (c (parts x)) (\<lambda>m. give (build x m))"
  shows "copyable den foot into"
proof
  fix h h' x
  assume "agree (foot h x) h h'"
  then show "den h' x = den h x \<and> foot h' x = foot h x"
    using copyable.frame [OF c, of h "parts x" h'] by (simp add: den foot)
next
  fix h x v
  assume wf: "wf_heap h" and "den h x = Some v"
  then obtain w where w: "d h (parts x) = Some w" "v = mk x w" by (auto simp: den)
  show "foot h x \<subseteq> {..<lim h}" using copyable.bounded [OF c wf w(1)] by (simp add: foot)
  show "runs (into x) (\<lambda>y h'. extends h h' \<and> den h' y = Some v \<and> foot h' y \<subseteq> {lim h..<lim h'}) h"
    unfolding into runs_simps by (rule runs_mono [OF copyable.copies [OF c wf w(1)]]) (simp add: den foot assms(2,3) w(2))
qed

section \<open>Pointers\<close>

text \<open>A pointer to a cell of the type that \<open>get\<close> reads.\<close>

definition ptr_den :: "('c \<Rightarrow> 'm option) \<Rightarrow> ('c heap \<Rightarrow> 'm \<Rightarrow> 'v option) \<Rightarrow> 'c heap \<Rightarrow> addr option \<Rightarrow> 'v option option" where
  "ptr_den get d h p = (case p of None \<Rightarrow> Some None
     | Some a \<Rightarrow> do { c \<leftarrow> cells h a; m \<leftarrow> get c; v \<leftarrow> d h m; Some (Some v) })"

definition ptr_foot :: "('c \<Rightarrow> 'm option) \<Rightarrow> ('c heap \<Rightarrow> 'm \<Rightarrow> addr set) \<Rightarrow> 'c heap \<Rightarrow> addr option \<Rightarrow> addr set" where
  "ptr_foot get f h p = (case p of None \<Rightarrow> {}
     | Some a \<Rightarrow> insert a (case Option.bind (cells h a) get of None \<Rightarrow> {} | Some m \<Rightarrow> f h m))"

text \<open>
  \<open>if in == nil { return nil }; out := new(T); in.DeepCopyInto(out); return out\<close>, where \<open>zero\<close> is the new cell. The
  copy of an \<open>*int32\<close> (\<open>*out = new(int32); **out = **in\<close>) is the case where the content is just assigned.
\<close>

definition copy_new :: "('c \<Rightarrow> 'm option) \<Rightarrow> ('m \<Rightarrow> 'c) \<Rightarrow> 'c \<Rightarrow> ('m \<Rightarrow> ('c, 'm) mem) \<Rightarrow> addr option \<Rightarrow> ('c, addr option) mem" where
  "copy_new get put zero into p = (case p of None \<Rightarrow> give None
     | Some a \<Rightarrow> and_then (alloc zero) (\<lambda>out. and_then (load get a) (\<lambda>x. and_then (into x) (\<lambda>y.
         and_then (store out (put y)) (\<lambda>_. give (Some out))))))"

lemma ptr_den_Some:
  "ptr_den get d h (Some a) = Some v \<longleftrightarrow> (\<exists>c m w. cells h a = Some c \<and> get c = Some m \<and> d h m = Some w \<and> v = Some w)"
  by (auto simp: ptr_den_def bind_eq_Some_conv)

lemma agree_store: "S \<subseteq> - {a} \<Longrightarrow> agree S h (h\<lparr>cells := (cells h)(a \<mapsto> c)\<rparr>)"
  by (auto simp: agree_def)

lemma copyable_ptr:
  assumes c: "copyable d f into" and get_put: "\<And>m. get (put m) = Some m"
  shows "copyable (ptr_den get d) (ptr_foot get f) (copy_new get put zero into)"
proof
  fix h h' p
  assume "agree (ptr_foot get f h p) h h'"
  then show "ptr_den get d h' p = ptr_den get d h p \<and> ptr_foot get f h' p = ptr_foot get f h p"
    using copyable.frame [OF c, of h _ h'] by (auto simp: ptr_den_def ptr_foot_def split: option.splits Option.bind_splits)
next
  fix h p v
  assume wf: "wf_heap h" and v: "ptr_den get d h p = Some v"
  show "ptr_foot get f h p \<subseteq> {..<lim h}"
    using wf v
    by (auto simp: ptr_den_def ptr_foot_def wf_heap_def bind_eq_Some_conv intro: copyable.below [OF c wf] split: option.splits)
  show "runs (copy_new get put zero into p) (\<lambda>y h'. extends h h' \<and> ptr_den get d h' y = Some v \<and> ptr_foot get f h' y \<subseteq> {lim h..<lim h'}) h"
  proof (cases p)
    case None
    with v wf show ?thesis by (auto simp: copy_new_def ptr_den_def ptr_foot_def extends_refl)
  next
    case (Some a)
    with v obtain x w where x: "Option.bind (cells h a) get = Some x" "d h x = Some w" "v = Some w"
      by (auto simp: ptr_den_Some)
    let ?h1 = "h\<lparr>cells := (cells h)(lim h \<mapsto> zero), lim := Suc (lim h)\<rparr>"
    note grow = extends_alloc [OF wf, of zero]
    have "a < lim h" using x(1) wf by (auto simp: wf_heap_def bind_eq_Some_conv)
    then have load: "Option.bind (cells ?h1 a) get = Some x" using x(1) by simp
    have x1: "d ?h1 x = Some w" using copyable.stable(1) [OF c wf x(2) grow] .
    have "runs (into x) (\<lambda>y h'. runs (store (lim h) (put y)) (\<lambda>_ h'. extends h h' \<and> ptr_den get d h' (Some (lim h)) = Some v
        \<and> ptr_foot get f h' (Some (lim h)) \<subseteq> {lim h..<lim h'}) h') ?h1"
    proof (rule runs_mono [OF copyable.copies [OF c extends_wf [OF grow] x1]], elim conjE)
      fix y h2 assume 2: "extends ?h1 h2" "d h2 y = Some w" "f h2 y \<subseteq> {lim ?h1..<lim h2}"
      let ?h3 = "h2\<lparr>cells := (cells h2)(lim h \<mapsto> put y)\<rparr>"
      have out: "cells h2 (lim h) \<noteq> None" "lim h < lim h2" using 2(1) by (auto simp: extends_def agree_def)
      have "agree (f h2 y) h2 ?h3" by (rule agree_store) (use 2(3) in auto)
      then have y: "d ?h3 y = Some w" "f ?h3 y = f h2 y" using copyable.frame [OF c] 2(2) by metis+
      have "extends h ?h3" by (rule extends_store [OF extends_trans [OF grow 2(1)]]) (use out in auto)
      with out y 2(3) x(3) show "runs (store (lim h) (put y)) (\<lambda>_ h'. extends h h' \<and> ptr_den get d h' (Some (lim h)) = Some v
          \<and> ptr_foot get f h' (Some (lim h)) \<subseteq> {lim h..<lim h'}) h2"
        by (auto simp: ptr_den_def ptr_foot_def get_put)
    qed
    with Some load show ?thesis by (simp add: copy_new_def)
  qed
qed

section \<open>Slices\<close>

text \<open>
  The elements of a slice. \<open>get\<close> reads the slots of an array of the right type; a slot of a new array that was not
  yet written is None.
\<close>

definition window :: "('c \<Rightarrow> 'm option list option) \<Rightarrow> 'c heap \<Rightarrow> slice \<Rightarrow> 'm list option" where
  "window get h sl = do { c \<leftarrow> cells h (sl_array sl); xs \<leftarrow> get c;
     if sl_off sl + sl_len sl \<le> length xs then those (take (sl_len sl) (drop (sl_off sl) xs)) else None }"

definition slice_den :: "('c \<Rightarrow> 'm option list option) \<Rightarrow> ('c heap \<Rightarrow> 'm \<Rightarrow> 'v option) \<Rightarrow> 'c heap \<Rightarrow> slice option \<Rightarrow> 'v list option" where
  "slice_den get d h s = (case s of None \<Rightarrow> Some [] | Some sl \<Rightarrow> do { xs \<leftarrow> window get h sl; those (map (d h) xs) })"

definition slice_foot :: "('c \<Rightarrow> 'm option list option) \<Rightarrow> ('c heap \<Rightarrow> 'm \<Rightarrow> addr set) \<Rightarrow> 'c heap \<Rightarrow> slice option \<Rightarrow> addr set" where
  "slice_foot get f h s = (case s of None \<Rightarrow> {}
     | Some sl \<Rightarrow> insert (sl_array sl) (case window get h sl of None \<Rightarrow> {} | Some xs \<Rightarrow> \<Union>x \<in> set xs. f h x))"

definition load_elem :: "('c \<Rightarrow> 'm option list option) \<Rightarrow> slice \<Rightarrow> nat \<Rightarrow> ('c, 'm) mem" where
  "load_elem get sl i = and_then (load get (sl_array sl)) (\<lambda>xs h.
     if i < sl_len sl \<and> sl_off sl + i < length xs then map_option (\<lambda>x. (x, h)) (xs ! (sl_off sl + i)) else None)"

definition store_elem :: "('c \<Rightarrow> 'm option list option) \<Rightarrow> ('m option list \<Rightarrow> 'c) \<Rightarrow> addr \<Rightarrow> nat \<Rightarrow> 'm \<Rightarrow> ('c, unit) mem" where
  "store_elem get put a i x = and_then (load get a) (\<lambda>xs. if i < length xs then store a (put (xs[i := Some x])) else (\<lambda>h. None))"

text \<open>\<open>for i := range *in { (*in)[i].DeepCopyInto(&(*out)[i]) }\<close>, from \<open>i\<close> on, with \<open>n\<close> elements to go.\<close>

fun copy_loop :: "('c \<Rightarrow> 'm option list option) \<Rightarrow> ('m option list \<Rightarrow> 'c) \<Rightarrow> ('m \<Rightarrow> ('c, 'm) mem) \<Rightarrow> slice \<Rightarrow> addr \<Rightarrow> nat \<Rightarrow> nat
    \<Rightarrow> ('c, unit) mem" where
  "copy_loop get put into sl out i 0 = give ()"
| "copy_loop get put into sl out i (Suc n) = and_then (load_elem get sl i) (\<lambda>x. and_then (into x) (\<lambda>y.
     and_then (store_elem get put out i y) (\<lambda>_. copy_loop get put into sl out (Suc i) n)))"

text \<open>\<open>if in.Items != nil { *out = make([]T, len(*in)); for ... }\<close>\<close>

definition copy_slice :: "('c \<Rightarrow> 'm option list option) \<Rightarrow> ('m option list \<Rightarrow> 'c) \<Rightarrow> ('m \<Rightarrow> ('c, 'm) mem) \<Rightarrow> slice option
    \<Rightarrow> ('c, slice option) mem" where
  "copy_slice get put into s = (case s of None \<Rightarrow> give None
     | Some sl \<Rightarrow> and_then (alloc (put (replicate (sl_len sl) None))) (\<lambda>out.
         and_then (copy_loop get put into sl out 0 (sl_len sl)) (\<lambda>_.
         give (Some \<lparr>sl_array = out, sl_off = 0, sl_len = sl_len sl\<rparr>))))"

text \<open>\<open>if in.ExtraArgs != nil { *out = make([]string, len(*in)); copy(*out, *in) }\<close>, for elements that are plain values.\<close>

definition copy_array :: "('c \<Rightarrow> 'm list option) \<Rightarrow> ('m list \<Rightarrow> 'c) \<Rightarrow> 'm \<Rightarrow> slice option \<Rightarrow> ('c, slice option) mem" where
  "copy_array get put zero s = (case s of None \<Rightarrow> give None
     | Some sl \<Rightarrow> and_then (alloc (put (replicate (sl_len sl) zero))) (\<lambda>out.
         and_then (load get (sl_array sl)) (\<lambda>xs.
         and_then (if sl_off sl + sl_len sl \<le> length xs then store out (put (take (sl_len sl) (drop (sl_off sl) xs))) else (\<lambda>h. None)) (\<lambda>_.
         give (Some \<lparr>sl_array = out, sl_off = 0, sl_len = sl_len sl\<rparr>)))))"

lemma those_eq_Some: "those xs = Some ys \<longleftrightarrow> xs = map Some ys"
proof (induction xs arbitrary: ys)
  case (Cons x xs)
  then show ?case by (cases x; cases ys) auto
qed auto

lemma window_eq_Some:
  "window get h sl = Some xs \<longleftrightarrow> (\<exists>c ys. cells h (sl_array sl) = Some c \<and> get c = Some ys \<and> sl_off sl + sl_len sl \<le> length ys
     \<and> take (sl_len sl) (drop (sl_off sl) ys) = map Some xs)"
  by (auto simp: window_def bind_eq_Some_conv those_eq_Some)

lemma slice_den_Some:
  "slice_den get d h (Some sl) = Some vs \<longleftrightarrow> (\<exists>xs. window get h sl = Some xs \<and> map (d h) xs = map Some vs)"
  by (auto simp: slice_den_def bind_eq_Some_conv those_eq_Some)

lemma window_cong: "cells h' (sl_array sl) = cells h (sl_array sl) \<Longrightarrow> window get h' sl = window get h sl"
  by (simp add: window_def)

lemma window_length: "window get h sl = Some xs \<Longrightarrow> length xs = sl_len sl"
  by (auto simp: window_eq_Some dest!: arg_cong [of _ _ length])

lemma slice_frame:
  assumes c: "copyable d f into" and "agree (slice_foot get f h s) h h'"
  shows "slice_den get d h' s = slice_den get d h s \<and> slice_foot get f h' s = slice_foot get f h s"
proof (cases s)
  case (Some sl)
  with assms(2) have w: "window get h' sl = window get h sl" by (auto simp: slice_foot_def intro: window_cong)
  have "d h' x = d h x \<and> f h' x = f h x" if "window get h sl = Some xs" "x \<in> set xs" for x xs
    using assms(2) Some that by (intro copyable.frame [OF c]) (simp add: slice_foot_def)
  with w Some show ?thesis
    by (cases "window get h sl") (auto simp: slice_den_def slice_foot_def cong: map_cong)
qed (simp add: slice_den_def slice_foot_def)

lemma slice_bounded:
  assumes c: "copyable d f into" and wf: "wf_heap h" and v: "slice_den get d h s = Some v"
  shows "slice_foot get f h s \<subseteq> {..<lim h}"
proof (cases s)
  case (Some sl)
  with v obtain xs where xs: "window get h sl = Some xs" "map (d h) xs = map Some v" by (auto simp: slice_den_Some)
  have "d h x \<noteq> None" if "x \<in> set xs" for x
    using xs(2) that by (metis in_set_conv_nth length_map nth_map option.distinct(1))
  moreover have "sl_array sl < lim h" using xs(1) wf by (auto simp: window_eq_Some wf_heap_def)
  ultimately show ?thesis using xs(1) Some by (auto simp: slice_foot_def intro: copyable.below [OF c wf])
qed (simp add: slice_foot_def)

lemma runs_load_elem:
  assumes "window get h sl = Some xs" "i < length xs"
  shows "runs (load_elem get sl i) Q h \<longleftrightarrow> Q (xs ! i) h"
proof -
  from assms(1) obtain c ys where w: "cells h (sl_array sl) = Some c" "get c = Some ys" "sl_off sl + sl_len sl \<le> length ys"
    "take (sl_len sl) (drop (sl_off sl) ys) = map Some xs" by (auto simp: window_eq_Some)
  have i: "i < sl_len sl" using assms window_length by metis
  have "ys ! (sl_off sl + i) = Some (xs ! i)"
    using w(3) i assms(2) arg_cong [OF w(4), of "\<lambda>l. l ! i"] by simp
  with w i show ?thesis by (simp add: load_elem_def) (simp add: runs_def)
qed

text \<open>The loop, after the elements \<open>ys\<close> have been copied.\<close>

lemma copy_loop_runs:
  assumes c: "copyable d f into" and get_put: "\<And>m. get (put m) = Some m" and wf: "wf_heap h"
    and xs: "window get h sl = Some xs" "map (d h) xs = map Some vs"
  shows "extends h h1 \<Longrightarrow> lim h = out \<Longrightarrow> out < lim h1 \<Longrightarrow> length ys + n = length xs \<Longrightarrow> cells h1 out = Some (put (map Some ys @ replicate n None))
     \<Longrightarrow> map (d h1) ys = map Some (take (length ys) vs) \<Longrightarrow> (\<forall>y \<in> set ys. f h1 y \<subseteq> {Suc out..<lim h1})
     \<Longrightarrow> runs (copy_loop get put into sl out (length ys) n) (\<lambda>_ h'. extends h h' \<and> out < lim h' \<and> (\<exists>zs. cells h' out = Some (put (map Some zs))
           \<and> map (d h') zs = map Some vs \<and> (\<forall>z \<in> set zs. f h' z \<subseteq> {Suc out..<lim h'}))) h1"
proof (induction n arbitrary: h1 ys)
  case 0
  have "length vs = length xs" using arg_cong [OF xs(2), of length] by simp
  with 0 show ?case by (auto intro!: exI [of _ ys])
next
  case (Suc n)
  let ?i = "length ys"
  have i: "?i < length xs" using Suc.prems(4) by simp
  have len: "length vs = length xs" using arg_cong [OF xs(2), of length] by simp
  have x: "d h (xs ! ?i) = Some (vs ! ?i)" using arg_cong [OF xs(2), of "\<lambda>l. l ! ?i"] i len by simp
  have "sl_array sl < lim h" using xs(1) wf by (auto simp: window_eq_Some wf_heap_def)
  then have w: "window get h1 sl = Some xs"
    using xs(1) window_cong [of h1 sl h get] Suc.prems(1) by (simp add: extends_def agree_def)
  note wf1 = extends_wf [OF Suc.prems(1)]
  note step = copyable.copies [OF c wf1 copyable.stable(1) [OF c wf x Suc.prems(1)]]
  show ?case
    unfolding copy_loop.simps runs_simps runs_load_elem [OF w i]
  proof (rule runs_mono [OF step], elim conjE)
    fix y h2 assume 2: "extends h1 h2" "d h2 y = Some (vs ! ?i)" "f h2 y \<subseteq> {lim h1..<lim h2}"
    let ?h3 = "h2\<lparr>cells := (cells h2)(out \<mapsto> put (map Some (ys @ [y]) @ replicate n None))\<rparr>"
    have out: "cells h2 out = Some (put (map Some ys @ replicate (Suc n) None))" "out < lim h2"
      using Suc.prems(3,5) 2(1) by (auto simp: extends_def agree_def)
    have grow: "extends h ?h3"
      by (rule extends_store [OF extends_trans [OF Suc.prems(1) 2(1)]]) (use out Suc.prems(2) in auto)
    have old: "d ?h3 z = d h1 z \<and> f ?h3 z = f h1 z" if "z \<in> set ys" for z
    proof (rule copyable.frame [OF c])
      have "f h1 z \<subseteq> {Suc out..<lim h1}" using Suc.prems(7) that by blast
      then show "agree (f h1 z) h1 ?h3" using 2(1) by (auto simp: extends_def agree_def)
    qed
    have new: "d ?h3 y = d h2 y \<and> f ?h3 y = f h2 y"
      by (intro copyable.frame [OF c] agree_store) (use 2(3) Suc.prems(3) in auto)
    have "map (d ?h3) ys = map (d h1) ys" using old by simp
    then have "map (d ?h3) (ys @ [y]) = map Some (take (length (ys @ [y])) vs)"
      using Suc.prems(6) new 2(2) i len by (simp add: take_Suc_conv_app_nth)
    moreover have "\<forall>z \<in> set (ys @ [y]). f ?h3 z \<subseteq> {Suc out..<lim ?h3}"
      using Suc.prems(3,7) old new 2(3) extends_lim [OF 2(1)] by fastforce
    ultimately have "runs (copy_loop get put into sl out (length (ys @ [y])) n) (\<lambda>_ h'. extends h h' \<and> out < lim h' \<and> (\<exists>zs. cells h' out = Some (put (map Some zs))
           \<and> map (d h') zs = map Some vs \<and> (\<forall>z \<in> set zs. f h' z \<subseteq> {Suc out..<lim h'}))) ?h3"
      by (intro Suc.IH grow) (use Suc.prems(2,4) out(2) in auto)
    moreover have "(map Some ys @ replicate (Suc n) None)[?i := Some y] = map Some (ys @ [y]) @ replicate n None"
      by (simp add: list_update_append)
    ultimately show "runs (store_elem get put out ?i y) (\<lambda>_. runs (copy_loop get put into sl out (Suc ?i) n)
        (\<lambda>_ h'. extends h h' \<and> out < lim h' \<and> (\<exists>zs. cells h' out = Some (put (map Some zs))
           \<and> map (d h') zs = map Some vs \<and> (\<forall>z \<in> set zs. f h' z \<subseteq> {Suc out..<lim h'})))) h2"
      using out(1) by (simp add: store_elem_def get_put)
  qed
qed

lemma window_whole: "get (put (map Some zs)) = Some (map Some zs) \<Longrightarrow> cells h out = Some (put (map Some zs)) \<Longrightarrow> n = length zs
  \<Longrightarrow> window get h \<lparr>sl_array = out, sl_off = 0, sl_len = n\<rparr> = Some zs"
  by (simp add: window_eq_Some)

lemma copyable_slice:
  assumes c: "copyable d f into" and get_put: "\<And>m. get (put m) = Some m"
  shows "copyable (slice_den get d) (slice_foot get f) (copy_slice get put into)"
proof
  show "agree (slice_foot get f h s) h h' \<Longrightarrow> slice_den get d h' s = slice_den get d h s \<and> slice_foot get f h' s = slice_foot get f h s"
    for h h' s by (rule slice_frame [OF c])
  fix h s v
  assume wf: "wf_heap h" and v: "slice_den get d h s = Some v"
  show "slice_foot get f h s \<subseteq> {..<lim h}" by (rule slice_bounded [OF c wf v])
  show "runs (copy_slice get put into s) (\<lambda>y h'. extends h h' \<and> slice_den get d h' y = Some v \<and> slice_foot get f h' y \<subseteq> {lim h..<lim h'}) h"
  proof (cases s)
    case None
    with v wf show ?thesis by (simp add: copy_slice_def slice_den_def slice_foot_def extends_refl)
  next
    case (Some sl)
    with v obtain xs where xs: "window get h sl = Some xs" "map (d h) xs = map Some v" by (auto simp: slice_den_Some)
    note len = window_length [OF xs(1)]
    let ?h1 = "h\<lparr>cells := (cells h)(lim h \<mapsto> put (replicate (sl_len sl) None)), lim := Suc (lim h)\<rparr>"
    have "runs (copy_loop get put into sl (lim h) 0 (sl_len sl)) (\<lambda>_ h'. extends h h' \<and> lim h < lim h' \<and> (\<exists>zs. cells h' (lim h) = Some (put (map Some zs))
           \<and> map (d h') zs = map Some v \<and> (\<forall>z \<in> set zs. f h' z \<subseteq> {Suc (lim h)..<lim h'}))) ?h1"
      using copy_loop_runs [OF c get_put wf xs, of ?h1 "lim h" "[]" "sl_len sl"] extends_alloc [OF wf] by (simp add: len)
    then have "runs (copy_loop get put into sl (lim h) 0 (sl_len sl)) (\<lambda>_ h'. extends h h'
        \<and> slice_den get d h' (Some \<lparr>sl_array = lim h, sl_off = 0, sl_len = sl_len sl\<rparr>) = Some v
        \<and> slice_foot get f h' (Some \<lparr>sl_array = lim h, sl_off = 0, sl_len = sl_len sl\<rparr>) \<subseteq> {lim h..<lim h'}) ?h1"
    proof (rule runs_mono, elim conjE exE)
      fix h' zs assume z: "cells h' (lim h) = Some (put (map Some zs))" "map (d h') zs = map Some v"
        "\<forall>z \<in> set zs. f h' z \<subseteq> {Suc (lim h)..<lim h'}" "extends h h'" "lim h < lim h'"
      have "sl_len sl = length zs" using arg_cong [OF z(2), of length] arg_cong [OF xs(2), of length] len by simp
      note w = window_whole [of get put zs h' "lim h", OF get_put z(1) this]
      show "extends h h' \<and> slice_den get d h' (Some \<lparr>sl_array = lim h, sl_off = 0, sl_len = sl_len sl\<rparr>) = Some v
        \<and> slice_foot get f h' (Some \<lparr>sl_array = lim h, sl_off = 0, sl_len = sl_len sl\<rparr>) \<subseteq> {lim h..<lim h'}"
        using z w by (fastforce simp: slice_den_Some slice_foot_def)
    qed
    with Some show ?thesis by (simp add: copy_slice_def)
  qed
qed

lemma copyable_array:
  assumes get_put: "\<And>m. get (put m) = Some m"
  defines "slots \<equiv> \<lambda>c. map_option (map Some) (get c)"
  shows "copyable (slice_den slots (\<lambda>h x. Some x)) (slice_foot slots (\<lambda>h x. {})) (copy_array get put zero)"
proof
  note c = copyable_flat [of "\<lambda>x. x"]
  show "agree (slice_foot slots (\<lambda>h x. {}) h s) h h' \<Longrightarrow> slice_den slots (\<lambda>h x. Some x) h' s = slice_den slots (\<lambda>h x. Some x) h s
      \<and> slice_foot slots (\<lambda>h x. {}) h' s = slice_foot slots (\<lambda>h x. {}) h s" for h h' s by (rule slice_frame [OF c])
  fix h s v
  assume wf: "wf_heap h" and v: "slice_den slots (\<lambda>h x. Some x) h s = Some v"
  show "slice_foot slots (\<lambda>h x. {}) h s \<subseteq> {..<lim h}" by (rule slice_bounded [OF c wf v])
  show "runs (copy_array get put zero s) (\<lambda>y h'. extends h h' \<and> slice_den slots (\<lambda>h x. Some x) h' y = Some v
      \<and> slice_foot slots (\<lambda>h x. {}) h' y \<subseteq> {lim h..<lim h'}) h"
  proof (cases s)
    case None
    with v wf show ?thesis by (simp add: copy_array_def slice_den_def slice_foot_def extends_refl)
  next
    case (Some sl)
    with v have w: "window slots h sl = Some v" by (auto simp: slice_den_Some)
    then obtain ce ys where ys: "cells h (sl_array sl) = Some ce" "get ce = Some ys" "sl_off sl + sl_len sl \<le> length ys"
      "v = take (sl_len sl) (drop (sl_off sl) ys)"
      by (auto simp: window_eq_Some slots_def take_map drop_map)
    have "sl_array sl < lim h" using ys(1) wf by (auto simp: wf_heap_def)
    let ?h2 = "h\<lparr>lim := Suc (lim h), cells := (cells h)(lim h \<mapsto> put v)\<rparr>"
    have "extends h ?h2" using wf by (auto simp: extends_def wf_heap_def agree_def less_Suc_eq)
    moreover have "window slots ?h2 \<lparr>sl_array = lim h, sl_off = 0, sl_len = sl_len sl\<rparr> = Some v"
      using ys(3,4) by (simp add: window_eq_Some slots_def get_put)
    ultimately show ?thesis
      using \<open>sl_array sl < lim h\<close> ys Some by (simp add: copy_array_def slice_den_Some slice_foot_def)
  qed
qed


end
