(* ===== verification/Deep_Copies.thy ===== *)
theory Deep_Copies
  imports Kopia_Types Go_Memory
begin

text \<open>
  The deep copies of the custom resources (api/backup/v1alpha1/zz\_generated.deepcopy.go), over a memory with
  pointers and slices. The client library copies every object it hands out from its cache with them, so
  they are what lets a reconciler change an object in place without changing the cache, and what
  lets the rest of the development treat objects as values.

  The structs are those of \<open>Kopia_Types\<close> as they are in memory: a pointer is an address or nil, a slice a
  window of an array or nil. \<open>'l\<close> is the type of the library's structs (\<open>ObjectMeta\<close>, \<open>ListMeta\<close>, \<open>Time\<close>,
  \<open>Condition\<close>, \<open>Quantity\<close>, \<open>ResourceRequirements\<close>), whose copy functions are parameters.
\<close>

section \<open>Structs in memory\<close>

type_synonym TypeMeta = "string \<times> string"

record 'l BackupHistoryEntry_mem =
  mbh_StartTime :: 'l
  mbh_CompletionTime :: "addr option"
  mbh_Status :: BackupStatus
  mbh_JobName :: string
  mbh_Message :: string

record KopiaBackupSpec_mem =
  mbs_PVCName :: string
  mbs_Schedule :: string
  mbs_Repository :: string
  mbs_Suspend :: bool
  mbs_SuccessfulJobsHistoryLimit :: "addr option"
  mbs_FailedJobsHistoryLimit :: "addr option"
  mbs_TTLSecondsAfterFinished :: "addr option"
  mbs_ActiveDeadlineSeconds :: "addr option"
  mbs_BackoffLimit :: "addr option"
  mbs_UserCredentialsSecret :: string

record KopiaBackupStatus_mem =
  mbst_Conditions :: "slice option"
  mbst_AutoCreated :: bool
  mbst_CronJobName :: string
  mbst_NodeName :: string
  mbst_ServerURL :: string
  mbst_Username :: string
  mbst_Connected :: bool
  mbst_LastBackupStatus :: BackupStatus
  mbst_LastBackupTime :: "addr option"
  mbst_LastSuccessfulBackupTime :: "addr option"
  mbst_BackupHistory :: "slice option"

record 'l KopiaBackup_mem =
  mkb_TypeMeta :: TypeMeta
  mkb_ObjectMeta :: 'l
  mkb_Spec :: KopiaBackupSpec_mem
  mkb_Status :: KopiaBackupStatus_mem

record 'l KopiaBackupList_mem =
  mkbl_TypeMeta :: TypeMeta
  mkbl_ListMeta :: 'l
  mkbl_Items :: "slice option"

record KopiaServerTLSSpec_mem =
  mtls_SecretName :: string
  mtls_CertificateCommonName :: string
  mtls_CertificateDNSNames :: "slice option"

record 'l KopiaServerSpec_mem =
  msrv_Enabled :: bool
  msrv_Image :: string
  msrv_Replicas :: int32
  msrv_Resources :: 'l
  msrv_TLS :: KopiaServerTLSSpec_mem
  msrv_Exposure :: KopiaServerExposureSpec
  msrv_AdminPasswordSecretName :: string
  msrv_PersistentVolumeClaim :: string
  msrv_ExtraArgs :: "slice option"

record KopiaRepositoryStorageSFTPSpec_mem =
  msftp_Path :: string
  msftp_Host :: string
  msftp_Port :: int32
  msftp_KnownHostsData :: string
  msftp_ExternalSSH :: bool
  msftp_SSHCommand :: string
  msftp_DirShards :: "slice option"
  msftp_CredentialsSecret :: string

record 'l KopiaRepositoryCachingSpec_mem =
  mca_CacheDirectory :: string
  mca_ContentCacheSize :: 'l
  mca_ContentCacheSizeLimit :: 'l
  mca_MetadataCacheSize :: 'l
  mca_MetadataCacheSizeLimit :: 'l
  mca_MaxListCacheDuration :: int64
  mca_MinMetadataSweepAge :: int64
  mca_MinContentSweepAge :: int64
  mca_MinIndexSweepAge :: int64

record 'l KopiaRepositorySpec_mem =
  mrs_Hostname :: string
  mrs_Username :: string
  mrs_StorageType :: string
  mrs_ReadOnly :: bool
  mrs_PermissiveCacheLoading :: bool
  mrs_Description :: string
  mrs_EnableActions :: bool
  mrs_DefaultSchedule :: string
  mrs_PasswordSecretName :: string
  mrs_FormatBlobCacheDurationSeconds :: int64
  mrs_Caching :: "'l KopiaRepositoryCachingSpec_mem"
  mrs_FileSystemOptions :: KopiaRepositoryStorageFileSystemSpec
  mrs_SFTPOptions :: KopiaRepositoryStorageSFTPSpec_mem
  mrs_Server :: "'l KopiaServerSpec_mem"

record KopiaRepositoryStatus_mem =
  mrst_Conditions :: "slice option"
  mrst_ServerReady :: bool
  mrst_ServerURL :: string
  mrst_ServerDeployment :: string
  mrst_ServerService :: string
  mrst_TLSCertFingerprint :: string

record 'l KopiaRepository_mem =
  mkr_TypeMeta :: TypeMeta
  mkr_ObjectMeta :: 'l
  mkr_Spec :: "'l KopiaRepositorySpec_mem"
  mkr_Status :: KopiaRepositoryStatus_mem

record 'l KopiaRepositoryList_mem =
  mkrl_TypeMeta :: TypeMeta
  mkrl_ListMeta :: 'l
  mkrl_Items :: "slice option"

section \<open>Cells\<close>

text \<open>
  What an address can hold: values behind pointers, arrays (with slots that \<open>make\<close> left zero), structs behind
  pointers, new memory of a struct (\<open>CZero\<close>), and what the library allocates.
\<close>

datatype 'l cell =
    CInt32 int32 | CInt64 int64 | CTime 'l
  | CStrings "string list" | CInts "int64 list"
  | CConditions "'l option list" | CHistory "'l BackupHistoryEntry_mem option list"
  | CBackups "'l KopiaBackup_mem option list" | CRepositories "'l KopiaRepository_mem option list"
  | CBackupHistoryEntry "'l BackupHistoryEntry_mem" | CKopiaBackup "'l KopiaBackup_mem"
  | CKopiaBackupCustomValidator | CKopiaBackupList "'l KopiaBackupList_mem"
  | CKopiaBackupSpec KopiaBackupSpec_mem | CKopiaBackupStatus KopiaBackupStatus_mem
  | CKopiaRepository "'l KopiaRepository_mem" | CKopiaRepositoryCachingSpec "'l KopiaRepositoryCachingSpec_mem"
  | CKopiaRepositoryCustomValidator | CKopiaRepositoryList "'l KopiaRepositoryList_mem"
  | CKopiaRepositorySpec "'l KopiaRepositorySpec_mem" | CKopiaRepositoryStatus KopiaRepositoryStatus_mem
  | CKopiaRepositoryStorageFileSystemSpec KopiaRepositoryStorageFileSystemSpec
  | CKopiaRepositoryStorageSFTPSpec KopiaRepositoryStorageSFTPSpec_mem
  | CKopiaServerExposureSpec KopiaServerExposureSpec | CKopiaServerSpec "'l KopiaServerSpec_mem"
  | CKopiaServerTLSSpec KopiaServerTLSSpec_mem
  | CZero | CLibrary 'l

type_synonym 'l memory = "'l cell heap"

text \<open>Reading a cell as a value of one type.\<close>

definition get_CInt32 :: "'l cell \<Rightarrow> (int32) option" where
  "get_CInt32 c = (case c of CInt32 v \<Rightarrow> Some v | _ \<Rightarrow> None)"

definition get_CInt64 :: "'l cell \<Rightarrow> (int64) option" where
  "get_CInt64 c = (case c of CInt64 v \<Rightarrow> Some v | _ \<Rightarrow> None)"

definition get_CTime :: "'l cell \<Rightarrow> ('l) option" where
  "get_CTime c = (case c of CTime v \<Rightarrow> Some v | _ \<Rightarrow> None)"

definition get_CStrings :: "'l cell \<Rightarrow> (string list) option" where
  "get_CStrings c = (case c of CStrings v \<Rightarrow> Some v | _ \<Rightarrow> None)"

definition get_CInts :: "'l cell \<Rightarrow> (int64 list) option" where
  "get_CInts c = (case c of CInts v \<Rightarrow> Some v | _ \<Rightarrow> None)"

definition get_CConditions :: "'l cell \<Rightarrow> ('l option list) option" where
  "get_CConditions c = (case c of CConditions v \<Rightarrow> Some v | _ \<Rightarrow> None)"

definition get_CHistory :: "'l cell \<Rightarrow> ('l BackupHistoryEntry_mem option list) option" where
  "get_CHistory c = (case c of CHistory v \<Rightarrow> Some v | _ \<Rightarrow> None)"

definition get_CBackups :: "'l cell \<Rightarrow> ('l KopiaBackup_mem option list) option" where
  "get_CBackups c = (case c of CBackups v \<Rightarrow> Some v | _ \<Rightarrow> None)"

definition get_CRepositories :: "'l cell \<Rightarrow> ('l KopiaRepository_mem option list) option" where
  "get_CRepositories c = (case c of CRepositories v \<Rightarrow> Some v | _ \<Rightarrow> None)"

definition get_CBackupHistoryEntry :: "'l cell \<Rightarrow> ('l BackupHistoryEntry_mem) option" where
  "get_CBackupHistoryEntry c = (case c of CBackupHistoryEntry v \<Rightarrow> Some v | _ \<Rightarrow> None)"

definition get_CKopiaBackup :: "'l cell \<Rightarrow> ('l KopiaBackup_mem) option" where
  "get_CKopiaBackup c = (case c of CKopiaBackup v \<Rightarrow> Some v | _ \<Rightarrow> None)"

definition get_CKopiaBackupCustomValidator :: "'l cell \<Rightarrow> (unit) option" where
  "get_CKopiaBackupCustomValidator c = (case c of CKopiaBackupCustomValidator \<Rightarrow> Some () | _ \<Rightarrow> None)"

definition get_CKopiaBackupList :: "'l cell \<Rightarrow> ('l KopiaBackupList_mem) option" where
  "get_CKopiaBackupList c = (case c of CKopiaBackupList v \<Rightarrow> Some v | _ \<Rightarrow> None)"

definition get_CKopiaBackupSpec :: "'l cell \<Rightarrow> (KopiaBackupSpec_mem) option" where
  "get_CKopiaBackupSpec c = (case c of CKopiaBackupSpec v \<Rightarrow> Some v | _ \<Rightarrow> None)"

definition get_CKopiaBackupStatus :: "'l cell \<Rightarrow> (KopiaBackupStatus_mem) option" where
  "get_CKopiaBackupStatus c = (case c of CKopiaBackupStatus v \<Rightarrow> Some v | _ \<Rightarrow> None)"

definition get_CKopiaRepository :: "'l cell \<Rightarrow> ('l KopiaRepository_mem) option" where
  "get_CKopiaRepository c = (case c of CKopiaRepository v \<Rightarrow> Some v | _ \<Rightarrow> None)"

definition get_CKopiaRepositoryCachingSpec :: "'l cell \<Rightarrow> ('l KopiaRepositoryCachingSpec_mem) option" where
  "get_CKopiaRepositoryCachingSpec c = (case c of CKopiaRepositoryCachingSpec v \<Rightarrow> Some v | _ \<Rightarrow> None)"

definition get_CKopiaRepositoryCustomValidator :: "'l cell \<Rightarrow> (unit) option" where
  "get_CKopiaRepositoryCustomValidator c = (case c of CKopiaRepositoryCustomValidator \<Rightarrow> Some () | _ \<Rightarrow> None)"

definition get_CKopiaRepositoryList :: "'l cell \<Rightarrow> ('l KopiaRepositoryList_mem) option" where
  "get_CKopiaRepositoryList c = (case c of CKopiaRepositoryList v \<Rightarrow> Some v | _ \<Rightarrow> None)"

definition get_CKopiaRepositorySpec :: "'l cell \<Rightarrow> ('l KopiaRepositorySpec_mem) option" where
  "get_CKopiaRepositorySpec c = (case c of CKopiaRepositorySpec v \<Rightarrow> Some v | _ \<Rightarrow> None)"

definition get_CKopiaRepositoryStatus :: "'l cell \<Rightarrow> (KopiaRepositoryStatus_mem) option" where
  "get_CKopiaRepositoryStatus c = (case c of CKopiaRepositoryStatus v \<Rightarrow> Some v | _ \<Rightarrow> None)"

definition get_CKopiaRepositoryStorageFileSystemSpec :: "'l cell \<Rightarrow> (KopiaRepositoryStorageFileSystemSpec) option" where
  "get_CKopiaRepositoryStorageFileSystemSpec c = (case c of CKopiaRepositoryStorageFileSystemSpec v \<Rightarrow> Some v | _ \<Rightarrow> None)"

definition get_CKopiaRepositoryStorageSFTPSpec :: "'l cell \<Rightarrow> (KopiaRepositoryStorageSFTPSpec_mem) option" where
  "get_CKopiaRepositoryStorageSFTPSpec c = (case c of CKopiaRepositoryStorageSFTPSpec v \<Rightarrow> Some v | _ \<Rightarrow> None)"

definition get_CKopiaServerExposureSpec :: "'l cell \<Rightarrow> (KopiaServerExposureSpec) option" where
  "get_CKopiaServerExposureSpec c = (case c of CKopiaServerExposureSpec v \<Rightarrow> Some v | _ \<Rightarrow> None)"

definition get_CKopiaServerSpec :: "'l cell \<Rightarrow> ('l KopiaServerSpec_mem) option" where
  "get_CKopiaServerSpec c = (case c of CKopiaServerSpec v \<Rightarrow> Some v | _ \<Rightarrow> None)"

definition get_CKopiaServerTLSSpec :: "'l cell \<Rightarrow> (KopiaServerTLSSpec_mem) option" where
  "get_CKopiaServerTLSSpec c = (case c of CKopiaServerTLSSpec v \<Rightarrow> Some v | _ \<Rightarrow> None)"

lemma get_cell [simp]:
  "get_CInt32 (CInt32 vCInt32) = Some vCInt32"
  "get_CInt64 (CInt64 vCInt64) = Some vCInt64"
  "get_CTime (CTime vCTime) = Some vCTime"
  "get_CStrings (CStrings vCStrings) = Some vCStrings"
  "get_CInts (CInts vCInts) = Some vCInts"
  "get_CConditions (CConditions vCConditions) = Some vCConditions"
  "get_CHistory (CHistory vCHistory) = Some vCHistory"
  "get_CBackups (CBackups vCBackups) = Some vCBackups"
  "get_CRepositories (CRepositories vCRepositories) = Some vCRepositories"
  "get_CBackupHistoryEntry (CBackupHistoryEntry vCBackupHistoryEntry) = Some vCBackupHistoryEntry"
  "get_CKopiaBackup (CKopiaBackup vCKopiaBackup) = Some vCKopiaBackup"
  "get_CKopiaBackupCustomValidator CKopiaBackupCustomValidator = Some ()"
  "get_CKopiaBackupList (CKopiaBackupList vCKopiaBackupList) = Some vCKopiaBackupList"
  "get_CKopiaBackupSpec (CKopiaBackupSpec vCKopiaBackupSpec) = Some vCKopiaBackupSpec"
  "get_CKopiaBackupStatus (CKopiaBackupStatus vCKopiaBackupStatus) = Some vCKopiaBackupStatus"
  "get_CKopiaRepository (CKopiaRepository vCKopiaRepository) = Some vCKopiaRepository"
  "get_CKopiaRepositoryCachingSpec (CKopiaRepositoryCachingSpec vCKopiaRepositoryCachingSpec) = Some vCKopiaRepositoryCachingSpec"
  "get_CKopiaRepositoryCustomValidator CKopiaRepositoryCustomValidator = Some ()"
  "get_CKopiaRepositoryList (CKopiaRepositoryList vCKopiaRepositoryList) = Some vCKopiaRepositoryList"
  "get_CKopiaRepositorySpec (CKopiaRepositorySpec vCKopiaRepositorySpec) = Some vCKopiaRepositorySpec"
  "get_CKopiaRepositoryStatus (CKopiaRepositoryStatus vCKopiaRepositoryStatus) = Some vCKopiaRepositoryStatus"
  "get_CKopiaRepositoryStorageFileSystemSpec (CKopiaRepositoryStorageFileSystemSpec vCKopiaRepositoryStorageFileSystemSpec) = Some vCKopiaRepositoryStorageFileSystemSpec"
  "get_CKopiaRepositoryStorageSFTPSpec (CKopiaRepositoryStorageSFTPSpec vCKopiaRepositoryStorageSFTPSpec) = Some vCKopiaRepositoryStorageSFTPSpec"
  "get_CKopiaServerExposureSpec (CKopiaServerExposureSpec vCKopiaServerExposureSpec) = Some vCKopiaServerExposureSpec"
  "get_CKopiaServerSpec (CKopiaServerSpec vCKopiaServerSpec) = Some vCKopiaServerSpec"
  "get_CKopiaServerTLSSpec (CKopiaServerTLSSpec vCKopiaServerTLSSpec) = Some vCKopiaServerTLSSpec"
  by (simp_all add: get_CInt32_def get_CInt64_def get_CTime_def get_CStrings_def get_CInts_def get_CConditions_def get_CHistory_def get_CBackups_def get_CRepositories_def get_CBackupHistoryEntry_def get_CKopiaBackup_def get_CKopiaBackupCustomValidator_def get_CKopiaBackupList_def get_CKopiaBackupSpec_def get_CKopiaBackupStatus_def get_CKopiaRepository_def get_CKopiaRepositoryCachingSpec_def get_CKopiaRepositoryCustomValidator_def get_CKopiaRepositoryList_def get_CKopiaRepositorySpec_def get_CKopiaRepositoryStatus_def get_CKopiaRepositoryStorageFileSystemSpec_def get_CKopiaRepositoryStorageSFTPSpec_def get_CKopiaServerExposureSpec_def get_CKopiaServerSpec_def get_CKopiaServerTLSSpec_def)

section \<open>The library\<close>

text \<open>The copy functions of the library for its structs, and what they copy: the value of a struct, and the cells it uses.\<close>

record 'l copy_library =
  ObjectMeta_DeepCopyInto :: "'l \<Rightarrow> ('l cell, 'l) mem"
  ListMeta_DeepCopyInto :: "'l \<Rightarrow> ('l cell, 'l) mem"
  Time_DeepCopyInto :: "'l \<Rightarrow> ('l cell, 'l) mem"
  Time_DeepCopy :: "addr option \<Rightarrow> ('l cell, addr option) mem"
  Condition_DeepCopyInto :: "'l \<Rightarrow> ('l cell, 'l) mem"
  Quantity_DeepCopy :: "'l \<Rightarrow> ('l cell, 'l) mem"
  ResourceRequirements_DeepCopyInto :: "'l \<Rightarrow> ('l cell, 'l) mem"
  ObjectMeta_value :: "'l memory \<Rightarrow> 'l \<Rightarrow> ObjectMeta option"
  ListMeta_value :: "'l memory \<Rightarrow> 'l \<Rightarrow> string option"
  Time_value :: "'l memory \<Rightarrow> 'l \<Rightarrow> int option"
  Condition_value :: "'l memory \<Rightarrow> 'l \<Rightarrow> Condition option"
  Quantity_value :: "'l memory \<Rightarrow> 'l \<Rightarrow> Quantity option"
  ResourceRequirements_value :: "'l memory \<Rightarrow> 'l \<Rightarrow> ResourceRequirements option"
  library_cells :: "'l memory \<Rightarrow> 'l \<Rightarrow> addr set"

locale library_copies =
  fixes L :: "'l copy_library"
  assumes meta: "copyable (ObjectMeta_value L) (library_cells L) (ObjectMeta_DeepCopyInto L)"
    and list_meta: "copyable (ListMeta_value L) (library_cells L) (ListMeta_DeepCopyInto L)"
    and time: "copyable (Time_value L) (library_cells L) (Time_DeepCopyInto L)"
    and time_ptr: "copyable (ptr_den get_CTime (Time_value L)) (ptr_foot get_CTime (library_cells L)) (Time_DeepCopy L)"
    and condition: "copyable (Condition_value L) (library_cells L) (Condition_DeepCopyInto L)"
    and quantity: "copyable (Quantity_value L) (library_cells L) (Quantity_DeepCopy L)"
    and resources: "copyable (ResourceRequirements_value L) (library_cells L) (ResourceRequirements_DeepCopyInto L)"

section \<open>Copy functions\<close>

text \<open>
  A function \<open>DeepCopyInto\<close> gives the struct that it leaves in \<open>out\<close>: every caller passes memory it has just made, so
  it does not matter when the fields of \<open>out\<close> are written. \<open>*out = *in\<close> copies a struct field by field; the assignments that
  follow replace the fields that point somewhere.
  The code copies a pointer to a time only if it is not nil.
\<close>

definition copy_int32 :: "addr option \<Rightarrow> ('l cell, addr option) mem" where
  "copy_int32 = copy_new get_CInt32 CInt32 (CInt32 0) give"

definition copy_int64 :: "addr option \<Rightarrow> ('l cell, addr option) mem" where
  "copy_int64 = copy_new get_CInt64 CInt64 (CInt64 0) give"

definition copy_time :: "'l copy_library \<Rightarrow> addr option \<Rightarrow> ('l cell, addr option) mem" where
  "copy_time L p = (if p \<noteq> None then Time_DeepCopy L p else give None)"

definition BackupHistoryEntry_DeepCopyInto :: "'l copy_library \<Rightarrow> 'l BackupHistoryEntry_mem \<Rightarrow> ('l cell, 'l BackupHistoryEntry_mem) mem" where
  "BackupHistoryEntry_DeepCopyInto L x =
     and_then (Time_DeepCopyInto L (mbh_StartTime x)) (\<lambda>t.
     and_then (copy_time L (mbh_CompletionTime x)) (\<lambda>p.
     give (x\<lparr>mbh_StartTime := t, mbh_CompletionTime := p\<rparr>)))"

definition KopiaBackupSpec_DeepCopyInto :: "KopiaBackupSpec_mem \<Rightarrow> ('l cell, KopiaBackupSpec_mem) mem" where
  "KopiaBackupSpec_DeepCopyInto x =
     and_then (copy_int32 (mbs_SuccessfulJobsHistoryLimit x)) (\<lambda>a.
     and_then (copy_int32 (mbs_FailedJobsHistoryLimit x)) (\<lambda>b.
     and_then (copy_int32 (mbs_TTLSecondsAfterFinished x)) (\<lambda>c.
     and_then (copy_int64 (mbs_ActiveDeadlineSeconds x)) (\<lambda>d.
     and_then (copy_int32 (mbs_BackoffLimit x)) (\<lambda>e.
     give (x\<lparr>mbs_SuccessfulJobsHistoryLimit := a, mbs_FailedJobsHistoryLimit := b, mbs_TTLSecondsAfterFinished := c,
       mbs_ActiveDeadlineSeconds := d, mbs_BackoffLimit := e\<rparr>))))))"

definition KopiaBackupStatus_DeepCopyInto :: "'l copy_library \<Rightarrow> KopiaBackupStatus_mem \<Rightarrow> ('l cell, KopiaBackupStatus_mem) mem" where
  "KopiaBackupStatus_DeepCopyInto L x =
     and_then (copy_slice get_CConditions CConditions (Condition_DeepCopyInto L) (mbst_Conditions x)) (\<lambda>a.
     and_then (copy_time L (mbst_LastBackupTime x)) (\<lambda>b.
     and_then (copy_time L (mbst_LastSuccessfulBackupTime x)) (\<lambda>c.
     and_then (copy_slice get_CHistory CHistory (BackupHistoryEntry_DeepCopyInto L) (mbst_BackupHistory x)) (\<lambda>d.
     give (x\<lparr>mbst_Conditions := a, mbst_LastBackupTime := b, mbst_LastSuccessfulBackupTime := c, mbst_BackupHistory := d\<rparr>)))))"

definition KopiaBackup_DeepCopyInto :: "'l copy_library \<Rightarrow> 'l KopiaBackup_mem \<Rightarrow> ('l cell, 'l KopiaBackup_mem) mem" where
  "KopiaBackup_DeepCopyInto L x =
     and_then (ObjectMeta_DeepCopyInto L (mkb_ObjectMeta x)) (\<lambda>m.
     and_then (KopiaBackupSpec_DeepCopyInto (mkb_Spec x)) (\<lambda>s.
     and_then (KopiaBackupStatus_DeepCopyInto L (mkb_Status x)) (\<lambda>t.
     give (x\<lparr>mkb_TypeMeta := mkb_TypeMeta x, mkb_ObjectMeta := m, mkb_Spec := s, mkb_Status := t\<rparr>))))"

definition KopiaBackupCustomValidator_DeepCopyInto :: "unit \<Rightarrow> ('l cell, unit) mem" where
  "KopiaBackupCustomValidator_DeepCopyInto x = give x"

definition KopiaBackupList_DeepCopyInto :: "'l copy_library \<Rightarrow> 'l KopiaBackupList_mem \<Rightarrow> ('l cell, 'l KopiaBackupList_mem) mem" where
  "KopiaBackupList_DeepCopyInto L x =
     and_then (ListMeta_DeepCopyInto L (mkbl_ListMeta x)) (\<lambda>m.
     and_then (copy_slice get_CBackups CBackups (KopiaBackup_DeepCopyInto L) (mkbl_Items x)) (\<lambda>s.
     give (x\<lparr>mkbl_TypeMeta := mkbl_TypeMeta x, mkbl_ListMeta := m, mkbl_Items := s\<rparr>)))"

definition KopiaRepositoryCachingSpec_DeepCopyInto ::
    "'l copy_library \<Rightarrow> 'l KopiaRepositoryCachingSpec_mem \<Rightarrow> ('l cell, 'l KopiaRepositoryCachingSpec_mem) mem" where
  "KopiaRepositoryCachingSpec_DeepCopyInto L x =
     and_then (Quantity_DeepCopy L (mca_ContentCacheSize x)) (\<lambda>a.
     and_then (Quantity_DeepCopy L (mca_ContentCacheSizeLimit x)) (\<lambda>b.
     and_then (Quantity_DeepCopy L (mca_MetadataCacheSize x)) (\<lambda>c.
     and_then (Quantity_DeepCopy L (mca_MetadataCacheSizeLimit x)) (\<lambda>d.
     give (x\<lparr>mca_ContentCacheSize := a, mca_ContentCacheSizeLimit := b, mca_MetadataCacheSize := c, mca_MetadataCacheSizeLimit := d\<rparr>)))))"

definition KopiaRepositoryStorageFileSystemSpec_DeepCopyInto ::
    "KopiaRepositoryStorageFileSystemSpec \<Rightarrow> ('l cell, KopiaRepositoryStorageFileSystemSpec) mem" where
  "KopiaRepositoryStorageFileSystemSpec_DeepCopyInto x = give x"

definition KopiaRepositoryStorageSFTPSpec_DeepCopyInto ::
    "KopiaRepositoryStorageSFTPSpec_mem \<Rightarrow> ('l cell, KopiaRepositoryStorageSFTPSpec_mem) mem" where
  "KopiaRepositoryStorageSFTPSpec_DeepCopyInto x =
     and_then (copy_array get_CInts CInts 0 (msftp_DirShards x)) (\<lambda>s. give (x\<lparr>msftp_DirShards := s\<rparr>))"

definition KopiaServerExposureSpec_DeepCopyInto :: "KopiaServerExposureSpec \<Rightarrow> ('l cell, KopiaServerExposureSpec) mem" where
  "KopiaServerExposureSpec_DeepCopyInto x = give x"

definition KopiaServerTLSSpec_DeepCopyInto :: "KopiaServerTLSSpec_mem \<Rightarrow> ('l cell, KopiaServerTLSSpec_mem) mem" where
  "KopiaServerTLSSpec_DeepCopyInto x =
     and_then (copy_array get_CStrings CStrings [] (mtls_CertificateDNSNames x)) (\<lambda>s. give (x\<lparr>mtls_CertificateDNSNames := s\<rparr>))"

definition KopiaServerSpec_DeepCopyInto :: "'l copy_library \<Rightarrow> 'l KopiaServerSpec_mem \<Rightarrow> ('l cell, 'l KopiaServerSpec_mem) mem" where
  "KopiaServerSpec_DeepCopyInto L x =
     and_then (ResourceRequirements_DeepCopyInto L (msrv_Resources x)) (\<lambda>r.
     and_then (KopiaServerTLSSpec_DeepCopyInto (msrv_TLS x)) (\<lambda>t.
     and_then (copy_array get_CStrings CStrings [] (msrv_ExtraArgs x)) (\<lambda>s.
     give (x\<lparr>msrv_Resources := r, msrv_TLS := t, msrv_Exposure := msrv_Exposure x, msrv_ExtraArgs := s\<rparr>))))"

definition KopiaRepositorySpec_DeepCopyInto :: "'l copy_library \<Rightarrow> 'l KopiaRepositorySpec_mem \<Rightarrow> ('l cell, 'l KopiaRepositorySpec_mem) mem" where
  "KopiaRepositorySpec_DeepCopyInto L x =
     and_then (KopiaRepositoryCachingSpec_DeepCopyInto L (mrs_Caching x)) (\<lambda>c.
     and_then (KopiaRepositoryStorageSFTPSpec_DeepCopyInto (mrs_SFTPOptions x)) (\<lambda>s.
     and_then (KopiaServerSpec_DeepCopyInto L (mrs_Server x)) (\<lambda>v.
     give (x\<lparr>mrs_Caching := c, mrs_FileSystemOptions := mrs_FileSystemOptions x, mrs_SFTPOptions := s, mrs_Server := v\<rparr>))))"

definition KopiaRepositoryStatus_DeepCopyInto :: "'l copy_library \<Rightarrow> KopiaRepositoryStatus_mem \<Rightarrow> ('l cell, KopiaRepositoryStatus_mem) mem" where
  "KopiaRepositoryStatus_DeepCopyInto L x =
     and_then (copy_slice get_CConditions CConditions (Condition_DeepCopyInto L) (mrst_Conditions x)) (\<lambda>a.
     give (x\<lparr>mrst_Conditions := a\<rparr>))"

definition KopiaRepository_DeepCopyInto :: "'l copy_library \<Rightarrow> 'l KopiaRepository_mem \<Rightarrow> ('l cell, 'l KopiaRepository_mem) mem" where
  "KopiaRepository_DeepCopyInto L x =
     and_then (ObjectMeta_DeepCopyInto L (mkr_ObjectMeta x)) (\<lambda>m.
     and_then (KopiaRepositorySpec_DeepCopyInto L (mkr_Spec x)) (\<lambda>s.
     and_then (KopiaRepositoryStatus_DeepCopyInto L (mkr_Status x)) (\<lambda>t.
     give (x\<lparr>mkr_TypeMeta := mkr_TypeMeta x, mkr_ObjectMeta := m, mkr_Spec := s, mkr_Status := t\<rparr>))))"

definition KopiaRepositoryCustomValidator_DeepCopyInto :: "unit \<Rightarrow> ('l cell, unit) mem" where
  "KopiaRepositoryCustomValidator_DeepCopyInto x = give x"

definition KopiaRepositoryList_DeepCopyInto :: "'l copy_library \<Rightarrow> 'l KopiaRepositoryList_mem \<Rightarrow> ('l cell, 'l KopiaRepositoryList_mem) mem" where
  "KopiaRepositoryList_DeepCopyInto L x =
     and_then (ListMeta_DeepCopyInto L (mkrl_ListMeta x)) (\<lambda>m.
     and_then (copy_slice get_CRepositories CRepositories (KopiaRepository_DeepCopyInto L) (mkrl_Items x)) (\<lambda>s.
     give (x\<lparr>mkrl_TypeMeta := mkrl_TypeMeta x, mkrl_ListMeta := m, mkrl_Items := s\<rparr>)))"

text \<open>The functions that allocate the copy.\<close>

definition BackupHistoryEntry_DeepCopy :: "'l copy_library \<Rightarrow> addr option \<Rightarrow> ('l cell, addr option) mem" where
  "BackupHistoryEntry_DeepCopy L = copy_new get_CBackupHistoryEntry CBackupHistoryEntry CZero (BackupHistoryEntry_DeepCopyInto L)"

definition KopiaBackup_DeepCopy :: "'l copy_library \<Rightarrow> addr option \<Rightarrow> ('l cell, addr option) mem" where
  "KopiaBackup_DeepCopy L = copy_new get_CKopiaBackup CKopiaBackup CZero (KopiaBackup_DeepCopyInto L)"

definition KopiaBackupCustomValidator_DeepCopy :: "addr option \<Rightarrow> ('l cell, addr option) mem" where
  "KopiaBackupCustomValidator_DeepCopy = copy_new get_CKopiaBackupCustomValidator (\<lambda>_. CKopiaBackupCustomValidator) CZero KopiaBackupCustomValidator_DeepCopyInto"

definition KopiaBackupList_DeepCopy :: "'l copy_library \<Rightarrow> addr option \<Rightarrow> ('l cell, addr option) mem" where
  "KopiaBackupList_DeepCopy L = copy_new get_CKopiaBackupList CKopiaBackupList CZero (KopiaBackupList_DeepCopyInto L)"

definition KopiaBackupSpec_DeepCopy :: "addr option \<Rightarrow> ('l cell, addr option) mem" where
  "KopiaBackupSpec_DeepCopy = copy_new get_CKopiaBackupSpec CKopiaBackupSpec CZero KopiaBackupSpec_DeepCopyInto"

definition KopiaBackupStatus_DeepCopy :: "'l copy_library \<Rightarrow> addr option \<Rightarrow> ('l cell, addr option) mem" where
  "KopiaBackupStatus_DeepCopy L = copy_new get_CKopiaBackupStatus CKopiaBackupStatus CZero (KopiaBackupStatus_DeepCopyInto L)"

definition KopiaRepository_DeepCopy :: "'l copy_library \<Rightarrow> addr option \<Rightarrow> ('l cell, addr option) mem" where
  "KopiaRepository_DeepCopy L = copy_new get_CKopiaRepository CKopiaRepository CZero (KopiaRepository_DeepCopyInto L)"

definition KopiaRepositoryCachingSpec_DeepCopy :: "'l copy_library \<Rightarrow> addr option \<Rightarrow> ('l cell, addr option) mem" where
  "KopiaRepositoryCachingSpec_DeepCopy L = copy_new get_CKopiaRepositoryCachingSpec CKopiaRepositoryCachingSpec CZero (KopiaRepositoryCachingSpec_DeepCopyInto L)"

definition KopiaRepositoryCustomValidator_DeepCopy :: "addr option \<Rightarrow> ('l cell, addr option) mem" where
  "KopiaRepositoryCustomValidator_DeepCopy = copy_new get_CKopiaRepositoryCustomValidator (\<lambda>_. CKopiaRepositoryCustomValidator) CZero KopiaRepositoryCustomValidator_DeepCopyInto"

definition KopiaRepositoryList_DeepCopy :: "'l copy_library \<Rightarrow> addr option \<Rightarrow> ('l cell, addr option) mem" where
  "KopiaRepositoryList_DeepCopy L = copy_new get_CKopiaRepositoryList CKopiaRepositoryList CZero (KopiaRepositoryList_DeepCopyInto L)"

definition KopiaRepositorySpec_DeepCopy :: "'l copy_library \<Rightarrow> addr option \<Rightarrow> ('l cell, addr option) mem" where
  "KopiaRepositorySpec_DeepCopy L = copy_new get_CKopiaRepositorySpec CKopiaRepositorySpec CZero (KopiaRepositorySpec_DeepCopyInto L)"

definition KopiaRepositoryStatus_DeepCopy :: "'l copy_library \<Rightarrow> addr option \<Rightarrow> ('l cell, addr option) mem" where
  "KopiaRepositoryStatus_DeepCopy L = copy_new get_CKopiaRepositoryStatus CKopiaRepositoryStatus CZero (KopiaRepositoryStatus_DeepCopyInto L)"

definition KopiaRepositoryStorageFileSystemSpec_DeepCopy :: "addr option \<Rightarrow> ('l cell, addr option) mem" where
  "KopiaRepositoryStorageFileSystemSpec_DeepCopy = copy_new get_CKopiaRepositoryStorageFileSystemSpec CKopiaRepositoryStorageFileSystemSpec CZero KopiaRepositoryStorageFileSystemSpec_DeepCopyInto"

definition KopiaRepositoryStorageSFTPSpec_DeepCopy :: "addr option \<Rightarrow> ('l cell, addr option) mem" where
  "KopiaRepositoryStorageSFTPSpec_DeepCopy = copy_new get_CKopiaRepositoryStorageSFTPSpec CKopiaRepositoryStorageSFTPSpec CZero KopiaRepositoryStorageSFTPSpec_DeepCopyInto"

definition KopiaServerExposureSpec_DeepCopy :: "addr option \<Rightarrow> ('l cell, addr option) mem" where
  "KopiaServerExposureSpec_DeepCopy = copy_new get_CKopiaServerExposureSpec CKopiaServerExposureSpec CZero KopiaServerExposureSpec_DeepCopyInto"

definition KopiaServerSpec_DeepCopy :: "'l copy_library \<Rightarrow> addr option \<Rightarrow> ('l cell, addr option) mem" where
  "KopiaServerSpec_DeepCopy L = copy_new get_CKopiaServerSpec CKopiaServerSpec CZero (KopiaServerSpec_DeepCopyInto L)"

definition KopiaServerTLSSpec_DeepCopy :: "addr option \<Rightarrow> ('l cell, addr option) mem" where
  "KopiaServerTLSSpec_DeepCopy = copy_new get_CKopiaServerTLSSpec CKopiaServerTLSSpec CZero KopiaServerTLSSpec_DeepCopyInto"

text \<open>
  An object of the library's interface \<open>runtime.Object\<close>: nil, or a pointer with its type, which may itself be nil. The
  functions \<open>DeepCopyObject\<close> never make the latter.
\<close>

datatype runtime_Object_mem = NilObject | PKopiaBackup "addr option" | PKopiaBackupList "addr option"
  | PKopiaRepository "addr option" | PKopiaRepositoryList "addr option"

definition KopiaBackup_DeepCopyObject :: "'l copy_library \<Rightarrow> addr option \<Rightarrow> ('l cell, runtime_Object_mem) mem" where
  "KopiaBackup_DeepCopyObject L p = and_then (KopiaBackup_DeepCopy L p) (\<lambda>c. give (if c \<noteq> None then PKopiaBackup c else NilObject))"

definition KopiaBackupList_DeepCopyObject :: "'l copy_library \<Rightarrow> addr option \<Rightarrow> ('l cell, runtime_Object_mem) mem" where
  "KopiaBackupList_DeepCopyObject L p = and_then (KopiaBackupList_DeepCopy L p) (\<lambda>c. give (if c \<noteq> None then PKopiaBackupList c else NilObject))"

definition KopiaRepository_DeepCopyObject :: "'l copy_library \<Rightarrow> addr option \<Rightarrow> ('l cell, runtime_Object_mem) mem" where
  "KopiaRepository_DeepCopyObject L p = and_then (KopiaRepository_DeepCopy L p) (\<lambda>c. give (if c \<noteq> None then PKopiaRepository c else NilObject))"

definition KopiaRepositoryList_DeepCopyObject :: "'l copy_library \<Rightarrow> addr option \<Rightarrow> ('l cell, runtime_Object_mem) mem" where
  "KopiaRepositoryList_DeepCopyObject L p = and_then (KopiaRepositoryList_DeepCopy L p) (\<lambda>c. give (if c \<noteq> None then PKopiaRepositoryList c else NilObject))"

text \<open>The call of the method through the interface; on a nil interface it is a nil dereference.\<close>

definition DeepCopyObject :: "'l copy_library \<Rightarrow> runtime_Object_mem \<Rightarrow> ('l cell, runtime_Object_mem) mem" where
  "DeepCopyObject L x = (case x of
     NilObject \<Rightarrow> (\<lambda>h. None)
   | PKopiaBackup p \<Rightarrow> KopiaBackup_DeepCopyObject L p
   | PKopiaBackupList p \<Rightarrow> KopiaBackupList_DeepCopyObject L p
   | PKopiaRepository p \<Rightarrow> KopiaRepository_DeepCopyObject L p
   | PKopiaRepositoryList p \<Rightarrow> KopiaRepositoryList_DeepCopyObject L p)"

end
