(* ===== verification/Copy_Contracts.thy ===== *)
theory Copy_Contracts
  imports Deep_Copies
begin

text \<open>
  What the deep copies promise. Each struct in memory denotes a value of \<open>Kopia_Types\<close> when all that it points to
  is there and of the right type, and it reaches some cells. Every copy function is \<open>copyable\<close> for these two: the
  copy denotes the same value and lives in new cells.
\<close>

section \<open>Values and cells of structs\<close>

abbreviation value_int32 :: "'l memory \<Rightarrow> addr option \<Rightarrow> int32 option option" where
  "value_int32 \<equiv> ptr_den get_CInt32 (\<lambda>h v. Some v)"

abbreviation value_int64 :: "'l memory \<Rightarrow> addr option \<Rightarrow> int64 option option" where
  "value_int64 \<equiv> ptr_den get_CInt64 (\<lambda>h v. Some v)"

abbreviation value_time :: "'l copy_library \<Rightarrow> 'l memory \<Rightarrow> addr option \<Rightarrow> int option option" where
  "value_time L \<equiv> ptr_den get_CTime (Time_value L)"

abbreviation cells_int32 :: "'l memory \<Rightarrow> addr option \<Rightarrow> addr set" where
  "cells_int32 \<equiv> ptr_foot get_CInt32 (\<lambda>h v. {})"

abbreviation cells_int64 :: "'l memory \<Rightarrow> addr option \<Rightarrow> addr set" where
  "cells_int64 \<equiv> ptr_foot get_CInt64 (\<lambda>h v. {})"

abbreviation cells_time :: "'l copy_library \<Rightarrow> 'l memory \<Rightarrow> addr option \<Rightarrow> addr set" where
  "cells_time L \<equiv> ptr_foot get_CTime (library_cells L)"

abbreviation slots_strings :: "'l cell \<Rightarrow> string option list option" where
  "slots_strings \<equiv> \<lambda>c. map_option (map Some) (get_CStrings c)"

abbreviation slots_ints :: "'l cell \<Rightarrow> int64 option list option" where
  "slots_ints \<equiv> \<lambda>c. map_option (map Some) (get_CInts c)"

definition history_value :: "'l copy_library \<Rightarrow> 'l memory \<Rightarrow> 'l BackupHistoryEntry_mem \<Rightarrow> BackupHistoryEntry option" where
  "history_value L h x = do {
     t \<leftarrow> Time_value L h (mbh_StartTime x);
     p \<leftarrow> value_time L h (mbh_CompletionTime x);
     Some \<lparr>bh_StartTime = t, bh_CompletionTime = p, bh_Status = mbh_Status x, bh_JobName = mbh_JobName x, bh_Message = mbh_Message x\<rparr> }"

definition history_cells :: "'l copy_library \<Rightarrow> 'l memory \<Rightarrow> 'l BackupHistoryEntry_mem \<Rightarrow> addr set" where
  "history_cells L h x = library_cells L h (mbh_StartTime x) \<union> cells_time L h (mbh_CompletionTime x)"

definition backup_spec_value :: "'l memory \<Rightarrow> KopiaBackupSpec_mem \<Rightarrow> KopiaBackupSpec option" where
  "backup_spec_value h x = do {
     a \<leftarrow> value_int32 h (mbs_SuccessfulJobsHistoryLimit x);
     b \<leftarrow> value_int32 h (mbs_FailedJobsHistoryLimit x);
     c \<leftarrow> value_int32 h (mbs_TTLSecondsAfterFinished x);
     d \<leftarrow> value_int64 h (mbs_ActiveDeadlineSeconds x);
     e \<leftarrow> value_int32 h (mbs_BackoffLimit x);
     Some \<lparr>bs_PVCName = mbs_PVCName x, bs_Schedule = mbs_Schedule x, bs_Repository = mbs_Repository x, bs_Suspend = mbs_Suspend x,
       bs_SuccessfulJobsHistoryLimit = a, bs_FailedJobsHistoryLimit = b, bs_TTLSecondsAfterFinished = c,
       bs_ActiveDeadlineSeconds = d, bs_BackoffLimit = e, bs_UserCredentialsSecret = mbs_UserCredentialsSecret x\<rparr> }"

definition backup_spec_cells :: "'l memory \<Rightarrow> KopiaBackupSpec_mem \<Rightarrow> addr set" where
  "backup_spec_cells h x = cells_int32 h (mbs_SuccessfulJobsHistoryLimit x) \<union> cells_int32 h (mbs_FailedJobsHistoryLimit x)
     \<union> cells_int32 h (mbs_TTLSecondsAfterFinished x) \<union> cells_int64 h (mbs_ActiveDeadlineSeconds x)
     \<union> cells_int32 h (mbs_BackoffLimit x)"

definition backup_status_value :: "'l copy_library \<Rightarrow> 'l memory \<Rightarrow> KopiaBackupStatus_mem \<Rightarrow> KopiaBackupStatus option" where
  "backup_status_value L h x = do {
     a \<leftarrow> slice_den get_CConditions (Condition_value L) h (mbst_Conditions x);
     b \<leftarrow> value_time L h (mbst_LastBackupTime x);
     c \<leftarrow> value_time L h (mbst_LastSuccessfulBackupTime x);
     d \<leftarrow> slice_den get_CHistory (history_value L) h (mbst_BackupHistory x);
     Some \<lparr>bst_Conditions = a, bst_AutoCreated = mbst_AutoCreated x, bst_CronJobName = mbst_CronJobName x,
       bst_NodeName = mbst_NodeName x, bst_ServerURL = mbst_ServerURL x, bst_Username = mbst_Username x,
       bst_Connected = mbst_Connected x, bst_LastBackupStatus = mbst_LastBackupStatus x, bst_LastBackupTime = b,
       bst_LastSuccessfulBackupTime = c, bst_BackupHistory = d\<rparr> }"

definition backup_status_cells :: "'l copy_library \<Rightarrow> 'l memory \<Rightarrow> KopiaBackupStatus_mem \<Rightarrow> addr set" where
  "backup_status_cells L h x = slice_foot get_CConditions (library_cells L) h (mbst_Conditions x)
     \<union> cells_time L h (mbst_LastBackupTime x) \<union> cells_time L h (mbst_LastSuccessfulBackupTime x)
     \<union> slice_foot get_CHistory (history_cells L) h (mbst_BackupHistory x)"

definition backup_value :: "'l copy_library \<Rightarrow> 'l memory \<Rightarrow> 'l KopiaBackup_mem \<Rightarrow> (TypeMeta \<times> KopiaBackup) option" where
  "backup_value L h x = do {
     m \<leftarrow> ObjectMeta_value L h (mkb_ObjectMeta x);
     s \<leftarrow> backup_spec_value h (mkb_Spec x);
     t \<leftarrow> backup_status_value L h (mkb_Status x);
     Some (mkb_TypeMeta x, \<lparr>kb_meta = m, kb_spec = s, kb_status = t\<rparr>) }"

definition backup_cells :: "'l copy_library \<Rightarrow> 'l memory \<Rightarrow> 'l KopiaBackup_mem \<Rightarrow> addr set" where
  "backup_cells L h x = library_cells L h (mkb_ObjectMeta x) \<union> backup_spec_cells h (mkb_Spec x)
     \<union> backup_status_cells L h (mkb_Status x)"

definition backup_list_value :: "'l copy_library \<Rightarrow> 'l memory \<Rightarrow> 'l KopiaBackupList_mem
    \<Rightarrow> (TypeMeta \<times> string \<times> (TypeMeta \<times> KopiaBackup) list) option" where
  "backup_list_value L h x = do {
     m \<leftarrow> ListMeta_value L h (mkbl_ListMeta x);
     s \<leftarrow> slice_den get_CBackups (backup_value L) h (mkbl_Items x);
     Some (mkbl_TypeMeta x, m, s) }"

definition backup_list_cells :: "'l copy_library \<Rightarrow> 'l memory \<Rightarrow> 'l KopiaBackupList_mem \<Rightarrow> addr set" where
  "backup_list_cells L h x = library_cells L h (mkbl_ListMeta x) \<union> slice_foot get_CBackups (backup_cells L) h (mkbl_Items x)"

definition caching_value :: "'l copy_library \<Rightarrow> 'l memory \<Rightarrow> 'l KopiaRepositoryCachingSpec_mem \<Rightarrow> KopiaRepositoryCachingSpec option" where
  "caching_value L h x = do {
     a \<leftarrow> Quantity_value L h (mca_ContentCacheSize x);
     b \<leftarrow> Quantity_value L h (mca_ContentCacheSizeLimit x);
     c \<leftarrow> Quantity_value L h (mca_MetadataCacheSize x);
     d \<leftarrow> Quantity_value L h (mca_MetadataCacheSizeLimit x);
     Some \<lparr>ca_CacheDirectory = mca_CacheDirectory x, ca_ContentCacheSize = a, ca_ContentCacheSizeLimit = b,
       ca_MetadataCacheSize = c, ca_MetadataCacheSizeLimit = d, ca_MaxListCacheDuration = mca_MaxListCacheDuration x,
       ca_MinMetadataSweepAge = mca_MinMetadataSweepAge x, ca_MinContentSweepAge = mca_MinContentSweepAge x,
       ca_MinIndexSweepAge = mca_MinIndexSweepAge x\<rparr> }"

definition caching_cells :: "'l copy_library \<Rightarrow> 'l memory \<Rightarrow> 'l KopiaRepositoryCachingSpec_mem \<Rightarrow> addr set" where
  "caching_cells L h x = library_cells L h (mca_ContentCacheSize x) \<union> library_cells L h (mca_ContentCacheSizeLimit x)
     \<union> library_cells L h (mca_MetadataCacheSize x) \<union> library_cells L h (mca_MetadataCacheSizeLimit x)"

definition sftp_value :: "'l memory \<Rightarrow> KopiaRepositoryStorageSFTPSpec_mem \<Rightarrow> KopiaRepositoryStorageSFTPSpec option" where
  "sftp_value h x = do {
     s \<leftarrow> slice_den slots_ints (\<lambda>h v. Some v) h (msftp_DirShards x);
     Some \<lparr>sftp_Path = msftp_Path x, sftp_Host = msftp_Host x, sftp_Port = msftp_Port x,
       sftp_KnownHostsData = msftp_KnownHostsData x, sftp_ExternalSSH = msftp_ExternalSSH x, sftp_SSHCommand = msftp_SSHCommand x,
       sftp_DirShards = s, sftp_CredentialsSecret = msftp_CredentialsSecret x\<rparr> }"

definition sftp_cells :: "'l memory \<Rightarrow> KopiaRepositoryStorageSFTPSpec_mem \<Rightarrow> addr set" where
  "sftp_cells h x = slice_foot slots_ints (\<lambda>h v. {}) h (msftp_DirShards x)"

definition tls_value :: "'l memory \<Rightarrow> KopiaServerTLSSpec_mem \<Rightarrow> KopiaServerTLSSpec option" where
  "tls_value h x = do {
     s \<leftarrow> slice_den slots_strings (\<lambda>h v. Some v) h (mtls_CertificateDNSNames x);
     Some \<lparr>tls_SecretName = mtls_SecretName x, tls_CertificateCommonName = mtls_CertificateCommonName x, tls_CertificateDNSNames = s\<rparr> }"

definition tls_cells :: "'l memory \<Rightarrow> KopiaServerTLSSpec_mem \<Rightarrow> addr set" where
  "tls_cells h x = slice_foot slots_strings (\<lambda>h v. {}) h (mtls_CertificateDNSNames x)"

definition server_value :: "'l copy_library \<Rightarrow> 'l memory \<Rightarrow> 'l KopiaServerSpec_mem \<Rightarrow> KopiaServerSpec option" where
  "server_value L h x = do {
     r \<leftarrow> ResourceRequirements_value L h (msrv_Resources x);
     t \<leftarrow> tls_value h (msrv_TLS x);
     s \<leftarrow> slice_den slots_strings (\<lambda>h v. Some v) h (msrv_ExtraArgs x);
     Some \<lparr>srv_Enabled = msrv_Enabled x, srv_Image = msrv_Image x, srv_Replicas = msrv_Replicas x, srv_Resources = r, srv_TLS = t,
       srv_Exposure = msrv_Exposure x, srv_AdminPasswordSecretName = msrv_AdminPasswordSecretName x,
       srv_PersistentVolumeClaim = msrv_PersistentVolumeClaim x, srv_ExtraArgs = s\<rparr> }"

definition server_cells :: "'l copy_library \<Rightarrow> 'l memory \<Rightarrow> 'l KopiaServerSpec_mem \<Rightarrow> addr set" where
  "server_cells L h x = library_cells L h (msrv_Resources x) \<union> tls_cells h (msrv_TLS x)
     \<union> slice_foot slots_strings (\<lambda>h v. {}) h (msrv_ExtraArgs x)"

definition repository_spec_value :: "'l copy_library \<Rightarrow> 'l memory \<Rightarrow> 'l KopiaRepositorySpec_mem \<Rightarrow> KopiaRepositorySpec option" where
  "repository_spec_value L h x = do {
     c \<leftarrow> caching_value L h (mrs_Caching x);
     s \<leftarrow> sftp_value h (mrs_SFTPOptions x);
     v \<leftarrow> server_value L h (mrs_Server x);
     Some \<lparr>rs_Hostname = mrs_Hostname x, rs_Username = mrs_Username x, rs_StorageType = mrs_StorageType x,
       rs_ReadOnly = mrs_ReadOnly x, rs_PermissiveCacheLoading = mrs_PermissiveCacheLoading x, rs_Description = mrs_Description x,
       rs_EnableActions = mrs_EnableActions x, rs_DefaultSchedule = mrs_DefaultSchedule x,
       rs_PasswordSecretName = mrs_PasswordSecretName x, rs_FormatBlobCacheDurationSeconds = mrs_FormatBlobCacheDurationSeconds x,
       rs_Caching = c, rs_FileSystemOptions = mrs_FileSystemOptions x, rs_SFTPOptions = s, rs_Server = v\<rparr> }"

definition repository_spec_cells :: "'l copy_library \<Rightarrow> 'l memory \<Rightarrow> 'l KopiaRepositorySpec_mem \<Rightarrow> addr set" where
  "repository_spec_cells L h x = caching_cells L h (mrs_Caching x) \<union> sftp_cells h (mrs_SFTPOptions x) \<union> server_cells L h (mrs_Server x)"

definition repository_status_value :: "'l copy_library \<Rightarrow> 'l memory \<Rightarrow> KopiaRepositoryStatus_mem \<Rightarrow> KopiaRepositoryStatus option" where
  "repository_status_value L h x = do {
     a \<leftarrow> slice_den get_CConditions (Condition_value L) h (mrst_Conditions x);
     Some \<lparr>rst_Conditions = a, rst_ServerReady = mrst_ServerReady x, rst_ServerURL = mrst_ServerURL x,
       rst_ServerDeployment = mrst_ServerDeployment x, rst_ServerService = mrst_ServerService x,
       rst_TLSCertFingerprint = mrst_TLSCertFingerprint x\<rparr> }"

definition repository_status_cells :: "'l copy_library \<Rightarrow> 'l memory \<Rightarrow> KopiaRepositoryStatus_mem \<Rightarrow> addr set" where
  "repository_status_cells L h x = slice_foot get_CConditions (library_cells L) h (mrst_Conditions x)"

definition repository_value :: "'l copy_library \<Rightarrow> 'l memory \<Rightarrow> 'l KopiaRepository_mem \<Rightarrow> (TypeMeta \<times> KopiaRepository) option" where
  "repository_value L h x = do {
     m \<leftarrow> ObjectMeta_value L h (mkr_ObjectMeta x);
     s \<leftarrow> repository_spec_value L h (mkr_Spec x);
     t \<leftarrow> repository_status_value L h (mkr_Status x);
     Some (mkr_TypeMeta x, \<lparr>kr_meta = m, kr_spec = s, kr_status = t\<rparr>) }"

definition repository_cells :: "'l copy_library \<Rightarrow> 'l memory \<Rightarrow> 'l KopiaRepository_mem \<Rightarrow> addr set" where
  "repository_cells L h x = library_cells L h (mkr_ObjectMeta x) \<union> repository_spec_cells L h (mkr_Spec x)
     \<union> repository_status_cells L h (mkr_Status x)"

definition repository_list_value :: "'l copy_library \<Rightarrow> 'l memory \<Rightarrow> 'l KopiaRepositoryList_mem
    \<Rightarrow> (TypeMeta \<times> string \<times> (TypeMeta \<times> KopiaRepository) list) option" where
  "repository_list_value L h x = do {
     m \<leftarrow> ListMeta_value L h (mkrl_ListMeta x);
     s \<leftarrow> slice_den get_CRepositories (repository_value L) h (mkrl_Items x);
     Some (mkrl_TypeMeta x, m, s) }"

definition repository_list_cells :: "'l copy_library \<Rightarrow> 'l memory \<Rightarrow> 'l KopiaRepositoryList_mem \<Rightarrow> addr set" where
  "repository_list_cells L h x = library_cells L h (mkrl_ListMeta x) \<union> slice_foot get_CRepositories (repository_cells L) h (mkrl_Items x)"

section \<open>Every copy function keeps the contract\<close>

lemma map_option_do: "map_option f (Option.bind m g) = Option.bind m (\<lambda>x. map_option f (g x))"
  by (cases m) simp_all

lemma do_map: "do { v \<leftarrow> m; Some (f v) } = map_option f m"
  by (cases m) simp_all

named_theorems struct_simps \<open>how a struct is put together from its fields\<close>

lemmas [struct_simps] = pair_den_def pair_foot_def pair_copy_def map_option_do Un_assoc

lemma copyable_int32: "copyable value_int32 cells_int32 copy_int32"
  unfolding copy_int32_def by (rule copyable_ptr [OF copyable_flat]) simp

lemma copyable_int64: "copyable value_int64 cells_int64 copy_int64"
  unfolding copy_int64_def by (rule copyable_ptr [OF copyable_flat]) simp

lemmas copyable_strings = copyable_array [of get_CStrings CStrings, OF get_cell(4), of "[]"]

lemmas copyable_ints = copyable_array [of get_CInts CInts, OF get_cell(5), of 0]

lemma backup_spec_copies: "copyable backup_spec_value backup_spec_cells KopiaBackupSpec_DeepCopyInto"
  by (rule copyable_struct [OF copyable_pair [OF copyable_int32 copyable_pair [OF copyable_int32 copyable_pair [OF copyable_int32
         copyable_pair [OF copyable_int64 copyable_int32]]]],
       where parts = "\<lambda>x. (mbs_SuccessfulJobsHistoryLimit x, mbs_FailedJobsHistoryLimit x, mbs_TTLSecondsAfterFinished x,
           mbs_ActiveDeadlineSeconds x, mbs_BackoffLimit x)"
         and build = "\<lambda>x (a, b, c, d, e). x\<lparr>mbs_SuccessfulJobsHistoryLimit := a, mbs_FailedJobsHistoryLimit := b,
           mbs_TTLSecondsAfterFinished := c, mbs_ActiveDeadlineSeconds := d, mbs_BackoffLimit := e\<rparr>"
         and mk = "\<lambda>x (a, b, c, d, e). \<lparr>bs_PVCName = mbs_PVCName x, bs_Schedule = mbs_Schedule x, bs_Repository = mbs_Repository x,
           bs_Suspend = mbs_Suspend x, bs_SuccessfulJobsHistoryLimit = a, bs_FailedJobsHistoryLimit = b,
           bs_TTLSecondsAfterFinished = c, bs_ActiveDeadlineSeconds = d, bs_BackoffLimit = e,
           bs_UserCredentialsSecret = mbs_UserCredentialsSecret x\<rparr>"])
     (auto simp: struct_simps backup_spec_value_def backup_spec_cells_def KopiaBackupSpec_DeepCopyInto_def)

lemma sftp_copies: "copyable sftp_value sftp_cells KopiaRepositoryStorageSFTPSpec_DeepCopyInto"
  by (rule copyable_struct [OF copyable_ints, where parts = msftp_DirShards and build = "\<lambda>x s. x\<lparr>msftp_DirShards := s\<rparr>"
         and mk = "\<lambda>x s. \<lparr>sftp_Path = msftp_Path x, sftp_Host = msftp_Host x, sftp_Port = msftp_Port x,
           sftp_KnownHostsData = msftp_KnownHostsData x, sftp_ExternalSSH = msftp_ExternalSSH x, sftp_SSHCommand = msftp_SSHCommand x,
           sftp_DirShards = s, sftp_CredentialsSecret = msftp_CredentialsSecret x\<rparr>"])
     (auto simp: struct_simps sftp_value_def sftp_cells_def KopiaRepositoryStorageSFTPSpec_DeepCopyInto_def do_map)

lemma tls_copies: "copyable tls_value tls_cells KopiaServerTLSSpec_DeepCopyInto"
  by (rule copyable_struct [OF copyable_strings, where parts = mtls_CertificateDNSNames
         and build = "\<lambda>x s. x\<lparr>mtls_CertificateDNSNames := s\<rparr>"
         and mk = "\<lambda>x s. \<lparr>tls_SecretName = mtls_SecretName x, tls_CertificateCommonName = mtls_CertificateCommonName x,
           tls_CertificateDNSNames = s\<rparr>"])
     (auto simp: struct_simps tls_value_def tls_cells_def KopiaServerTLSSpec_DeepCopyInto_def do_map)

context library_copies
begin

lemma copyable_time: "copyable (value_time L) (cells_time L) (copy_time L)"
proof -
  have "copy_time L = (\<lambda>p. case p of None \<Rightarrow> give None | Some a \<Rightarrow> Time_DeepCopy L (Some a))"
    by (auto simp: copy_time_def fun_eq_iff split: option.splits)
  then show ?thesis
    using time_ptr
    by (auto simp: copyable_def ptr_den_def ptr_foot_def extends_refl split: option.splits)
qed

lemma copyable_conditions: "copyable (slice_den get_CConditions (Condition_value L)) (slice_foot get_CConditions (library_cells L))
    (copy_slice get_CConditions CConditions (Condition_DeepCopyInto L))"
  by (rule copyable_slice [OF condition]) simp

lemma history_copies: "copyable (history_value L) (history_cells L) (BackupHistoryEntry_DeepCopyInto L)"
  by (rule copyable_struct [OF copyable_pair [OF time copyable_time], where parts = "\<lambda>x. (mbh_StartTime x, mbh_CompletionTime x)"
         and build = "\<lambda>x (t, p). x\<lparr>mbh_StartTime := t, mbh_CompletionTime := p\<rparr>"
         and mk = "\<lambda>x (t, p). \<lparr>bh_StartTime = t, bh_CompletionTime = p, bh_Status = mbh_Status x, bh_JobName = mbh_JobName x,
           bh_Message = mbh_Message x\<rparr>"])
     (auto simp: struct_simps history_value_def history_cells_def BackupHistoryEntry_DeepCopyInto_def)

lemma copyable_history: "copyable (slice_den get_CHistory (history_value L)) (slice_foot get_CHistory (history_cells L))
    (copy_slice get_CHistory CHistory (BackupHistoryEntry_DeepCopyInto L))"
  by (rule copyable_slice [OF history_copies]) simp

lemma backup_status_copies: "copyable (backup_status_value L) (backup_status_cells L) (KopiaBackupStatus_DeepCopyInto L)"
  by (rule copyable_struct [OF copyable_pair [OF copyable_conditions copyable_pair [OF copyable_time copyable_pair [OF copyable_time copyable_history]]],
       where parts = "\<lambda>x. (mbst_Conditions x, mbst_LastBackupTime x, mbst_LastSuccessfulBackupTime x, mbst_BackupHistory x)"
         and build = "\<lambda>x (a, b, c, d). x\<lparr>mbst_Conditions := a, mbst_LastBackupTime := b, mbst_LastSuccessfulBackupTime := c,
           mbst_BackupHistory := d\<rparr>"
         and mk = "\<lambda>x (a, b, c, d). \<lparr>bst_Conditions = a, bst_AutoCreated = mbst_AutoCreated x, bst_CronJobName = mbst_CronJobName x,
           bst_NodeName = mbst_NodeName x, bst_ServerURL = mbst_ServerURL x, bst_Username = mbst_Username x,
           bst_Connected = mbst_Connected x, bst_LastBackupStatus = mbst_LastBackupStatus x, bst_LastBackupTime = b,
           bst_LastSuccessfulBackupTime = c, bst_BackupHistory = d\<rparr>"])
     (auto simp: struct_simps backup_status_value_def backup_status_cells_def KopiaBackupStatus_DeepCopyInto_def)

lemma backup_copies: "copyable (backup_value L) (backup_cells L) (KopiaBackup_DeepCopyInto L)"
  by (rule copyable_struct [OF copyable_pair [OF meta copyable_pair [OF backup_spec_copies backup_status_copies]],
       where parts = "\<lambda>x. (mkb_ObjectMeta x, mkb_Spec x, mkb_Status x)"
         and build = "\<lambda>x (m, s, t). x\<lparr>mkb_ObjectMeta := m, mkb_Spec := s, mkb_Status := t\<rparr>"
         and mk = "\<lambda>x (m, s, t). (mkb_TypeMeta x, \<lparr>kb_meta = m, kb_spec = s, kb_status = t\<rparr>)"])
     (auto simp: struct_simps backup_value_def backup_cells_def KopiaBackup_DeepCopyInto_def)

lemma copyable_backups: "copyable (slice_den get_CBackups (backup_value L)) (slice_foot get_CBackups (backup_cells L))
    (copy_slice get_CBackups CBackups (KopiaBackup_DeepCopyInto L))"
  by (rule copyable_slice [OF backup_copies]) simp

lemma backup_list_copies: "copyable (backup_list_value L) (backup_list_cells L) (KopiaBackupList_DeepCopyInto L)"
  by (rule copyable_struct [OF copyable_pair [OF list_meta copyable_backups], where parts = "\<lambda>x. (mkbl_ListMeta x, mkbl_Items x)"
         and build = "\<lambda>x (m, s). x\<lparr>mkbl_ListMeta := m, mkbl_Items := s\<rparr>" and mk = "\<lambda>x (m, s). (mkbl_TypeMeta x, m, s)"])
     (auto simp: struct_simps backup_list_value_def backup_list_cells_def KopiaBackupList_DeepCopyInto_def)

lemma caching_copies: "copyable (caching_value L) (caching_cells L) (KopiaRepositoryCachingSpec_DeepCopyInto L)"
  by (rule copyable_struct [OF copyable_pair [OF quantity copyable_pair [OF quantity copyable_pair [OF quantity quantity]]],
       where parts = "\<lambda>x. (mca_ContentCacheSize x, mca_ContentCacheSizeLimit x, mca_MetadataCacheSize x, mca_MetadataCacheSizeLimit x)"
         and build = "\<lambda>x (a, b, c, d). x\<lparr>mca_ContentCacheSize := a, mca_ContentCacheSizeLimit := b, mca_MetadataCacheSize := c,
           mca_MetadataCacheSizeLimit := d\<rparr>"
         and mk = "\<lambda>x (a, b, c, d). \<lparr>ca_CacheDirectory = mca_CacheDirectory x, ca_ContentCacheSize = a, ca_ContentCacheSizeLimit = b,
           ca_MetadataCacheSize = c, ca_MetadataCacheSizeLimit = d, ca_MaxListCacheDuration = mca_MaxListCacheDuration x,
           ca_MinMetadataSweepAge = mca_MinMetadataSweepAge x, ca_MinContentSweepAge = mca_MinContentSweepAge x,
           ca_MinIndexSweepAge = mca_MinIndexSweepAge x\<rparr>"])
     (auto simp: struct_simps caching_value_def caching_cells_def KopiaRepositoryCachingSpec_DeepCopyInto_def)

lemma server_copies: "copyable (server_value L) (server_cells L) (KopiaServerSpec_DeepCopyInto L)"
  by (rule copyable_struct [OF copyable_pair [OF resources copyable_pair [OF tls_copies copyable_strings]],
       where parts = "\<lambda>x. (msrv_Resources x, msrv_TLS x, msrv_ExtraArgs x)"
         and build = "\<lambda>x (r, t, s). x\<lparr>msrv_Resources := r, msrv_TLS := t, msrv_ExtraArgs := s\<rparr>"
         and mk = "\<lambda>x (r, t, s). \<lparr>srv_Enabled = msrv_Enabled x, srv_Image = msrv_Image x, srv_Replicas = msrv_Replicas x,
           srv_Resources = r, srv_TLS = t, srv_Exposure = msrv_Exposure x, srv_AdminPasswordSecretName = msrv_AdminPasswordSecretName x,
           srv_PersistentVolumeClaim = msrv_PersistentVolumeClaim x, srv_ExtraArgs = s\<rparr>"])
     (auto simp: struct_simps server_value_def server_cells_def KopiaServerSpec_DeepCopyInto_def)

lemma repository_spec_copies: "copyable (repository_spec_value L) (repository_spec_cells L) (KopiaRepositorySpec_DeepCopyInto L)"
  by (rule copyable_struct [OF copyable_pair [OF caching_copies copyable_pair [OF sftp_copies server_copies]],
       where parts = "\<lambda>x. (mrs_Caching x, mrs_SFTPOptions x, mrs_Server x)"
         and build = "\<lambda>x (c, s, v). x\<lparr>mrs_Caching := c, mrs_SFTPOptions := s, mrs_Server := v\<rparr>"
         and mk = "\<lambda>x (c, s, v). \<lparr>rs_Hostname = mrs_Hostname x, rs_Username = mrs_Username x, rs_StorageType = mrs_StorageType x,
           rs_ReadOnly = mrs_ReadOnly x, rs_PermissiveCacheLoading = mrs_PermissiveCacheLoading x, rs_Description = mrs_Description x,
           rs_EnableActions = mrs_EnableActions x, rs_DefaultSchedule = mrs_DefaultSchedule x,
           rs_PasswordSecretName = mrs_PasswordSecretName x, rs_FormatBlobCacheDurationSeconds = mrs_FormatBlobCacheDurationSeconds x,
           rs_Caching = c, rs_FileSystemOptions = mrs_FileSystemOptions x, rs_SFTPOptions = s, rs_Server = v\<rparr>"])
     (auto simp: struct_simps repository_spec_value_def repository_spec_cells_def KopiaRepositorySpec_DeepCopyInto_def)

lemma repository_status_copies: "copyable (repository_status_value L) (repository_status_cells L) (KopiaRepositoryStatus_DeepCopyInto L)"
  by (rule copyable_struct [OF copyable_conditions, where parts = mrst_Conditions and build = "\<lambda>x a. x\<lparr>mrst_Conditions := a\<rparr>"
         and mk = "\<lambda>x a. \<lparr>rst_Conditions = a, rst_ServerReady = mrst_ServerReady x, rst_ServerURL = mrst_ServerURL x,
           rst_ServerDeployment = mrst_ServerDeployment x, rst_ServerService = mrst_ServerService x,
           rst_TLSCertFingerprint = mrst_TLSCertFingerprint x\<rparr>"])
     (auto simp: struct_simps repository_status_value_def repository_status_cells_def KopiaRepositoryStatus_DeepCopyInto_def do_map)

lemma repository_copies: "copyable (repository_value L) (repository_cells L) (KopiaRepository_DeepCopyInto L)"
  by (rule copyable_struct [OF copyable_pair [OF meta copyable_pair [OF repository_spec_copies repository_status_copies]],
       where parts = "\<lambda>x. (mkr_ObjectMeta x, mkr_Spec x, mkr_Status x)"
         and build = "\<lambda>x (m, s, t). x\<lparr>mkr_ObjectMeta := m, mkr_Spec := s, mkr_Status := t\<rparr>"
         and mk = "\<lambda>x (m, s, t). (mkr_TypeMeta x, \<lparr>kr_meta = m, kr_spec = s, kr_status = t\<rparr>)"])
     (auto simp: struct_simps repository_value_def repository_cells_def KopiaRepository_DeepCopyInto_def)

lemma copyable_repositories: "copyable (slice_den get_CRepositories (repository_value L)) (slice_foot get_CRepositories (repository_cells L))
    (copy_slice get_CRepositories CRepositories (KopiaRepository_DeepCopyInto L))"
  by (rule copyable_slice [OF repository_copies]) simp

lemma repository_list_copies: "copyable (repository_list_value L) (repository_list_cells L) (KopiaRepositoryList_DeepCopyInto L)"
  by (rule copyable_struct [OF copyable_pair [OF list_meta copyable_repositories], where parts = "\<lambda>x. (mkrl_ListMeta x, mkrl_Items x)"
         and build = "\<lambda>x (m, s). x\<lparr>mkrl_ListMeta := m, mkrl_Items := s\<rparr>" and mk = "\<lambda>x (m, s). (mkrl_TypeMeta x, m, s)"])
     (auto simp: struct_simps repository_list_value_def repository_list_cells_def KopiaRepositoryList_DeepCopyInto_def)

end

section \<open>Pointers and objects\<close>

text \<open>The value of an object; a typed nil pointer and the nil interface are both nothing.\<close>

datatype object_value = VNil
  | VKopiaBackup "TypeMeta \<times> KopiaBackup" | VKopiaBackupList "TypeMeta \<times> string \<times> (TypeMeta \<times> KopiaBackup) list"
  | VKopiaRepository "TypeMeta \<times> KopiaRepository" | VKopiaRepositoryList "TypeMeta \<times> string \<times> (TypeMeta \<times> KopiaRepository) list"

definition object_value :: "'l copy_library \<Rightarrow> 'l memory \<Rightarrow> runtime_Object_mem \<Rightarrow> object_value option" where
  "object_value L h x = (case x of
     NilObject \<Rightarrow> Some VNil
   | PKopiaBackup p \<Rightarrow> map_option (case_option VNil VKopiaBackup) (ptr_den get_CKopiaBackup (backup_value L) h p)
   | PKopiaBackupList p \<Rightarrow> map_option (case_option VNil VKopiaBackupList) (ptr_den get_CKopiaBackupList (backup_list_value L) h p)
   | PKopiaRepository p \<Rightarrow> map_option (case_option VNil VKopiaRepository) (ptr_den get_CKopiaRepository (repository_value L) h p)
   | PKopiaRepositoryList p \<Rightarrow> map_option (case_option VNil VKopiaRepositoryList)
       (ptr_den get_CKopiaRepositoryList (repository_list_value L) h p))"

definition object_cells :: "'l copy_library \<Rightarrow> 'l memory \<Rightarrow> runtime_Object_mem \<Rightarrow> addr set" where
  "object_cells L h x = (case x of
     NilObject \<Rightarrow> {}
   | PKopiaBackup p \<Rightarrow> ptr_foot get_CKopiaBackup (backup_cells L) h p
   | PKopiaBackupList p \<Rightarrow> ptr_foot get_CKopiaBackupList (backup_list_cells L) h p
   | PKopiaRepository p \<Rightarrow> ptr_foot get_CKopiaRepository (repository_cells L) h p
   | PKopiaRepositoryList p \<Rightarrow> ptr_foot get_CKopiaRepositoryList (repository_list_cells L) h p)"

text \<open>The method as its callers use it: on a nil interface there is nothing to call.\<close>

definition copy_object :: "'l copy_library \<Rightarrow> runtime_Object_mem \<Rightarrow> ('l cell, runtime_Object_mem) mem" where
  "copy_object L x = (if x = NilObject then give NilObject else DeepCopyObject L x)"

lemma ptr_den_nil: "ptr_den get d h p = Some None \<longleftrightarrow> p = None"
  by (cases p) (auto simp: ptr_den_def bind_eq_Some_conv)

lemma ptr_foot_nil [simp]: "ptr_foot get f h None = {}"
  by (simp add: ptr_foot_def)

lemmas flat_copies = copyable_flat [of "\<lambda>x. x"]

lemma plain_deep_copies:
  "copyable (ptr_den get_CKopiaBackupSpec backup_spec_value) (ptr_foot get_CKopiaBackupSpec backup_spec_cells) KopiaBackupSpec_DeepCopy"
  "copyable (ptr_den get_CKopiaRepositoryStorageSFTPSpec sftp_value) (ptr_foot get_CKopiaRepositoryStorageSFTPSpec sftp_cells)
     KopiaRepositoryStorageSFTPSpec_DeepCopy"
  "copyable (ptr_den get_CKopiaServerTLSSpec tls_value) (ptr_foot get_CKopiaServerTLSSpec tls_cells) KopiaServerTLSSpec_DeepCopy"
  "copyable (ptr_den get_CKopiaRepositoryStorageFileSystemSpec (\<lambda>h. Some)) (ptr_foot get_CKopiaRepositoryStorageFileSystemSpec (\<lambda>h v. {}))
     KopiaRepositoryStorageFileSystemSpec_DeepCopy"
  "copyable (ptr_den get_CKopiaServerExposureSpec (\<lambda>h. Some)) (ptr_foot get_CKopiaServerExposureSpec (\<lambda>h v. {})) KopiaServerExposureSpec_DeepCopy"
  "copyable (ptr_den get_CKopiaBackupCustomValidator (\<lambda>h. Some)) (ptr_foot get_CKopiaBackupCustomValidator (\<lambda>h v. {}))
     KopiaBackupCustomValidator_DeepCopy"
  "copyable (ptr_den get_CKopiaRepositoryCustomValidator (\<lambda>h. Some)) (ptr_foot get_CKopiaRepositoryCustomValidator (\<lambda>h v. {}))
     KopiaRepositoryCustomValidator_DeepCopy"
  unfolding KopiaBackupSpec_DeepCopy_def KopiaRepositoryStorageSFTPSpec_DeepCopy_def KopiaServerTLSSpec_DeepCopy_def
    KopiaRepositoryStorageFileSystemSpec_DeepCopy_def KopiaServerExposureSpec_DeepCopy_def
    KopiaBackupCustomValidator_DeepCopy_def KopiaRepositoryCustomValidator_DeepCopy_def
  by (rule copyable_ptr, simp_all add: backup_spec_copies sftp_copies tls_copies flat_copies
        KopiaRepositoryStorageFileSystemSpec_DeepCopyInto_def [abs_def] KopiaServerExposureSpec_DeepCopyInto_def [abs_def]
        KopiaBackupCustomValidator_DeepCopyInto_def [abs_def] KopiaRepositoryCustomValidator_DeepCopyInto_def [abs_def])+

text \<open>How the interface value of a copy is made from its pointer.\<close>

lemma copies_object:
  assumes c: "copyable (ptr_den get d) (ptr_foot get f) copy" and wf: "wf_heap h" and v: "map_option (case_option VNil V) (ptr_den get d h p) = Some v"
    and den: "\<And>h p. object_value L h (P p) = map_option (case_option VNil V) (ptr_den get d h p)"
    and foot: "\<And>h p. object_cells L h (P p) = ptr_foot get f h p"
  shows "runs (and_then (copy p) (\<lambda>c. give (if c \<noteq> None then P c else NilObject)))
    (\<lambda>y h'. extends h h' \<and> object_value L h' y = Some v \<and> object_cells L h' y \<subseteq> {lim h..<lim h'}) h"
proof -
  from v obtain w where w: "ptr_den get d h p = Some w" "v = case_option VNil V w" by auto
  show ?thesis
    unfolding runs_simps
  proof (rule runs_mono [OF copyable.copies [OF c wf w(1)]], elim conjE)
    fix y h' assume y: "extends h h'" "ptr_den get d h' y = Some w" "ptr_foot get f h' y \<subseteq> {lim h..<lim h'}"
    show "extends h h' \<and> object_value L h' (if y \<noteq> None then P y else NilObject) = Some v
        \<and> object_cells L h' (if y \<noteq> None then P y else NilObject) \<subseteq> {lim h..<lim h'}"
    proof (cases y)
      case None
      with y w(2) show ?thesis by (simp add: ptr_den_def object_value_def object_cells_def)
    next
      case (Some a)
      with y w(2) show ?thesis by (simp add: den foot)
    qed
  qed
qed

context library_copies
begin

lemma library_deep_copies:
  "copyable (ptr_den get_CBackupHistoryEntry (history_value L)) (ptr_foot get_CBackupHistoryEntry (history_cells L)) (BackupHistoryEntry_DeepCopy L)"
  "copyable (ptr_den get_CKopiaBackupStatus (backup_status_value L)) (ptr_foot get_CKopiaBackupStatus (backup_status_cells L)) (KopiaBackupStatus_DeepCopy L)"
  "copyable (ptr_den get_CKopiaBackup (backup_value L)) (ptr_foot get_CKopiaBackup (backup_cells L)) (KopiaBackup_DeepCopy L)"
  "copyable (ptr_den get_CKopiaBackupList (backup_list_value L)) (ptr_foot get_CKopiaBackupList (backup_list_cells L)) (KopiaBackupList_DeepCopy L)"
  "copyable (ptr_den get_CKopiaRepositoryCachingSpec (caching_value L)) (ptr_foot get_CKopiaRepositoryCachingSpec (caching_cells L))
     (KopiaRepositoryCachingSpec_DeepCopy L)"
  "copyable (ptr_den get_CKopiaServerSpec (server_value L)) (ptr_foot get_CKopiaServerSpec (server_cells L)) (KopiaServerSpec_DeepCopy L)"
  "copyable (ptr_den get_CKopiaRepositorySpec (repository_spec_value L)) (ptr_foot get_CKopiaRepositorySpec (repository_spec_cells L))
     (KopiaRepositorySpec_DeepCopy L)"
  "copyable (ptr_den get_CKopiaRepositoryStatus (repository_status_value L)) (ptr_foot get_CKopiaRepositoryStatus (repository_status_cells L))
     (KopiaRepositoryStatus_DeepCopy L)"
  "copyable (ptr_den get_CKopiaRepository (repository_value L)) (ptr_foot get_CKopiaRepository (repository_cells L)) (KopiaRepository_DeepCopy L)"
  "copyable (ptr_den get_CKopiaRepositoryList (repository_list_value L)) (ptr_foot get_CKopiaRepositoryList (repository_list_cells L))
     (KopiaRepositoryList_DeepCopy L)"
  unfolding BackupHistoryEntry_DeepCopy_def KopiaBackupStatus_DeepCopy_def KopiaBackup_DeepCopy_def KopiaBackupList_DeepCopy_def
    KopiaRepositoryCachingSpec_DeepCopy_def KopiaServerSpec_DeepCopy_def KopiaRepositorySpec_DeepCopy_def
    KopiaRepositoryStatus_DeepCopy_def KopiaRepository_DeepCopy_def KopiaRepositoryList_DeepCopy_def
  by (rule copyable_ptr, simp_all add: history_copies backup_status_copies backup_copies backup_list_copies caching_copies
        server_copies repository_spec_copies repository_status_copies repository_copies repository_list_copies)+

lemmas object_pointers = library_deep_copies(3,4,9,10)

lemma objects_copy: "copyable (object_value L) (object_cells L) (copy_object L)"
proof
  fix h h' x assume "agree (object_cells L h x) h h'"
  then show "object_value L h' x = object_value L h x \<and> object_cells L h' x = object_cells L h x"
    using object_pointers [THEN copyable.frame, of h _ h'] by (cases x) (auto simp: object_value_def object_cells_def)
next
  fix h x v assume wf: "wf_heap h" and v: "object_value L h x = Some v"
  then show "object_cells L h x \<subseteq> {..<lim h}"
    by (cases x) (auto simp: object_value_def object_cells_def intro: object_pointers [THEN copyable.below, OF wf])
  show "runs (copy_object L x) (\<lambda>y h'. extends h h' \<and> object_value L h' y = Some v \<and> object_cells L h' y \<subseteq> {lim h..<lim h'}) h"
  proof (cases x)
    case NilObject
    with v wf show ?thesis by (simp add: copy_object_def object_value_def object_cells_def extends_refl)
  next
    case (PKopiaBackup p)
    with v show ?thesis using copies_object [OF object_pointers(1) wf, where P = PKopiaBackup and V = VKopiaBackup and L = L]
      by (simp add: copy_object_def DeepCopyObject_def KopiaBackup_DeepCopyObject_def object_value_def object_cells_def)
  next
    case (PKopiaBackupList p)
    with v show ?thesis using copies_object [OF object_pointers(2) wf, where P = PKopiaBackupList and V = VKopiaBackupList and L = L]
      by (simp add: copy_object_def DeepCopyObject_def KopiaBackupList_DeepCopyObject_def object_value_def object_cells_def)
  next
    case (PKopiaRepository p)
    with v show ?thesis using copies_object [OF object_pointers(3) wf, where P = PKopiaRepository and V = VKopiaRepository and L = L]
      by (simp add: copy_object_def DeepCopyObject_def KopiaRepository_DeepCopyObject_def object_value_def object_cells_def)
  next
    case (PKopiaRepositoryList p)
    with v show ?thesis using copies_object [OF object_pointers(4) wf, where P = PKopiaRepositoryList and V = VKopiaRepositoryList and L = L]
      by (simp add: copy_object_def DeepCopyObject_def KopiaRepositoryList_DeepCopyObject_def object_value_def object_cells_def)
  qed
qed

end

sublocale library_copies \<subseteq> objects: copyable "object_value L" "object_cells L" "copy_object L"
  by (rule objects_copy)

context library_copies
begin

lemmas object_copies = objects.copies
lemmas object_isolated = objects.isolated

end

section \<open>A library that satisfies the contract\<close>

text \<open>
  Structs of the library as values, but for the deletion time of an object's metadata, which is a pointer as in the
  library. A struct without pointers is copied by assignment.
\<close>

datatype lib_struct = LObjectMeta ObjectMeta "addr option" | LListMeta string | LTime int | LCondition Condition
  | LQuantity Quantity | LResourceRequirements ResourceRequirements

definition get_LTime :: "lib_struct \<Rightarrow> int option" where
  "get_LTime x = (case x of LTime t \<Rightarrow> Some t | _ \<Rightarrow> None)"

definition lib_meta_value :: "lib_struct memory \<Rightarrow> lib_struct \<Rightarrow> ObjectMeta option" where
  "lib_meta_value h x = (case x of
     LObjectMeta m p \<Rightarrow> map_option (\<lambda>t. m\<lparr>om_DeletionTimestamp := t\<rparr>) (ptr_den get_CTime (\<lambda>h. get_LTime) h p)
   | _ \<Rightarrow> None)"

definition lib_cells :: "lib_struct memory \<Rightarrow> lib_struct \<Rightarrow> addr set" where
  "lib_cells h x = (case x of LObjectMeta m p \<Rightarrow> ptr_foot get_CTime (\<lambda>h x. {}) h p | _ \<Rightarrow> {})"

definition lib_time_copy :: "addr option \<Rightarrow> (lib_struct cell, addr option) mem" where
  "lib_time_copy = copy_new get_CTime CTime CZero give"

definition lib_meta_copy :: "lib_struct \<Rightarrow> (lib_struct cell, lib_struct) mem" where
  "lib_meta_copy x = (case x of LObjectMeta m p \<Rightarrow> and_then (lib_time_copy p) (\<lambda>q. give (LObjectMeta m q)) | _ \<Rightarrow> give x)"

definition reference_library :: "lib_struct copy_library" where
  "reference_library = \<lparr>ObjectMeta_DeepCopyInto = lib_meta_copy, ListMeta_DeepCopyInto = give, Time_DeepCopyInto = give,
     Time_DeepCopy = lib_time_copy, Condition_DeepCopyInto = give, Quantity_DeepCopy = give, ResourceRequirements_DeepCopyInto = give,
     ObjectMeta_value = lib_meta_value,
     ListMeta_value = (\<lambda>h x. case x of LListMeta v \<Rightarrow> Some v | _ \<Rightarrow> None),
     Time_value = (\<lambda>h. get_LTime),
     Condition_value = (\<lambda>h x. case x of LCondition v \<Rightarrow> Some v | _ \<Rightarrow> None),
     Quantity_value = (\<lambda>h x. case x of LQuantity v \<Rightarrow> Some v | _ \<Rightarrow> None),
     ResourceRequirements_value = (\<lambda>h x. case x of LResourceRequirements v \<Rightarrow> Some v | _ \<Rightarrow> None),
     library_cells = lib_cells\<rparr>"

text \<open>Structs without pointers, where the value may be missing but does not depend on the memory.\<close>

lemma copyable_plain:
  assumes "\<And>h x v. g x = Some v \<Longrightarrow> foot h x = {}" "\<And>h h' x. agree (foot h x) h h' \<Longrightarrow> foot h' x = foot h x"
  shows "copyable (\<lambda>h. g) foot give"
  using assms by unfold_locales (auto intro: extends_refl)

lemma lib_time_copies:
  "copyable (ptr_den get_CTime (\<lambda>h. get_LTime)) (ptr_foot get_CTime (\<lambda>h x. {})) lib_time_copy"
  unfolding lib_time_copy_def by (rule copyable_ptr [OF copyable_plain]) simp_all

lemma lib_cells_frame: "agree (lib_cells h x) h h' \<Longrightarrow> lib_cells h' x = lib_cells h x"
  using copyable.frame [OF lib_time_copies] by (auto simp: lib_cells_def split: lib_struct.splits)

lemma lib_meta_copies: "copyable lib_meta_value lib_cells lib_meta_copy"
proof
  fix h h' x assume "agree (lib_cells h x) h h'"
  then show "lib_meta_value h' x = lib_meta_value h x \<and> lib_cells h' x = lib_cells h x"
    using copyable.frame [OF lib_time_copies, of h _ h'] by (cases x) (auto simp: lib_meta_value_def lib_cells_def)
next
  fix h x v assume wf: "wf_heap h" and v: "lib_meta_value h x = Some v"
  then obtain m p t where x: "x = LObjectMeta m p" "ptr_den get_CTime (\<lambda>h. get_LTime) h p = Some t" "v = m\<lparr>om_DeletionTimestamp := t\<rparr>"
    by (cases x) (auto simp: lib_meta_value_def)
  show "lib_cells h x \<subseteq> {..<lim h}" using copyable.bounded [OF lib_time_copies wf x(2)] by (simp add: lib_cells_def x(1))
  show "runs (lib_meta_copy x) (\<lambda>y h'. extends h h' \<and> lib_meta_value h' y = Some v \<and> lib_cells h' y \<subseteq> {lim h..<lim h'}) h"
    unfolding x(1) lib_meta_copy_def lib_struct.case runs_simps
    by (rule runs_mono [OF copyable.copies [OF lib_time_copies wf x(2)]]) (simp add: lib_meta_value_def lib_cells_def x(3))
qed

lemma lib_plain_copies:
  assumes "\<And>m p. g (LObjectMeta m p) = None"
  shows "copyable (\<lambda>h. g) lib_cells give"
proof (rule copyable_plain)
  show "g x = Some v \<Longrightarrow> lib_cells h x = {}" for h x v using assms by (cases x) (simp_all add: lib_cells_def)
qed (rule lib_cells_frame)

lemma lib_time_ptr_copies: "copyable (ptr_den get_CTime (\<lambda>h. get_LTime)) (ptr_foot get_CTime lib_cells) lib_time_copy"
  unfolding lib_time_copy_def by (rule copyable_ptr [OF lib_plain_copies]) (simp_all add: get_LTime_def)

interpretation reference: library_copies reference_library
  unfolding library_copies_def reference_library_def copy_library.simps
  by (intro conjI lib_meta_copies lib_time_ptr_copies lib_plain_copies) (simp_all add: get_LTime_def)

section \<open>Copies of objects\<close>

lemma object_value_nil: "x \<noteq> NilObject \<Longrightarrow> object_value L h x = Some VNil
  \<longleftrightarrow> x \<in> {PKopiaBackup None, PKopiaBackupList None, PKopiaRepository None, PKopiaRepositoryList None}"
  by (cases x) (auto simp: object_value_def ptr_den_nil split: option.splits)

lemma DeepCopyObject_not_typed_nil:
  assumes "DeepCopyObject L x h = Some (y, h')"
  shows "y \<notin> {PKopiaBackup None, PKopiaBackupList None, PKopiaRepository None, PKopiaRepositoryList None}"
  using assms
  by (cases x) (auto simp: DeepCopyObject_def KopiaBackup_DeepCopyObject_def KopiaBackupList_DeepCopyObject_def
    KopiaRepository_DeepCopyObject_def KopiaRepositoryList_DeepCopyObject_def and_then_def give_def split: option.splits if_splits)

text \<open>
  An example: a backup that is being deleted, whose two job limits share one cell, whose condition is the second element
  of a longer array, and whose history holds the same time pointer as its metadata.
\<close>

definition sample_backup :: KopiaBackup where
  "sample_backup = \<lparr>kb_meta = zero_ObjectMeta\<lparr>om_Name := ''data'', om_DeletionTimestamp := Some 7\<rparr>,
     kb_spec = zero_KopiaBackupSpec\<lparr>bs_SuccessfulJobsHistoryLimit := Some 3, bs_FailedJobsHistoryLimit := Some 3\<rparr>,
     kb_status = zero_KopiaBackupStatus\<lparr>
       bst_Conditions := [\<lparr>co_Type = ''Ready'', co_Status = ConditionTrue, co_Reason = ''Reconciled'', co_Message = '''', co_ObservedGeneration = 1\<rparr>],
       bst_BackupHistory := [\<lparr>bh_StartTime = 4, bh_CompletionTime = Some 7, bh_Status = BackupStatusSuccessful, bh_JobName = ''job'', bh_Message = ''''\<rparr>]\<rparr>\<rparr>"

definition sample_memory :: "lib_struct memory" where
  "sample_memory = \<lparr>cells = (\<lambda>a.
     if a = 0 then Some (CKopiaBackup \<lparr>mkb_TypeMeta = (''KopiaBackup'', ''v1alpha1''),
       mkb_ObjectMeta = LObjectMeta (zero_ObjectMeta\<lparr>om_Name := ''data''\<rparr>) (Some 1),
       mkb_Spec = \<lparr>mbs_PVCName = '''', mbs_Schedule = '''', mbs_Repository = '''', mbs_Suspend = False,
         mbs_SuccessfulJobsHistoryLimit = Some 2, mbs_FailedJobsHistoryLimit = Some 2, mbs_TTLSecondsAfterFinished = None,
         mbs_ActiveDeadlineSeconds = None, mbs_BackoffLimit = None, mbs_UserCredentialsSecret = ''''\<rparr>,
       mkb_Status = \<lparr>mbst_Conditions = Some \<lparr>sl_array = 3, sl_off = 1, sl_len = 1\<rparr>, mbst_AutoCreated = False, mbst_CronJobName = '''',
         mbst_NodeName = '''', mbst_ServerURL = '''', mbst_Username = '''', mbst_Connected = False, mbst_LastBackupStatus = BackupStatusUnset,
         mbst_LastBackupTime = None, mbst_LastSuccessfulBackupTime = None,
         mbst_BackupHistory = Some \<lparr>sl_array = 4, sl_off = 0, sl_len = 1\<rparr>\<rparr>\<rparr>)
     else if a = 1 then Some (CTime (LTime 7))
     else if a = 2 then Some (CInt32 3)
     else if a = 3 then Some (CConditions [None, Some (LCondition
       \<lparr>co_Type = ''Ready'', co_Status = ConditionTrue, co_Reason = ''Reconciled'', co_Message = '''', co_ObservedGeneration = 1\<rparr>)])
     else if a = 4 then Some (CHistory [Some \<lparr>mbh_StartTime = LTime 4, mbh_CompletionTime = Some 1, mbh_Status = BackupStatusSuccessful, mbh_JobName = ''job'', mbh_Message = ''''\<rparr>])
     else None), lim = 5\<rparr>"

lemma sample_object:
  "wf_heap sample_memory"
  "object_value reference_library sample_memory (PKopiaBackup (Some 0)) = Some (VKopiaBackup ((''KopiaBackup'', ''v1alpha1''), sample_backup))"
proof -
  show "wf_heap sample_memory" by (auto simp: wf_heap_def sample_memory_def split: if_splits)
  have "backup_value reference_library sample_memory m = Some ((''KopiaBackup'', ''v1alpha1''), sample_backup)"
    if "cells sample_memory 0 = Some (CKopiaBackup m)" for m
    using that
    by (auto simp: sample_memory_def backup_value_def backup_spec_value_def backup_status_value_def history_value_def sample_backup_def
      reference_library_def lib_meta_value_def get_LTime_def ptr_den_def slice_den_def window_def
      zero_KopiaBackupSpec_def zero_KopiaBackupStatus_def)
  then show "object_value reference_library sample_memory (PKopiaBackup (Some 0))
      = Some (VKopiaBackup ((''KopiaBackup'', ''v1alpha1''), sample_backup))"
    by (simp add: object_value_def ptr_den_def) (simp add: sample_memory_def)
qed

text \<open>
  C21: the copy of a well-typed object. Whatever pointers, slices and nested structs the object has, \<open>DeepCopyObject\<close> does
  not fault, leaves every cell that was there as it was, and returns an object of the same type and the same value, all of
  whose memory is new; the copy of a nil pointer is the nil interface, never a typed nil. A call on a nil interface faults.
\<close>

theorem deep_copy_of_object:
  assumes "library_copies L" "wf_heap h" "object_value L h x = Some v"
  shows "if x = NilObject then DeepCopyObject L x h = None
    else \<exists>y h'. DeepCopyObject L x h = Some (y, h') \<and> wf_heap h' \<and> agree {..<lim h} h h'
      \<and> object_value L h' y = Some v \<and> object_cells L h' y \<subseteq> {lim h..<lim h'} \<and> (y = NilObject \<longleftrightarrow> v = VNil)"
proof (cases "x = NilObject")
  case False
  from library_copies.object_copies [OF assms] False
  obtain y h' where y: "DeepCopyObject L x h = Some (y, h')" "extends h h'" "object_value L h' y = Some v"
    "object_cells L h' y \<subseteq> {lim h..<lim h'}" by (auto simp: copy_object_def runs_def)
  have "y = NilObject \<longleftrightarrow> v = VNil"
    using object_value_nil [of y L h'] DeepCopyObject_not_typed_nil [OF y(1)] y(3) by (auto simp: object_value_def)
  with False y show ?thesis by (auto simp: extends_def)
qed (simp add: DeepCopyObject_def)

theorem deep_copy_of_object_witness:
  "\<exists>y h'. DeepCopyObject reference_library (PKopiaBackup (Some 0)) sample_memory = Some (y, h') \<and> wf_heap h'
     \<and> object_value reference_library h' y = Some (VKopiaBackup ((''KopiaBackup'', ''v1alpha1''), sample_backup))
     \<and> object_cells reference_library h' y \<subseteq> {5..<lim h'} \<and> y \<noteq> NilObject"
  using deep_copy_of_object [OF reference.library_copies_axioms sample_object] by (auto simp: sample_memory_def)

text \<open>
  C22: isolation. After a deep copy, changing any memory that the copy uses leaves the original at its value, and changing
  any memory that was there before the copy, the original and whatever shares cells with it included, leaves the copy at
  its value. So an object handed out by the cache can be changed in place.
\<close>

theorem deep_copy_isolated:
  assumes "library_copies L" "wf_heap h" "object_value L h x = Some v" "x \<noteq> NilObject"
  shows "\<exists>y h'. DeepCopyObject L x h = Some (y, h')
    \<and> (\<forall>h''. agree (- object_cells L h' y) h' h'' \<longrightarrow> object_value L h'' x = Some v)
    \<and> (\<forall>h''. agree (- {..<lim h}) h' h'' \<longrightarrow> object_value L h'' y = Some v)"
proof -
  from library_copies.object_copies [OF assms(1-3)] obtain y h' where "copy_object L x h = Some (y, h')"
    by (auto simp: runs_def)
  with library_copies.object_isolated [OF assms(1-3) this] assms(4) show ?thesis by (auto simp: copy_object_def)
qed

theorem deep_copy_isolated_witness:
  "\<exists>y h'. DeepCopyObject reference_library (PKopiaBackup (Some 0)) sample_memory = Some (y, h')
     \<and> object_value reference_library (h'\<lparr>cells := (cells h')(2 \<mapsto> CInt32 9)\<rparr>) y
       = Some (VKopiaBackup ((''KopiaBackup'', ''v1alpha1''), sample_backup))"
proof -
  from deep_copy_isolated [OF reference.library_copies_axioms sample_object] obtain y h' where
    y: "DeepCopyObject reference_library (PKopiaBackup (Some 0)) sample_memory = Some (y, h')"
    "\<And>h''. agree (- {..<lim sample_memory}) h' h'' \<Longrightarrow> object_value reference_library h'' y
       = Some (VKopiaBackup ((''KopiaBackup'', ''v1alpha1''), sample_backup))" by auto
  have "agree (- {..<lim sample_memory}) h' (h'\<lparr>cells := (cells h')(2 \<mapsto> CInt32 9)\<rparr>)"
    by (rule agree_store) (simp add: sample_memory_def)
  with y show ?thesis by blast
qed

end
