(* ===== verification/Spec2Isabelle.thy ===== *)
theory Spec2Isabelle
  imports Operator_Main Backup_Watches Steady_Repository Copy_Contracts
begin

text \<open>
  A verification library for the Kopia operator, a Kubernetes operator in Go that backs up
  persistent volume claims (PVCs) with Kopia.

  \<^bold>\<open>The program.\<close> Three controllers react to changes of the cluster. The \<^emph>\<open>KopiaRepository controller\<close>
  (\<^verbatim>\<open>internal/controller/kopiarepository\<close>) checks a repository and, in server mode, has the \<^emph>\<open>server
  manager\<close> (\<^verbatim>\<open>internal/kopia/server\<close>) keep a TLS Secret, a Deployment and a Service of a Kopia server.
  The \<^emph>\<open>KopiaBackup controller\<close> (\<^verbatim>\<open>internal/controller/kopiabackup\<close>) finds the PVC, the repository and a
  running pod of a backup, has the \<^emph>\<open>user manager\<close> (\<^verbatim>\<open>internal/kopia/user\<close>) keep a server user and a
  Secret with its credentials, and writes a ConfigMap and a CronJob that its \<^emph>\<open>builder\<close> constructs; a
  finalizer has the user removed again. The \<^emph>\<open>PVC watcher\<close> (\<^verbatim>\<open>internal/controller/pvcwatcher\<close>) creates,
  adapts and deletes KopiaBackups for labelled PVCs. Two \<^emph>\<open>validating webhooks\<close> (\<^verbatim>\<open>api/backup/v1alpha1\<close>)
  admit the custom resources. The components share no memory: they interact by calls through the
  interfaces of \<^verbatim>\<open>internal/kopia/interfaces.go\<close> and by the objects in the cluster.

  \<^bold>\<open>How code is modelled.\<close> A pure function is a HOL function. An operation that calls the API server,
  runs a command in a pod, reads the clock or draws random numbers is a computation in the state
  monad over \<open>'w st\<close>: the cluster \<open>'w\<close> and the trace of all effects so far (API writes and commands with
  their success, events, metrics, log lines with command output). Every early return and every error
  of the source is a branch; an error is a value \<open>Inl e\<close> whose text and wrapping follow the source.
  Integers have the width of the source where a result depends on it. Strings are lists of bytes, with
  UTF-8 decoding written out where Go works on runes. All functions are total: the loops of the source
  go over finite lists, so there is no fuel; where the recursion is not structural (decoding runes,
  replacing substrings, reading shell words) the measure is the length of the rest.

  \<^bold>\<open>What is a parameter.\<close> The API server, the pods, the clock, the source of randomness, \<^verbatim>\<open>crypto\<close> and the
  functions of apimachinery and controller-runtime are the records \<open>'w api\<close> and \<open>env\<close> of \<open>K8s_Client\<close>.
  Nothing is assumed of them in general: a theorem about all runs holds for a cluster that answers
  anything and that other clients change between two calls. Documented behaviour that a theorem does
  need is named in its hypotheses (\<open>set_condition_law\<close>, \<open>set_condition_same\<close>, \<open>finalizer_law\<close>, \<open>owner_law\<close>, \<open>controlled_by_law\<close>,
  \<open>deep_equal_refl\<close>, \<open>service_rest_law\<close>, \<open>cert_law\<close>, \<open>rand_law\<close>, and the locales of \<open>Object_Store\<close> and \<open>Backup_Watches\<close>). \<open>Ref_Cluster\<close> is one
  instance of all the parameters that satisfies them, an in-memory cluster on which the theorems are
  exercised.

  \<^bold>\<open>The theories\<close>, from the ground up:

  \<^item> \<open>Go_Base\<close>, \<open>Go_Text\<close>, \<open>Go_Json\<close>: what the source uses of Go and its library (integers, UTF-8,
    \<^verbatim>\<open>strings\<close>, \<^verbatim>\<open>fmt\<close>, wrapped errors, nil maps, \<^verbatim>\<open>filepath\<close>, base64, \<^verbatim>\<open>encoding/json\<close> of strings), the weakest
    preconditions of the monad, and facts about them: redaction leaves no secret, JSON strings can be
    read back.
  \<^item> \<open>K8s_Types\<close>, \<open>Kopia_Types\<close>: the objects as records, with the fields the code reads or writes
    (\<^verbatim>\<open>kopiabackup_types.go\<close>, \<^verbatim>\<open>kopiarepository_types.go\<close>).
  \<^item> \<open>K8s_Client\<close>: the parameters, one abbreviation per client call, and \<open>emits_only\<close>, the bound on the
    effects of a computation with its introduction rules.
  \<^item> \<open>Kopia_Naming\<close> (\<^verbatim>\<open>names.go\<close>): which names can collide, and how long they are.
  \<^item> \<open>Kopia_Webhooks\<close> (both \<^verbatim>\<open>*_webhook.go\<close>): what is admitted, exactly.
  \<^item> \<open>Kopia_Metrics\<close> (\<^verbatim>\<open>metrics.go\<close>): error counter and readiness gauge, read off the trace.
  \<^item> \<open>Kopia_Interfaces\<close> (\<^verbatim>\<open>interfaces.go\<close>): the interfaces as records, the contracts as locales
    (\<open>server_manager\<close>, \<open>user_manager\<close>, \<open>condition_setter\<close>, and \<open>ensured\<close> for the operations that bring one
    object to its desired form), and the deferred status update.
  \<^item> \<open>Server_Scripts\<close> (the \<^verbatim>\<open>write*\<close> functions and \<^verbatim>\<open>shellQuote\<close> of \<^verbatim>\<open>server/manager.go\<close>): the scripts of the server
    container, and a lexer for them. The scripts are read as the intended words, except for an SFTP
    host or path with a character that double quotes do not protect.
  \<^item> \<open>Server_Manager\<close> (the rest of \<^verbatim>\<open>server/manager.go\<close>): Deployment, Service, TLS Secret. Interpretations of
    \<open>ensured\<close> and \<open>server_manager\<close>; the life of a certificate; what decides about an update of the Service.
  \<^item> \<open>User_Manager\<close> (\<^verbatim>\<open>user/manager.go\<close>): users, credentials, commands in the server's pod. Interpretation of
    \<open>user_manager\<close>; the order of effects and their undoing; no password in the log.
  \<^item> \<open>Backup_Builder\<close> (\<^verbatim>\<open>builder.go\<close>): CronJob, pod, script and configuration of a backup job. The pod is
    well formed; the configuration text determines the configuration.
  \<^item> \<open>Backup_Reconciler\<close>, \<open>Repository_Reconciler\<close>, \<open>PVC_Watcher\<close> (the three \<^verbatim>\<open>reconciler.go\<close>): each phase as a
    definition, composed as \<^verbatim>\<open>Reconcile\<close> composes them. The status tells the outcome; the finalizer comes
    first and goes last; manual backups are not touched.
  \<^item> \<open>Backup_Watches\<close> (the watches of the KopiaBackup controller): an event queues the backups it concerns.
  \<^item> \<open>Object_Store\<close>, \<open>Convergence\<close>: the API server as a store of objects (locales \<open>object_view\<close>,
    \<open>object_store\<close>, \<open>secret_store\<close>), the algorithm that the create-or-update operations share, and what
    the cluster holds after they succeeded.
  \<^item> \<open>Progress\<close>: triples for a cluster that answers (locale \<open>responsive\<close>), and that one reconcile then gets a
    backup ready.
  \<^item> \<open>Steady_State\<close>, \<open>Steady_Repository\<close>: triples for computations with known effects, the status as a function of
    the objects, and that the control loops of backups and of repositories come to rest (locales \<open>settled\<close>,
    \<open>settled_server\<close>, with the defaults that the API server fills in).
  \<^item> \<open>Operator\<close>: the three reconcilers as the steps of one machine (\<open>operator_step\<close>, \<open>operator_run\<close>), with
    the managers that \<^verbatim>\<open>cmd/main.go\<close> gives them, and invariants of every run: the locale \<open>effect_policy\<close> derives them from the contracts
    of the managers, and it is interpreted on the managers of the operator.
  \<^item> \<open>Operator_Main\<close> (\<^verbatim>\<open>cmd/main.go\<close>, \<^verbatim>\<open>groupversion_info.go\<close>, the \<^verbatim>\<open>init\<close> functions, the three \<^verbatim>\<open>SetupWithManager\<close>): flags and
    options, the registration of metrics, types, controllers, watches, indexers and webhooks as calls of a library that
    may fail, and the exit or panic of the process. The manager starts only when everything is registered, what it runs
    is a step of \<open>Operator\<close>, and every kind it is given was added to the scheme.
  \<^item> \<open>Go_Memory\<close>, \<open>Deep_Copies\<close>, \<open>Copy_Contracts\<close> (\<^verbatim>\<open>zz_generated.deepcopy.go\<close>): a memory with pointers, slices and arrays, the
    structs of the custom resources in it, and all the copy functions. The locale \<open>copyable\<close> is the contract of a copy; it
    is closed under structs, pointers and slices, so every copy function has it once those of the library have it
    (locale \<open>library_copies\<close>, interpreted on \<open>reference_library\<close>). Copies have the same value and share no cell with
    anything else; that is why the other theories can treat objects as values.
  \<^item> This theory: properties that join a controller, the managers and the builder.

  \<^bold>\<open>What is not modelled.\<close> The parsing of flags and the options of the logger; what controller-runtime does with the watches, predicates and
  indexers it is given (\<open>Operator_Main\<close> keeps what is registered); the queue of controller-runtime, of which
  only is used that one reconcile follows another; log lines without command output; contexts and their
  cancellation, but for the time limit that a command in a pod is given; the helpers of the end-to-end
  tests. What Kubernetes, Kopia and a shell do with the objects, commands and scripts is outside, except
  for the lexer of \<open>Server_Scripts\<close> and the store of \<open>Object_Store\<close>.
\<close>

section \<open>A server that is not ready\<close>

text \<open>The pods of the server, whenever they are listed, have no container that is ready.\<close>

definition no_ready_pod :: "'w api \<Rightarrow> KopiaRepository \<Rightarrow> bool" where
  "no_ready_pod api repo \<longleftrightarrow> (\<forall>w. \<exists>pods w'. api_list_Pods api (repo_ns repo) (ServerLabels (repo_name repo)) w = (Inr pods, w')
     \<and> (\<forall>pod \<in> set pods. \<not> pod_server_ready pod))"

lemma createUserOnServer_unready:
  assumes "no_ready_pod api repo"
  shows "wp (createUserOnServer api repo u p)
     (\<lambda>r s'. trace s' = trace s \<and> (\<exists>err. r = Inl err \<and> errors_As_ServerNotReady err)) s"
proof -
  obtain pods w' where l: "api_list_Pods api (repo_ns repo) (ServerLabels (repo_name repo)) (world s) = (Inr pods, w')"
    "\<forall>pod \<in> set pods. \<not> pod_server_ready pod"
    using assms unfolding no_ready_pod_def by blast
  from l(2) have "List.find pod_server_ready pods = None" by (simp add: find_None_iff)
  with l(1) show ?thesis by (simp add: createUserOnServer_def getServerPodName_def)
qed

lemma EnsureUser_unready:
  assumes "no_ready_pod api repo" "fst (api_get_Secret api (user_key b) (world s)) = Inl e" "IsNotFound e"
  shows "wp (EnsureUser env api b repo) (\<lambda>r s'. \<exists>err t. r = Inl err \<and> trace s' = trace s @ t
     \<and> (errors_As_ServerNotReady err \<and> (\<exists>x y done. t = [(ACreateSecret x, True), (ADeleteSecret y, done)])
        \<or> t = [] \<or> (\<exists>x. t = [(ACreateSecret x, False)]))) s"
  using assms(2,3)
  unfolding EnsureUser_def ensure_new_user_def register_new_user_def Let_def
  by (auto split: sum.splits prod.splits intro!: wp_mono [OF generateSecurePassword_quiet] wp_mono [OF createUserOnServer_unready [OF assms(1)]])



section \<open>The URL a backup connects to\<close>

lemma line_of_unlines: "l \<in> set ls \<Longrightarrow> sublist l (unlines ls)"
proof -
  assume "l \<in> set ls"
  then obtain pre post where "ls = pre @ l # post" by (meson split_list)
  then have "unlines ls = unlines pre @ l @ nl @ unlines post" by (simp add: unlines_def)
  then show ?thesis by (metis sublist_appendI)
qed

text \<open>
  C31: a backup job in server mode connects to the URL that the server manager publishes, although the two are
  computed by separate code; its host is one of the DNS names of the generated certificate and its port
  is the port of the Service.
\<close>

theorem backup_connects_to_server:
  assumes "server_enabled repo"
  shows "sublist (''--url='' @ GetServerURL repo @ '' '') (buildBackupCommand backup repo mountPath)
    \<and> (\<exists>host. GetServerURL repo = ''https://'' @ host @ '':''
         @ fmt_d32 (sp_Port (hd (ss_Ports (svc_spec (constructServerService repo n)))))
       \<and> host \<in> set (server_dnsNames repo))"
proof
  show "sublist (''--url='' @ GetServerURL repo @ '' '') (buildBackupCommand backup repo mountPath)"
  proof (rule sublist_order.order.trans)
    show "sublist (''--url='' @ GetServerURL repo @ '' '') (''  --url='' @ GetServerURL repo @ '' '' @ bsl)"
      using sublist_appendI [of "''--url='' @ GetServerURL repo @ '' ''" "''  ''" bsl] by simp
    show "sublist (''  --url='' @ GetServerURL repo @ '' '' @ bsl) (buildBackupCommand backup repo mountPath)"
      unfolding buildBackupCommand_def if_P [OF assms] backup_url_server by (rule line_of_unlines) simp
  qed
qed (rule server_url_host)

section \<open>Examples\<close>


theorem backup_connects_to_server_witness:
  "sublist (''--url='' @ GetServerURL example_repo @ '' '') (buildBackupCommand example_backup example_repo ''/data'')"
proof -
  have "server_enabled example_repo" by (simp add: example_repo_def zero_defs)
  from backup_connects_to_server [OF this] show ?thesis by blast
qed

end
